(* ===== verification/Prelude.thy ===== *)
theory Prelude
  imports Main "HOL-Library.Word" "HOL-Library.AList"
begin

unbundle bit_operations_syntax

text \<open>
  What every component shares: Go's errors and panics as values, Go's maps as the list of
  entries a \<open>range\<close> loop visits, and fixed-size byte arrays as words with their
  big-endian bytes.

  \<^item> A Go \<open>error\<close> is a value of \<open>error\<close>; a function that returns a result or an error is
    modelled by a sum \<open>error + 'a\<close> (\<open>Inl\<close> the error).
  \<^item> A function that can panic returns an \<open>outcome\<close>: \<open>Ret\<close> what it returns or \<open>Panic\<close>.
  \<^item> A Go map is the list of its entries, one per key, in the order in which \<open>range\<close> visits
    them. The order is arbitrary: every theorem quantifies over the list, and the theorems
    that speak about the content of a map go through \<open>map_of\<close>.
\<close>

named_theorems go_simps "characteristic equations of the model's operations"
named_theorems map_simps "Go maps through their abstraction map_of"

section \<open>Errors and panics\<close>

type_synonym u64 = "64 word"
type_synonym i64 = "64 word"
type_synonym byte = "8 word"
type_synonym address = "160 word"
type_synonym hash = "256 word"
type_synonym u256 = "256 word"

datatype error =
    Errorf string
  | External string
  | ErrTx error hash

text \<open>A panic carries what the program or the runtime panicked with.\<close>

datatype panicValue = RuntimeError string | PanicString string | PanicError error

datatype 'a outcome = Ret 'a | Panic panicValue

abbreviation nilDeref :: panicValue where
  "nilDeref \<equiv> RuntimeError ''invalid memory address or nil pointer dereference''"

abbreviation nilMapWrite :: panicValue where
  "nilMapWrite \<equiv> RuntimeError ''assignment to entry in nil map''"

abbreviation badAssertion :: panicValue where
  "badAssertion \<equiv> RuntimeError ''interface conversion''"

abbreviation indexRange :: panicValue where
  "indexRange \<equiv> RuntimeError ''index out of range''"

abbreviation divideByZero :: panicValue where
  "divideByZero \<equiv> PanicString ''division by zero''"

abbreviation unimplemented :: "'a outcome" where
  "unimplemented \<equiv> Panic (PanicString ''unimplemented'')"

abbreviation notImplemented :: "'a outcome" where
  "notImplemented \<equiv> Panic (PanicString ''not implemented'')"

fun andThen :: "'a outcome \<Rightarrow> ('a \<Rightarrow> 'b outcome) \<Rightarrow> 'b outcome" where
  "andThen (Ret x) f = f x"
| "andThen (Panic p) f = Panic p"

fun returns :: "'a outcome \<Rightarrow> bool" where
  "returns (Ret x) = True"
| "returns (Panic p) = False"

lemma andThen_Ret_iff: "andThen m f = Ret y \<longleftrightarrow> (\<exists>x. m = Ret x \<and> f x = Ret y)"
  by (cases m) auto

lemma andThen_assoc: "andThen (andThen m f) g = andThen m (\<lambda>x. andThen (f x) g)"
  by (cases m) auto

lemma returns_andThen [simp]: "returns (andThen m f) \<longleftrightarrow> (\<exists>x. m = Ret x \<and> returns (f x))"
  by (cases m) auto

lemma returns_andThen_const:
  "(\<And>x. returns (f x) \<longleftrightarrow> Q) \<Longrightarrow> returns (andThen m f) \<longleftrightarrow> returns m \<and> Q"
  by (cases m) auto

text \<open>
  \<open>if err != nil { return err }\<close> after a call, alone or with the state: only an answer goes on.
\<close>

lemma case_sum_Inr:
  "(case x of Inl e \<Rightarrow> Ret (Inl (g e)) | Inr v \<Rightarrow> f v) = Ret (Inr y) \<longleftrightarrow>
     (\<exists>v. x = Inr v \<and> f v = Ret (Inr y))"
  "(case x of Inl e \<Rightarrow> Ret (Inl (g e), s) | Inr v \<Rightarrow> h v) = Ret (Inr z, t) \<longleftrightarrow>
     (\<exists>v. x = Inr v \<and> h v = Ret (Inr z, t))"
  by (cases x, auto)+

lemma andThen_sum_Inr:
  "andThen m (\<lambda>r. case r of Inl e \<Rightarrow> Ret (Inl (g e)) | Inr v \<Rightarrow> f v) = Ret (Inr y) \<longleftrightarrow>
     (\<exists>v. m = Ret (Inr v) \<and> f v = Ret (Inr y))"
  "andThen m (\<lambda>r. case r of Inl e \<Rightarrow> Ret (Inl (g e), s) | Inr v \<Rightarrow> h v) = Ret (Inr z, t) \<longleftrightarrow>
     (\<exists>v. m = Ret (Inr v) \<and> h v = Ret (Inr z, t))"
  by (cases m; auto simp: case_sum_Inr)+

lemma returns_iff: "returns m \<longleftrightarrow> (\<exists>x. m = Ret x)"
  by (cases m) auto

text \<open>
  \<open>callThen m fail ok\<close> is the idiom \<open>x, err := m(); if err != nil { fail }; ok\<close> for a call that
  acts on a state.
\<close>

fun callThen :: "((error + 'a) \<times> 's) outcome \<Rightarrow> (error \<Rightarrow> 's \<Rightarrow> 'r outcome)
    \<Rightarrow> ('a \<Rightarrow> 's \<Rightarrow> 'r outcome) \<Rightarrow> 'r outcome" where
  "callThen (Panic p) fail ok = Panic p"
| "callThen (Ret (Inl err, s)) fail ok = fail err s"
| "callThen (Ret (Inr x, s)) fail ok = ok x s"

lemma callThen_Ret_iff:
  "callThen m fail ok = Ret y \<longleftrightarrow>
     (\<exists>err s. m = Ret (Inl err, s) \<and> fail err s = Ret y) \<or>
     (\<exists>x s. m = Ret (Inr x, s) \<and> ok x s = Ret y)"
  by (cases "(m, fail, ok)" rule: callThen.cases) auto

lemma returns_callThen:
  "returns (callThen m fail ok) \<longleftrightarrow>
     (\<exists>err s. m = Ret (Inl err, s) \<and> returns (fail err s)) \<or>
     (\<exists>x s. m = Ret (Inr x, s) \<and> returns (ok x s))"
  by (cases "(m, fail, ok)" rule: callThen.cases) auto

lemma returns_callThen_runs:
  "returns m \<Longrightarrow> (\<And>e s. returns (fail e s)) \<Longrightarrow> (\<And>x s. returns (ok x s)) \<Longrightarrow>
     returns (callThen m fail ok)"
  by (cases "(m, fail, ok)" rule: callThen.cases) auto

lemma returns_andThen_sum:
  "returns m \<Longrightarrow> (\<And>v. returns (f v)) \<Longrightarrow>
     returns (andThen m (\<lambda>r. case r of Inl e \<Rightarrow> Ret (g e) | Inr v \<Rightarrow> f v))"
  by (cases m) (auto split: sum.split)

section \<open>Dereferencing pointers\<close>

text \<open>A pointer is an option; reading through \<open>nil\<close> panics.\<close>

fun deref :: "'a option \<Rightarrow> 'a outcome" where
  "deref None = Panic nilDeref"
| "deref (Some x) = Ret x"

lemma deref_Ret_iff [simp]: "deref p = Ret x \<longleftrightarrow> p = Some x"
  by (cases p) auto

lemma returns_deref [simp]: "returns (deref p) \<longleftrightarrow> p \<noteq> None"
  by (cases p) auto

section \<open>Go maps\<close>

type_synonym ('k, 'v) gomap = "('k \<times> 'v) list"

abbreviation put :: "'k \<Rightarrow> 'v \<Rightarrow> ('k, 'v) gomap \<Rightarrow> ('k, 'v) gomap" where
  "put \<equiv> AList.update"

definition is_gomap :: "('k, 'v) gomap \<Rightarrow> bool" where
  "is_gomap m \<longleftrightarrow> distinct (map fst m)"

text \<open>
  A map variable may be \<open>nil\<close>: ranging over it visits nothing, reading it finds nothing and
  writing to it panics. \<open>writeAll src dst\<close> is the loop \<open>for k, v := range src { dst[k] = v }\<close>,
  \<open>put_all\<close> what it computes on a map that is not \<open>nil\<close>.
\<close>

fun entries :: "('k, 'v) gomap option \<Rightarrow> ('k, 'v) gomap" where
  "entries None = []"
| "entries (Some m) = m"

fun writeAll :: "('k, 'v) gomap \<Rightarrow> ('k, 'v) gomap option \<Rightarrow> ('k, 'v) gomap option outcome" where
  "writeAll [] dst = Ret dst"
| "writeAll ((k, v) # src) None = Panic nilMapWrite"
| "writeAll ((k, v) # src) (Some m) = writeAll src (Some (put k v m))"

fun put_all :: "('k, 'v) gomap \<Rightarrow> ('k, 'v) gomap \<Rightarrow> ('k, 'v) gomap" where
  "put_all [] dst = dst"
| "put_all ((k, v) # src) dst = put_all src (put k v dst)"

lemma writeAll_Some [simp]: "writeAll src (Some m) = Ret (Some (put_all src m))"
  by (induction src m rule: put_all.induct) auto

lemma writeAll_None: "writeAll src None = (if src = [] then Ret None else Panic nilMapWrite)"
  by (cases src) auto

lemma map_of_put [simp, map_simps]: "map_of (put k v m) = (map_of m)(k \<mapsto> v)"
  by (simp add: AList.update_conv')

lemma is_gomap_Nil [simp, intro]: "is_gomap []"
  by (simp add: is_gomap_def)

lemma is_gomap_Cons [simp]:
  "is_gomap ((k, v) # m) \<longleftrightarrow> map_of m k = None \<and> is_gomap m"
  by (auto simp: is_gomap_def map_of_eq_None_iff)

lemma is_gomap_put [simp, intro]: "is_gomap m \<Longrightarrow> is_gomap (put k v m)"
  by (simp add: is_gomap_def AList.distinct_update)

lemma is_gomap_put_all [simp, intro]: "is_gomap dst \<Longrightarrow> is_gomap (put_all src dst)"
  by (induction src dst rule: put_all.induct) auto

lemma map_of_put_all [map_simps]:
  "is_gomap src \<Longrightarrow> map_of (put_all src dst) = map_of dst ++ map_of src"
proof (induction src dst rule: put_all.induct)
  case (1 dst)
  then show ?case by simp
next
  case (2 k v src dst)
  then have "map_of src k = None" by simp
  with 2 show ?case
    by (auto simp: fun_eq_iff map_add_def split: option.splits)
qed

text \<open>The order in which \<open>range\<close> visits a map does not change what the loop writes.\<close>

lemma put_all_order:
  assumes "is_gomap src" and "is_gomap src'" and "map_of src = map_of src'"
  shows "map_of (put_all src dst) = map_of (put_all src' dst)"
  using assms by (simp add: map_of_put_all)

section \<open>Fixed-size byte arrays\<close>

text \<open>
  Go's \<open>[n]byte\<close> arrays (addresses, hashes, 32-byte integers) are words; slicing such an
  array gives its bytes, the most significant first.
\<close>

fun be_bytes :: "nat \<Rightarrow> 'a::len word \<Rightarrow> byte list" where
  "be_bytes 0 w = []"
| "be_bytes (Suc n) w = be_bytes n (drop_bit 8 w) @ [ucast w]"

definition from_be :: "byte list \<Rightarrow> 'a::len word" where
  "from_be bs = fold (\<lambda>b acc. push_bit 8 acc OR ucast b) bs 0"

lemma length_be_bytes [simp]: "length (be_bytes n w) = n"
  by (induction n w rule: be_bytes.induct) auto

lemma from_be_Nil [simp]: "from_be [] = 0"
  by (simp add: from_be_def)

lemma from_be_snoc [simp]: "from_be (bs @ [b]) = push_bit 8 (from_be bs) OR ucast b"
  by (simp add: from_be_def)

lemma from_be_be_bytes: "from_be (be_bytes n w) = take_bit (8 * n) (w :: 'a::len word)"
proof (induction n w rule: be_bytes.induct)
  case (1 w)
  then show ?case by simp
next
  case (2 n w)
  have "push_bit 8 (take_bit (8 * n) (drop_bit 8 w)) OR ucast (ucast w :: byte)
      = take_bit (8 * Suc n) w"
    by (rule bit_word_eqI) (auto simp: bit_simps le_diff_conv less_diff_conv2)
  with 2 show ?case by simp
qed

lemma from_be_be_bytes_full [simp]:
  "LENGTH('a) \<le> 8 * n \<Longrightarrow> from_be (be_bytes n w) = (w :: 'a::len word)"
  by (simp add: from_be_be_bytes take_bit_word_eq_self)

lemma be_bytes_inject:
  "LENGTH('a) \<le> 8 * n \<Longrightarrow> be_bytes n v = be_bytes n (w :: 'a::len word) \<longleftrightarrow> v = w"
  by (metis from_be_be_bytes_full)

lemma bit_from_be_bound: "bit (from_be bs :: 'a::len word) k \<Longrightarrow> k < 8 * length bs"
proof (induction bs arbitrary: k rule: rev_induct)
  case Nil
  then show ?case by simp
next
  case (snoc b bs)
  then show ?case by (fastforce simp: bit_simps dest: bit_imp_le_length)
qed

lemma be_bytes_from_be:
  "8 * length bs \<le> LENGTH('a) \<Longrightarrow> be_bytes (length bs) (from_be bs :: 'a::len word) = bs"
proof (induction bs rule: rev_induct)
  case Nil
  then show ?case by simp
next
  case (snoc b bs)
  have "drop_bit 8 (push_bit 8 (from_be bs :: 'a word) OR ucast b) = from_be bs"
    using snoc.prems
    by (intro bit_word_eqI)
      (auto simp: bit_simps dest: bit_imp_le_length bit_from_be_bound)
  moreover have "ucast (push_bit 8 (from_be bs :: 'a word) OR ucast b) = b"
    using snoc.prems by (intro bit_word_eqI) (auto simp: bit_simps)
  ultimately show ?case using snoc by simp
qed

end
