(* ===== verification/FetcherTypes.thy ===== *)
theory FetcherTypes
  imports Prelude
begin

text \<open>
  The data of \<open>fetcher/util.go\<close>: the account as the tracer reports it, the traces and their
  configurations, the state overrides, and the blocks and transactions of the JSON-RPC API,
  with the two methods of \<open>util.go\<close> on them (\<open>CodeHash\<close>, \<open>ToW3Message\<close>).

  A pointer is an option, \<open>big.Int\<close> an \<open>int\<close>, \<open>uint64\<close> a 64-bit word, an address or a hash
  the word of its bytes. A byte slice is the list of its bytes; where the code compares a
  slice with \<open>nil\<close> it is an option of a list. Pointers to a \<open>nil\<close> and to an empty
  \<open>hexutil.Bytes\<close> are not told apart: no operation of the program does.

  The record \<open>geth\<close> holds the functions of go-ethereum and of \<open>uint256\<close> that the program
  calls; they are parameters of the model and \<open>geth_laws\<close> states what their documentation
  promises.
\<close>

section \<open>Types and functions of the libraries\<close>

text \<open>
  Of a header and a block only what the program reads or sets; \<open>Number\<close> of a block is that
  of its header, and \<open>NumberU64\<close> its low 64 bits.
\<close>

record header =
  hdParentHash :: hash
  hdNumber :: int
  hdGasLimit :: u64
  hdGasUsed :: u64
  hdTime :: u64
  hdDifficulty :: "int option"
  hdCoinbase :: address
  hdBaseFee :: "int option"

record block =
  bkHeader :: header
  bkHash :: hash

definition bkNumber :: "block \<Rightarrow> int" where
  "bkNumber b = hdNumber (bkHeader b)"

text \<open>\<open>big.Int.Uint64\<close>: the low 64 bits of the magnitude.\<close>

definition bigUint64 :: "int \<Rightarrow> u64" where
  "bigUint64 i = word_of_int \<bar>i\<bar>"

definition NumberU64 :: "block \<Rightarrow> u64" where
  "NumberU64 b = bigUint64 (bkNumber b)"

record geth =
  addrBytes :: "address \<Rightarrow> byte list"
  hashBytes :: "hash \<Rightarrow> byte list"
  bytesToHash :: "byte list \<Rightarrow> hash"
  bigToHash :: "int \<Rightarrow> hash"
  keccak256 :: "byte list \<Rightarrow> byte list"
  emptyCodeHash :: "byte list"
  copyBytes :: "byte list option \<Rightarrow> byte list option"
  encodeBig :: "int \<Rightarrow> string"
  headerHash :: "header \<Rightarrow> hash"
  mustFromBig :: "int option \<Rightarrow> u256 option outcome"
  u256ToBig :: "u256 \<Rightarrow> int"
  setBytes32 :: "byte list \<Rightarrow> u256"
  bytes32 :: "u256 \<Rightarrow> byte list"

locale geth_laws =
  fixes G :: "'x geth_scheme"
  assumes addrBytes_inj: "addrBytes G a = addrBytes G b \<Longrightarrow> a = b"
    and bytesToHash_hashBytes: "bytesToHash G (hashBytes G h) = h"
    and hashBytes_bytesToHash: "length bs = 32 \<Longrightarrow> hashBytes G (bytesToHash G bs) = bs"
    and length_keccak256: "length (keccak256 G bs) = 32"
    and length_emptyCodeHash: "length (emptyCodeHash G) = 32"
    and copyBytes_id: "copyBytes G p = p"
    and mustFromBig_nil: "mustFromBig G None = Ret None"
    and mustFromBig_fits: "\<bar>i\<bar> < 2 ^ 256 \<Longrightarrow>
          \<exists>w. mustFromBig G (Some i) = Ret (Some w) \<and> u256ToBig G w = i mod 2 ^ 256"
    and mustFromBig_overflow: "2 ^ 256 \<le> \<bar>i\<bar> \<Longrightarrow> \<not> returns (mustFromBig G (Some i))"
    and bytes32_setBytes32: "length bs = 32 \<Longrightarrow> bytes32 G (setBytes32 G bs) = bs"
    and length_bytes32: "length (bytes32 G x) = 32"
    and bytes32_inj: "bytes32 G x = bytes32 G y \<Longrightarrow> x = y"
    and hash_of_slot: "bigToHash G (u256ToBig G (setBytes32 G (be_bytes 32 h))) = h"

section \<open>Accounts and prestate traces\<close>

record account =
  accBalance :: "int option"
  accCode :: "byte list option"
  accNonce :: "u64 option"
  accStorage :: "(hash, hash) gomap option"

type_synonym state = "(address, account option) gomap"

record prestateTrace =
  ptPost :: state
  ptPre :: state

record 'tc txTraceResult =
  ttTxHash :: hash
  ttResult :: "'tc option"
  ttError :: string

type_synonym 'tc traceBlock = "'tc txTraceResult option list"

datatype callTrace = CallTrace
  (ctFrom: address) (ctTo: address) (ctType: string) (ctGas: u64) (ctGasUsed: u64)
  (ctValue: "int option") (ctInput: "byte list") (ctOutput: "byte list") (ctError: string)
  (ctCalls: "callTrace option list")

definition CodeHash :: "'x geth_scheme \<Rightarrow> account \<Rightarrow> hash" where
  "CodeHash G a = bytesToHash G
     (case accCode a of
        None \<Rightarrow> emptyCodeHash G
      | Some code \<Rightarrow> if length code = 0 then emptyCodeHash G else keccak256 G code)"

section \<open>Tracer configurations and state overrides\<close>

record prestateTracerConfig =
  pcDiffMode :: bool

record callTracerConfig =
  ccOnlyTopCall :: bool
  ccWithLog :: bool

record overrideAccount =
  oaNonce :: "u64 option"
  oaCode :: "byte list option"
  oaBalance :: "int option"
  oaState :: "(hash, hash) gomap option"
  oaStateDiff :: "(hash, hash) gomap option"

type_synonym stateOverride = "(address, overrideAccount) gomap"

record 'tc traceConfig =
  tcTracer :: string
  tcTracerConfig :: "'tc option"
  tcStateOverrides :: "stateOverride option"

section \<open>Blocks and transactions of the JSON-RPC API\<close>

type_synonym accessList = "(address \<times> hash list) list"

record rpcTransaction =
  rtType :: u64
  rtChainID :: "int option"
  rtNonce :: u64
  rtTo :: "address option"
  rtGas :: u64
  rtGasPrice :: "int option"
  rtMaxPriorityFeePerGas :: "int option"
  rtMaxFeePerGas :: "int option"
  rtMaxFeePerBlobGas :: "int option"
  rtValue :: "int option"
  rtInput :: "byte list option"
  rtAccessList :: "accessList option"
  rtBlobVersionedHashes :: "hash list"
  rtV :: "int option"
  rtR :: "int option"
  rtS :: "int option"
  rtYParity :: "u64 option"
  rtFrom :: "address option"
  rtRequestId :: "hash option"
  rtTicketId :: "hash option"
  rtMaxRefund :: "int option"
  rtSubmissionFeeRefund :: "int option"
  rtRefundTo :: "address option"
  rtL1BaseFee :: "int option"
  rtDepositValue :: "int option"
  rtRetryTo :: "address option"
  rtRetryValue :: "int option"
  rtRetryData :: "byte list option"
  rtBeneficiary :: "address option"
  rtMaxSubmissionFee :: "int option"
  rtEffectiveGasPrice :: "u64 option"
  rtL1BlockNumber :: "u64 option"
  rtHash :: hash

record rpcBlock =
  rbParentHash :: hash
  rbUncleHash :: hash
  rbCoinbase :: address
  rbRoot :: hash
  rbTxHash :: hash
  rbReceiptHash :: hash
  rbBloom :: "byte list"
  rbDifficulty :: "int option"
  rbNumber :: "int option"
  rbGasLimit :: u64
  rbGasUsed :: u64
  rbTime :: u64
  rbExtra :: "byte list"
  rbMixDigest :: hash
  rbNonce :: "byte list"
  rbTransactions :: "rpcTransaction option list"
  rbChainID :: "int option"
  rbBaseFee :: "int option"
  rbWithdrawalsHash :: "hash option"
  rbExcessDataGas :: "int option"

end
