(* ===== verification/Caller.thy ===== *)
theory Caller
  imports FetcherTypes
begin

text \<open>
  The RPC callers of \<open>fetcher/util.go\<close>: the generic \<open>Factory\<close> with its options, the argument
  wrapper that encodes the input of a message, the factories for traces and blocks, and
  \<open>ToW3Message\<close>.

  \<open>message\<close> is w3's \<open>w3types.Message\<close>; messages are shared by reference and \<open>msgArgsWrapper\<close>
  writes to one, so they live in a heap. \<open>anyArg\<close> is an element of a \<open>[]any\<close>. The pointer a
  factory returns into is a reference \<open>'r\<close>; the ABI encoder \<open>Func.EncodeArgs\<close> and
  \<open>json.Unmarshal\<close> into that reference are parameters.
\<close>

section \<open>Messages and arguments\<close>

record ('f, 'g) message =
  mFrom :: address
  mTo :: "address option"
  mNonce :: u64
  mGasPrice :: "int option"
  mGasFeeCap :: "int option"
  mGasTipCap :: "int option"
  mGas :: u64
  mValue :: "int option"
  mInput :: "byte list option"
  mFunc :: "'f option"
  mArgs :: "'g list"

type_synonym ('f, 'g) heap = "nat \<Rightarrow> ('f, 'g) message option"

datatype 'c anyArg =
    AnyMsg "nat option"
  | AnyString string
  | AnyBool bool
  | AnyConfig "'c option"

definition ascii :: "string \<Rightarrow> byte list" where
  "ascii s = map of_char s"

section \<open>Factories\<close>

record ('c, 'r, 'h) factory =
  fyMethod :: string
  fyArgs :: "'c anyArg list"
  fyRet :: "'r option"
  fyArgsWrapper :: "'c anyArg list \<Rightarrow> 'h \<Rightarrow> ((error + 'c anyArg list) \<times> 'h) outcome"
  fyRetWrapper :: "'r option \<Rightarrow> 'r option"

definition NewFactory ::
    "string \<Rightarrow> 'c anyArg list \<Rightarrow> (('c, 'r, 'h) factory \<Rightarrow> ('c, 'r, 'h) factory) list
      \<Rightarrow> ('c, 'r, 'h) factory" where
  "NewFactory method args opts =
     fold (\<lambda>opt f. opt f) opts
       \<lparr>fyMethod = method, fyArgs = args, fyRet = None,
        fyArgsWrapper = (\<lambda>args h. Ret (Inr args, h)),
        fyRetWrapper = (\<lambda>ret. ret)\<rparr>"

definition WithArgsWrapper ::
    "('c anyArg list \<Rightarrow> 'h \<Rightarrow> ((error + 'c anyArg list) \<times> 'h) outcome)
      \<Rightarrow> ('c, 'r, 'h) factory \<Rightarrow> ('c, 'r, 'h) factory" where
  "WithArgsWrapper fn f = f\<lparr>fyArgsWrapper := fn\<rparr>"

definition WithRetWrapper ::
    "('r option \<Rightarrow> 'r option) \<Rightarrow> ('c, 'r, 'h) factory \<Rightarrow> ('c, 'r, 'h) factory" where
  "WithRetWrapper fn f = f\<lparr>fyRetWrapper := fn\<rparr>"

definition Returns :: "('c, 'r, 'h) factory \<Rightarrow> 'r option \<Rightarrow> ('c, 'r, 'h) factory" where
  "Returns f ret = f\<lparr>fyRet := ret\<rparr>"

datatype rawResult = RawMessage "byte list option" | OtherResult

record 'c batchElem =
  beMethod :: string
  beArgs :: "'c anyArg list"
  beResult :: rawResult
  beError :: "error option"

definition CreateRequest ::
    "('c, 'r, 'h) factory \<Rightarrow> 'h \<Rightarrow> ((error + 'c batchElem) \<times> 'h) outcome" where
  "CreateRequest f h =
     callThen (fyArgsWrapper f (fyArgs f) h)
       (\<lambda>err h'. Ret (Inl err, h'))
       (\<lambda>args h'. Ret (Inr \<lparr>beMethod = fyMethod f, beArgs = args,
                        beResult = RawMessage (Some []), beError = None\<rparr>, h'))"

text \<open>\<open>unmarshal\<close> stands for \<open>json.Unmarshal\<close>: it writes to the target and may fail.\<close>

definition HandleResponse ::
    "(byte list \<Rightarrow> 'r option \<Rightarrow> 't \<Rightarrow> error option \<times> 't) \<Rightarrow> ('c, 'r, 'h) factory
      \<Rightarrow> 'c batchElem \<Rightarrow> 't \<Rightarrow> (error option \<times> 't) outcome" where
  "HandleResponse unmarshal f elem t =
     (case beError elem of
        Some err \<Rightarrow> Ret (Some err, t)
      | None \<Rightarrow>
          (case beResult elem of
             OtherResult \<Rightarrow> Panic badAssertion
           | RawMessage p \<Rightarrow>
               andThen (deref p) (\<lambda>ret.
                 if length ret = 0 \<or> ret = ascii ''null'' then Ret (Some (Errorf ''not found''), t)
                 else Ret (unmarshal ret (fyRetWrapper f (fyRet f)) t))))"

text \<open>The encoded input may be a \<open>nil\<close> slice, which leaves the message as it was.\<close>

definition msgArgsWrapper ::
    "('f \<Rightarrow> 'g list \<Rightarrow> error + byte list option) \<Rightarrow> 'c anyArg list \<Rightarrow> ('f, 'g) heap
      \<Rightarrow> ((error + 'c anyArg list) \<times> ('f, 'g) heap) outcome" where
  "msgArgsWrapper encodeArgs args h =
     (case args of
        [] \<Rightarrow> Panic indexRange
      | AnyMsg p # rest \<Rightarrow>
          andThen (deref p) (\<lambda>r.
          andThen (deref (h r)) (\<lambda>msg.
            if mInput msg \<noteq> None then Ret (Inr args, h)
            else (case mFunc msg of
                    None \<Rightarrow> Ret (Inr args, h)
                  | Some func \<Rightarrow>
                      (case encodeArgs func (mArgs msg) of
                         Inl err \<Rightarrow> Ret (Inl err, h)
                       | Inr input \<Rightarrow>
                           Ret (Inr (AnyMsg p # rest), h(r \<mapsto> msg\<lparr>mInput := input\<rparr>))))))
      | _ \<Rightarrow> Panic badAssertion)"

section \<open>The factories of the package\<close>

definition BlockNumberArg :: "'x geth_scheme \<Rightarrow> int option \<Rightarrow> string" where
  "BlockNumberArg G blockNumber =
     (case blockNumber of None \<Rightarrow> ''latest'' | Some n \<Rightarrow> encodeBig G n)"

definition TraceBlockCaller ::
    "('n \<Rightarrow> string) \<Rightarrow> string \<Rightarrow> 'n \<Rightarrow> 'tc traceConfig option \<Rightarrow> ('tc traceConfig, 'r, 'h) factory" where
  "TraceBlockCaller tagOrHex method blockNumber tracerConfig =
     NewFactory method [AnyString (tagOrHex blockNumber), AnyConfig tracerConfig] []"

definition GetPrestateTraceBlockCaller ::
    "('n \<Rightarrow> string) \<Rightarrow> 'n \<Rightarrow> prestateTracerConfig option \<Rightarrow> stateOverride option
      \<Rightarrow> (prestateTracerConfig traceConfig, 'r, 'h) factory" where
  "GetPrestateTraceBlockCaller tagOrHex blockNumber config stateOverrides =
     TraceBlockCaller tagOrHex ''debug_traceBlockByNumber'' blockNumber
       (Some \<lparr>tcTracer = ''prestateTracer'', tcTracerConfig = config,
              tcStateOverrides = stateOverrides\<rparr>)"

definition TraceCaller ::
    "'x geth_scheme \<Rightarrow> ('f \<Rightarrow> 'g list \<Rightarrow> error + byte list option) \<Rightarrow> string \<Rightarrow> nat option
      \<Rightarrow> int option \<Rightarrow> 'tc traceConfig option \<Rightarrow> ('tc traceConfig, 'r, ('f, 'g) heap) factory" where
  "TraceCaller G encodeArgs method msg blockNumber tracerConfig =
     NewFactory method
       [AnyMsg msg, AnyString (BlockNumberArg G blockNumber), AnyConfig tracerConfig]
       [WithArgsWrapper (msgArgsWrapper encodeArgs)]"

definition GetPrestateTraceCaller ::
    "'x geth_scheme \<Rightarrow> ('f \<Rightarrow> 'g list \<Rightarrow> error + byte list option) \<Rightarrow> nat option \<Rightarrow> int option
      \<Rightarrow> prestateTracerConfig option \<Rightarrow> stateOverride option
      \<Rightarrow> (prestateTracerConfig traceConfig, 'r, ('f, 'g) heap) factory" where
  "GetPrestateTraceCaller G encodeArgs msg blockNumber config stateOverrides =
     TraceCaller G encodeArgs ''debug_traceCall'' msg blockNumber
       (Some \<lparr>tcTracer = ''prestateTracer'', tcTracerConfig = config,
              tcStateOverrides = stateOverrides\<rparr>)"

definition GetCallTraceCaller ::
    "'x geth_scheme \<Rightarrow> ('f \<Rightarrow> 'g list \<Rightarrow> error + byte list option) \<Rightarrow> nat option \<Rightarrow> int option
      \<Rightarrow> callTracerConfig option \<Rightarrow> stateOverride option
      \<Rightarrow> (callTracerConfig traceConfig, 'r, ('f, 'g) heap) factory" where
  "GetCallTraceCaller G encodeArgs msg blockNumber config stateOverrides =
     TraceCaller G encodeArgs ''debug_traceCall'' msg blockNumber
       (Some \<lparr>tcTracer = ''callTracer'', tcTracerConfig = config,
              tcStateOverrides = stateOverrides\<rparr>)"

definition BlockByNumber ::
    "'x geth_scheme \<Rightarrow> int option \<Rightarrow> ('c, 'r, 'h) factory" where
  "BlockByNumber G number =
     NewFactory ''eth_getBlockByNumber'' [AnyString (BlockNumberArg G number), AnyBool True] []"

section \<open>ToW3Message\<close>

text \<open>The access list of the transaction is looked at and dropped.\<close>

definition ToW3Message :: "'x geth_scheme \<Rightarrow> rpcTransaction \<Rightarrow> ('f, 'g) message outcome" where
  "ToW3Message G tx =
     andThen (deref (rtFrom tx)) (\<lambda>from. Ret
       \<lparr>mFrom = from,
        mTo = rtTo tx,
        mNonce = rtNonce tx,
        mGasPrice = Some (case rtGasPrice tx of None \<Rightarrow> 0 | Some x \<Rightarrow> x),
        mGasFeeCap = Some (case rtMaxFeePerGas tx of None \<Rightarrow> 0 | Some x \<Rightarrow> x),
        mGasTipCap = Some (case rtMaxPriorityFeePerGas tx of None \<Rightarrow> 0 | Some x \<Rightarrow> x),
        mGas = rtGas tx,
        mValue = Some (case rtValue tx of None \<Rightarrow> 0 | Some x \<Rightarrow> x),
        mInput = (case rtInput tx of None \<Rightarrow> None | Some input \<Rightarrow> copyBytes G (Some input)),
        mFunc = None,
        mArgs = []\<rparr>)"

end
