(* ===== verification/AccountCodec.thy ===== *)
theory AccountCodec
  imports FetcherTypes
begin

text \<open>
  The codec of \<open>w3backend/kv.go\<close>: \<open>accountMarshaling\<close>, its conversions, and
  \<open>encodeAccount\<close>/\<open>decodeAccount\<close> over \<open>encoding/gob\<close>.

  The gob stream of one value is modelled at the level of its message: the fields that are
  present, each with the distance to the number of the field before it, as \<open>encoding/gob\<close>
  transmits a struct. Type descriptors and the varint layout are left out. What matters here
  is documented behaviour of the package: pointers are flattened, and a field whose value is
  zero is not sent (a nil pointer, an empty byte slice, a zero integer, also behind a
  pointer), except that a map is sent whenever it is not nil. So a stored account is not the
  account given to \<open>encodeAccount\<close> but its normal form, \<open>normAccount\<close>.
\<close>

section \<open>The marshalled account\<close>

record accountMarshaling =
  amBalance :: "int option"
  amCode :: "byte list option"
  amNonce :: "u64 option"
  amStorage :: "(hash, hash) gomap option"

definition toAccountMarshaling :: "account \<Rightarrow> accountMarshaling" where
  "toAccountMarshaling a =
     \<lparr>amBalance = accBalance a,
      amCode = accCode a,
      amNonce = accNonce a,
      amStorage = (case accStorage a of None \<Rightarrow> Some [] | Some s \<Rightarrow> Some s)\<rparr>"

definition fromAccountMarshaling :: "accountMarshaling \<Rightarrow> account" where
  "fromAccountMarshaling m =
     \<lparr>accBalance = amBalance m,
      accCode = amCode m,
      accNonce = amNonce m,
      accStorage = amStorage m\<rparr>"

section \<open>The gob message of a struct\<close>

datatype gobValue =
    GobBig int
  | GobBytes "byte list"
  | GobUint u64
  | GobMap "(hash, hash) gomap"

type_synonym wire = "(nat \<times> gobValue) list"

fun gobBig :: "int option \<Rightarrow> gobValue option" where
  "gobBig None = None"
| "gobBig (Some b) = Some (GobBig b)"

fun gobBytes :: "byte list option \<Rightarrow> gobValue option" where
  "gobBytes None = None"
| "gobBytes (Some bs) = (if bs = [] then None else Some (GobBytes bs))"

fun gobUint :: "u64 option \<Rightarrow> gobValue option" where
  "gobUint None = None"
| "gobUint (Some n) = (if n = 0 then None else Some (GobUint n))"

fun gobMap :: "(hash, hash) gomap option \<Rightarrow> gobValue option" where
  "gobMap None = None"
| "gobMap (Some m) = Some (GobMap m)"

definition gobFields :: "accountMarshaling \<Rightarrow> gobValue option list" where
  "gobFields m =
     [gobBig (amBalance m), gobBytes (amCode m), gobUint (amNonce m), gobMap (amStorage m)]"

text \<open>
  The encoder keeps the number of the last field sent and writes the distance to it; the
  count \<open>gap\<close> starts at one because that number starts at minus one.
\<close>

fun gobDeltas :: "nat \<Rightarrow> gobValue option list \<Rightarrow> wire" where
  "gobDeltas gap [] = []"
| "gobDeltas gap (None # fs) = gobDeltas (Suc gap) fs"
| "gobDeltas gap (Some v # fs) = (gap, v) # gobDeltas 1 fs"

definition gobEncode :: "accountMarshaling \<Rightarrow> wire" where
  "gobEncode m = gobDeltas 1 (gobFields m)"

abbreviation gobRange :: error where
  "gobRange \<equiv> External ''gob: bad data: field numbers out of bounds''"

abbreviation gobWrongType :: error where
  "gobWrongType \<equiv> External ''gob: wrong type received''"

definition gobSetField :: "nat \<Rightarrow> gobValue \<Rightarrow> accountMarshaling \<Rightarrow> error + accountMarshaling" where
  "gobSetField i v m =
     (case (i, v) of
        (0, GobBig b) \<Rightarrow> Inr (m\<lparr>amBalance := Some b\<rparr>)
      | (Suc 0, GobBytes bs) \<Rightarrow> Inr (m\<lparr>amCode := Some bs\<rparr>)
      | (Suc (Suc 0), GobUint n) \<Rightarrow> Inr (m\<lparr>amNonce := Some n\<rparr>)
      | (Suc (Suc (Suc 0)), GobMap s) \<Rightarrow> Inr (m\<lparr>amStorage := Some s\<rparr>)
      | _ \<Rightarrow> Inl gobWrongType)"

text \<open>
  The decoder adds each distance to the number of the next field expected; a distance of
  zero ends the struct, a number past the last field is an error.
\<close>

fun gobDecodeFrom :: "nat \<Rightarrow> wire \<Rightarrow> accountMarshaling \<Rightarrow> error + accountMarshaling" where
  "gobDecodeFrom next [] m = Inr m"
| "gobDecodeFrom next ((delta, v) # w) m =
     (if delta = 0 then Inr m
      else if next + delta > 4 then Inl gobRange
      else case gobSetField (next + delta - 1) v m of
             Inl e \<Rightarrow> Inl e
           | Inr m' \<Rightarrow> gobDecodeFrom (next + delta) w m')"

definition zeroMarshaling :: accountMarshaling where
  "zeroMarshaling = \<lparr>amBalance = None, amCode = None, amNonce = None, amStorage = None\<rparr>"

definition gobDecode :: "wire \<Rightarrow> error + accountMarshaling" where
  "gobDecode w = gobDecodeFrom 0 w zeroMarshaling"

section \<open>encodeAccount and decodeAccount\<close>

definition encodeAccount :: "account \<Rightarrow> error + wire" where
  "encodeAccount a = Inr (gobEncode (toAccountMarshaling a))"

definition decodeAccount :: "wire \<Rightarrow> error + account" where
  "decodeAccount w =
     (case gobDecode w of Inl e \<Rightarrow> Inl e | Inr m \<Rightarrow> Inr (fromAccountMarshaling m))"

text \<open>What is left of an account once it has been stored.\<close>

definition normAccount :: "account \<Rightarrow> account" where
  "normAccount a =
     \<lparr>accBalance = accBalance a,
      accCode = (case accCode a of None \<Rightarrow> None | Some bs \<Rightarrow> if bs = [] then None else Some bs),
      accNonce = (case accNonce a of None \<Rightarrow> None | Some n \<Rightarrow> if n = 0 then None else Some n),
      accStorage = (case accStorage a of None \<Rightarrow> Some [] | Some s \<Rightarrow> Some s)\<rparr>"

section \<open>Laws of the codec\<close>

lemma normAccount_simps [simp]:
  "accBalance (normAccount a) = accBalance a"
  "accCode (normAccount a) =
     (case accCode a of None \<Rightarrow> None | Some bs \<Rightarrow> if bs = [] then None else Some bs)"
  "accNonce (normAccount a) =
     (case accNonce a of None \<Rightarrow> None | Some n \<Rightarrow> if n = 0 then None else Some n)"
  "accStorage (normAccount a) = (case accStorage a of None \<Rightarrow> Some [] | Some s \<Rightarrow> Some s)"
  by (simp_all add: normAccount_def)

lemma normAccount_idem [simp]: "normAccount (normAccount a) = normAccount a"
  by (simp add: normAccount_def split: option.splits)

lemma gob_roundtrip:
  "gobDecode (gobEncode m) =
     Inr \<lparr>amBalance = amBalance m,
          amCode = (case amCode m of None \<Rightarrow> None | Some bs \<Rightarrow> if bs = [] then None else Some bs),
          amNonce = (case amNonce m of None \<Rightarrow> None | Some n \<Rightarrow> if n = 0 then None else Some n),
          amStorage = amStorage m\<rparr>"
  by (cases "amBalance m"; cases "amCode m"; cases "amNonce m"; cases "amStorage m")
    (auto simp: gobDecode_def gobEncode_def gobFields_def gobSetField_def zeroMarshaling_def
      numeral_eq_Suc)

lemma decode_encode_model:
  "encodeAccount a = Inr w \<Longrightarrow> decodeAccount w = Inr (normAccount a)"
  by (auto simp: encodeAccount_def decodeAccount_def gob_roundtrip toAccountMarshaling_def
      fromAccountMarshaling_def normAccount_def split: option.splits)

text \<open>
  The interface the store relies on: an encoder that never fails, and a decoder that gives
  back the normal form of what was encoded.
\<close>

locale codec =
  fixes encode :: "'a \<Rightarrow> error + 'w"
    and decode :: "'w \<Rightarrow> error + 'a"
    and normal :: "'a \<Rightarrow> 'a"
  assumes encode_total: "\<exists>w. encode a = Inr w"
    and decode_encode: "encode a = Inr w \<Longrightarrow> decode w = Inr (normal a)"
    and normal_idem: "normal (normal a) = normal a"
begin

lemma encodeE:
  obtains w where "encode a = Inr w" and "decode w = Inr (normal a)"
  using encode_total [of a] decode_encode [of a] by blast

text \<open>What was stored once is stored unchanged by every later round.\<close>

lemma stable:
  assumes "encode a = Inr w" and "decode w = Inr b" and "encode b = Inr v"
  shows "decode v = Inr b"
proof -
  from assms(1,2) have "b = normal a" by (simp add: decode_encode)
  with assms(3) show ?thesis by (simp add: decode_encode normal_idem)
qed

lemma decode_eq_iff:
  "encode a = Inr w \<Longrightarrow> decode w = Inr b \<longleftrightarrow> b = normal a"
  by (auto simp: decode_encode)

end

interpretation gob: codec encodeAccount decodeAccount normAccount
  by unfold_locales (auto simp: encodeAccount_def decode_encode_model)

lemma decode_of_encode [simp]:
  "decodeAccount (gobEncode (toAccountMarshaling a)) = Inr (normAccount a)"
  by (rule gob.decode_encode) (simp add: encodeAccount_def)

end
