(* ===== verification/Badger.thy ===== *)
theory Badger
  imports AccountCodec
begin

text \<open>
  The badger database that \<open>w3backend/kv.go\<close> stores accounts in, as a parameter of the model.

  The record \<open>badger\<close> extends the functions of go-ethereum by the operations of badger the
  code calls. \<open>dbOpen\<close> opens a new
  in-memory database. \<open>dbUpdate\<close> and \<open>dbView\<close> take the code's closures: a closure gets a transaction
  and gives back the transaction with the error it returns, or panics. What a closure assigns
  to a captured variable is its result (only the closure of \<open>GetAccount\<close> does that).
  \<open>txnGet\<close> stands for \<open>txn.Get\<close> followed by \<open>item.Value\<close>, whose errors the code returns alike.

  \<open>badger_store\<close> states what badger documents, through the committed content of a database
  and the content a transaction sees: a read gives the bytes stored under the key or
  \<open>ErrKeyNotFound\<close>, a write may be refused, \<open>Update\<close> relays the error of the closure and
  discards its writes, and otherwise commits them all or none. \<open>badger_ample\<close> adds that no
  write and no commit is refused. \<open>memLib\<close> is an executable store that obeys these laws, with
  a bound on the writes of one transaction (badger's \<open>ErrTxnTooBig\<close>).
\<close>

section \<open>The operations\<close>

abbreviation ErrKeyNotFound :: error where
  "ErrKeyNotFound \<equiv> External ''Key not found''"

abbreviation ErrTxnTooBig :: error where
  "ErrTxnTooBig \<equiv> External ''Txn is too big to fit into one request''"

record ('db, 'txn) badger = geth +
  dbOpen :: "error + 'db"
  dbUpdate :: "'db \<Rightarrow> ('txn \<Rightarrow> ('txn \<times> error option) outcome) \<Rightarrow> ('db \<times> error option) outcome"
  dbView :: "'db \<Rightarrow> ('txn \<Rightarrow> error + account) \<Rightarrow> error + account"
  txnGet :: "'txn \<Rightarrow> byte list \<Rightarrow> error + wire"
  txnSet :: "'txn \<Rightarrow> byte list \<Rightarrow> wire \<Rightarrow> 'txn \<times> error option"

type_synonym content = "byte list \<Rightarrow> wire option"

section \<open>The laws\<close>

locale badger_store = geth_laws L
  for L :: "('db, 'txn, 'x) badger_scheme" +
  fixes snapshot :: "'db \<Rightarrow> 'txn"
    and content :: "'db \<Rightarrow> content"
    and seen :: "'txn \<Rightarrow> content"
  assumes open_empty: "dbOpen L = Inr db \<Longrightarrow> content db = Map.empty"
    and seen_snapshot: "seen (snapshot db) = content db"
    and view: "dbView L db get = get (snapshot db)"
    and get: "txnGet L txn k = (case seen txn k of None \<Rightarrow> Inl ErrKeyNotFound | Some w \<Rightarrow> Inr w)"
    and set_done: "txnSet L txn k w = (txn', None) \<Longrightarrow> seen txn' = (seen txn)(k \<mapsto> w)"
    and set_refused: "txnSet L txn k w = (txn', Some e) \<Longrightarrow> seen txn' = seen txn"
    and update_panic: "f (snapshot db) = Panic p \<Longrightarrow> dbUpdate L db f = Panic p"
    and update_error: "f (snapshot db) = Ret (txn, Some e) \<Longrightarrow>
          \<exists>db'. dbUpdate L db f = Ret (db', Some e) \<and> content db' = content db"
    and update_commit: "f (snapshot db) = Ret (txn, None) \<Longrightarrow>
          \<exists>db' r. dbUpdate L db f = Ret (db', r) \<and>
            content db' = (if r = None then seen txn else content db)"
begin

lemma updateE:
  assumes "dbUpdate L db f = Ret (db', r)"
  obtains txn e where "f (snapshot db) = Ret (txn, e)"
    and "content db' = (if r = None then seen txn else content db)"
    and "r = None \<Longrightarrow> e = None"
proof (cases "f (snapshot db)")
  case (Panic p)
  then have "dbUpdate L db f = Panic p" by (rule update_panic)
  with assms show ?thesis by simp
next
  case (Ret p)
  obtain txn e where p: "p = (txn, e)" by (cases p)
  show ?thesis
  proof (cases e)
    case None
    with Ret p update_commit [of f db txn] assms that show ?thesis by auto
  next
    case (Some err)
    with Ret p update_error [of f db txn err] assms that show ?thesis by auto
  qed
qed

lemma update_panic_iff: "(\<exists>p. dbUpdate L db f = Panic p) \<longleftrightarrow> (\<exists>p. f (snapshot db) = Panic p)"
proof (cases "f (snapshot db)")
  case (Panic p)
  then show ?thesis using update_panic [of f db p] by auto
next
  case (Ret x)
  obtain txn e where "x = (txn, e)" by (cases x)
  with Ret show ?thesis
    using update_error [of f db txn] update_commit [of f db txn] by (cases e) auto
qed

lemma returns_update: "returns (dbUpdate L db f) \<longleftrightarrow> returns (f (snapshot db))"
  using update_panic_iff [of db f] by (metis outcome.exhaust outcome.distinct(1) returns_iff)

lemma seen_set: "seen (fst (txnSet L txn k w)) = seen txn \<or>
    seen (fst (txnSet L txn k w)) = (seen txn)(k \<mapsto> w)"
proof (cases "txnSet L txn k w")
  case (Pair txn' r)
  then show ?thesis using set_done [of txn k w txn'] set_refused [of txn k w txn']
    by (cases r) auto
qed

end

locale badger_ample = badger_store +
  assumes set_granted: "\<exists>txn'. txnSet L txn k w = (txn', None)"
    and commit_granted: "f (snapshot db) = Ret (txn, None) \<Longrightarrow>
          \<exists>db'. dbUpdate L db f = Ret (db', None) \<and> content db' = seen txn"
begin

lemma set_ample: "snd (txnSet L txn k w) = None"
  and seen_set_ample: "seen (fst (txnSet L txn k w)) = (seen txn)(k \<mapsto> w)"
proof -
  obtain txn' where "txnSet L txn k w = (txn', None)" using set_granted by blast
  then show "snd (txnSet L txn k w) = None"
    and "seen (fst (txnSet L txn k w)) = (seen txn)(k \<mapsto> w)"
    by (simp_all add: set_done)
qed

end

section \<open>A store that obeys the laws\<close>

type_synonym memDb = "(byte list \<times> wire) list"
type_synonym memTxn = "memDb \<times> nat"

definition memSet :: "nat option \<Rightarrow> memTxn \<Rightarrow> byte list \<Rightarrow> wire \<Rightarrow> memTxn \<times> error option" where
  "memSet bound txn k w =
     (case bound of
        None \<Rightarrow> ((put k w (fst txn), snd txn + 1), None)
      | Some n \<Rightarrow>
          if snd txn < n then ((put k w (fst txn), snd txn + 1), None)
          else (txn, Some ErrTxnTooBig))"

definition memGet :: "memTxn \<Rightarrow> byte list \<Rightarrow> error + wire" where
  "memGet txn k = (case map_of (fst txn) k of None \<Rightarrow> Inl ErrKeyNotFound | Some w \<Rightarrow> Inr w)"

definition memUpdate :: "memDb
    \<Rightarrow> (memTxn \<Rightarrow> (memTxn \<times> error option) outcome) \<Rightarrow> (memDb \<times> error option) outcome" where
  "memUpdate db f =
     (case f (db, 0) of
        Panic p \<Rightarrow> Panic p
      | Ret (txn, Some e) \<Rightarrow> Ret (db, Some e)
      | Ret (txn, None) \<Rightarrow> Ret (fst txn, None))"

fun hexOf :: "nat \<Rightarrow> string" where
  "hexOf n = (if n < 16 then [''0123456789abcdef'' ! n]
              else hexOf (n div 16) @ [''0123456789abcdef'' ! (n mod 16)])"

definition memGeth :: geth where
  "memGeth =
     \<lparr>addrBytes = be_bytes 20,
      hashBytes = be_bytes 32,
      bytesToHash = from_be,
      bigToHash = word_of_int,
      keccak256 = (\<lambda>bs. be_bytes 32 (from_be (bs @ [1]) :: hash)),
      emptyCodeHash =
        be_bytes 32 (0xc5d2460186f7233c927e7db2dcc703c0e500b653ca82273b7bfad8045d85a470 :: hash),
      copyBytes = (\<lambda>p. p),
      encodeBig = (\<lambda>i. if i < 0 then ''-0x'' @ hexOf (nat (- i)) else ''0x'' @ hexOf (nat i)),
      headerHash = (\<lambda>h. word_of_int (hdNumber h)),
      mustFromBig = (\<lambda>p. case p of
          None \<Rightarrow> Ret None
        | Some i \<Rightarrow> if \<bar>i\<bar> < 2 ^ 256 then Ret (Some (word_of_int i))
                    else Panic (PanicString ''overflow'')),
      u256ToBig = uint,
      setBytes32 = from_be,
      bytes32 = be_bytes 32\<rparr>"

definition memLib :: "nat option \<Rightarrow> (memDb, memTxn) badger" where
  "memLib bound = geth.extend memGeth
     \<lparr>dbOpen = Inr [],
      dbUpdate = memUpdate,
      dbView = (\<lambda>db f. f (db, 0)),
      txnGet = memGet,
      txnSet = memSet bound\<rparr>"

lemma memGeth_simps [simp]:
  "addrBytes memGeth = be_bytes 20"
  "hashBytes memGeth = be_bytes 32"
  "bytesToHash memGeth = from_be"
  "bigToHash memGeth = word_of_int"
  "copyBytes memGeth p = p"
  "u256ToBig memGeth = uint"
  "setBytes32 memGeth = from_be"
  "bytes32 memGeth = be_bytes 32"
  "length (keccak256 memGeth bs) = 32"
  "length (emptyCodeHash memGeth) = 32"
  "length (bytes32 memGeth x) = 32"
  "mustFromBig memGeth None = Ret None"
  "mustFromBig memGeth (Some i) = (if \<bar>i\<bar> < 2 ^ 256 then Ret (Some (word_of_int i))
     else Panic (PanicString ''overflow''))"
  "headerHash memGeth h = word_of_int (hdNumber h)"
  by (simp_all add: memGeth_def)

lemma memLib_geth [simp]:
  "addrBytes (memLib b) = addrBytes memGeth"
  "hashBytes (memLib b) = hashBytes memGeth"
  "bytesToHash (memLib b) = bytesToHash memGeth"
  "bigToHash (memLib b) = bigToHash memGeth"
  "copyBytes (memLib b) = copyBytes memGeth"
  "u256ToBig (memLib b) = u256ToBig memGeth"
  "setBytes32 (memLib b) = setBytes32 memGeth"
  "bytes32 (memLib b) = bytes32 memGeth"
  "keccak256 (memLib b) = keccak256 memGeth"
  "emptyCodeHash (memLib b) = emptyCodeHash memGeth"
  "mustFromBig (memLib b) = mustFromBig memGeth"
  "headerHash (memLib b) = headerHash memGeth"
  by (simp_all add: memLib_def memGeth_def geth.defs)

lemma memLib_simps [simp]:
  "dbOpen (memLib b) = Inr []"
  "dbUpdate (memLib b) = memUpdate"
  "dbView (memLib b) db f = f (db, 0)"
  "txnGet (memLib b) = memGet"
  "txnSet (memLib b) = memSet b"
  by (simp_all add: memLib_def geth.defs)

interpretation memGeth: geth_laws memGeth
proof unfold_locales
  show "length bs = 32 \<Longrightarrow> hashBytes memGeth (bytesToHash memGeth bs) = bs" for bs
    using be_bytes_from_be [of bs, where 'a = 256] by simp
  show "length bs = 32 \<Longrightarrow> bytes32 memGeth (setBytes32 memGeth bs) = bs" for bs
    using be_bytes_from_be [of bs, where 'a = 256] by simp
  show "\<bar>i\<bar> < 2 ^ 256 \<Longrightarrow>
    \<exists>w. mustFromBig memGeth (Some i) = Ret (Some w) \<and> u256ToBig memGeth w = i mod 2 ^ 256" for i
    by (intro exI [where x = "word_of_int i"]) (simp add: uint_word_of_int_eq take_bit_eq_mod)
qed (simp_all add: be_bytes_inject)

lemma geth_laws_memLib: "geth_laws (memLib b)"
  using memGeth.geth_laws_axioms unfolding geth_laws_def by simp

lemma map_of_memSet:
  "memSet b txn k w = (txn', None) \<Longrightarrow> map_of (fst txn') = (map_of (fst txn))(k \<mapsto> w)"
  "memSet b txn k w = (txn', Some e) \<Longrightarrow> txn' = txn"
  by (auto simp: memSet_def split: option.splits if_splits)

interpretation mem: badger_store "memLib b" "\<lambda>db. (db, 0)" map_of "\<lambda>txn. map_of (fst txn)" for b
  by (intro badger_store.intro badger_store_axioms.intro geth_laws_memLib)
    (auto simp: memGet_def memUpdate_def map_of_memSet dest: map_of_memSet)

interpretation ample: badger_ample "memLib None" "\<lambda>db. (db, 0)" map_of "\<lambda>txn. map_of (fst txn)"
  by unfold_locales (auto simp: memUpdate_def memSet_def)

end
