(* ===== verification/BadgerKV.thy ===== *)
theory BadgerKV
  imports Badger
begin

text \<open>
  The account store of \<open>w3backend/kv.go\<close>: the operations of \<open>BadgerKV\<close> that read and write
  one account, over the badger database of theory \<open>Badger\<close>.
\<close>

definition NewBadgerKV :: "('db, 'txn, 'x) badger_scheme \<Rightarrow> 'db outcome" where
  "NewBadgerKV L = (case dbOpen L of Inl err \<Rightarrow> Panic (PanicError err) | Inr bdb \<Rightarrow> Ret bdb)"

section \<open>Operations inside a transaction\<close>

definition txGetAccount :: "('db, 'txn, 'x) badger_scheme \<Rightarrow> address \<Rightarrow> 'txn \<Rightarrow> error + account" where
  "txGetAccount L addr txn =
     (case txnGet L txn (addrBytes L addr) of
        Inl err \<Rightarrow> Inl err
      | Inr val \<Rightarrow> decodeAccount val)"

definition txUpdateAccount ::
    "('db, 'txn, 'x) badger_scheme \<Rightarrow> address \<Rightarrow> account \<Rightarrow> 'txn \<Rightarrow> 'txn \<times> error option" where
  "txUpdateAccount L addr acnt txn =
     (case encodeAccount acnt of
        Inl err \<Rightarrow> (txn, Some err)
      | Inr buf \<Rightarrow> txnSet L txn (addrBytes L addr) buf)"

section \<open>Operations on the store\<close>

definition kvGetAccount :: "('db, 'txn, 'x) badger_scheme \<Rightarrow> 'db \<Rightarrow> address \<Rightarrow> error + account" where
  "kvGetAccount L db addr = dbView L db (\<lambda>txn. txGetAccount L addr txn)"

definition kvUpdateAccount ::
    "('db, 'txn, 'x) badger_scheme \<Rightarrow> 'db \<Rightarrow> address \<Rightarrow> account \<Rightarrow> ('db \<times> error option) outcome" where
  "kvUpdateAccount L db addr acnt =
     dbUpdate L db (\<lambda>txn. Ret (txUpdateAccount L addr acnt txn))"

definition kvGetStorage ::
    "('db, 'txn, 'x) badger_scheme \<Rightarrow> 'db \<Rightarrow> address \<Rightarrow> byte list \<Rightarrow> error + hash" where
  "kvGetStorage L db addr key =
     (case kvGetAccount L db addr of
        Inl err \<Rightarrow> Inl err
      | Inr acnt \<Rightarrow>
          (case accStorage acnt of
             None \<Rightarrow> Inl (Errorf ''storage key not found'')
           | Some storage \<Rightarrow>
               (case map_of storage (bytesToHash L key) of
                  None \<Rightarrow> Inl (Errorf ''storage key not found'')
                | Some v \<Rightarrow> Inr v)))"

text \<open>
  \<open>UpdateStorage\<close> and \<open>UpdateContractCode\<close> share the text of their closures: \<open>entryTxn\<close> reads
  and decodes the entry, \<open>writeBackTxn\<close> encodes and writes the changed one. The latter drops
  the error of \<open>txn.Set\<close> and returns the \<open>nil\<close> error of the encoder.
\<close>

definition entryTxn ::
    "('db, 'txn, 'x) badger_scheme \<Rightarrow> address \<Rightarrow> ('txn \<Rightarrow> account \<Rightarrow> ('txn \<times> error option) outcome)
      \<Rightarrow> 'txn \<Rightarrow> ('txn \<times> error option) outcome" where
  "entryTxn L addr change txn =
     (case txnGet L txn (addrBytes L addr) of
        Inl err \<Rightarrow> Ret (txn, Some err)
      | Inr val \<Rightarrow>
          (case decodeAccount val of
             Inl err \<Rightarrow> Ret (txn, Some err)
           | Inr acnt \<Rightarrow> change txn acnt))"

definition writeBackTxn ::
    "('db, 'txn, 'x) badger_scheme \<Rightarrow> address \<Rightarrow> account \<Rightarrow> 'txn \<Rightarrow> 'txn \<times> error option" where
  "writeBackTxn L addr acnt txn =
     (case encodeAccount acnt of
        Inl err \<Rightarrow> (txn, Some err)
      | Inr buf \<Rightarrow> (fst (txnSet L txn (addrBytes L addr) buf), None))"

definition kvUpdateStorage ::
    "('db, 'txn, 'x) badger_scheme \<Rightarrow> 'db \<Rightarrow> address \<Rightarrow> byte list \<Rightarrow> byte list
      \<Rightarrow> ('db \<times> error option) outcome" where
  "kvUpdateStorage L db addr key value =
     dbUpdate L db (entryTxn L addr (\<lambda>txn acnt.
       case accStorage acnt of
         None \<Rightarrow> Panic nilMapWrite
       | Some storage \<Rightarrow>
           Ret (writeBackTxn L addr (acnt\<lparr>accStorage :=
             Some (put (bytesToHash L key) (bytesToHash L value) storage)\<rparr>) txn)))"

definition kvContractCode ::
    "('db, 'txn, 'x) badger_scheme \<Rightarrow> 'db \<Rightarrow> address \<Rightarrow> hash \<Rightarrow> error + byte list" where
  "kvContractCode L db addr codeHash =
     (case kvGetAccount L db addr of
        Inl err \<Rightarrow> Inl err
      | Inr acnt \<Rightarrow> (case accCode acnt of None \<Rightarrow> Inr [] | Some code \<Rightarrow> Inr code))"

definition kvUpdateContractCode ::
    "('db, 'txn, 'x) badger_scheme \<Rightarrow> 'db \<Rightarrow> address \<Rightarrow> hash \<Rightarrow> byte list
      \<Rightarrow> ('db \<times> error option) outcome" where
  "kvUpdateContractCode L db addr codeHash code =
     dbUpdate L db (entryTxn L addr (\<lambda>txn acnt.
       Ret (writeBackTxn L addr (acnt\<lparr>accCode := Some code\<rparr>) txn)))"

section \<open>The accounts in a store\<close>

text \<open>
  The store as a map from addresses to accounts, and what is true of everything the program
  stores: it decodes, and to an account in normal form, so in particular with a storage map.
\<close>

definition stored :: "'x geth_scheme \<Rightarrow> content \<Rightarrow> address \<Rightarrow> account option" where
  "stored G c addr =
     (case c (addrBytes G addr) of
        None \<Rightarrow> None
      | Some w \<Rightarrow> (case decodeAccount w of Inl _ \<Rightarrow> None | Inr a \<Rightarrow> Some a))"

definition wellCoded :: "wire \<Rightarrow> bool" where
  "wellCoded w = (case decodeAccount w of Inl _ \<Rightarrow> False | Inr a \<Rightarrow> normAccount a = a)"

definition wfContent :: "content \<Rightarrow> bool" where
  "wfContent c \<longleftrightarrow> (\<forall>k w. c k = Some w \<longrightarrow> wellCoded w)"

lemma normal_storage: "normAccount a = a \<Longrightarrow> accStorage a \<noteq> None"
  by (metis normAccount_simps(4) option.simps(3-5) option.exhaust)

lemma normal_put_storage:
  "normAccount a = a \<Longrightarrow> normAccount (a\<lparr>accStorage := Some s\<rparr>) = a\<lparr>accStorage := Some s\<rparr>"
  by (cases a) (auto simp: normAccount_def)

lemma wellCoded_encode [simp]: "wellCoded (gobEncode (toAccountMarshaling a))"
  by (simp add: wellCoded_def)

lemma wfContent_empty [simp]: "wfContent Map.empty"
  by (simp add: wfContent_def)

lemma wfContent_update [simp]:
  "wfContent c \<Longrightarrow> wfContent (c(k \<mapsto> gobEncode (toAccountMarshaling a)))"
  by (simp add: wfContent_def)

lemma wfContentD: "wfContent c \<Longrightarrow> c k = Some w \<Longrightarrow> wellCoded w"
  by (simp add: wfContent_def)

lemma wf_decode:
  "wfContent c \<Longrightarrow> c k = Some w \<Longrightarrow> \<exists>a. decodeAccount w = Inr a \<and> normAccount a = a"
  by (drule (1) wfContentD) (simp add: wellCoded_def split: sum.splits)

lemma stored_normal: "wfContent c \<Longrightarrow> stored G c addr = Some a \<Longrightarrow> normAccount a = a"
  by (auto simp: stored_def split: option.splits sum.splits dest: wf_decode)

lemma stored_None_iff: "wfContent c \<Longrightarrow> stored G c addr = None \<longleftrightarrow> c (addrBytes G addr) = None"
  by (auto simp: stored_def split: option.splits sum.splits dest: wf_decode)

lemma stored_empty [simp]: "stored G Map.empty = Map.empty"
  by (simp add: stored_def fun_eq_iff)

lemma encodeAccount_eq [simp]: "encodeAccount a = Inr (gobEncode (toAccountMarshaling a))"
  by (simp add: encodeAccount_def)

context geth_laws
begin

lemma stored_update [simp]:
  "stored G (c(addrBytes G a \<mapsto> gobEncode (toAccountMarshaling acc))) =
     (stored G c)(a \<mapsto> normAccount acc)"
  by (auto simp: stored_def fun_eq_iff dest: addrBytes_inj)

end

context badger_store
begin

lemma txGetAccount_stored:
  "wfContent (seen txn) \<Longrightarrow> txGetAccount L a txn =
     (case stored L (seen txn) a of None \<Rightarrow> Inl ErrKeyNotFound | Some acc \<Rightarrow> Inr acc)"
  by (auto simp: txGetAccount_def stored_def get split: option.splits sum.splits dest: wf_decode)

lemma kvGetAccount_stored:
  "wfContent (content db) \<Longrightarrow> kvGetAccount L db a =
     (case stored L (content db) a of None \<Rightarrow> Inl ErrKeyNotFound | Some acc \<Rightarrow> Inr acc)"
  by (simp add: kvGetAccount_def view txGetAccount_stored seen_snapshot)

lemma kvGetStorage_stored:
  "wfContent (content db) \<Longrightarrow> kvGetStorage L db a key = Inr v \<longleftrightarrow>
     (\<exists>acc s. stored L (content db) a = Some acc \<and> accStorage acc = Some s \<and>
        map_of s (bytesToHash L key) = Some v)"
  by (auto simp: kvGetStorage_def kvGetAccount_stored split: option.splits)

lemma kvContractCode_stored:
  "wfContent (content db) \<Longrightarrow> kvContractCode L db a h =
     (case stored L (content db) a of
        None \<Rightarrow> Inl ErrKeyNotFound
      | Some acc \<Rightarrow> Inr (case accCode acc of None \<Rightarrow> [] | Some code \<Rightarrow> code))"
  by (auto simp: kvContractCode_def kvGetAccount_stored split: option.splits)

lemma txUpdateAccount_seen:
  "seen (fst (txUpdateAccount L a acc txn)) = seen txn \<or>
   seen (fst (txUpdateAccount L a acc txn)) =
     (seen txn)(addrBytes L a \<mapsto> gobEncode (toAccountMarshaling acc))"
  by (simp add: txUpdateAccount_def seen_set)

lemma txUpdateAccount_done:
  "txUpdateAccount L a acc txn = (txn', None) \<Longrightarrow>
     seen txn' = (seen txn)(addrBytes L a \<mapsto> gobEncode (toAccountMarshaling acc))"
  by (simp add: txUpdateAccount_def set_done)

lemma txUpdateAccount_wf:
  "wfContent (seen txn) \<Longrightarrow> wfContent (seen (fst (txUpdateAccount L a acc txn)))"
  using txUpdateAccount_seen [of a acc txn] by auto

lemma kvUpdateAccount_returns: "returns (kvUpdateAccount L db a acc)"
  by (simp add: kvUpdateAccount_def returns_update)

lemma kvUpdateAccount_content:
  assumes "kvUpdateAccount L db a acc = Ret (db', r)"
  shows "content db' = (if r = None
      then (content db)(addrBytes L a \<mapsto> gobEncode (toAccountMarshaling acc)) else content db)"
  using assms unfolding kvUpdateAccount_def
proof (rule updateE)
  fix txn e
  assume f: "Ret (txUpdateAccount L a acc (snapshot db)) = Ret (txn, e)"
    and c: "content db' = (if r = None then seen txn else content db)" and "r = None \<Longrightarrow> e = None"
  then show ?thesis
    using txUpdateAccount_done [of a acc "snapshot db" txn] by (auto simp: seen_snapshot)
qed

lemma kvUpdateAccount_stored:
  "kvUpdateAccount L db a acc = Ret (db', r) \<Longrightarrow> stored L (content db') =
     (if r = None then (stored L (content db))(a \<mapsto> normAccount acc) else stored L (content db))"
  by (simp add: kvUpdateAccount_content)

lemma NewBadgerKV_content: "NewBadgerKV L = Ret db \<Longrightarrow> content db = Map.empty"
  by (auto simp: NewBadgerKV_def open_empty split: sum.splits)

lemma kvUpdateAccount_wf:
  "kvUpdateAccount L db a acc = Ret (db', r) \<Longrightarrow> wfContent (content db) \<Longrightarrow> wfContent (content db')"
  by (simp add: kvUpdateAccount_content)


text \<open>The reading half of both read-modify-write operations.\<close>

lemma entryTxn_stored:
  "wfContent (seen txn) \<Longrightarrow> entryTxn L a change txn =
     (case stored L (seen txn) a of
        None \<Rightarrow> Ret (txn, Some ErrKeyNotFound)
      | Some acc \<Rightarrow> change txn acc)"
  by (auto simp: entryTxn_def stored_def get split: option.splits sum.splits dest: wf_decode)

lemma writeBackTxn_None: "snd (writeBackTxn L a acc txn) = None"
  by (simp add: writeBackTxn_def)

lemma writeBackTxn_seen:
  "seen (fst (writeBackTxn L a acc txn)) = seen txn \<or>
   seen (fst (writeBackTxn L a acc txn)) =
     (seen txn)(addrBytes L a \<mapsto> gobEncode (toAccountMarshaling acc))"
  by (simp add: writeBackTxn_def seen_set)

lemma entry_missing:
  assumes "wfContent (content db)" and "stored L (content db) a = None"
    and "dbUpdate L db (entryTxn L a change) = Ret (db', r)"
  shows "r = Some ErrKeyNotFound \<and> content db' = content db"
proof -
  have "entryTxn L a change (snapshot db) = Ret (snapshot db, Some ErrKeyNotFound)"
    using assms(1,2) by (simp add: entryTxn_stored seen_snapshot)
  from update_error [of "entryTxn L a change", OF this] assms(3) show ?thesis by auto
qed

lemma entry_present:
  assumes "wfContent (content db)" and "stored L (content db) a = Some acc"
    and change: "change (snapshot db) acc = Ret (writeBackTxn L a acc' (snapshot db))"
    and upd: "dbUpdate L db (entryTxn L a change) = Ret (db', r)"
  shows "content db' = content db \<or>
    content db' = (content db)(addrBytes L a \<mapsto> gobEncode (toAccountMarshaling acc'))"
proof -
  have "entryTxn L a change (snapshot db) = Ret (writeBackTxn L a acc' (snapshot db))"
    using assms(1,2) change by (simp add: entryTxn_stored seen_snapshot)
  with upd have "content db' = content db \<or>
      content db' = seen (fst (writeBackTxn L a acc' (snapshot db)))"
    by (auto elim!: updateE split: if_splits) (metis fst_conv)
  with writeBackTxn_seen [of a acc' "snapshot db"] show ?thesis by (auto simp: seen_snapshot)
qed

lemma entry_returns:
  assumes "wfContent (content db)"
    and "\<And>acc. stored L (content db) a = Some acc \<Longrightarrow> returns (change (snapshot db) acc)"
  shows "returns (dbUpdate L db (entryTxn L a change))"
  using assms by (auto simp: returns_update entryTxn_stored seen_snapshot split: option.split)

lemma kvUpdateStorage_missing:
  "wfContent (content db) \<Longrightarrow> stored L (content db) a = None \<Longrightarrow>
     kvUpdateStorage L db a key v = Ret (db', r) \<Longrightarrow>
     r = Some ErrKeyNotFound \<and> content db' = content db"
  unfolding kvUpdateStorage_def by (rule entry_missing)

lemma kvUpdateStorage_present:
  assumes "wfContent (content db)" and "stored L (content db) a = Some acc"
    and "accStorage acc = Some s" and "kvUpdateStorage L db a key v = Ret (db', r)"
  shows "content db' = content db \<or> content db' = (content db)(addrBytes L a \<mapsto>
    gobEncode (toAccountMarshaling (acc\<lparr>accStorage :=
      Some (put (bytesToHash L key) (bytesToHash L v) s)\<rparr>)))"
  by (rule entry_present [OF assms(1,2) _ assms(4) [unfolded kvUpdateStorage_def]])
    (simp add: assms(3))

lemma kvUpdateStorage_wf:
  assumes "wfContent (content db)" and "kvUpdateStorage L db a key v = Ret (db', r)"
  shows "wfContent (content db')"
proof (cases "stored L (content db) a")
  case None
  from kvUpdateStorage_missing [OF assms(1) this assms(2)] assms(1) show ?thesis by simp
next
  case (Some acc)
  with assms obtain s where "accStorage acc = Some s"
    using stored_normal normal_storage by blast
  from kvUpdateStorage_present [OF assms(1) Some this assms(2)] assms(1) show ?thesis by auto
qed

lemma kvUpdateStorage_returns:
  assumes "wfContent (content db)"
  shows "returns (kvUpdateStorage L db a key v)"
  unfolding kvUpdateStorage_def
proof (rule entry_returns [OF assms])
  fix acc
  assume "stored L (content db) a = Some acc"
  with assms obtain s where "accStorage acc = Some s"
    using stored_normal normal_storage by blast
  then show "returns (case accStorage acc of None \<Rightarrow> Panic nilMapWrite
    | Some storage \<Rightarrow> Ret (writeBackTxn L a (acc\<lparr>accStorage :=
        Some (put (bytesToHash L key) (bytesToHash L v) storage)\<rparr>) (snapshot db)))"
    by simp
qed

lemma kvUpdateContractCode_missing:
  "wfContent (content db) \<Longrightarrow> stored L (content db) a = None \<Longrightarrow>
     kvUpdateContractCode L db a h code = Ret (db', r) \<Longrightarrow>
     r = Some ErrKeyNotFound \<and> content db' = content db"
  unfolding kvUpdateContractCode_def by (rule entry_missing)

lemma kvUpdateContractCode_present:
  assumes "wfContent (content db)" and "stored L (content db) a = Some acc"
    and "kvUpdateContractCode L db a h code = Ret (db', r)"
  shows "content db' = content db \<or> content db' = (content db)(addrBytes L a \<mapsto>
    gobEncode (toAccountMarshaling (acc\<lparr>accCode := Some code\<rparr>)))"
  by (rule entry_present [OF assms(1,2) _ assms(3) [unfolded kvUpdateContractCode_def]]) simp

lemma kvUpdateContractCode_wf:
  assumes "wfContent (content db)" and "kvUpdateContractCode L db a h code = Ret (db', r)"
  shows "wfContent (content db')"
proof (cases "stored L (content db) a")
  case None
  from kvUpdateContractCode_missing [OF assms(1) this assms(2)] assms(1) show ?thesis by simp
next
  case (Some acc)
  from kvUpdateContractCode_present [OF assms(1) Some assms(2)] assms(1) show ?thesis by auto
qed

lemma kvUpdateContractCode_returns:
  "wfContent (content db) \<Longrightarrow> returns (kvUpdateContractCode L db a h code)"
  unfolding kvUpdateContractCode_def by (rule entry_returns) simp_all

text \<open>A write to one address leaves every other address alone.\<close>

lemma kvUpdateAccount_frame:
  "kvUpdateAccount L db a acc = Ret (db', r) \<Longrightarrow> b \<noteq> a \<Longrightarrow>
     stored L (content db') b = stored L (content db) b"
  by (simp add: kvUpdateAccount_stored)

lemma kvUpdateStorage_frame:
  assumes "kvUpdateStorage L db a key v = Ret (db', r)" and "wfContent (content db)" and "b \<noteq> a"
  shows "stored L (content db') b = stored L (content db) b"
proof (cases "stored L (content db) a")
  case None
  from kvUpdateStorage_missing [OF assms(2) this assms(1)] show ?thesis by simp
next
  case (Some acc)
  with assms obtain s where "accStorage acc = Some s"
    using stored_normal normal_storage by blast
  from kvUpdateStorage_present [OF assms(2) Some this assms(1)] assms(3) show ?thesis by auto
qed

lemma kvUpdateContractCode_frame:
  assumes "kvUpdateContractCode L db a h code = Ret (db', r)" and "wfContent (content db)"
    and "b \<noteq> a"
  shows "stored L (content db') b = stored L (content db) b"
proof (cases "stored L (content db) a")
  case None
  from kvUpdateContractCode_missing [OF assms(2) this assms(1)] show ?thesis by simp
next
  case (Some acc)
  from kvUpdateContractCode_present [OF assms(2) Some assms(1)] assms(3) show ?thesis by auto
qed

lemmas kv_frame = kvUpdateAccount_frame kvUpdateStorage_frame kvUpdateContractCode_frame
lemmas kv_returns = kvUpdateAccount_returns kvUpdateStorage_returns kvUpdateContractCode_returns
lemmas kv_wf = kvUpdateAccount_wf kvUpdateStorage_wf kvUpdateContractCode_wf

end

context badger_ample
begin

lemma txUpdateAccount_ample:
  "\<exists>txn'. txUpdateAccount L a acc txn = (txn', None) \<and>
     seen txn' = (seen txn)(addrBytes L a \<mapsto> gobEncode (toAccountMarshaling acc))"
proof -
  obtain txn' where "txnSet L txn (addrBytes L a) (gobEncode (toAccountMarshaling acc)) = (txn', None)"
    using set_granted by blast
  then show ?thesis by (simp add: txUpdateAccount_def set_done)
qed

lemma kvUpdateAccount_ample:
  "\<exists>db'. kvUpdateAccount L db a acc = Ret (db', None) \<and>
     content db' = (content db)(addrBytes L a \<mapsto> gobEncode (toAccountMarshaling acc))"
proof -
  obtain txn where txn: "txUpdateAccount L a acc (snapshot db) = (txn, None)"
    and seen: "seen txn = (content db)(addrBytes L a \<mapsto> gobEncode (toAccountMarshaling acc))"
    using txUpdateAccount_ample [of a acc "snapshot db"] by (auto simp: seen_snapshot)
  from commit_granted [of "\<lambda>txn. Ret (txUpdateAccount L a acc txn)" db txn] txn seen
  show ?thesis by (simp add: kvUpdateAccount_def)
qed

lemma entry_ample:
  assumes "wfContent (content db)" and "stored L (content db) a = Some acc"
    and change: "change (snapshot db) acc = Ret (writeBackTxn L a acc' (snapshot db))"
  shows "\<exists>db'. dbUpdate L db (entryTxn L a change) = Ret (db', None) \<and>
    content db' = (content db)(addrBytes L a \<mapsto> gobEncode (toAccountMarshaling acc'))"
proof -
  have "entryTxn L a change (snapshot db) =
      Ret (fst (txnSet L (snapshot db) (addrBytes L a) (gobEncode (toAccountMarshaling acc'))), None)"
    using assms(1,2) change by (simp add: entryTxn_stored seen_snapshot writeBackTxn_def)
  from commit_granted [of "entryTxn L a change", OF this] show ?thesis by (simp add: seen_set_ample seen_snapshot)
qed

lemma kvUpdateStorage_ample:
  assumes "wfContent (content db)" and "stored L (content db) a = Some acc"
    and "accStorage acc = Some s"
  shows "\<exists>db'. kvUpdateStorage L db a key v = Ret (db', None) \<and>
    content db' = (content db)(addrBytes L a \<mapsto> gobEncode (toAccountMarshaling
      (acc\<lparr>accStorage := Some (put (bytesToHash L key) (bytesToHash L v) s)\<rparr>)))"
  unfolding kvUpdateStorage_def by (rule entry_ample [OF assms(1,2)]) (simp add: assms(3))

lemma kvUpdateContractCode_ample:
  assumes "wfContent (content db)" and "stored L (content db) a = Some acc"
  shows "\<exists>db'. kvUpdateContractCode L db a h code = Ret (db', None) \<and>
    content db' = (content db)(addrBytes L a \<mapsto>
      gobEncode (toAccountMarshaling (acc\<lparr>accCode := Some code\<rparr>)))"
  unfolding kvUpdateContractCode_def by (rule entry_ample [OF assms]) simp

end

end
