(* ===== verification/TraceMerge.thy ===== *)
theory TraceMerge
  imports BadgerKV
begin

text \<open>
  Merging prestate traces into the store: \<open>mergeState\<close>, \<open>mergeAccount\<close> and \<open>ProcessState\<close> of
  \<open>w3backend/kv.go\<close>. The loops run over maps in the order of their entry lists. The
  specification is pointwise: \<open>specEntries\<close> says what one map of accounts does to each
  address on its own, \<open>specBlock\<close> composes the maps of a block, and the refinement lemma of
  \<open>ProcessState\<close> relates the content of the store before and after to it.
\<close>

section \<open>Merging accounts and overrides\<close>

definition mergeAccount :: "account \<Rightarrow> account \<Rightarrow> account outcome" where
  "mergeAccount o1 n =
     (let o2 = (case accBalance n of None \<Rightarrow> o1 | Some b \<Rightarrow> o1\<lparr>accBalance := Some b\<rparr>);
          o3 = (case accCode n of None \<Rightarrow> o2 | Some c \<Rightarrow> o2\<lparr>accCode := Some c\<rparr>);
          o4 = (case accNonce n of None \<Rightarrow> o3 | Some m \<Rightarrow> o3\<lparr>accNonce := Some m\<rparr>)
      in andThen (writeAll (entries (accStorage n)) (accStorage o4))
           (\<lambda>storage. Ret (o4\<lparr>accStorage := storage\<rparr>)))"

definition zeroOverride :: overrideAccount where
  "zeroOverride = \<lparr>oaNonce = None, oaCode = None, oaBalance = None, oaState = None, oaStateDiff = None\<rparr>"

fun mergeState :: "stateOverride option \<Rightarrow> state \<Rightarrow> stateOverride option outcome" where
  "mergeState oldState [] = Ret oldState"
| "mergeState oldState ((k, p) # newState) =
     (let account = (case map_of (entries oldState) k of
                       Some acc \<Rightarrow> acc
                     | None \<Rightarrow> zeroOverride\<lparr>oaStateDiff := Some []\<rparr>)
      in andThen (deref p) (\<lambda>v.
         andThen (writeAll (entries (accStorage v)) (oaStateDiff account)) (\<lambda>diff.
           case oldState of
             None \<Rightarrow> Panic nilMapWrite
           | Some m \<Rightarrow>
               mergeState (Some (put k (account\<lparr>oaBalance := accBalance v, oaCode := accCode v,
                 oaNonce := accNonce v, oaStateDiff := diff\<rparr>) m)) newState)))"

section \<open>ProcessState\<close>

fun processEntries ::
    "('db, 'txn, 'x) badger_scheme \<Rightarrow> state \<Rightarrow> 'txn \<Rightarrow> 'txn outcome" where
  "processEntries L [] txn = Ret txn"
| "processEntries L ((k, p) # s) txn =
     andThen (case txGetAccount L k txn of
                Inl err \<Rightarrow> deref p
              | Inr oa \<Rightarrow> andThen (deref p) (\<lambda>v. mergeAccount oa v))
       (\<lambda>v. processEntries L s (fst (txUpdateAccount L k v txn)))"

fun processTraces ::
    "('db, 'txn, 'x) badger_scheme \<Rightarrow> prestateTrace traceBlock \<Rightarrow> 'txn \<Rightarrow> 'txn outcome" where
  "processTraces L [] txn = Ret txn"
| "processTraces L (p # s) txn =
     andThen (deref p) (\<lambda>tr.
     andThen (deref (ttResult tr)) (\<lambda>result.
     andThen (processEntries L (ptPre result) txn) (\<lambda>txn1.
     andThen (processEntries L (ptPost result) txn1) (\<lambda>txn2.
     processTraces L s txn2))))"

definition ProcessState ::
    "('db, 'txn, 'x) badger_scheme \<Rightarrow> 'db \<Rightarrow> prestateTrace traceBlock
      \<Rightarrow> ('db \<times> error option) outcome" where
  "ProcessState L db s =
     dbUpdate L db (\<lambda>txn. andThen (processTraces L s txn) (\<lambda>txn'. Ret (txn', None)))"

section \<open>The specification\<close>

text \<open>An account with its storage as a function, and what merging does to it.\<close>

record acctView =
  vBalance :: "int option"
  vCode :: "byte list option"
  vNonce :: "u64 option"
  vStorage :: "hash \<Rightarrow> hash option"

definition view_of :: "account \<Rightarrow> acctView" where
  "view_of a = \<lparr>vBalance = accBalance a, vCode = accCode a, vNonce = accNonce a,
     vStorage = map_of (entries (accStorage a))\<rparr>"

fun override :: "'a option \<Rightarrow> 'a option \<Rightarrow> 'a option" where
  "override old None = old"
| "override old (Some x) = Some x"

definition mergeView :: "acctView \<Rightarrow> acctView \<Rightarrow> acctView" where
  "mergeView o1 n = \<lparr>vBalance = override (vBalance o1) (vBalance n),
     vCode = override (vCode o1) (vCode n),
     vNonce = override (vNonce o1) (vNonce n),
     vStorage = vStorage o1 ++ vStorage n\<rparr>"

definition normView :: "acctView \<Rightarrow> acctView" where
  "normView v = v\<lparr>vCode := (if vCode v = Some [] then None else vCode v),
     vNonce := (if vNonce v = Some 0 then None else vNonce v)\<rparr>"

definition specEntry :: "acctView option \<Rightarrow> account \<Rightarrow> acctView" where
  "specEntry m n = normView (case m of None \<Rightarrow> view_of n | Some o1 \<Rightarrow> mergeView o1 (view_of n))"

definition specEntries ::
    "state \<Rightarrow> (address \<Rightarrow> acctView option) \<Rightarrow> address \<Rightarrow> acctView option" where
  "specEntries s m a = (case map_of s a of Some (Some n) \<Rightarrow> Some (specEntry (m a) n) | _ \<Rightarrow> m a)"

fun specBlock ::
    "prestateTrace traceBlock \<Rightarrow> (address \<Rightarrow> acctView option) \<Rightarrow> address \<Rightarrow> acctView option" where
  "specBlock [] m = m"
| "specBlock (Some tr # s) m =
     (case ttResult tr of
        None \<Rightarrow> m
      | Some result \<Rightarrow> specBlock s (specEntries (ptPost result) (specEntries (ptPre result) m)))"
| "specBlock (None # s) m = m"

text \<open>What is true of a decoded block: its maps have one entry per key.\<close>

definition okState :: "state \<Rightarrow> bool" where
  "okState s \<longleftrightarrow> is_gomap s \<and>
     (\<forall>(k, p) \<in> set s. case p of None \<Rightarrow> True | Some v \<Rightarrow> is_gomap (entries (accStorage v)))"

definition okBlock :: "prestateTrace traceBlock \<Rightarrow> bool" where
  "okBlock s \<longleftrightarrow> (\<forall>tr \<in> set s. case tr of None \<Rightarrow> True | Some t \<Rightarrow>
     (case ttResult t of None \<Rightarrow> True | Some r \<Rightarrow> okState (ptPre r) \<and> okState (ptPost r)))"

text \<open>The block has no \<open>nil\<close> pointer: every trace has a result and every account is there.\<close>

definition noNilState :: "state \<Rightarrow> bool" where
  "noNilState s \<longleftrightarrow> (\<forall>(k, p) \<in> set s. p \<noteq> None)"

definition noNilBlock :: "prestateTrace traceBlock \<Rightarrow> bool" where
  "noNilBlock s \<longleftrightarrow> (\<forall>tr \<in> set s. case tr of None \<Rightarrow> False | Some t \<Rightarrow>
     (case ttResult t of None \<Rightarrow> False | Some r \<Rightarrow> noNilState (ptPre r) \<and> noNilState (ptPost r)))"

section \<open>Merging: lemmas\<close>

lemma mergeAccount_returns:
  "accStorage o1 \<noteq> None \<Longrightarrow> returns (mergeAccount o1 n)"
  by (auto simp: mergeAccount_def Let_def split: option.split)

lemma mergeAccount_view:
  assumes "mergeAccount o1 n = Ret a" and "accStorage o1 \<noteq> None"
    and "is_gomap (entries (accStorage n))"
  shows "view_of a = mergeView (view_of o1) (view_of n)"
  using assms
  by (cases "accBalance n"; cases "accCode n"; cases "accNonce n")
    (auto simp: mergeAccount_def Let_def view_of_def mergeView_def map_of_put_all)

lemma view_of_normAccount: "view_of (normAccount a) = normView (view_of a)"
  by (auto simp: view_of_def normView_def split: option.split)

definition storedView :: "'x geth_scheme \<Rightarrow> content \<Rightarrow> address \<Rightarrow> acctView option" where
  "storedView G c a = map_option view_of (stored G c a)"

lemma storedView_update [simp]:
  assumes "geth_laws G"
  shows "storedView G (c(addrBytes G a \<mapsto> gobEncode (toAccountMarshaling acc))) =
    (storedView G c)(a \<mapsto> normView (view_of acc))"
  by (auto simp: storedView_def fun_eq_iff geth_laws.stored_update [OF assms] view_of_normAccount)

lemma specEntries_Nil [simp]: "specEntries [] m = m"
  by (simp add: specEntries_def fun_eq_iff)

lemma specEntries_Cons:
  assumes "map_of s k = None"
  shows "specEntries ((k, Some v) # s) m = specEntries s (m(k \<mapsto> specEntry (m k) v))"
  using assms by (auto simp: specEntries_def fun_eq_iff split: option.split)

lemma okState_Cons [simp]:
  "okState ((k, p) # s) \<longleftrightarrow> map_of s k = None \<and> okState s \<and>
     (case p of None \<Rightarrow> True | Some v \<Rightarrow> is_gomap (entries (accStorage v)))"
  by (auto simp: okState_def)

lemma noNilState_simps [simp]:
  "noNilState []" "noNilState ((k, p) # s) \<longleftrightarrow> p \<noteq> None \<and> noNilState s"
  by (auto simp: noNilState_def)

lemma noNilBlock_simps [simp]:
  "noNilBlock []"
  "noNilBlock (p # s) \<longleftrightarrow> (\<exists>t r. p = Some t \<and> ttResult t = Some r \<and>
     noNilState (ptPre r) \<and> noNilState (ptPost r)) \<and> noNilBlock s"
  by (auto simp: noNilBlock_def split: option.splits)

lemma okBlock_Cons [simp]:
  "okBlock (Some t # s) \<longleftrightarrow> (case ttResult t of None \<Rightarrow> True
     | Some r \<Rightarrow> okState (ptPre r) \<and> okState (ptPost r)) \<and> okBlock s"
  by (auto simp: okBlock_def)

text \<open>The value written for one entry.\<close>

definition entryValue :: "account option \<Rightarrow> account option \<Rightarrow> account outcome" where
  "entryValue old p =
     (case old of None \<Rightarrow> deref p | Some oa \<Rightarrow> andThen (deref p) (\<lambda>v. mergeAccount oa v))"

fun hasStorage :: "account option \<Rightarrow> bool" where
  "hasStorage None = True"
| "hasStorage (Some a) = (accStorage a \<noteq> None)"

lemma entryValue_returns:
  "hasStorage old \<Longrightarrow> returns (entryValue old p) \<longleftrightarrow> p \<noteq> None"
  by (cases old) (auto simp: entryValue_def mergeAccount_returns)

lemma entryValue_view:
  assumes "entryValue old (Some v) = Ret a" and "hasStorage old"
    and "is_gomap (entries (accStorage v))"
  shows "normView (view_of a) = specEntry (map_option view_of old) v"
  using assms mergeAccount_view [of _ v a]
  by (cases old) (auto simp: entryValue_def specEntry_def)

context badger_store
begin

lemma processEntries_Cons:
  assumes "wfContent (seen txn)"
  shows "processEntries L ((k, p) # s) txn =
    andThen (entryValue (stored L (seen txn) k) p)
      (\<lambda>v. processEntries L s (fst (txUpdateAccount L k v txn)))"
  using assms by (simp add: txGetAccount_stored entryValue_def split: option.split)

lemma stored_storage:
  "wfContent c \<Longrightarrow> hasStorage (stored L c a)"
  by (cases "stored L c a") (auto dest: stored_normal normal_storage)

lemma processEntries_returns:
  "wfContent (seen txn) \<Longrightarrow> returns (processEntries L s txn) \<longleftrightarrow> noNilState s"
proof (induction s arbitrary: txn)
  case Nil
  then show ?case by simp
next
  case (Cons kp s)
  obtain k p where kp: "kp = (k, p)" by (cases kp)
  have "returns (entryValue (stored L (seen txn) k) p) \<longleftrightarrow> p \<noteq> None"
    by (rule entryValue_returns) (rule stored_storage [OF Cons.prems])
  moreover have "returns (processEntries L s (fst (txUpdateAccount L k v txn))) \<longleftrightarrow> noNilState s" for v
    by (rule Cons.IH) (rule txUpdateAccount_wf [OF Cons.prems])
  ultimately show ?case
    by (simp add: kp processEntries_Cons [OF Cons.prems] returns_andThen_const
        del: processEntries.simps returns_andThen)
qed

lemma processEntries_wf:
  "wfContent (seen txn) \<Longrightarrow> processEntries L s txn = Ret txn' \<Longrightarrow> wfContent (seen txn')"
proof (induction s arbitrary: txn)
  case Nil
  then show ?case by simp
next
  case (Cons kp s)
  obtain k p where kp: "kp = (k, p)" by (cases kp)
  from Cons.prems obtain v where "processEntries L s (fst (txUpdateAccount L k v txn)) = Ret txn'"
    by (auto simp: kp processEntries_Cons andThen_Ret_iff simp del: processEntries.simps)
  then show ?case by (rule Cons.IH [OF txUpdateAccount_wf [OF Cons.prems(1)]])
qed

lemma processTraces_returns:
  "wfContent (seen txn) \<Longrightarrow> returns (processTraces L s txn) \<longleftrightarrow> noNilBlock s"
proof (induction s arbitrary: txn)
  case Nil
  then show ?case by simp
next
  case (Cons p s)
  show ?case
  proof (cases "\<exists>t r. p = Some t \<and> ttResult t = Some r")
    case False
    then show ?thesis by auto
  next
    case True
    then obtain t r where p: "p = Some t" "ttResult t = Some r" by blast
    have 1: "(\<exists>t1. processEntries L (ptPre r) txn = Ret t1) \<longleftrightarrow> noNilState (ptPre r)"
      using processEntries_returns [OF Cons.prems] by (simp add: returns_iff)
    have 2: "(\<exists>t2. processEntries L (ptPost r) t1 = Ret t2) \<longleftrightarrow> noNilState (ptPost r)"
      if "processEntries L (ptPre r) txn = Ret t1" for t1
      using processEntries_returns [OF processEntries_wf [OF Cons.prems that]]
      by (simp add: returns_iff)
    have 3: "returns (processTraces L s t2) \<longleftrightarrow> noNilBlock s"
      if "processEntries L (ptPre r) txn = Ret t1" and "processEntries L (ptPost r) t1 = Ret t2"
      for t1 t2
      by (rule Cons.IH) (rule processEntries_wf [OF processEntries_wf [OF Cons.prems that(1)] that(2)])
    have "returns (processTraces L (p # s) txn) \<longleftrightarrow>
      (\<exists>t1. processEntries L (ptPre r) txn = Ret t1 \<and>
        (\<exists>t2. processEntries L (ptPost r) t1 = Ret t2 \<and> noNilBlock s))"
      by (simp add: p) (use 3 in blast)
    also have "\<dots> \<longleftrightarrow> noNilBlock (p # s)" using 1 2 by (simp add: p) blast
    finally show ?thesis .
  qed
qed

lemma processTraces_wf:
  "wfContent (seen txn) \<Longrightarrow> processTraces L s txn = Ret txn' \<Longrightarrow> wfContent (seen txn')"
proof (induction s arbitrary: txn)
  case Nil
  then show ?case by simp
next
  case (Cons p s)
  then show ?case by (auto simp: andThen_Ret_iff) (meson processEntries_wf)
qed

lemma ProcessState_returns:
  "wfContent (content db) \<Longrightarrow> returns (ProcessState L db s) \<longleftrightarrow> noNilBlock s"
  using processTraces_returns [of "snapshot db" s]
  by (simp add: ProcessState_def returns_update seen_snapshot) (simp add: returns_iff)

lemma ProcessState_wf:
  assumes "wfContent (content db)" and "ProcessState L db s = Ret (db', r)"
  shows "wfContent (content db')"
  using assms(2) unfolding ProcessState_def
proof (rule updateE)
  fix txn e
  assume "andThen (processTraces L s (snapshot db)) (\<lambda>txn'. Ret (txn', None)) = Ret (txn, e)"
    and "content db' = (if r = None then seen txn else content db)"
  with assms(1) processTraces_wf [of "snapshot db" s txn] show ?thesis
    by (auto simp: andThen_Ret_iff seen_snapshot)
qed

end

context badger_ample
begin

lemma processEntries_view:
  "wfContent (seen txn) \<Longrightarrow> okState s \<Longrightarrow> processEntries L s txn = Ret txn' \<Longrightarrow>
     storedView L (seen txn') = specEntries s (storedView L (seen txn))"
proof (induction s arbitrary: txn)
  case Nil
  then show ?case by simp
next
  case (Cons kp s)
  obtain k p where kp: "kp = (k, p)" by (cases kp)
  from Cons.prems obtain a where a: "entryValue (stored L (seen txn) k) p = Ret a"
    and rest: "processEntries L s (fst (txUpdateAccount L k a txn)) = Ret txn'"
    by (auto simp: kp processEntries_Cons andThen_Ret_iff simp del: processEntries.simps)
  note st = stored_storage [OF Cons.prems(1), of k]
  from a entryValue_returns [OF st, of p] obtain v where p: "p = Some v" by auto
  from Cons.prems(2) have ok: "okState s" "map_of s k = None" "is_gomap (entries (accStorage v))"
    by (auto simp: kp p)
  obtain txn1 where txn1: "txUpdateAccount L k a txn = (txn1, None)"
    and "seen txn1 = (seen txn)(addrBytes L k \<mapsto> gobEncode (toAccountMarshaling a))"
    using txUpdateAccount_ample by blast
  then have "storedView L (seen txn1) =
      (storedView L (seen txn))(k \<mapsto> specEntry (storedView L (seen txn) k) v)"
    using entryValue_view [OF a [unfolded p] st ok(3)] geth_laws_axioms by (simp add: storedView_def)
  moreover have "storedView L (seen txn') = specEntries s (storedView L (seen txn1))"
    using Cons.IH [of txn1] rest txn1 ok(1) txUpdateAccount_wf [OF Cons.prems(1), of k a] by simp
  ultimately show ?case by (simp add: kp p specEntries_Cons ok(2))
qed

lemma processTraces_view:
  "wfContent (seen txn) \<Longrightarrow> okBlock s \<Longrightarrow> processTraces L s txn = Ret txn' \<Longrightarrow>
     storedView L (seen txn') = specBlock s (storedView L (seen txn))"
proof (induction s arbitrary: txn)
  case Nil
  then show ?case by simp
next
  case (Cons p s)
  then obtain t r t1 t2 where p: "p = Some t" "ttResult t = Some r"
    and t1: "processEntries L (ptPre r) txn = Ret t1"
    and t2: "processEntries L (ptPost r) t1 = Ret t2"
    and rest: "processTraces L s t2 = Ret txn'"
    by (auto simp: andThen_Ret_iff)
  from Cons.prems(2) have ok: "okState (ptPre r)" "okState (ptPost r)" "okBlock s"
    by (simp_all add: p)
  note wf1 = processEntries_wf [OF Cons.prems(1) t1]
  note wf2 = processEntries_wf [OF wf1 t2]
  show ?case
    using Cons.IH [OF wf2 ok(3) rest] processEntries_view [OF Cons.prems(1) ok(1) t1]
      processEntries_view [OF wf1 ok(2) t2] by (simp add: p)
qed

lemma ProcessState_view:
  assumes "wfContent (content db)" and "okBlock s" and "noNilBlock s"
  shows "\<exists>db'. ProcessState L db s = Ret (db', None) \<and>
    storedView L (content db') = specBlock s (storedView L (content db))"
proof -
  from assms(1,3) obtain txn where txn: "processTraces L s (snapshot db) = Ret txn"
    using processTraces_returns [of "snapshot db" s] by (auto simp: seen_snapshot returns_iff)
  from commit_granted [of "\<lambda>txn. andThen (processTraces L s txn) (\<lambda>txn'. Ret (txn', None))" db txn]
    processTraces_view [OF _ assms(2) txn] assms(1)
  show ?thesis by (auto simp: txn ProcessState_def seen_snapshot)
qed

end

section \<open>Stores the program can reach\<close>

text \<open>
  A store starts empty and changes by the operations of \<open>BadgerKV\<close> only. Every store reached
  that way is well-formed, so the writes to its maps never meet a \<open>nil\<close> map.
\<close>

inductive kvStep :: "('db, 'txn, 'x) badger_scheme \<Rightarrow> 'db \<Rightarrow> 'db \<Rightarrow> bool"
  for L where
  account: "kvUpdateAccount L db a acc = Ret (db', e) \<Longrightarrow> kvStep L db db'"
| slot: "kvUpdateStorage L db a key v = Ret (db', e) \<Longrightarrow> kvStep L db db'"
| code: "kvUpdateContractCode L db a h c = Ret (db', e) \<Longrightarrow> kvStep L db db'"
| block: "ProcessState L db s = Ret (db', e) \<Longrightarrow> kvStep L db db'"

inductive kvReachable :: "('db, 'txn, 'x) badger_scheme \<Rightarrow> 'db \<Rightarrow> bool"
  for L where
  start: "NewBadgerKV L = Ret db \<Longrightarrow> kvReachable L db"
| step: "kvReachable L db \<Longrightarrow> kvStep L db db' \<Longrightarrow> kvReachable L db'"

inductive_cases kvStepE: "kvStep L db db'"

context badger_store
begin

lemma kvStep_wf: "kvStep L db db' \<Longrightarrow> wfContent (content db) \<Longrightarrow> wfContent (content db')"
  by (erule kvStepE) (blast intro: kv_wf ProcessState_wf)+

lemma kvReachable_wf: "kvReachable L db \<Longrightarrow> wfContent (content db)"
  by (induction rule: kvReachable.induct) (auto simp: NewBadgerKV_content intro: kvStep_wf)

end

section \<open>Blocks that differ in the order of their maps\<close>

definition stateView :: "state \<Rightarrow> address \<Rightarrow> acctView option" where
  "stateView s a = (case map_of s a of Some (Some n) \<Rightarrow> Some (view_of n) | _ \<Rightarrow> None)"

fun sameTrace :: "prestateTrace txTraceResult option \<Rightarrow> prestateTrace txTraceResult option \<Rightarrow> bool" where
  "sameTrace (Some t) (Some u) =
     (case (ttResult t, ttResult u) of
        (Some r, Some q) \<Rightarrow> stateView (ptPre r) = stateView (ptPre q) \<and>
          stateView (ptPost r) = stateView (ptPost q)
      | _ \<Rightarrow> False)"
| "sameTrace _ _ = False"

lemma specEntries_view:
  "specEntries s m a = (case stateView s a of
     None \<Rightarrow> m a
   | Some v \<Rightarrow> Some (normView (case m a of None \<Rightarrow> v | Some o1 \<Rightarrow> mergeView o1 v)))"
  by (simp add: specEntries_def stateView_def specEntry_def split: option.split)

lemma specEntries_same: "stateView s = stateView t \<Longrightarrow> specEntries s m = specEntries t m"
  by (simp add: fun_eq_iff specEntries_view)

lemma specBlock_same: "list_all2 sameTrace s t \<Longrightarrow> specBlock s m = specBlock t m"
proof (induction s t arbitrary: m rule: list_all2_induct)
  case Nil
  then show ?case by simp
next
  case (Cons x s y t)
  from Cons.hyps(1) obtain u v r q where "x = Some u" "y = Some v" "ttResult u = Some r"
    "ttResult v = Some q" "stateView (ptPre r) = stateView (ptPre q)"
    "stateView (ptPost r) = stateView (ptPost q)"
    by (cases "(x, y)" rule: sameTrace.cases) (auto split: option.splits)
  with Cons.IH specEntries_same [of "ptPre r" "ptPre q"] specEntries_same [of "ptPost r" "ptPost q"]
  show ?case by simp
qed

section \<open>mergeState in closed form\<close>

definition mergeOverride :: "overrideAccount option \<Rightarrow> account \<Rightarrow> overrideAccount" where
  "mergeOverride old v =
     (let acc = (case old of None \<Rightarrow> zeroOverride\<lparr>oaStateDiff := Some []\<rparr> | Some acc \<Rightarrow> acc)
      in acc\<lparr>oaBalance := accBalance v, oaCode := accCode v, oaNonce := accNonce v,
             oaStateDiff := map_option (put_all (entries (accStorage v))) (oaStateDiff acc)\<rparr>)"

definition okOverride :: "stateOverride \<Rightarrow> bool" where
  "okOverride m \<longleftrightarrow> (\<forall>k acc. map_of m k = Some acc \<longrightarrow> oaStateDiff acc \<noteq> None)"

lemma okOverride_put: "okOverride m \<Longrightarrow> okOverride (put k (mergeOverride (map_of m k) v) m)"
  by (auto simp: okOverride_def mergeOverride_def split: option.split)

lemma mergeState_Cons:
  assumes "okOverride m"
  shows "mergeState (Some m) ((k, Some v) # new) =
    mergeState (Some (put k (mergeOverride (map_of m k) v) m)) new"
proof -
  have "oaStateDiff (case map_of m k of None \<Rightarrow> zeroOverride\<lparr>oaStateDiff := Some []\<rparr>
      | Some acc \<Rightarrow> acc) \<noteq> None"
    using assms by (auto simp: okOverride_def split: option.split)
  then show ?thesis by (auto simp: mergeOverride_def Let_def)
qed

lemma mergeState_closed:
  "okOverride m \<Longrightarrow> is_gomap new \<Longrightarrow> noNilState new \<Longrightarrow>
     \<exists>m'. mergeState (Some m) new = Ret (Some m') \<and>
       (\<forall>k. map_of m' k = (case map_of new k of
          Some (Some v) \<Rightarrow> Some (mergeOverride (map_of m k) v) | _ \<Rightarrow> map_of m k))"
proof (induction new arbitrary: m)
  case Nil
  then show ?case by simp
next
  case (Cons kp new)
  from Cons.prems(3) obtain k v where kp: "kp = (k, Some v)" by (cases kp) auto
  with Cons.prems have none: "map_of new k = None" and "is_gomap new" "noNilState new" by simp_all
  with Cons.IH [OF okOverride_put [OF Cons.prems(1)]] obtain m' where
    "mergeState (Some (put k (mergeOverride (map_of m k) v) m)) new = Ret (Some m')"
    and "\<And>j. map_of m' j = (case map_of new j of
      Some (Some u) \<Rightarrow> Some (mergeOverride (map_of (put k (mergeOverride (map_of m k) v) m) j) u)
    | _ \<Rightarrow> map_of (put k (mergeOverride (map_of m k) v) m) j)" by blast
  with none Cons.prems(1) show ?case
    by (auto simp: kp mergeState_Cons simp del: mergeState.simps split: option.splits)
qed

section \<open>A trace for the examples\<close>

definition memTrace :: "prestateTrace traceBlock" where
  "memTrace =
     [Some \<lparr>ttTxHash = 1,
        ttResult = Some
          \<lparr>ptPost = [(1, Some \<lparr>accBalance = Some 90, accCode = None, accNonce = Some 6,
             accStorage = Some [(2, 30)]\<rparr>)],
           ptPre = [(1, Some \<lparr>accBalance = Some 100, accCode = None, accNonce = Some 5,
             accStorage = Some [(2, 20), (3, 33)]\<rparr>)]\<rparr>,
        ttError = []\<rparr>]"

lemma memTrace_sound: "okBlock memTrace \<and> noNilBlock memTrace"
  by (simp add: memTrace_def okBlock_def okState_def noNilState_def)

end
