(* ===== verification/StateDB.thy ===== *)
theory StateDB
  imports TraceMerge
begin

text \<open>
  The state database of \<open>w3backend/db.go\<close>: a read-through cache that answers from the account
  store and falls back to a fetcher. \<open>fetcher\<close> is the interface \<open>Fetcher\<close> of
  \<open>fetcher/rpc.go\<close> (equal to \<open>w3vm.Fetcher\<close>); its methods act on a state \<open>'w\<close> of the remote
  side, so that a call may have effects and its answers may change over time. The methods
  of \<open>db\<close> act on the pair of the store and that state.

  \<open>chain_fetcher\<close> is the interface between the two: a fetcher that, when it answers, answers
  for one fixed state of the chain. Under it the cache is transparent as long as the store
  is \<open>coherent\<close> with the chain.
\<close>

section \<open>The fetcher interface\<close>

record 'w fetcher =
  fNonce :: "address \<Rightarrow> 'w \<Rightarrow> ((error + u64) \<times> 'w) outcome"
  fBalance :: "address \<Rightarrow> 'w \<Rightarrow> ((error + int) \<times> 'w) outcome"
  fCode :: "address \<Rightarrow> 'w \<Rightarrow> ((error + byte list) \<times> 'w) outcome"
  fStorageAt :: "address \<Rightarrow> hash \<Rightarrow> 'w \<Rightarrow> ((error + hash) \<times> 'w) outcome"
  fHeaderHash :: "int option \<Rightarrow> 'w \<Rightarrow> ((error + hash) \<times> 'w) outcome"

section \<open>The methods of db\<close>

abbreviation errNotFound :: error where
  "errNotFound \<equiv> Errorf ''not found''"

record stateAccount =
  saNonce :: u64
  saBalance :: int
  saRoot :: hash
  saCodeHash :: "byte list"

definition dbContractCode ::
    "('kv, 'txn, 'x) badger_scheme \<Rightarrow> 'w fetcher option \<Rightarrow> address \<Rightarrow> hash \<Rightarrow> 'kv \<times> 'w
      \<Rightarrow> ((error + byte list) \<times> 'kv \<times> 'w) outcome" where
  "dbContractCode L f addr codeHash s =
     (case f of
        None \<Rightarrow> Ret (Inr [], s)
      | Some fetcher \<Rightarrow>
          (case kvContractCode L (fst s) addr codeHash of
             Inr code \<Rightarrow> Ret (Inr code, s)
           | Inl _ \<Rightarrow>
               callThen (fCode fetcher addr (snd s))
                 (\<lambda>_ w. Ret (Inl errNotFound, fst s, w))
                 (\<lambda>code w. andThen (kvUpdateContractCode L (fst s) addr codeHash code)
                    (\<lambda>(kv, _). Ret (Inr code, kv, w)))))"

definition dbContractCodeSize ::
    "('kv, 'txn, 'x) badger_scheme \<Rightarrow> 'w fetcher option \<Rightarrow> address \<Rightarrow> hash \<Rightarrow> 'kv \<times> 'w
      \<Rightarrow> ((error + nat) \<times> 'kv \<times> 'w) outcome" where
  "dbContractCodeSize L f addr codeHash s =
     callThen (dbContractCode L f addr codeHash s)
       (\<lambda>err s'. Ret (Inl err, s'))
       (\<lambda>code s'. Ret (Inr (length code), s'))"

definition dbGetStorage ::
    "('kv, 'txn, 'x) badger_scheme \<Rightarrow> 'w fetcher option \<Rightarrow> address \<Rightarrow> byte list \<Rightarrow> 'kv \<times> 'w
      \<Rightarrow> ((error + byte list) \<times> 'kv \<times> 'w) outcome" where
  "dbGetStorage L f addr key s =
     (case f of
        None \<Rightarrow> Ret (Inr [], s)
      | Some fetcher \<Rightarrow>
          (case kvGetStorage L (fst s) addr key of
             Inr v \<Rightarrow> Ret (Inr (hashBytes L v), s)
           | Inl _ \<Rightarrow>
               callThen (fStorageAt fetcher addr (bytesToHash L key) (snd s))
                 (\<lambda>err w. Ret (Inl err, fst s, w))
                 (\<lambda>storageVal w.
                    andThen (kvUpdateStorage L (fst s) addr key (hashBytes L storageVal))
                      (\<lambda>(kv, _). Ret (Inr (hashBytes L storageVal), kv, w)))))"

text \<open>\<open>GetAccount\<close> answers from a complete entry; otherwise it fetches and stores the account.\<close>

definition fetchStateAccount ::
    "('kv, 'txn, 'x) badger_scheme \<Rightarrow> 'w fetcher \<Rightarrow> address \<Rightarrow> 'kv \<times> 'w
      \<Rightarrow> ((error + stateAccount) \<times> 'kv \<times> 'w) outcome" where
  "fetchStateAccount L fetcher addr s =
     callThen (fNonce fetcher addr (snd s)) (\<lambda>err w. Ret (Inl err, fst s, w)) (\<lambda>nonce w1.
     callThen (fBalance fetcher addr w1) (\<lambda>err w. Ret (Inl err, fst s, w)) (\<lambda>balance w2.
     callThen (fCode fetcher addr w2) (\<lambda>err w. Ret (Inl err, fst s, w)) (\<lambda>code w3.
     andThen (kvUpdateAccount L (fst s) addr
         \<lparr>accBalance = Some balance, accCode = Some code, accNonce = Some nonce, accStorage = None\<rparr>)
       (\<lambda>(kv, _). Ret (Inr
         \<lparr>saNonce = nonce, saBalance = balance, saRoot = 0,
          saCodeHash = (if length code = 0 then emptyCodeHash L else keccak256 L code)\<rparr>, kv, w3)))))"

definition dbGetAccount ::
    "('kv, 'txn, 'x) badger_scheme \<Rightarrow> 'w fetcher option \<Rightarrow> address \<Rightarrow> 'kv \<times> 'w
      \<Rightarrow> ((error + stateAccount) \<times> 'kv \<times> 'w) outcome" where
  "dbGetAccount L f addr s =
     (case f of
        None \<Rightarrow> Ret (Inr \<lparr>saNonce = 0, saBalance = 0, saRoot = 0, saCodeHash = emptyCodeHash L\<rparr>, s)
      | Some fetcher \<Rightarrow>
          (case kvGetAccount L (fst s) addr of
             Inl _ \<Rightarrow> fetchStateAccount L fetcher addr s
           | Inr account \<Rightarrow>
               (case (accNonce account, accBalance account) of
                  (Some nonce, Some balance) \<Rightarrow>
                    Ret (Inr \<lparr>saNonce = nonce, saBalance = balance, saRoot = 0,
                           saCodeHash = hashBytes L (CodeHash L account)\<rparr>, s)
                | _ \<Rightarrow> fetchStateAccount L fetcher addr s)))"

definition dbUpdateStorage ::
    "('kv, 'txn, 'x) badger_scheme \<Rightarrow> address \<Rightarrow> byte list \<Rightarrow> byte list \<Rightarrow> 'kv \<times> 'w
      \<Rightarrow> (error option \<times> 'kv \<times> 'w) outcome" where
  "dbUpdateStorage L addr key value s =
     andThen (kvUpdateStorage L (fst s) addr key value) (\<lambda>(kv, err). Ret (err, kv, snd s))"

text \<open>The other methods of the two interfaces: the tries are the database itself, the rest panics.\<close>

datatype openMethod = OpenTrie | OpenStorageTrie | CopyTrie

fun dbOpenMethod :: "openMethod \<Rightarrow> 'd \<Rightarrow> 'd outcome" where
  "dbOpenMethod OpenTrie db = Ret db"
| "dbOpenMethod OpenStorageTrie db = Ret db"
| "dbOpenMethod CopyTrie db = notImplemented"

datatype diskMethod = DiskDB | TrieDB | GetKey

fun dbDiskMethod :: "diskMethod \<Rightarrow> 'd \<Rightarrow> 'd outcome" where
  "dbDiskMethod DiskDB db = notImplemented"
| "dbDiskMethod TrieDB db = notImplemented"
| "dbDiskMethod GetKey db = notImplemented"

datatype trieMethod =
    UpdateAccount | UpdateContractCode | DeleteStorage | DeleteAccount | HashTrie | Commit
  | NodeIterator | Prove

fun dbTrieMethod :: "trieMethod \<Rightarrow> 'd \<Rightarrow> 'd outcome" where
  "dbTrieMethod UpdateAccount db = notImplemented"
| "dbTrieMethod UpdateContractCode db = notImplemented"
| "dbTrieMethod DeleteStorage db = notImplemented"
| "dbTrieMethod DeleteAccount db = notImplemented"
| "dbTrieMethod HashTrie db = notImplemented"
| "dbTrieMethod Commit db = notImplemented"
| "dbTrieMethod NodeIterator db = notImplemented"
| "dbTrieMethod Prove db = notImplemented"

section \<open>What a read leaves alone\<close>

text \<open>
  \<open>framed_fetcher\<close>: the fetcher's methods keep a property of the remote side. A read of \<open>db\<close>
  then keeps it too, keeps the store well-formed, and touches the entry of its own address
  only.
\<close>

locale framed_fetcher =
  fixes f :: "'w fetcher" and keep :: "'w \<Rightarrow> bool"
  assumes keep_nonce: "keep w \<Longrightarrow> fNonce f a w = Ret (rn, w') \<Longrightarrow> keep w'"
    and keep_balance: "keep w \<Longrightarrow> fBalance f a w = Ret (rb, w') \<Longrightarrow> keep w'"
    and keep_code: "keep w \<Longrightarrow> fCode f a w = Ret (rc, w') \<Longrightarrow> keep w'"
    and keep_storage: "keep w \<Longrightarrow> fStorageAt f a k w = Ret (rs, w') \<Longrightarrow> keep w'"
begin

lemmas keeps = keep_nonce [rotated] keep_balance [rotated] keep_code [rotated] keep_storage [rotated]

end

locale framed_db = badger_store + framed_fetcher
begin

definition frame :: "address \<Rightarrow> 'a \<Rightarrow> 'a \<times> 'd \<Rightarrow> bool" where
  "frame a kv s \<longleftrightarrow> keep (snd s) \<and> wfContent (content (fst s)) \<and>
     (\<forall>b. b \<noteq> a \<longrightarrow> stored L (content (fst s)) b = stored L (content kv) b)"

lemma fetchStateAccount_frame:
  assumes "wfContent (content kv)" and "keep w"
    and "fetchStateAccount L f a (kv, w) = Ret (r, s')"
  shows "frame a kv s'"
proof -
  have "keep (snd s')"
    using assms(2,3)
    by (auto simp: fetchStateAccount_def callThen_Ret_iff andThen_Ret_iff split: prod.splits)
      (blast intro: keeps)+
  with assms(1,3) show ?thesis
    by (auto simp: fetchStateAccount_def frame_def callThen_Ret_iff andThen_Ret_iff
        dest: kvUpdateAccount_wf kvUpdateAccount_frame split: prod.splits)
qed

lemma dbGetAccount_frame:
  assumes "wfContent (content kv)" and "keep w" and "dbGetAccount L (Some f) a (kv, w) = Ret (r, s')"
  shows "frame a kv s'"
  using assms fetchStateAccount_frame [OF assms(1,2), of a r s']
  by (auto simp: dbGetAccount_def frame_def split: sum.splits option.splits)

lemma dbGetStorage_frame:
  assumes "wfContent (content kv)" and "keep w"
    and "dbGetStorage L (Some f) a key (kv, w) = Ret (r, s')"
  shows "frame a kv s'"
  using assms
  by (auto simp: dbGetStorage_def frame_def callThen_Ret_iff andThen_Ret_iff
      dest: kvUpdateStorage_wf kvUpdateStorage_frame intro: keeps split: sum.splits prod.splits)

lemma dbUpdateStorage_frame:
  assumes "wfContent (content kv)" and "keep w" and "dbUpdateStorage L a key v (kv, w) = Ret (r, s')"
  shows "frame a kv s'"
  using assms
  by (auto simp: dbUpdateStorage_def frame_def andThen_Ret_iff
      dest: kvUpdateStorage_wf kvUpdateStorage_frame split: prod.splits)

lemma dbContractCode_frame:
  assumes "wfContent (content kv)" and "keep w"
    and "dbContractCode L (Some f) a h (kv, w) = Ret (r, s')"
  shows "frame a kv s'"
  using assms
  by (auto simp: dbContractCode_def frame_def callThen_Ret_iff andThen_Ret_iff
      dest: kvUpdateContractCode_wf kvUpdateContractCode_frame intro: keeps
      split: sum.splits prod.splits)

end

end

