(* ===== verification/Coherence.thy ===== *)
theory Coherence
  imports StateDB
begin

text \<open>
  Transparency of the read-through cache. \<open>chain\<close> is the state of the chain at one block: what
  a fetcher is supposed to answer. A store is \<open>coherent\<close> with a chain when every field and
  slot it holds is the chain's; a missing code stands for empty code, because the codec does
  not keep empty code. Inside \<open>chain_fetcher\<close> every read of \<open>db\<close> that answers, answers the
  chain's value and keeps the store coherent; \<open>ProcessState\<close> takes a store that is coherent
  with a block to one that is coherent with the next, when the traces describe the step, up
  to the slots and accounts that the block clears, which the merge leaves as they were.
\<close>

section \<open>The chain and coherence with it\<close>

record chainAccount =
  chNonce :: u64
  chBalance :: int
  chCode :: "byte list"
  chStorage :: "hash \<Rightarrow> hash"

type_synonym chain = "address \<Rightarrow> chainAccount"

definition agrees :: "acctView \<Rightarrow> chainAccount \<Rightarrow> bool" where
  "agrees v c \<longleftrightarrow>
     (\<forall>n. vNonce v = Some n \<longrightarrow> n = chNonce c) \<and>
     (\<forall>b. vBalance v = Some b \<longrightarrow> b = chBalance c) \<and>
     (case vCode v of None \<Rightarrow> chCode c = [] | Some code \<Rightarrow> code = chCode c) \<and>
     (\<forall>k x. vStorage v k = Some x \<longrightarrow> x = chStorage c k)"

definition coherent :: "'x geth_scheme \<Rightarrow> content \<Rightarrow> chain \<Rightarrow> bool" where
  "coherent G c chain \<longleftrightarrow> (\<forall>a v. storedView G c a = Some v \<longrightarrow> agrees v (chain a))"

definition chainStateAccount :: "'x geth_scheme \<Rightarrow> chainAccount \<Rightarrow> stateAccount" where
  "chainStateAccount G c =
     \<lparr>saNonce = chNonce c, saBalance = chBalance c, saRoot = 0,
      saCodeHash = (if chCode c = [] then emptyCodeHash G else keccak256 G (chCode c))\<rparr>"

lemma coherent_empty [simp]: "coherent G Map.empty chain"
  by (simp add: coherent_def storedView_def)

lemma coherentD: "coherent G c chain \<Longrightarrow> stored G c a = Some acc \<Longrightarrow> agrees (view_of acc) (chain a)"
  by (simp add: coherent_def storedView_def)

lemma agrees_normView: "agrees v c \<Longrightarrow> agrees (normView v) c"
  by (auto simp: agrees_def normView_def split: option.splits)

lemma agrees_code:
  "agrees v c \<Longrightarrow> chCode c = (case vCode v of None \<Rightarrow> [] | Some code \<Rightarrow> code)"
  by (auto simp: agrees_def split: option.splits)

lemma coherent_update:
  assumes "geth_laws G" and "coherent G c chain" and "agrees (view_of acc) (chain a)"
  shows "coherent G (c(addrBytes G a \<mapsto> gobEncode (toAccountMarshaling acc))) chain"
  using assms by (auto simp: coherent_def agrees_normView)

section \<open>A fetcher of one chain state\<close>

text \<open>\<open>winv\<close> is what the fetcher's methods keep of the remote state and rely on.\<close>

locale chain_fetcher =
  fixes f :: "'w fetcher" and chain :: chain and winv :: "'w \<Rightarrow> bool"
  assumes fetch_nonce: "winv w \<Longrightarrow> fNonce f a w = Ret (Inr n, w') \<Longrightarrow> n = chNonce (chain a)"
    and fetch_balance: "winv w \<Longrightarrow> fBalance f a w = Ret (Inr b, w') \<Longrightarrow> b = chBalance (chain a)"
    and fetch_code: "winv w \<Longrightarrow> fCode f a w = Ret (Inr code, w') \<Longrightarrow> code = chCode (chain a)"
    and fetch_storage: "winv w \<Longrightarrow> fStorageAt f a k w = Ret (Inr v, w') \<Longrightarrow> v = chStorage (chain a) k"
    and fetch_nonce_inv: "winv w \<Longrightarrow> \<exists>r w'. fNonce f a w = Ret (r, w') \<and> winv w'"
    and fetch_balance_inv: "winv w \<Longrightarrow> \<exists>r w'. fBalance f a w = Ret (r, w') \<and> winv w'"
    and fetch_code_inv: "winv w \<Longrightarrow> \<exists>r w'. fCode f a w = Ret (r, w') \<and> winv w'"
    and fetch_storage_inv: "winv w \<Longrightarrow> \<exists>r w'. fStorageAt f a k w = Ret (r, w') \<and> winv w'"
begin

lemma nonceE:
  assumes "winv w"
  obtains e w' where "fNonce f a w = Ret (Inl e, w')" and "winv w'"
  | w' where "fNonce f a w = Ret (Inr (chNonce (chain a)), w')" and "winv w'"
  using fetch_nonce_inv [OF assms, of a] fetch_nonce [OF assms, of a]
  by (metis sumE)

lemma balanceE:
  assumes "winv w"
  obtains e w' where "fBalance f a w = Ret (Inl e, w')" and "winv w'"
  | w' where "fBalance f a w = Ret (Inr (chBalance (chain a)), w')" and "winv w'"
  using fetch_balance_inv [OF assms, of a] fetch_balance [OF assms, of a]
  by (metis sumE)

lemma codeE:
  assumes "winv w"
  obtains e w' where "fCode f a w = Ret (Inl e, w')" and "winv w'"
  | w' where "fCode f a w = Ret (Inr (chCode (chain a)), w')" and "winv w'"
  using fetch_code_inv [OF assms, of a] fetch_code [OF assms, of a]
  by (metis sumE)

lemma storageE:
  assumes "winv w"
  obtains e w' where "fStorageAt f a k w = Ret (Inl e, w')" and "winv w'"
  | w' where "fStorageAt f a k w = Ret (Inr (chStorage (chain a) k), w')" and "winv w'"
  using fetch_storage_inv [OF assms, of a k] fetch_storage [OF assms, of a k]
  by (metis sumE)

end

text \<open>
  What every read establishes: it returns, keeps the remote state and the store in order, and
  an answer is the expected one.
\<close>

definition reads ::
    "('w \<Rightarrow> bool) \<Rightarrow> ('kv \<Rightarrow> bool) \<Rightarrow> 'a \<Rightarrow> ((error + 'a) \<times> 'kv \<times> 'w) outcome \<Rightarrow> bool" where
  "reads winv ok x m \<longleftrightarrow>
     (\<exists>r kv w. m = Ret (r, kv, w) \<and> winv w \<and> ok kv \<and> (r = Inr x \<or> (\<exists>e. r = Inl e)))"

lemma readsI_error: "m = Ret (Inl e, kv, w) \<Longrightarrow> winv w \<Longrightarrow> ok kv \<Longrightarrow> reads winv ok x m"
  and readsI_answer: "m = Ret (Inr x, kv, w) \<Longrightarrow> winv w \<Longrightarrow> ok kv \<Longrightarrow> reads winv ok x m"
  by (auto simp: reads_def)

lemma readsD:
  "reads winv ok x m \<Longrightarrow> m = Ret (r, kv, w) \<Longrightarrow> winv w \<and> ok kv \<and> (\<forall>y. r = Inr y \<longrightarrow> y = x)"
  by (auto simp: reads_def)

lemma reads_returns: "reads winv ok x m \<Longrightarrow> returns m"
  by (auto simp: reads_def)

locale cached_chain = badger_store + chain_fetcher
begin

abbreviation okStore where
  "okStore kv \<equiv> wfContent (content kv) \<and> coherent L (content kv) chain"

lemma kvUpdateStorage_coherent:
  assumes ok: "okStore kv" and "bytesToHash L v = chStorage (chain a) (bytesToHash L key)"
    and run: "kvUpdateStorage L kv a key v = Ret (kv', e)"
  shows "okStore kv'"
proof (cases "stored L (content kv) a")
  case None
  with kvUpdateStorage_missing [of kv a key v kv' e] run ok show ?thesis by simp
next
  case (Some acc)
  with stored_storage [of "content kv" a] ok obtain s where s: "accStorage acc = Some s" by auto
  have "agrees (view_of (acc\<lparr>accStorage :=
      Some (put (bytesToHash L key) (bytesToHash L v) s)\<rparr>)) (chain a)"
    using coherentD [OF conjunct2 [OF ok] Some] assms(2) s
    by (auto simp: agrees_def view_of_def split: option.splits)
  with coherent_update [OF geth_laws_axioms, of "content kv" chain]
    kvUpdateStorage_present [of kv a acc s key v kv' e] kvUpdateStorage_wf [of kv a key v kv' e]
    Some s run ok
  show ?thesis by auto
qed

lemma dbContractCode_reads:
  assumes ok: "okStore kv" and winv: "winv w"
  shows "reads winv (\<lambda>kv'. content kv' = content kv) (chCode (chain a))
    (dbContractCode L (Some f) a h (kv, w))"
proof (cases "stored L (content kv) a")
  case (Some acc)
  with agrees_code [OF coherentD [OF conjunct2 [OF ok] Some]] winv ok show ?thesis
    by (auto intro!: readsI_answer simp: dbContractCode_def kvContractCode_stored view_of_def)
next
  case None
  from winv show ?thesis
  proof (cases rule: codeE [where a = a])
    case (1 e w')
    with None ok show ?thesis
      by (auto intro!: readsI_error simp: dbContractCode_def kvContractCode_stored)
  next
    case (2 w')
    obtain kv' e where "kvUpdateContractCode L kv a h (chCode (chain a)) = Ret (kv', e)"
      using kvUpdateContractCode_returns [of kv a h "chCode (chain a)"] ok by (auto simp: returns_iff)
    with 2 None ok show ?thesis
      by (auto intro!: readsI_answer simp: dbContractCode_def kvContractCode_stored
          dest!: kvUpdateContractCode_missing)
  qed
qed

lemma dbGetStorage_reads:
  assumes ok: "okStore kv" and winv: "winv w"
  shows "reads winv okStore (hashBytes L (chStorage (chain a) (bytesToHash L key)))
    (dbGetStorage L (Some f) a key (kv, w))"
proof (cases "kvGetStorage L kv a key")
  case (Inr x)
  then obtain acc s where "stored L (content kv) a = Some acc" "accStorage acc = Some s"
    "map_of s (bytesToHash L key) = Some x"
    using kvGetStorage_stored ok by blast
  with coherentD ok have "x = chStorage (chain a) (bytesToHash L key)"
    by (fastforce simp: agrees_def view_of_def)
  with Inr ok winv show ?thesis by (auto intro!: readsI_answer simp: dbGetStorage_def)
next
  case (Inl e)
  from winv show ?thesis
  proof (cases rule: storageE [where a = a and k = "bytesToHash L key"])
    case (1 e' w')
    with Inl ok show ?thesis by (auto intro!: readsI_error simp: dbGetStorage_def)
  next
    case (2 w')
    let ?v = "hashBytes L (chStorage (chain a) (bytesToHash L key))"
    obtain kv' err where upd: "kvUpdateStorage L kv a key ?v = Ret (kv', err)"
      using kvUpdateStorage_returns [of kv a key ?v] ok by (auto simp: returns_iff)
    from kvUpdateStorage_coherent [OF ok _ upd] have "okStore kv'"
      by (simp add: bytesToHash_hashBytes)
    with 2 Inl upd show ?thesis by (auto intro!: readsI_answer simp: dbGetStorage_def)
  qed
qed

lemma fetchStateAccount_reads:
  assumes ok: "okStore kv" and winv: "winv w"
  shows "reads winv okStore (chainStateAccount L (chain a)) (fetchStateAccount L f a (kv, w))"
  using winv
proof (cases rule: nonceE [where a = a])
  case (1 e w1)
  with ok show ?thesis by (auto intro!: readsI_error simp: fetchStateAccount_def)
next
  case (2 w1)
  note n = 2
  from n(2) show ?thesis
  proof (cases rule: balanceE [where a = a])
    case (1 e w2)
    with n ok show ?thesis by (auto intro!: readsI_error simp: fetchStateAccount_def)
  next
    case (2 w2)
    note b = 2
    from b(2) show ?thesis
    proof (cases rule: codeE [where a = a])
      case (1 e w3)
      with n b ok show ?thesis by (auto intro!: readsI_error simp: fetchStateAccount_def)
    next
      case (2 w3)
      let ?acc = "\<lparr>accBalance = Some (chBalance (chain a)), accCode = Some (chCode (chain a)),
        accNonce = Some (chNonce (chain a)), accStorage = None\<rparr>"
      obtain kv' err where upd: "kvUpdateAccount L kv a ?acc = Ret (kv', err)"
        using kvUpdateAccount_returns [of kv a ?acc] by (auto simp: returns_iff)
      have "agrees (view_of ?acc) (chain a)" by (simp add: agrees_def view_of_def)
      with coherent_update [OF geth_laws_axioms, of "content kv" chain ?acc a]
        kvUpdateAccount_content [OF upd] kvUpdateAccount_wf [OF upd] ok
      have "okStore kv'" by (auto split: if_splits)
      with n b 2 upd show ?thesis
        by (auto intro!: readsI_answer simp: fetchStateAccount_def chainStateAccount_def)
    qed
  qed
qed

lemma dbGetAccount_reads:
  assumes ok: "okStore kv" and winv: "winv w"
  shows "reads winv okStore (chainStateAccount L (chain a)) (dbGetAccount L (Some f) a (kv, w))"
proof (cases "\<exists>acc n b. stored L (content kv) a = Some acc \<and> accNonce acc = Some n \<and>
    accBalance acc = Some b")
  case False
  with ok have "dbGetAccount L (Some f) a (kv, w) = fetchStateAccount L f a (kv, w)"
    by (auto simp: dbGetAccount_def kvGetAccount_stored split: option.splits)
  with fetchStateAccount_reads [OF assms] show ?thesis by simp
next
  case True
  then obtain acc n b where acc: "stored L (content kv) a = Some acc"
    "accNonce acc = Some n" "accBalance acc = Some b" by blast
  with ok have run: "dbGetAccount L (Some f) a (kv, w) = Ret (Inr \<lparr>saNonce = n, saBalance = b,
      saRoot = 0, saCodeHash = hashBytes L (CodeHash L acc)\<rparr>, kv, w)"
    by (auto simp: dbGetAccount_def kvGetAccount_stored)
  have "agrees (view_of acc) (chain a)" using coherentD ok acc(1) by blast
  with acc have "n = chNonce (chain a)" "b = chBalance (chain a)"
    "chCode (chain a) = (case accCode acc of None \<Rightarrow> [] | Some code \<Rightarrow> code)"
    by (auto simp: agrees_def view_of_def split: option.splits)
  moreover have "hashBytes L (CodeHash L acc) = (case accCode acc of None \<Rightarrow> emptyCodeHash L
      | Some code \<Rightarrow> if code = [] then emptyCodeHash L else keccak256 L code)"
    by (auto simp: CodeHash_def hashBytes_bytesToHash length_keccak256 length_emptyCodeHash
        split: option.split)
  ultimately have "\<lparr>saNonce = n, saBalance = b, saRoot = 0,
      saCodeHash = hashBytes L (CodeHash L acc)\<rparr> = chainStateAccount L (chain a)"
    by (auto simp: chainStateAccount_def split: option.splits)
  with run ok winv show ?thesis by (auto intro!: readsI_answer)
qed

end

section \<open>Traces that describe a step of the chain\<close>

text \<open>
  The prestate tracer in diff mode lists in \<open>pre\<close> the accounts that a transaction changes, with
  the slots it changes and their values before; in \<open>post\<close> what changed of them. It omits from
  \<open>post\<close> a slot that the transaction set to zero, and an account that it deleted. \<open>nextAccount\<close>
  reads the two entries of an address that way: what \<open>post\<close> lists is the new value, a slot
  that only \<open>pre\<close> lists is zero, an account that only \<open>pre\<close> lists is gone, all else is as
  before. A trace describes the step of a transaction when what its \<open>pre\<close> map lists is the
  chain before it, and an account that appears in \<open>post\<close> only had no code before.
\<close>

definition clearedSlot :: "account option \<Rightarrow> account option \<Rightarrow> hash \<Rightarrow> bool" where
  "clearedSlot pre post k =
     (case (pre, post) of
        (Some p, Some q) \<Rightarrow> map_of (entries (accStorage p)) k \<noteq> None \<and>
          map_of (entries (accStorage q)) k = None
      | _ \<Rightarrow> False)"

definition deletedAccount :: "account option \<Rightarrow> account option \<Rightarrow> bool" where
  "deletedAccount pre post \<longleftrightarrow> pre \<noteq> None \<and> post = None"

definition noAccount :: chainAccount where
  "noAccount = \<lparr>chNonce = 0, chBalance = 0, chCode = [], chStorage = (\<lambda>k. 0)\<rparr>"

definition nextAccount :: "account option \<Rightarrow> account option \<Rightarrow> chainAccount \<Rightarrow> chainAccount" where
  "nextAccount pre post c =
     (case post of
        None \<Rightarrow> if pre = None then c else noAccount
      | Some n \<Rightarrow>
          \<lparr>chNonce = (case accNonce n of None \<Rightarrow> chNonce c | Some x \<Rightarrow> x),
           chBalance = (case accBalance n of None \<Rightarrow> chBalance c | Some x \<Rightarrow> x),
           chCode = (case accCode n of None \<Rightarrow> chCode c | Some x \<Rightarrow> x),
           chStorage = (\<lambda>k. case map_of (entries (accStorage n)) k of
                              None \<Rightarrow> if clearedSlot pre post k then 0 else chStorage c k
                            | Some x \<Rightarrow> x)\<rparr>)"

text \<open>The entry of an address in one of the two maps.\<close>

definition listed :: "state \<Rightarrow> address \<Rightarrow> account option" where
  "listed s a = (case map_of s a of Some p \<Rightarrow> p | None \<Rightarrow> None)"

definition nextChain :: "prestateTrace \<Rightarrow> chain \<Rightarrow> chain" where
  "nextChain r c a = nextAccount (listed (ptPre r) a) (listed (ptPost r) a) (c a)"

definition txDescribes :: "prestateTrace \<Rightarrow> chain \<Rightarrow> bool" where
  "txDescribes r c \<longleftrightarrow>
     (\<forall>a n. listed (ptPre r) a = Some n \<longrightarrow> agrees (view_of n) (c a)) \<and>
     (\<forall>a n. listed (ptPost r) a = Some n \<longrightarrow> listed (ptPre r) a = None \<longrightarrow> chCode (c a) = [])"

fun blockDescribes :: "prestateTrace traceBlock \<Rightarrow> chain \<Rightarrow> bool" where
  "blockDescribes [] c = True"
| "blockDescribes (None # s) c = False"
| "blockDescribes (Some tr # s) c =
     (case ttResult tr of
        None \<Rightarrow> False
      | Some r \<Rightarrow> txDescribes r c \<and> blockDescribes s (nextChain r c))"

fun chainAfter :: "prestateTrace traceBlock \<Rightarrow> chain \<Rightarrow> chain" where
  "chainAfter [] c = c"
| "chainAfter (None # s) c = chainAfter s c"
| "chainAfter (Some tr # s) c =
     (case ttResult tr of None \<Rightarrow> chainAfter s c | Some r \<Rightarrow> chainAfter s (nextChain r c))"

text \<open>What a block clears: the slots set to zero and the accounts deleted by one of its traces.\<close>

fun clears :: "prestateTrace traceBlock \<Rightarrow> address \<Rightarrow> hash \<Rightarrow> bool" where
  "clears [] a k = False"
| "clears (None # s) a k = clears s a k"
| "clears (Some tr # s) a k =
     ((case ttResult tr of None \<Rightarrow> False
       | Some r \<Rightarrow> clearedSlot (listed (ptPre r) a) (listed (ptPost r) a) k) \<or> clears s a k)"

fun deletes :: "prestateTrace traceBlock \<Rightarrow> address \<Rightarrow> bool" where
  "deletes [] a = False"
| "deletes (None # s) a = deletes s a"
| "deletes (Some tr # s) a =
     ((case ttResult tr of None \<Rightarrow> False
       | Some r \<Rightarrow> deletedAccount (listed (ptPre r) a) (listed (ptPost r) a)) \<or> deletes s a)"

section \<open>Coherence up to what a block clears\<close>

definition agreesUpTo :: "(hash \<Rightarrow> bool) \<Rightarrow> acctView \<Rightarrow> chainAccount \<Rightarrow> bool" where
  "agreesUpTo S v c \<longleftrightarrow> agrees (v\<lparr>vStorage := (\<lambda>k. if S k then None else vStorage v k)\<rparr>) c"

definition viewsUpTo ::
    "(address \<Rightarrow> bool) \<Rightarrow> (address \<Rightarrow> hash \<Rightarrow> bool) \<Rightarrow> (address \<Rightarrow> acctView option) \<Rightarrow> chain \<Rightarrow> bool" where
  "viewsUpTo D S m c \<longleftrightarrow> (\<forall>a v. m a = Some v \<longrightarrow> \<not> D a \<longrightarrow> agreesUpTo (S a) v (c a))"

definition coherentUpTo ::
    "'x geth_scheme \<Rightarrow> (address \<Rightarrow> bool) \<Rightarrow> (address \<Rightarrow> hash \<Rightarrow> bool) \<Rightarrow> content \<Rightarrow> chain \<Rightarrow> bool" where
  "coherentUpTo G D S c chain \<longleftrightarrow> viewsUpTo D S (storedView G c) chain"

lemma agreesUpTo_iff:
  "agreesUpTo S v c \<longleftrightarrow>
     (\<forall>n. vNonce v = Some n \<longrightarrow> n = chNonce c) \<and> (\<forall>b. vBalance v = Some b \<longrightarrow> b = chBalance c) \<and>
     chCode c = (case vCode v of None \<Rightarrow> [] | Some code \<Rightarrow> code) \<and>
     (\<forall>k x. \<not> S k \<longrightarrow> vStorage v k = Some x \<longrightarrow> x = chStorage c k)"
  by (auto simp: agreesUpTo_def agrees_def split: option.splits)

lemma agreesUpTo_none [simp]: "agreesUpTo (\<lambda>k. False) v c \<longleftrightarrow> agrees v c"
  by (simp add: agreesUpTo_def)

lemma agreesUpTo_mono: "agreesUpTo S v c \<Longrightarrow> (\<And>k. S k \<Longrightarrow> T k) \<Longrightarrow> agreesUpTo T v c"
  unfolding agreesUpTo_iff by blast

lemma coherentUpTo_none: "coherentUpTo G (\<lambda>a. False) (\<lambda>a k. False) c chain \<longleftrightarrow> coherent G c chain"
  by (simp add: coherentUpTo_def viewsUpTo_def coherent_def)

lemma coherentUpToD:
  "coherentUpTo G D S c chain \<Longrightarrow> storedView G c a = Some v \<Longrightarrow> \<not> D a \<Longrightarrow>
     agreesUpTo (S a) v (chain a)"
  by (simp add: coherentUpTo_def viewsUpTo_def)

lemma coherentUpTo_clean:
  assumes "coherentUpTo G D S c chain" and "\<forall>a. \<not> D a" and "\<forall>a k. \<not> S a k"
  shows "coherent G c chain"
proof -
  have "D = (\<lambda>a. False)" "S = (\<lambda>a k. False)" using assms(2,3) by (simp_all add: fun_eq_iff)
  with assms(1) show ?thesis by (simp add: coherentUpTo_none)
qed

lemma storedView_empty [simp]: "storedView G (\<lambda>a. None) = (\<lambda>a. None)"
  by (simp add: storedView_def fun_eq_iff)

lemma agreesUpTo_normView: "agreesUpTo S v c \<Longrightarrow> agreesUpTo S (normView v) c"
  by (auto simp: agreesUpTo_iff normView_def split: option.splits)

lemma specEntries_listed:
  "specEntries s m a = (case listed s a of None \<Rightarrow> m a | Some n \<Rightarrow> Some (specEntry (m a) n))"
  by (simp add: specEntries_def listed_def split: option.split)

lemma agreesUpTo_pre:
  assumes "\<And>v. m = Some v \<Longrightarrow> agreesUpTo S v c" and "agrees (view_of n) c"
  shows "agreesUpTo S (specEntry m n) c"
proof (cases m)
  case None
  with assms(2) show ?thesis
    by (auto simp: specEntry_def intro!: agreesUpTo_normView intro: agreesUpTo_mono [of "\<lambda>k. False"])
next
  case (Some v)
  have "agreesUpTo S (mergeView v (view_of n)) c"
    using assms(1) [OF Some] assms(2)
    by (cases "vNonce (view_of n)"; cases "vBalance (view_of n)"; cases "vCode (view_of n)")
      (auto simp: agreesUpTo_iff agrees_def mergeView_def map_add_def split: option.splits)
  with Some show ?thesis by (simp add: specEntry_def agreesUpTo_normView)
qed

lemma agreesUpTo_post:
  assumes "agreesUpTo S v c" and "\<And>k. clearedSlot pre (Some n) k \<Longrightarrow> T k" and "\<And>k. S k \<Longrightarrow> T k"
  shows "agreesUpTo T (specEntry (Some v) n) (nextAccount pre (Some n) c)"
proof -
  have "agreesUpTo T (mergeView v (view_of n)) (nextAccount pre (Some n) c)"
    using agreesUpTo_mono [OF assms(1,3)] assms(2)
    by (cases "accNonce n"; cases "accBalance n"; cases "accCode n")
      (auto simp: agreesUpTo_iff mergeView_def view_of_def nextAccount_def map_add_def
        split: option.splits)
  then show ?thesis by (simp add: specEntry_def agreesUpTo_normView)
qed

lemma agreesUpTo_fresh:
  "chCode c = [] \<Longrightarrow> agreesUpTo T (specEntry None n) (nextAccount None (Some n) c)"
  unfolding specEntry_def option.case
  by (rule agreesUpTo_normView, cases "accNonce n"; cases "accBalance n"; cases "accCode n")
    (auto simp: agreesUpTo_iff view_of_def nextAccount_def clearedSlot_def)

text \<open>One transaction: what it clears joins what may be stale.\<close>

lemma viewsUpTo_tx:
  assumes views: "viewsUpTo D S m c" and tx: "txDescribes r c"
  shows "viewsUpTo
      (\<lambda>a. D a \<or> deletedAccount (listed (ptPre r) a) (listed (ptPost r) a))
      (\<lambda>a k. S a k \<or> clearedSlot (listed (ptPre r) a) (listed (ptPost r) a) k)
    (specEntries (ptPost r) (specEntries (ptPre r) m)) (nextChain r c)"
  unfolding viewsUpTo_def
proof (intro allI impI)
  fix a v
  let ?pre = "listed (ptPre r) a" and ?post = "listed (ptPost r) a"
  let ?T = "\<lambda>k. S a k \<or> clearedSlot ?pre ?post k"
  let ?m = "specEntries (ptPre r) m"
  assume v: "specEntries (ptPost r) ?m a = Some v" and D: "\<not> (D a \<or> deletedAccount ?pre ?post)"
  have old: "agreesUpTo (S a) u (c a)" if "?m a = Some u" for u
    using that views tx D
    by (auto simp: specEntries_listed viewsUpTo_def txDescribes_def split: option.splits
        intro: agreesUpTo_pre)
  show "agreesUpTo ?T v (nextChain r c a)"
  proof (cases ?post)
    case None
    with v D old show ?thesis
      by (auto simp: specEntries_listed [of "ptPost r"] deletedAccount_def nextChain_def
          nextAccount_def intro: agreesUpTo_mono)
  next
    case (Some n)
    with v have entry: "v = specEntry (?m a) n" by (simp add: specEntries_listed [of "ptPost r"])
    show ?thesis
    proof (cases "?m a")
      case None
      then have "?pre = None" by (simp add: specEntries_listed split: option.splits)
      with tx Some entry None show ?thesis
        by (simp add: txDescribes_def nextChain_def agreesUpTo_fresh)
    next
      case (Some u)
      with \<open>?post = Some n\<close> entry agreesUpTo_post [OF old [OF Some], of ?pre n ?T] show ?thesis
        by (simp add: nextChain_def)
    qed
  qed
qed

lemma specBlock_upTo:
  "viewsUpTo D S m c \<Longrightarrow> blockDescribes s c \<Longrightarrow>
     viewsUpTo (\<lambda>a. D a \<or> deletes s a) (\<lambda>a k. S a k \<or> clears s a k) (specBlock s m) (chainAfter s c)"
proof (induction s m arbitrary: c D S rule: specBlock.induct)
  case (1 m)
  then show ?case by simp
next
  case (2 tr s m)
  from "2.prems"(2) obtain r where r: "ttResult tr = Some r"
    and tx: "txDescribes r c" and rest: "blockDescribes s (nextChain r c)"
    by (auto split: option.splits)
  from "2.IH" [OF r viewsUpTo_tx [OF "2.prems"(1) tx] rest] show ?case by (simp add: r disj_assoc)
next
  case (3 s m)
  then show ?case by simp
qed

context badger_ample
begin

lemma ProcessState_coherent:
  assumes "wfContent (content db)" and "okBlock s" and "noNilBlock s"
    and "coherent L (content db) chain" and "blockDescribes s chain"
  shows "\<exists>db'. ProcessState L db s = Ret (db', None) \<and>
    coherentUpTo L (deletes s) (clears s) (content db') (chainAfter s chain)"
  using ProcessState_view [OF assms(1-3)] assms(4)
    specBlock_upTo [OF _ assms(5), of "\<lambda>a. False" "\<lambda>a k. False" "storedView L (content db)"]
  by (auto simp: coherentUpTo_def coherent_def viewsUpTo_def)

end

end
