(* ===== verification/RpcFetcher.thy ===== *)
theory RpcFetcher
  imports Caller Coherence
begin

text \<open>
  The RPC fetcher of \<open>fetcher/rpc.go\<close>: reading accounts, slots and header hashes through
  \<open>singleflight\<close>; and the fetcher of \<open>fetcher/streaming.go\<close>, none of whose methods is written.

  \<open>w3client\<close> is the w3 client, one field per batch of callers the program sends; its calls act
  on a remote state \<open>'w\<close>. \<open>Do\<close> is \<open>singleflight.Group.Do\<close>: it runs the function it is given,
  or waits for a call in flight with the same key and returns that call's result.
\<close>

section \<open>The client\<close>

record 'w w3client =
  callAccount :: "address \<Rightarrow> int option \<Rightarrow> 'w \<Rightarrow> (error + u64 \<times> int \<times> byte list) \<times> 'w"
  callStorageAt :: "address \<Rightarrow> hash \<Rightarrow> int option \<Rightarrow> 'w \<Rightarrow> (error + hash) \<times> 'w"
  callHeaderByNumber :: "int option \<Rightarrow> 'w \<Rightarrow> (error + header) \<times> 'w"
  callHeaderByHash :: "hash \<Rightarrow> 'w \<Rightarrow> (error + header) \<times> 'w"
  callBlockByNumber :: "int option \<Rightarrow> 'w \<Rightarrow> (error + block) \<times> 'w"
  callBlockByHash :: "hash \<Rightarrow> 'w \<Rightarrow> (error + block) \<times> 'w"
  callTraceBlock :: "prestateTracerConfig traceConfig batchElem \<Rightarrow> 'w
      \<Rightarrow> (error + prestateTrace traceBlock) \<times> 'w"

section \<open>The state of the fetcher\<close>

record 'w rpcFetcher =
  rfBlockNumber :: "int option"
  rfHeaderHashes :: "(u64, hash) gomap"
  rfBlockHead :: u64
  rfStarted :: bool
  rfRemote :: 'w

definition NewRPCFetcher :: "'w \<Rightarrow> int option \<Rightarrow> 'w rpcFetcher" where
  "NewRPCFetcher client blockNumber =
     \<lparr>rfBlockNumber = blockNumber, rfHeaderHashes = [], rfBlockHead = 0, rfStarted = False,
      rfRemote = client\<rparr>"

record rpcAccount =
  raNonce :: u64
  raBalance :: u256
  raCode :: "byte list"
  raStorage :: "(u256, u256) gomap"

datatype anyVal = AnyAccount rpcAccount | AnyHash hash

type_synonym 's flight = "'s \<Rightarrow> ((error + anyVal) \<times> 's) outcome"

text \<open>\<open>f.call\<close>: a batch sent to the client.\<close>

definition rpcCall ::
    "('w \<Rightarrow> (error + 'a) \<times> 'w) \<Rightarrow> 'w rpcFetcher \<Rightarrow> ((error + 'a) \<times> 'w rpcFetcher) outcome" where
  "rpcCall request f =
     (case request (rfRemote f) of (r, w) \<Rightarrow> Ret (r, f\<lparr>rfRemote := w\<rparr>))"

section \<open>Keys of the calls in flight\<close>

fun natDigits :: "nat \<Rightarrow> string" where
  "natDigits n = (if n < 10 then [char_of (48 + n)]
                  else natDigits (n div 10) @ [char_of (48 + n mod 10)])"

declare natDigits.simps [simp del]

text \<open>\<open>big.Int.String\<close>, also on a nil pointer.\<close>

definition bigString :: "int option \<Rightarrow> string" where
  "bigString p =
     (case p of
        None \<Rightarrow> ''<nil>''
      | Some n \<Rightarrow> if n < 0 then CHR ''-'' # natDigits (nat (- n)) else natDigits (nat n))"

definition accountKey :: "address \<Rightarrow> byte list" where
  "accountKey addr = be_bytes 20 addr"

definition storageKey :: "'x geth_scheme \<Rightarrow> address \<Rightarrow> u256 \<Rightarrow> byte list" where
  "storageKey G addr slot = be_bytes 20 addr @ bytes32 G slot"

definition headerKey :: "int option \<Rightarrow> byte list" where
  "headerKey n = ascii (bigString n)"

section \<open>Fetching\<close>

text \<open>The functions given to \<open>Do\<close>, and the calls that check the type of what it returns.\<close>

definition accountFlight ::
    "'x geth_scheme \<Rightarrow> 'w w3client \<Rightarrow> address \<Rightarrow> 'w rpcFetcher flight" where
  "accountFlight G C addr f =
     callThen (rpcCall (callAccount C addr (rfBlockNumber f)) f)
       (\<lambda>err f. Ret (Inl err, f))
       (\<lambda>(nonce, balance, code) f.
          andThen (mustFromBig G (Some balance)) (\<lambda>p.
          andThen (deref p) (\<lambda>b.
            Ret (Inr (AnyAccount
              \<lparr>raNonce = nonce, raBalance = b, raCode = code, raStorage = []\<rparr>), f))))"

definition fetchAccount ::
    "'x geth_scheme \<Rightarrow> 'w w3client \<Rightarrow> (byte list \<Rightarrow> 'w rpcFetcher flight \<Rightarrow> 'w rpcFetcher flight)
      \<Rightarrow> address \<Rightarrow> 'w rpcFetcher \<Rightarrow> ((error + rpcAccount) \<times> 'w rpcFetcher) outcome" where
  "fetchAccount G C Do addr f =
     callThen (Do (accountKey addr) (accountFlight G C addr) f)
       (\<lambda>err f. Ret (Inl err, f))
       (\<lambda>v f. case v of AnyAccount acc \<Rightarrow> Ret (Inr acc, f) | _ \<Rightarrow> Panic badAssertion)"

definition storageFlight ::
    "'x geth_scheme \<Rightarrow> 'w w3client \<Rightarrow> address \<Rightarrow> u256 \<Rightarrow> 'w rpcFetcher flight" where
  "storageFlight G C addr slot f =
     callThen (rpcCall (callStorageAt C addr (bigToHash G (u256ToBig G slot)) (rfBlockNumber f)) f)
       (\<lambda>err f. Ret (Inl err, f))
       (\<lambda>storageVal f. Ret (Inr (AnyHash storageVal), f))"

definition fetchStorageAt ::
    "'x geth_scheme \<Rightarrow> 'w w3client \<Rightarrow> (byte list \<Rightarrow> 'w rpcFetcher flight \<Rightarrow> 'w rpcFetcher flight)
      \<Rightarrow> address \<Rightarrow> u256 \<Rightarrow> 'w rpcFetcher \<Rightarrow> ((error + hash) \<times> 'w rpcFetcher) outcome" where
  "fetchStorageAt G C Do addr slot f =
     callThen (Do (storageKey G addr slot) (storageFlight G C addr slot) f)
       (\<lambda>err f. Ret (Inl err, f))
       (\<lambda>v f. case v of AnyHash h \<Rightarrow> Ret (Inr h, f) | _ \<Rightarrow> Panic badAssertion)"

definition headerFlight ::
    "'x geth_scheme \<Rightarrow> 'w w3client \<Rightarrow> int option \<Rightarrow> 'w rpcFetcher flight" where
  "headerFlight G C blockNumber f =
     andThen (deref blockNumber) (\<lambda>bn.
       let n = bigUint64 bn
       in case map_of (rfHeaderHashes f) n of
            Some h \<Rightarrow> Ret (Inr (AnyHash h), f)
          | None \<Rightarrow>
              callThen (rpcCall (callHeaderByNumber C blockNumber) f)
                (\<lambda>err f. Ret (Inl err, f))
                (\<lambda>header f.
                   let h = headerHash G header
                   in Ret (Inr (AnyHash h), f\<lparr>rfHeaderHashes := put n h (rfHeaderHashes f)\<rparr>)))"

definition fetchHeaderHash ::
    "'x geth_scheme \<Rightarrow> 'w w3client \<Rightarrow> (byte list \<Rightarrow> 'w rpcFetcher flight \<Rightarrow> 'w rpcFetcher flight)
      \<Rightarrow> int option \<Rightarrow> 'w rpcFetcher \<Rightarrow> ((error + hash) \<times> 'w rpcFetcher) outcome" where
  "fetchHeaderHash G C Do blockNumber f =
     callThen (Do (headerKey blockNumber) (headerFlight G C blockNumber) f)
       (\<lambda>err f. Ret (Inl err, f))
       (\<lambda>v f. case v of AnyHash h \<Rightarrow> Ret (Inr h, f) | _ \<Rightarrow> Panic badAssertion)"

section \<open>The methods of the interface\<close>

definition rpcFetcherMethods ::
    "'x geth_scheme \<Rightarrow> 'w w3client \<Rightarrow> (byte list \<Rightarrow> 'w rpcFetcher flight \<Rightarrow> 'w rpcFetcher flight)
      \<Rightarrow> 'w rpcFetcher fetcher" where
  "rpcFetcherMethods G C Do =
     \<lparr>fNonce = (\<lambda>addr f. callThen (fetchAccount G C Do addr f)
        (\<lambda>err f. Ret (Inl err, f)) (\<lambda>acc f. Ret (Inr (raNonce acc), f))),
      fBalance = (\<lambda>addr f. callThen (fetchAccount G C Do addr f)
        (\<lambda>err f. Ret (Inl err, f)) (\<lambda>acc f. Ret (Inr (u256ToBig G (raBalance acc)), f))),
      fCode = (\<lambda>addr f. callThen (fetchAccount G C Do addr f)
        (\<lambda>err f. Ret (Inl err, f)) (\<lambda>acc f. Ret (Inr (raCode acc), f))),
      fStorageAt = (\<lambda>addr slot f.
        callThen (fetchStorageAt G C Do addr (setBytes32 G (be_bytes 32 slot)) f)
          (\<lambda>err f. Ret (Inl err, f)) (\<lambda>storageVal f. Ret (Inr storageVal, f))),
      fHeaderHash = (\<lambda>blockNumber f. fetchHeaderHash G C Do blockNumber f)\<rparr>"

text \<open>\<open>BlockNumber\<close> writes through the fetcher's pointer (\<open>big.Int.Set\<close>).\<close>

definition setBlockNumber :: "int option \<Rightarrow> 'w rpcFetcher \<Rightarrow> 'w rpcFetcher outcome" where
  "setBlockNumber bn f =
     (case (rfBlockNumber f, bn) of
        (None, None) \<Rightarrow> Ret f
      | (Some _, Some n) \<Rightarrow> Ret (f\<lparr>rfBlockNumber := Some n\<rparr>)
      | _ \<Rightarrow> Panic nilDeref)"

section \<open>The streaming fetcher\<close>

definition streamingFetcherMethods :: "'w fetcher" where
  "streamingFetcherMethods =
     \<lparr>fNonce = (\<lambda>_ _. unimplemented),
      fBalance = (\<lambda>_ _. unimplemented),
      fCode = (\<lambda>_ _. unimplemented),
      fStorageAt = (\<lambda>_ _ _. unimplemented),
      fHeaderHash = (\<lambda>_ _. unimplemented)\<rparr>"

section \<open>Keys never collide\<close>

datatype flightCall = CallAccount address | CallStorage address u256 | CallHeader "int option"

fun flightKey :: "'x geth_scheme \<Rightarrow> flightCall \<Rightarrow> byte list" where
  "flightKey G (CallAccount a) = accountKey a"
| "flightKey G (CallStorage a slot) = storageKey G a slot"
| "flightKey G (CallHeader n) = headerKey n"

text \<open>Header hashes of blocks whose number has at most 19 digits.\<close>

fun ordinaryCall :: "flightCall \<Rightarrow> bool" where
  "ordinaryCall (CallHeader (Some n)) \<longleftrightarrow> 0 \<le> n \<and> n < 10 ^ 19"
| "ordinaryCall _ \<longleftrightarrow> True"

lemma length_natDigits: "n < 10 ^ k \<Longrightarrow> 0 < k \<Longrightarrow> length (natDigits n) \<le> k"
proof (induction n arbitrary: k rule: natDigits.induct)
  case (1 n)
  show ?case
  proof (cases "n < 10")
    case True
    with "1.prems" show ?thesis by (simp add: natDigits.simps [of n])
  next
    case False
    then obtain j where j: "k = Suc j" "0 < j"
      using "1.prems" by (cases k; cases "k = 1") auto
    with "1.prems" have "n div 10 < 10 ^ j" by (simp add: less_mult_imp_div_less mult.commute)
    with "1.IH" False j have "length (natDigits (n div 10)) \<le> j" by simp
    with False j show ?thesis by (simp add: natDigits.simps [of n])
  qed
qed

lemma length_accountKey [simp]: "length (accountKey a) = 20"
  by (simp add: accountKey_def)

lemma length_headerKey: "ordinaryCall (CallHeader n) \<Longrightarrow> length (headerKey n) < 20"
proof (cases n)
  case None
  then show ?thesis by (simp add: headerKey_def ascii_def bigString_def)
next
  case (Some i)
  assume "ordinaryCall (CallHeader n)"
  with Some have "0 \<le> i" and "nat i < 10 ^ 19" by (auto simp: nat_less_iff)
  with Some length_natDigits [of "nat i" 19] show ?thesis
    by (simp add: headerKey_def ascii_def bigString_def)
qed

lemma accountKey_inject [simp]: "accountKey a = accountKey b \<longleftrightarrow> a = b"
  by (simp add: accountKey_def be_bytes_inject)

context geth_laws
begin

lemma length_storageKey [simp]: "length (storageKey G a slot) = 52"
  by (simp add: storageKey_def length_bytes32)

lemma storageKey_inject: "storageKey G a s = storageKey G b t \<longleftrightarrow> a = b \<and> s = t"
  by (auto simp: storageKey_def be_bytes_inject dest: bytes32_inj)

lemma headerKey_account: "ordinaryCall (CallHeader n) \<Longrightarrow> headerKey n \<noteq> accountKey a"
  and headerKey_storage: "ordinaryCall (CallHeader n) \<Longrightarrow> headerKey n \<noteq> storageKey G a slot"
  using length_headerKey [of n] by (auto dest: arg_cong [where f = length])

lemma accountKey_storage: "accountKey a \<noteq> storageKey G b slot"
  by (auto dest: arg_cong [where f = length])

lemma flightKey_account:
  "ordinaryCall c \<Longrightarrow> flightKey G c = accountKey a \<longleftrightarrow> c = CallAccount a"
  using accountKey_storage [of a] by (cases c) (auto simp: headerKey_account, metis)

lemma flightKey_storage:
  "ordinaryCall c \<Longrightarrow> flightKey G c = storageKey G a slot \<longleftrightarrow> c = CallStorage a slot"
  using accountKey_storage by (cases c) (auto simp: headerKey_storage storageKey_inject)

end

section \<open>What a call leaves alone\<close>

lemma assertion_Ret_iff:
  "(case v of AnyAccount acc \<Rightarrow> Ret (g acc) | AnyHash h \<Rightarrow> Panic p) = Ret y \<longleftrightarrow>
     (\<exists>acc. v = AnyAccount acc \<and> g acc = y)"
  "(case v of AnyAccount acc \<Rightarrow> Panic p | AnyHash h \<Rightarrow> Ret (k h)) = Ret y \<longleftrightarrow>
     (\<exists>h. v = AnyHash h \<and> k h = y)"
  by (cases v; simp)+

text \<open>\<open>Do\<close> runs its function or waits for a call in flight and changes nothing itself.\<close>

lemma accountFlight_remote:
  "accountFlight G C a f = Ret (v, f') \<Longrightarrow> \<exists>w. f' = f\<lparr>rfRemote := w\<rparr>"
  by (auto simp: accountFlight_def rpcCall_def callThen_Ret_iff andThen_Ret_iff split: prod.splits)

lemma storageFlight_remote:
  "storageFlight G C a slot f = Ret (v, f') \<Longrightarrow> \<exists>w. f' = f\<lparr>rfRemote := w\<rparr>"
  by (auto simp: storageFlight_def rpcCall_def callThen_Ret_iff split: prod.splits)

locale singleflight_group =
  fixes Do :: "byte list \<Rightarrow> 'w rpcFetcher flight \<Rightarrow> 'w rpcFetcher flight"
  assumes Do_runs: "Do key fn s = fn s \<or> (\<exists>r. Do key fn s = Ret (r, s))"
begin

lemma Do_remote:
  assumes "\<And>v f'. fn f = Ret (v, f') \<Longrightarrow> \<exists>w. f' = f\<lparr>rfRemote := w\<rparr>"
    and "Do key fn f = Ret (v, f')"
  shows "\<exists>w. f' = f\<lparr>rfRemote := w\<rparr>"
  using Do_runs [of key fn f]
proof
  assume "Do key fn f = fn f"
  with assms show ?thesis by simp
next
  assume "\<exists>r. Do key fn f = Ret (r, f)"
  with assms(2) show ?thesis by (intro exI [of _ "rfRemote f"]) auto
qed

lemma fetchAccount_remote:
  assumes "fetchAccount G C Do a f = Ret (r, f')"
  shows "\<exists>w. f' = f\<lparr>rfRemote := w\<rparr>"
proof -
  obtain v where "Do (accountKey a) (accountFlight G C a) f = Ret (v, f')"
    using assms by (auto simp: fetchAccount_def callThen_Ret_iff assertion_Ret_iff)
  then show ?thesis by (rule Do_remote [rotated]) (rule accountFlight_remote)
qed

lemma fetchStorageAt_remote:
  assumes "fetchStorageAt G C Do a slot f = Ret (r, f')"
  shows "\<exists>w. f' = f\<lparr>rfRemote := w\<rparr>"
proof -
  obtain v where "Do (storageKey G a slot) (storageFlight G C a slot) f = Ret (v, f')"
    using assms by (auto simp: fetchStorageAt_def callThen_Ret_iff assertion_Ret_iff)
  then show ?thesis by (rule Do_remote [rotated]) (rule storageFlight_remote)
qed

lemma rpcFetcher_framed:
  assumes "\<And>f w. keep f \<Longrightarrow> keep (f\<lparr>rfRemote := w\<rparr>)"
  shows "framed_fetcher (rpcFetcherMethods G C Do) keep"
  by unfold_locales
    (auto simp: rpcFetcherMethods_def callThen_Ret_iff
      dest!: fetchAccount_remote fetchStorageAt_remote intro: assms)

end

section \<open>The cache of header hashes\<close>

text \<open>
  A header hash enters the cache by a flight that answers, and stays: no method replaces it.
  \<open>methodStep\<close> is one call of a method of the fetcher, with any client, or a change of the
  remote side.
\<close>

inductive methodStep ::
    "'x geth_scheme \<Rightarrow> (byte list \<Rightarrow> 'w rpcFetcher flight \<Rightarrow> 'w rpcFetcher flight)
      \<Rightarrow> 'w rpcFetcher \<Rightarrow> 'w rpcFetcher \<Rightarrow> bool"
  for G Do where
  nonce: "fNonce (rpcFetcherMethods G C Do) a f = Ret (rn, f') \<Longrightarrow> methodStep G Do f f'"
| balance: "fBalance (rpcFetcherMethods G C Do) a f = Ret (rb, f') \<Longrightarrow> methodStep G Do f f'"
| code: "fCode (rpcFetcherMethods G C Do) a f = Ret (rc, f') \<Longrightarrow> methodStep G Do f f'"
| slot: "fStorageAt (rpcFetcherMethods G C Do) a k f = Ret (rs, f') \<Longrightarrow> methodStep G Do f f'"
| header: "fHeaderHash (rpcFetcherMethods G C Do) m f = Ret (rh, f') \<Longrightarrow> methodStep G Do f f'"
| number: "setBlockNumber bn f = Ret f' \<Longrightarrow> methodStep G Do f f'"
| remote: "methodStep G Do f (f\<lparr>rfRemote := w\<rparr>)"

inductive_cases methodStepE: "methodStep G Do f f'"

lemma headerFlight_caches:
  "headerFlight G C (Some n) f = Ret (Inr (AnyHash h), f') \<Longrightarrow>
     map_of (rfHeaderHashes f') (bigUint64 n) = Some h"
  by (auto simp: headerFlight_def Let_def rpcCall_def callThen_Ret_iff
      split: option.splits prod.splits)

lemma headerFlight_cached:
  "map_of (rfHeaderHashes f) (bigUint64 n) = Some h \<Longrightarrow>
     headerFlight G C (Some n) f = Ret (Inr (AnyHash h), f)"
  by (simp add: headerFlight_def)

lemma headerFlight_keeps:
  "headerFlight G C m f = Ret (r, f') \<Longrightarrow> map_of (rfHeaderHashes f) k = Some h \<Longrightarrow>
     map_of (rfHeaderHashes f') k = Some h"
  by (auto simp: headerFlight_def Let_def rpcCall_def callThen_Ret_iff andThen_Ret_iff
      split: option.splits prod.splits)

context singleflight_group
begin

lemma fetchHeaderHash_keeps:
  assumes "fetchHeaderHash G C Do m f = Ret (r, f')" and "map_of (rfHeaderHashes f) k = Some h"
  shows "map_of (rfHeaderHashes f') k = Some h"
proof -
  obtain v where run: "Do (headerKey m) (headerFlight G C m) f = Ret (v, f')"
    using assms(1) by (auto simp: fetchHeaderHash_def callThen_Ret_iff assertion_Ret_iff)
  from Do_runs [of "headerKey m" "headerFlight G C m" f] show ?thesis
  proof
    assume "Do (headerKey m) (headerFlight G C m) f = headerFlight G C m f"
    with run assms(2) show ?thesis by (auto intro: headerFlight_keeps)
  next
    assume "\<exists>q. Do (headerKey m) (headerFlight G C m) f = Ret (q, f)"
    with run assms(2) show ?thesis by auto
  qed
qed

lemma methodStep_keeps:
  assumes "methodStep G Do f f'" and "map_of (rfHeaderHashes f) k = Some h"
  shows "map_of (rfHeaderHashes f') k = Some h"
  using assms(1)
proof cases
  case (header C m r)
  with assms(2) show ?thesis
    by (auto simp: rpcFetcherMethods_def intro: fetchHeaderHash_keeps)
next
  case (number bn)
  with assms(2) show ?thesis by (auto simp: setBlockNumber_def split: option.splits prod.splits)
qed (use assms(2) in \<open>auto simp: rpcFetcherMethods_def callThen_Ret_iff
      dest!: fetchAccount_remote fetchStorageAt_remote\<close>)

lemma methodSteps_keep:
  "rtranclp (methodStep G Do) f f' \<Longrightarrow> map_of (rfHeaderHashes f) k = Some h \<Longrightarrow>
     map_of (rfHeaderHashes f') k = Some h"
  by (induction rule: rtranclp_induct) (auto intro: methodStep_keeps)

end

section \<open>A client of one chain state\<close>

text \<open>
  \<open>flightResult\<close> is what a call of the fetcher for one chain may leave to those that join it.
  \<open>chain_client\<close> states that the client answers for the chain at the fetcher's block number,
  that balances fit 256 bits, and that \<open>Do\<close> runs its function or gives the result of a call
  of this fetcher in flight under the same key.
\<close>

fun flightResult :: "'x geth_scheme \<Rightarrow> chain \<Rightarrow> flightCall \<Rightarrow> anyVal \<Rightarrow> bool" where
  "flightResult G chain (CallAccount a) (AnyAccount acc) \<longleftrightarrow>
     raNonce acc = chNonce (chain a) \<and> u256ToBig G (raBalance acc) = chBalance (chain a) \<and>
     raCode acc = chCode (chain a)"
| "flightResult G chain (CallStorage a slot) (AnyHash h) \<longleftrightarrow>
     h = chStorage (chain a) (bigToHash G (u256ToBig G slot))"
| "flightResult G chain (CallHeader n) (AnyHash h) \<longleftrightarrow> True"
| "flightResult G chain _ _ \<longleftrightarrow> False"

locale chain_client = geth_laws G
  for G :: "'x geth_scheme" +
  fixes C :: "'w w3client"
    and Do :: "byte list \<Rightarrow> 'w rpcFetcher flight \<Rightarrow> 'w rpcFetcher flight"
    and chain :: chain
    and bn :: "int option"
  assumes client_account: "callAccount C a bn w = (Inr (n, b, code), w') \<Longrightarrow>
        n = chNonce (chain a) \<and> b = chBalance (chain a) \<and> code = chCode (chain a)"
    and client_storage: "callStorageAt C a k bn w = (Inr v, w') \<Longrightarrow> v = chStorage (chain a) k"
    and balance_range: "0 \<le> chBalance (chain a) \<and> chBalance (chain a) < 2 ^ 256"
    and singleflight: "Do key fn s = fn s \<or>
        (\<exists>r c. Do key fn s = Ret (r, s) \<and> ordinaryCall c \<and> key = flightKey G c \<and>
           (\<forall>v. r = Inr v \<longrightarrow> flightResult G chain c v))"
begin

text \<open>What a call leaves: the block number unchanged, and an error or its own kind of result.\<close>

definition serves :: "flightCall \<Rightarrow> ((error + anyVal) \<times> 'w rpcFetcher) outcome \<Rightarrow> bool" where
  "serves c m \<longleftrightarrow> (\<exists>r f'. m = Ret (r, f') \<and> rfBlockNumber f' = bn \<and>
     (\<forall>v. r = Inr v \<longrightarrow> flightResult G chain c v))"

lemma Do_serves:
  assumes "serves c (fn f)" and "rfBlockNumber f = bn"
    and key: "\<And>c'. ordinaryCall c' \<Longrightarrow> flightKey G c' = key \<Longrightarrow> c' = c"
  shows "serves c (Do key fn f)"
  using singleflight [of key fn f]
proof
  assume "Do key fn f = fn f"
  with assms(1) show ?thesis by simp
next
  assume "\<exists>r c. Do key fn f = Ret (r, f) \<and> ordinaryCall c \<and> key = flightKey G c \<and>
    (\<forall>v. r = Inr v \<longrightarrow> flightResult G chain c v)"
  then obtain r c' where "Do key fn f = Ret (r, f)" and "ordinaryCall c'" "key = flightKey G c'"
    and "\<forall>v. r = Inr v \<longrightarrow> flightResult G chain c' v" by blast
  with key [of c'] assms(2) show ?thesis by (simp add: serves_def)
qed

lemma accountFlight_serves:
  assumes "rfBlockNumber f = bn"
  shows "serves (CallAccount a) (accountFlight G C a f)"
proof (cases "callAccount C a bn (rfRemote f)")
  case (Pair r w)
  show ?thesis
  proof (cases r)
    case (Inl e)
    with Pair assms show ?thesis by (simp add: accountFlight_def rpcCall_def serves_def)
  next
    case (Inr x)
    obtain n b code where x: "x = (n, b, code)" by (cases x)
    have vals: "n = chNonce (chain a)" "b = chBalance (chain a)" "code = chCode (chain a)"
      using client_account [of a "rfRemote f" n b code w] Pair Inr x by auto
    obtain v where "mustFromBig G (Some b) = Ret (Some v)" and "u256ToBig G v = b"
      using mustFromBig_fits [of b] balance_range [of a] vals(2) by (auto simp: abs_less_iff)
    with Pair Inr x vals assms show ?thesis by (simp add: accountFlight_def rpcCall_def serves_def)
  qed
qed

lemma storageFlight_serves:
  assumes "rfBlockNumber f = bn"
  shows "serves (CallStorage a slot) (storageFlight G C a slot f)"
  using assms client_storage [of a "bigToHash G (u256ToBig G slot)" "rfRemote f"]
  by (cases "callStorageAt C a (bigToHash G (u256ToBig G slot)) bn (rfRemote f)"; cases "fst
        (callStorageAt C a (bigToHash G (u256ToBig G slot)) bn (rfRemote f))")
    (auto simp: storageFlight_def rpcCall_def serves_def)

lemma fetchAccountE:
  assumes "rfBlockNumber f = bn"
  obtains e f' where "fetchAccount G C Do a f = Ret (Inl e, f')" and "rfBlockNumber f' = bn"
  | acc f' where "fetchAccount G C Do a f = Ret (Inr acc, f')" and "rfBlockNumber f' = bn"
      and "flightResult G chain (CallAccount a) (AnyAccount acc)"
proof -
  have "serves (CallAccount a) (Do (accountKey a) (accountFlight G C a) f)"
    by (rule Do_serves [where fn = "accountFlight G C a", OF accountFlight_serves [OF assms] assms])
      (simp add: flightKey_account)
  then obtain r f' where run: "Do (accountKey a) (accountFlight G C a) f = Ret (r, f')"
    "rfBlockNumber f' = bn" "\<forall>v. r = Inr v \<longrightarrow> flightResult G chain (CallAccount a) v"
    unfolding serves_def by blast
  show thesis
  proof (cases r)
    case (Inl e)
    with run show thesis using that(1) by (simp add: fetchAccount_def)
  next
    case (Inr v)
    with run obtain acc where "v = AnyAccount acc" by (cases v) auto
    with run Inr show thesis using that(2) by (simp add: fetchAccount_def)
  qed
qed

lemma fetchStorageAtE:
  assumes "rfBlockNumber f = bn"
  obtains e f' where "fetchStorageAt G C Do a slot f = Ret (Inl e, f')" and "rfBlockNumber f' = bn"
  | f' where "fetchStorageAt G C Do a slot f =
      Ret (Inr (chStorage (chain a) (bigToHash G (u256ToBig G slot))), f')"
      and "rfBlockNumber f' = bn"
proof -
  have "serves (CallStorage a slot) (Do (storageKey G a slot) (storageFlight G C a slot) f)"
    by (rule Do_serves [where fn = "storageFlight G C a slot",
        OF storageFlight_serves [OF assms] assms]) (simp add: flightKey_storage)
  then obtain r f' where run: "Do (storageKey G a slot) (storageFlight G C a slot) f = Ret (r, f')"
    "rfBlockNumber f' = bn" "\<forall>v. r = Inr v \<longrightarrow> flightResult G chain (CallStorage a slot) v"
    unfolding serves_def by blast
  show thesis
  proof (cases r)
    case (Inl e)
    with run show thesis using that(1) by (simp add: fetchStorageAt_def)
  next
    case (Inr v)
    with run obtain h where "v = AnyHash h" by (cases v) auto
    with run Inr show thesis using that(2) by (simp add: fetchStorageAt_def)
  qed
qed

sublocale singleflight_group Do
  by unfold_locales (use singleflight in blast)

sublocale chain_fetcher "rpcFetcherMethods G C Do" chain "\<lambda>f. rfBlockNumber f = bn"
proof unfold_locales
  fix w :: "'w rpcFetcher"
  assume w: "rfBlockNumber w = bn"
  fix a n b code k v w'
  show "fNonce (rpcFetcherMethods G C Do) a w = Ret (Inr n, w') \<Longrightarrow> n = chNonce (chain a)"
    using w by (cases rule: fetchAccountE [where a = a]) (auto simp: rpcFetcherMethods_def)
  show "fBalance (rpcFetcherMethods G C Do) a w = Ret (Inr b, w') \<Longrightarrow> b = chBalance (chain a)"
    using w by (cases rule: fetchAccountE [where a = a]) (auto simp: rpcFetcherMethods_def)
  show "fCode (rpcFetcherMethods G C Do) a w = Ret (Inr code, w') \<Longrightarrow> code = chCode (chain a)"
    using w by (cases rule: fetchAccountE [where a = a]) (auto simp: rpcFetcherMethods_def)
  show "fStorageAt (rpcFetcherMethods G C Do) a k w = Ret (Inr v, w') \<Longrightarrow> v = chStorage (chain a) k"
    using w by (cases rule: fetchStorageAtE [where a = a and slot = "setBytes32 G (be_bytes 32 k)"])
      (auto simp: rpcFetcherMethods_def hash_of_slot)
next
  fix w :: "'w rpcFetcher"
  assume w: "rfBlockNumber w = bn"
  fix a k
  show "\<exists>r w'. fNonce (rpcFetcherMethods G C Do) a w = Ret (r, w') \<and> rfBlockNumber w' = bn"
    using w by (cases rule: fetchAccountE [where a = a]) (auto simp: rpcFetcherMethods_def)
  show "\<exists>r w'. fBalance (rpcFetcherMethods G C Do) a w = Ret (r, w') \<and> rfBlockNumber w' = bn"
    using w by (cases rule: fetchAccountE [where a = a]) (auto simp: rpcFetcherMethods_def)
  show "\<exists>r w'. fCode (rpcFetcherMethods G C Do) a w = Ret (r, w') \<and> rfBlockNumber w' = bn"
    using w by (cases rule: fetchAccountE [where a = a]) (auto simp: rpcFetcherMethods_def)
  show "\<exists>r w'. fStorageAt (rpcFetcherMethods G C Do) a k w = Ret (r, w') \<and> rfBlockNumber w' = bn"
    using w by (cases rule: fetchStorageAtE [where a = a and slot = "setBytes32 G (be_bytes 32 k)"])
      (auto simp: rpcFetcherMethods_def)
qed

lemmas axioms_fetcher = chain_fetcher_axioms

end

section \<open>A reference client\<close>

text \<open>
  A client whose remote state is the number of the newest block, every block having the chain
  \<open>memChain ch\<close>. It shows that the laws can hold together, for any chain, and it runs the
  concrete examples.
\<close>

definition memChain :: "chain \<Rightarrow> chain" where
  "memChain ch a = (ch a)\<lparr>chBalance := chBalance (ch a) mod 2 ^ 256\<rparr>"

definition memBlock :: "int \<Rightarrow> block" where
  "memBlock n =
     \<lparr>bkHeader = \<lparr>hdParentHash = word_of_int (n - 1), hdNumber = n, hdGasLimit = 30000000,
        hdGasUsed = 21000, hdTime = word_of_int (12 * n), hdDifficulty = Some 0, hdCoinbase = 7,
        hdBaseFee = Some 1000\<rparr>,
      bkHash = word_of_int n\<rparr>"

definition memPick :: "int option \<Rightarrow> int \<Rightarrow> error + block" where
  "memPick p head =
     (case p of
        None \<Rightarrow> Inr (memBlock head)
      | Some n \<Rightarrow> if 0 \<le> n \<and> n \<le> head then Inr (memBlock n) else Inl (External ''not found''))"

definition memClient :: "chain \<Rightarrow> int w3client" where
  "memClient ch =
     \<lparr>callAccount = (\<lambda>a bn w.
        (Inr (chNonce (memChain ch a), chBalance (memChain ch a), chCode (memChain ch a)), w)),
      callStorageAt = (\<lambda>a k bn w. (Inr (chStorage (memChain ch a) k), w)),
      callHeaderByNumber = (\<lambda>p w. (map_sum id bkHeader (memPick p w), w)),
      callHeaderByHash = (\<lambda>h w. (map_sum id bkHeader (memPick (Some (uint h)) w), w)),
      callBlockByNumber = (\<lambda>p w. (memPick p w, w)),
      callBlockByHash = (\<lambda>h w. (memPick (Some (uint h)) w, w)),
      callTraceBlock = (\<lambda>req w. (Inr memTrace, w))\<rparr>"

definition memDo :: "byte list \<Rightarrow> 'w rpcFetcher flight \<Rightarrow> 'w rpcFetcher flight" where
  "memDo key fn s = fn s"

lemma memClient_law: "chain_client (memLib b) (memClient ch) memDo (memChain ch) bn"
  by (intro chain_client.intro geth_laws_memLib chain_client_axioms.intro)
    (auto simp: memClient_def memDo_def memChain_def)

interpretation served: chain_client "memLib b" "memClient ch" memDo "memChain ch" bn
  for b ch bn by (rule memClient_law)

interpretation cache: cached_chain "memLib b" "\<lambda>db. (db, 0)" map_of "\<lambda>txn. map_of (fst txn)"
    "rpcFetcherMethods (memLib b) (memClient ch) memDo" "memChain ch" "\<lambda>f. rfBlockNumber f = bn"
  for b ch bn
  by (intro cached_chain.intro mem.badger_store_axioms served.chain_fetcher_axioms)

interpretation flights: singleflight_group memDo
  by unfold_locales (simp add: memDo_def)

interpretation frames: framed_fetcher "rpcFetcherMethods (memLib b) C memDo" "\<lambda>f. rfBlockHead f = h"
  for b and C :: "'w w3client" and h
  by (rule flights.rpcFetcher_framed) simp

interpretation framed: framed_db "memLib b" "\<lambda>db. (db, 0)" map_of "\<lambda>txn. map_of (fst txn)"
    "rpcFetcherMethods (memLib b) (memClient ch) memDo" "\<lambda>f. rfBlockHead f = h"
  for b ch h
  by (intro framed_db.intro mem.badger_store_axioms served.rpcFetcher_framed) simp

end
