(* ===== verification/BlockStream.thy ===== *)
theory BlockStream
  imports RpcFetcher
begin

text \<open>
  The polling of new blocks and the stream of state updates of \<open>fetcher/rpc.go\<close>
  (\<open>getLatestState\<close>, \<open>StateStream\<close>), as a step relation whose steps are the ticks of the
  goroutine and the receptions on the channel. The lemmas show what a poll leaves and, by
  induction over the reachable states, that the stream delivers blocks in increasing order,
  never above the head, each with the trace the client answered for that very block.
\<close>

section \<open>State updates\<close>

record stateUpdate =
  suTraceBlock :: "prestateTrace traceBlock"
  suBlock :: block

section \<open>Polling for new blocks\<close>

definition traceRequest ::
    "(u64 \<Rightarrow> 'n) \<Rightarrow> ('n \<Rightarrow> string) \<Rightarrow> block \<Rightarrow> (prestateTracerConfig traceConfig, unit, 'h) factory" where
  "traceRequest newBlockNumber tagOrHex block =
     Returns (GetPrestateTraceBlockCaller tagOrHex (newBlockNumber (NumberU64 block))
       (Some \<lparr>pcDiffMode = True\<rparr>) None) (Some ())"

definition getLatestState ::
    "'w w3client \<Rightarrow> (u64 \<Rightarrow> 'n) \<Rightarrow> ('n \<Rightarrow> string) \<Rightarrow> 'w rpcFetcher
      \<Rightarrow> ((error + stateUpdate option) \<times> 'w rpcFetcher) outcome" where
  "getLatestState C newBlockNumber tagOrHex f =
     callThen (rpcCall (callBlockByNumber C None) f)
       (\<lambda>err f. Ret (Inl err, f))
       (\<lambda>block f.
          if NumberU64 block \<le> rfBlockHead f then Ret (Inr None, f)
          else
            callThen
              (CreateRequest (traceRequest newBlockNumber tagOrHex block) f)
              (\<lambda>err f. Ret (Inl err, f))
              (\<lambda>request f.
            callThen (rpcCall (callTraceBlock C request) f)
              (\<lambda>err f. Ret (Inl err, f))
              (\<lambda>res f. Ret (Inr (Some \<lparr>suTraceBlock = res, suBlock = block\<rparr>),
                         f\<lparr>rfBlockHead := NumberU64 block\<rparr>))))"

text \<open>
  \<open>StateStream\<close> starts the polling goroutine once. The goroutine polls at each tick and then
  waits until the update it has to send is received (the channel has no buffer).
\<close>

definition StateStream :: "'w rpcFetcher \<Rightarrow> nat \<Rightarrow> 'w rpcFetcher \<times> nat" where
  "StateStream f goroutines =
     (if rfStarted f then (f, goroutines) else (f\<lparr>rfStarted := True\<rparr>, goroutines + 1))"

record 'w stream =
  smFetcher :: "'w rpcFetcher"
  smSending :: "stateUpdate option"
  smReceived :: "stateUpdate list"

inductive streamStep ::
    "'w w3client \<Rightarrow> (u64 \<Rightarrow> 'n) \<Rightarrow> ('n \<Rightarrow> string) \<Rightarrow> 'w stream \<Rightarrow> 'w stream \<Rightarrow> bool"
  for C newBlockNumber tagOrHex where
  tick_error: "smSending s = None \<Longrightarrow>
     getLatestState C newBlockNumber tagOrHex (smFetcher s) = Ret (Inl err, f) \<Longrightarrow>
     streamStep C newBlockNumber tagOrHex s (s\<lparr>smFetcher := f\<rparr>)"
| tick_old: "smSending s = None \<Longrightarrow>
     getLatestState C newBlockNumber tagOrHex (smFetcher s) = Ret (Inr None, f) \<Longrightarrow>
     streamStep C newBlockNumber tagOrHex s (s\<lparr>smFetcher := f\<rparr>)"
| tick_new: "smSending s = None \<Longrightarrow>
     getLatestState C newBlockNumber tagOrHex (smFetcher s) = Ret (Inr (Some u), f) \<Longrightarrow>
     streamStep C newBlockNumber tagOrHex s (s\<lparr>smFetcher := f, smSending := Some u\<rparr>)"
| receive: "smSending s = Some u \<Longrightarrow>
     streamStep C newBlockNumber tagOrHex s
       (s\<lparr>smSending := None, smReceived := smReceived s @ [u]\<rparr>)"

text \<open>The remote side may change between any two steps.\<close>

inductive streamReachable ::
    "'w w3client \<Rightarrow> (u64 \<Rightarrow> 'n) \<Rightarrow> ('n \<Rightarrow> string) \<Rightarrow> 'w stream \<Rightarrow> bool"
  for C newBlockNumber tagOrHex where
  start: "streamReachable C newBlockNumber tagOrHex
     \<lparr>smFetcher = NewRPCFetcher w bn, smSending = None, smReceived = []\<rparr>"
| step: "streamReachable C newBlockNumber tagOrHex s \<Longrightarrow>
     streamStep C newBlockNumber tagOrHex s t \<Longrightarrow> streamReachable C newBlockNumber tagOrHex t"
| world: "streamReachable C newBlockNumber tagOrHex s \<Longrightarrow>
     streamReachable C newBlockNumber tagOrHex
       (s\<lparr>smFetcher := (smFetcher s)\<lparr>rfRemote := w\<rparr>\<rparr>)"


inductive_cases streamStepE: "streamStep C newBlockNumber tagOrHex s t"

section \<open>What a poll leaves\<close>

text \<open>The request for the trace of a block, as it goes to the client.\<close>

definition traceElem :: "(u64 \<Rightarrow> 'n) \<Rightarrow> ('n \<Rightarrow> string) \<Rightarrow> block
    \<Rightarrow> prestateTracerConfig traceConfig batchElem" where
  "traceElem newBlockNumber tagOrHex block =
     \<lparr>beMethod = ''debug_traceBlockByNumber'',
      beArgs = [AnyString (tagOrHex (newBlockNumber (NumberU64 block))),
        AnyConfig (Some \<lparr>tcTracer = ''prestateTracer'',
          tcTracerConfig = Some \<lparr>pcDiffMode = True\<rparr>, tcStateOverrides = None\<rparr>)],
      beResult = RawMessage (Some []), beError = None\<rparr>"

lemma traceRequest_elem:
  "CreateRequest (traceRequest newBlockNumber tagOrHex block) h =
     Ret (Inr (traceElem newBlockNumber tagOrHex block), h)"
  by (simp add: CreateRequest_def traceRequest_def traceElem_def GetPrestateTraceBlockCaller_def
      TraceBlockCaller_def NewFactory_def Returns_def)

definition answered :: "'w w3client \<Rightarrow> (u64 \<Rightarrow> 'n) \<Rightarrow> ('n \<Rightarrow> string) \<Rightarrow> stateUpdate \<Rightarrow> bool" where
  "answered C newBlockNumber tagOrHex u \<longleftrightarrow>
     (\<exists>w w'. callTraceBlock C (traceElem newBlockNumber tagOrHex (suBlock u)) w =
        (Inr (suTraceBlock u), w'))"

lemma getLatestState_cases:
  obtains e f' where "getLatestState C nb tag f = Ret (Inl e, f')"
    and "rfBlockHead f' = rfBlockHead f"
  | f' where "getLatestState C nb tag f = Ret (Inr None, f')"
    and "rfBlockHead f' = rfBlockHead f"
  | u f' where "getLatestState C nb tag f = Ret (Inr (Some u), f')"
    and "rfBlockHead f < NumberU64 (suBlock u)" and "rfBlockHead f' = NumberU64 (suBlock u)"
    and "answered C nb tag u"
proof -
  obtain r w where blk: "callBlockByNumber C None (rfRemote f) = (r, w)" by fastforce
  show thesis
  proof (cases r)
    case (Inl e)
    with blk show thesis
      by (intro that(1) [where f' = "f\<lparr>rfRemote := w\<rparr>"])
        (auto simp: getLatestState_def rpcCall_def)
  next
    case (Inr b)
    obtain q w' where tr: "callTraceBlock C (traceElem nb tag b) w = (q, w')" by fastforce
    show thesis
    proof (cases "NumberU64 b \<le> rfBlockHead f")
      case True
      with blk Inr show thesis
        by (intro that(2) [where f' = "f\<lparr>rfRemote := w\<rparr>"])
          (auto simp: getLatestState_def rpcCall_def)
    next
      case False
      show thesis
      proof (cases q)
        case (Inl e)
        with blk Inr False tr show thesis
          by (intro that(1) [where f' = "f\<lparr>rfRemote := w'\<rparr>"])
            (auto simp: getLatestState_def rpcCall_def traceRequest_elem)
      next
        case (Inr t)
        with tr have "answered C nb tag \<lparr>suTraceBlock = t, suBlock = b\<rparr>"
          by (auto simp: answered_def)
        with blk \<open>r = Inr b\<close> Inr False tr show thesis
          by (intro that(3) [where f' = "f\<lparr>rfRemote := w', rfBlockHead := NumberU64 b\<rparr>"])
            (auto simp: getLatestState_def rpcCall_def traceRequest_elem)
      qed
    qed
  qed
qed

section \<open>The order of the stream\<close>

definition streamOrdered :: "'w w3client \<Rightarrow> (u64 \<Rightarrow> 'n) \<Rightarrow> ('n \<Rightarrow> string) \<Rightarrow> 'w stream \<Rightarrow> bool" where
  "streamOrdered C nb tag s \<longleftrightarrow>
     (let us = smReceived s @ (case smSending s of None \<Rightarrow> [] | Some u \<Rightarrow> [u])
      in sorted_wrt (<) (map (NumberU64 \<circ> suBlock) us) \<and>
         (\<forall>u \<in> set us. NumberU64 (suBlock u) \<le> rfBlockHead (smFetcher s) \<and> answered C nb tag u))"

lemma streamOrdered_step:
  assumes "streamOrdered C nb tag s" and "streamStep C nb tag s t"
  shows "streamOrdered C nb tag t"
  using assms(2)
proof cases
  case (tick_error err f)
  then have "rfBlockHead f = rfBlockHead (smFetcher s)"
    by (cases rule: getLatestState_cases [of C nb tag "smFetcher s"]) auto
  with tick_error assms(1) show ?thesis by (simp add: streamOrdered_def Let_def)
next
  case (tick_old f)
  then have "rfBlockHead f = rfBlockHead (smFetcher s)"
    by (cases rule: getLatestState_cases [of C nb tag "smFetcher s"]) auto
  with tick_old assms(1) show ?thesis by (simp add: streamOrdered_def Let_def)
next
  case (tick_new u f)
  then have "rfBlockHead (smFetcher s) < NumberU64 (suBlock u)"
    "rfBlockHead f = NumberU64 (suBlock u)" "answered C nb tag u"
    by (cases rule: getLatestState_cases [of C nb tag "smFetcher s"]; auto)+
  with tick_new assms(1) show ?thesis
    by (fastforce simp: streamOrdered_def Let_def sorted_wrt_append)
next
  case (receive u)
  with assms(1) show ?thesis by (simp add: streamOrdered_def Let_def)
qed

lemma streamReachable_ordered:
  "streamReachable C nb tag s \<Longrightarrow> streamOrdered C nb tag s"
proof (induction rule: streamReachable.induct)
  case (start w bn)
  then show ?case by (simp add: streamOrdered_def)
next
  case (step s t)
  then show ?case by (blast intro: streamOrdered_step)
next
  case (world s w)
  then show ?case by (simp add: streamOrdered_def Let_def)
qed

end
