(* ===== verification/Backend.thy ===== *)
theory Backend
  imports RpcFetcher
begin

text \<open>
  The backend of \<open>w3backend/backend.go\<close> that go-ethereum's tracers and the bundle API call:
  blocks and headers, answered from the cached head when it is the one asked for, and the
  state of a block, from the shared cache or from a fresh one on a fetcher for that block.

  The state of the backend is the head and the remote side. \<open>rpc.BlockNumber\<close> is an \<open>int64\<close>, a
  64-bit word whose conversion to \<open>uint64\<close> is the identity. \<open>latest\<close> is
  \<open>rpc.LatestBlockNumber\<close>, and \<open>stateNew\<close> is go-ethereum's \<open>state.New\<close> on one of the two
  databases \<open>StateAtBlock\<close> chooses from.
\<close>

section \<open>Backend and head\<close>

record 'w w3backend =
  wbHead :: "block option"
  wbRemote :: 'w

definition NewW3Backend :: "'w \<Rightarrow> 'w w3backend" where
  "NewW3Backend client = \<lparr>wbHead = None, wbRemote = client\<rparr>"

definition SetHead :: "block option \<Rightarrow> 'w w3backend \<Rightarrow> 'w w3backend" where
  "SetHead block b = b\<lparr>wbHead := block\<rparr>"

definition backendCall ::
    "('w \<Rightarrow> (error + 'a) \<times> 'w) \<Rightarrow> 'w w3backend \<Rightarrow> (error + 'a) \<times> 'w w3backend" where
  "backendCall request b = (case request (wbRemote b) of (r, w) \<Rightarrow> (r, b\<lparr>wbRemote := w\<rparr>))"

section \<open>Blocks and headers\<close>

text \<open>\<open>nil\<close> asks the client for the latest block.\<close>

definition numberArg :: "i64 \<Rightarrow> i64 \<Rightarrow> int option" where
  "numberArg latest number = (if sint number \<noteq> sint latest then Some (sint number) else None)"

definition BlockByHash ::
    "'w w3client \<Rightarrow> hash \<Rightarrow> 'w w3backend \<Rightarrow> (error + block) \<times> 'w w3backend" where
  "BlockByHash C h b = backendCall (callBlockByHash C h) b"

definition backendBlockByNumber ::
    "'w w3client \<Rightarrow> i64 \<Rightarrow> i64 \<Rightarrow> 'w w3backend \<Rightarrow> (error + block) \<times> 'w w3backend" where
  "backendBlockByNumber C latest number b =
     (let fetch = backendCall (callBlockByNumber C (numberArg latest number)) b
      in case wbHead b of
           Some head \<Rightarrow>
             if sint number = sint latest \<or> NumberU64 head = number then (Inr head, b) else fetch
         | None \<Rightarrow> fetch)"

definition HeaderByNumber ::
    "'w w3client \<Rightarrow> i64 \<Rightarrow> i64 \<Rightarrow> 'w w3backend \<Rightarrow> (error + header) \<times> 'w w3backend" where
  "HeaderByNumber C latest number b =
     (let fetch = backendCall (callHeaderByNumber C (numberArg latest number)) b
      in case wbHead b of
           Some head \<Rightarrow> if NumberU64 head = number then (Inr (bkHeader head), b) else fetch
         | None \<Rightarrow> fetch)"

definition HeaderByHash ::
    "'w w3client \<Rightarrow> hash \<Rightarrow> 'w w3backend \<Rightarrow> (error + header) \<times> 'w w3backend" where
  "HeaderByHash C h b = backendCall (callHeaderByHash C h) b"

definition GetHeader ::
    "'w w3client \<Rightarrow> hash \<Rightarrow> u64 \<Rightarrow> 'w w3backend \<Rightarrow> (header \<times> 'w w3backend) outcome" where
  "GetHeader C h number b =
     (case HeaderByHash C h b of
        (Inl err, b') \<Rightarrow> Panic (PanicError err)
      | (Inr header, b') \<Rightarrow> Ret (header, b'))"

section \<open>The state of a block\<close>

text \<open>
  \<open>SharedDB\<close> is the database the backend was made with, \<open>FreshDB bn kv\<close> a new \<open>db\<close> over the
  new store \<open>kv\<close> and a fetcher of \<open>w3vm\<close> for block \<open>bn\<close>.
\<close>

datatype 'kv stateDatabase = SharedDB | FreshDB int 'kv

definition StateAtBlock ::
    "('kv, 'txn, 'x) badger_scheme \<Rightarrow> (hash \<Rightarrow> 'kv stateDatabase \<Rightarrow> error + 'sdb) \<Rightarrow> block
      \<Rightarrow> 'w w3backend \<Rightarrow> (error + 'sdb) outcome" where
  "StateAtBlock L stateNew block b =
     andThen
       (case wbHead b of
          None \<Rightarrow> andThen (NewBadgerKV L) (\<lambda>kv. Ret (FreshDB (bkNumber block) kv))
        | Some head \<Rightarrow>
            if NumberU64 block < NumberU64 head
            then andThen (NewBadgerKV L) (\<lambda>kv. Ret (FreshDB (bkNumber block) kv))
            else Ret SharedDB)
       (\<lambda>db. Ret (stateNew 0 db))"

record blockNumberOrHash =
  bnhNumber :: "i64 option"
  bnhHash :: "hash option"

definition StateAndHeaderByNumberOrHash ::
    "('kv, 'txn, 'x) badger_scheme \<Rightarrow> (hash \<Rightarrow> 'kv stateDatabase \<Rightarrow> error + 'sdb)
      \<Rightarrow> 'w w3client \<Rightarrow> i64 \<Rightarrow> blockNumberOrHash \<Rightarrow> 'w w3backend
      \<Rightarrow> ((error + 'sdb \<times> header) \<times> 'w w3backend) outcome" where
  "StateAndHeaderByNumberOrHash L stateNew C latest blockNrOrHash b =
     callThen
       (Ret (case bnhHash blockNrOrHash of
               Some h \<Rightarrow> BlockByHash C h b
             | None \<Rightarrow>
                 let number = (case bnhNumber blockNrOrHash of None \<Rightarrow> 0 | Some n \<Rightarrow> n)
                 in backendBlockByNumber C latest number b))
       (\<lambda>err b. Ret (Inl err, b))
       (\<lambda>block b. andThen (StateAtBlock L stateNew block b) (\<lambda>r.
          case r of
            Inl err \<Rightarrow> Ret (Inl err, b)
          | Inr sdb \<Rightarrow> Ret (Inr (sdb, bkHeader block), b)))"

section \<open>The rest of the interface\<close>

definition RPCGasCap :: u64 where
  "RPCGasCap = 0"

definition ChainConfig :: "'cfg \<Rightarrow> 'cfg" where
  "ChainConfig mainnetChainConfig = mainnetChainConfig"

definition ChainDb :: "'a outcome" where
  "ChainDb = unimplemented"

definition GetTransaction :: "'a outcome" where
  "GetTransaction = unimplemented"

definition StateAtTransaction :: "'a outcome" where
  "StateAtTransaction = unimplemented"

datatype engineMethod =
    APIs | Author | CalcDifficulty | Close | Finalize | FinalizeAndAssemble | Prepare | Seal
  | SealHash | VerifyHeader | VerifyHeaders | VerifyUncles

text \<open>Of the consensus engine only \<open>Author\<close> is written; \<open>common.MaxAddress\<close> has all bits set.\<close>

fun W3Engine :: "engineMethod \<Rightarrow> (error + address) outcome" where
  "W3Engine Author = Ret (Inr (- 1))"
| "W3Engine APIs = unimplemented"
| "W3Engine CalcDifficulty = unimplemented"
| "W3Engine Close = unimplemented"
| "W3Engine Finalize = unimplemented"
| "W3Engine FinalizeAndAssemble = unimplemented"
| "W3Engine Prepare = unimplemented"
| "W3Engine Seal = unimplemented"
| "W3Engine SealHash = unimplemented"
| "W3Engine VerifyHeader = unimplemented"
| "W3Engine VerifyHeaders = unimplemented"
| "W3Engine VerifyUncles = unimplemented"

text \<open>\<open>Engine\<close> is the stub, as the table of its methods.\<close>

definition Engine :: "engineMethod \<Rightarrow> (error + address) outcome" where
  "Engine = W3Engine"

section \<open>Facts about the backend\<close>

lemma backendCall_head [simp]: "wbHead (snd (backendCall request b)) = wbHead b"
  by (simp add: backendCall_def split: prod.split)

lemma backendBlockByNumber_head:
  "wbHead b = Some head \<Longrightarrow> number = latest \<or> number = NumberU64 head \<Longrightarrow>
     backendBlockByNumber C latest number b = (Inr head, b)"
  by (auto simp: backendBlockByNumber_def)

lemma backendBlockByNumber_remote:
  "wbHead b = None \<or> number \<noteq> latest \<and> (\<forall>head. wbHead b = Some head \<longrightarrow> NumberU64 head \<noteq> number) \<Longrightarrow>
     backendBlockByNumber C latest number b =
       backendCall (callBlockByNumber C (numberArg latest number)) b"
  by (auto simp: backendBlockByNumber_def Let_def dest: signed_word_eqI split: option.split)

text \<open>The database that \<open>StateAtBlock\<close> chooses.\<close>

definition sharesCache :: "block \<Rightarrow> 'w w3backend \<Rightarrow> bool" where
  "sharesCache block b \<longleftrightarrow>
     (\<exists>head. wbHead b = Some head \<and> NumberU64 head \<le> NumberU64 block)"

lemma StateAtBlock_shared:
  "sharesCache block b \<Longrightarrow> StateAtBlock L stateNew block b = Ret (stateNew 0 SharedDB)"
  by (auto simp: StateAtBlock_def sharesCache_def not_less [symmetric])

lemma StateAtBlock_fresh:
  "\<not> sharesCache block b \<Longrightarrow> NewBadgerKV L = Ret kv \<Longrightarrow>
     StateAtBlock L stateNew block b = Ret (stateNew 0 (FreshDB (bkNumber block) kv))"
  by (auto simp: StateAtBlock_def sharesCache_def split: option.split)

lemma StateAndHeader_head:
  assumes "wbHead b = Some head" and "bnhHash nh = None"
    and "bnhNumber nh = Some number" and "number = latest \<or> number = NumberU64 head"
    and "stateNew 0 SharedDB = Inr sdb"
  shows "StateAndHeaderByNumberOrHash L stateNew C latest nh b = Ret (Inr (sdb, bkHeader head), b)"
  using assms backendBlockByNumber_head [of b head number latest C]
  by (simp add: StateAndHeaderByNumberOrHash_def StateAtBlock_shared sharesCache_def)

end
