(* ===== verification/System.thy ===== *)
theory System
  imports BlockStream Backend
begin

text \<open>
  The whole program of \<open>main.go\<close>: the goroutine that polls for blocks, the loop
  \<open>updateState\<close> that merges their traces into the store and then moves the head, and any number
  of requests that read (or write) accounts, slots and code through the cache meanwhile. A step
  is one action of one of them and has at most one badger transaction. A request looks into the
  store and, when it finds nothing there, calls the fetcher; the write-back of what it fetched
  is a later step, and in between the other parts of the program go on.
\<close>

section \<open>Requests\<close>

text \<open>
  A use of the cache on behalf of a request, through the methods of \<open>db\<close>, and the writes that
  it may end with. \<open>lookup\<close> is a method up to its write: the store first, then the fetcher;
  \<open>applyWrite\<close> is the write.
\<close>

datatype cacheOp =
    ReadAccount | ReadSlot "byte list" | ReadCode hash | WriteSlot "byte list" "byte list"

datatype writeBack =
    PutAccount account | PutSlot "byte list" "byte list" | PutCode hash "byte list"

fun applyWrite ::
    "('kv, 'txn, 'x) badger_scheme \<Rightarrow> writeBack \<Rightarrow> address \<Rightarrow> 'kv \<Rightarrow> ('kv \<times> error option) outcome" where
  "applyWrite L (PutAccount acc) a kv = kvUpdateAccount L kv a acc"
| "applyWrite L (PutSlot key v) a kv = kvUpdateStorage L kv a key v"
| "applyWrite L (PutCode h code) a kv = kvUpdateContractCode L kv a h code"

definition lookupRemote ::
    "'w fetcher \<Rightarrow> address \<Rightarrow> 'w \<Rightarrow> (writeBack option \<times> 'w) outcome" where
  "lookupRemote f a w =
     callThen (fNonce f a w) (\<lambda>err w. Ret (None, w)) (\<lambda>nonce w.
     callThen (fBalance f a w) (\<lambda>err w. Ret (None, w)) (\<lambda>balance w.
     callThen (fCode f a w) (\<lambda>err w. Ret (None, w)) (\<lambda>code w.
       Ret (Some (PutAccount \<lparr>accBalance = Some balance, accCode = Some code,
         accNonce = Some nonce, accStorage = None\<rparr>), w))))"

fun lookup ::
    "('kv, 'txn, 'x) badger_scheme \<Rightarrow> 'w fetcher \<Rightarrow> cacheOp \<Rightarrow> address \<Rightarrow> 'kv \<times> 'w
      \<Rightarrow> (writeBack option \<times> 'w) outcome" where
  "lookup L f ReadAccount a (kv, w) =
     (case kvGetAccount L kv a of
        Inr account \<Rightarrow>
          if accNonce account \<noteq> None \<and> accBalance account \<noteq> None then Ret (None, w)
          else lookupRemote f a w
      | Inl _ \<Rightarrow> lookupRemote f a w)"
| "lookup L f (ReadSlot key) a (kv, w) =
     (case kvGetStorage L kv a key of
        Inr v \<Rightarrow> Ret (None, w)
      | Inl _ \<Rightarrow>
          callThen (fStorageAt f a (bytesToHash L key) w) (\<lambda>err w. Ret (None, w))
            (\<lambda>v w. Ret (Some (PutSlot key (hashBytes L v)), w)))"
| "lookup L f (ReadCode h) a (kv, w) =
     (case kvContractCode L kv a h of
        Inr code \<Rightarrow> Ret (None, w)
      | Inl _ \<Rightarrow>
          callThen (fCode f a w) (\<lambda>err w. Ret (None, w)) (\<lambda>code w. Ret (Some (PutCode h code), w)))"
| "lookup L f (WriteSlot key v) a (kv, w) = Ret (Some (PutSlot key v), w)"

text \<open>The methods of \<open>db\<close> are their lookup followed by their write.\<close>

fun cacheAfter ::
    "('kv, 'txn, 'x) badger_scheme \<Rightarrow> 'w fetcher \<Rightarrow> cacheOp \<Rightarrow> address \<Rightarrow> 'kv \<times> 'w
      \<Rightarrow> ('kv \<times> 'w) outcome" where
  "cacheAfter L f ReadAccount a s = andThen (dbGetAccount L (Some f) a s) (\<lambda>(r, s'). Ret s')"
| "cacheAfter L f (ReadSlot key) a s =
     andThen (dbGetStorage L (Some f) a key s) (\<lambda>(r, s'). Ret s')"
| "cacheAfter L f (ReadCode h) a s =
     andThen (dbContractCode L (Some f) a h s) (\<lambda>(r, s'). Ret s')"
| "cacheAfter L f (WriteSlot key v) a s =
     andThen (dbUpdateStorage L a key v s) (\<lambda>(r, s'). Ret s')"

definition thenWrite ::
    "('kv, 'txn, 'x) badger_scheme \<Rightarrow> address \<Rightarrow> 'kv \<Rightarrow> writeBack option \<times> 'w \<Rightarrow> ('kv \<times> 'w) outcome" where
  "thenWrite L a kv p =
     (case fst p of
        None \<Rightarrow> Ret (kv, snd p)
      | Some x \<Rightarrow> andThen (applyWrite L x a kv) (\<lambda>r. Ret (fst r, snd p)))"

lemma andThen_callThen:
  "andThen (callThen m fail ok) f =
     callThen m (\<lambda>e s. andThen (fail e s) f) (\<lambda>x s. andThen (ok x s) f)"
  by (cases "(m, fail, ok)" rule: callThen.cases) auto

lemmas phases = thenWrite_def andThen_callThen andThen_assoc case_prod_beta

lemma fetchStateAccount_phases:
  "andThen (fetchStateAccount L f a (kv, w)) (\<lambda>(r, s'). Ret s') =
     andThen (lookupRemote f a w) (thenWrite L a kv)"
  by (simp add: fetchStateAccount_def lookupRemote_def phases)

lemma cacheAfter_phases:
  "cacheAfter L f op a (kv, w) = andThen (lookup L f op a (kv, w)) (thenWrite L a kv)"
proof (cases op)
  case ReadAccount
  then show ?thesis
    by (auto simp: dbGetAccount_def fetchStateAccount_phases [symmetric] thenWrite_def
        split: sum.split option.split)
qed (simp_all add: dbGetStorage_def dbContractCode_def dbUpdateStorage_def phases split: sum.split)

context framed_fetcher
begin

lemma lookupRemote_keeps: "keep w \<Longrightarrow> lookupRemote f a w = Ret (x, w') \<Longrightarrow> keep w'"
  by (auto simp: lookupRemote_def callThen_Ret_iff) (blast intro: keeps)+

lemma lookup_keeps: "keep w \<Longrightarrow> lookup L f op a (kv, w) = Ret (x, w') \<Longrightarrow> keep w'"
  by (cases op) (auto simp: callThen_Ret_iff split: sum.splits if_splits
      intro: lookupRemote_keeps keeps)

end

section \<open>The state\<close>

text \<open>\<open>updateState\<close> waits, has received an update, has merged it, or has taken the process down.\<close>

datatype updateLoop =
    Waiting
  | Received stateUpdate
  | Merged stateUpdate "error option"
  | Crashed panicValue

text \<open>\<open>syPending\<close> holds the write-backs of the requests that have fetched and not yet written.\<close>

record ('kv, 'w) system =
  syStream :: "'w stream"
  syStore :: 'kv
  syHead :: "block option"
  syLoop :: updateLoop
  syMerged :: "stateUpdate list"
  syPending :: "(address \<times> writeBack) list"

definition setFetcher :: "'w rpcFetcher \<Rightarrow> ('kv, 'w) system \<Rightarrow> ('kv, 'w) system" where
  "setFetcher f s = s\<lparr>syStream := (syStream s)\<lparr>smFetcher := f\<rparr>\<rparr>"

definition backendOf :: "('kv, 'w) system \<Rightarrow> 'w w3backend" where
  "backendOf s = \<lparr>wbHead = syHead s, wbRemote = rfRemote (smFetcher (syStream s))\<rparr>"

section \<open>Start and updateState\<close>

text \<open>
  \<open>main\<close> makes the fetcher, the store and the backend and starts \<open>updateState\<close>, which subscribes
  to the stream. \<open>syMerged\<close> records the updates whose transaction has committed, for the theorems.
\<close>

definition startSystem :: "('kv, 'txn, 'x) badger_scheme \<Rightarrow> 'w \<Rightarrow> ('kv, 'w) system outcome" where
  "startSystem L client =
     andThen (NewBadgerKV L) (\<lambda>kv. Ret
       \<lparr>syStream = \<lparr>smFetcher = fst (StateStream (NewRPCFetcher client None) 0),
          smSending = None, smReceived = []\<rparr>,
        syStore = kv, syHead = wbHead (NewW3Backend client), syLoop = Waiting, syMerged = [],
        syPending = []\<rparr>)"

fun updateState :: "('kv, 'txn, 'x) badger_scheme \<Rightarrow> ('kv, 'w) system \<Rightarrow> ('kv, 'w) system" where
  "updateState L s =
     (case syLoop s of
        Received u \<Rightarrow>
          (case ProcessState L (syStore s) (suTraceBlock u) of
             Panic p \<Rightarrow> s\<lparr>syLoop := Crashed p\<rparr>
           | Ret (kv, err) \<Rightarrow>
               s\<lparr>syStore := kv, syLoop := Merged u err,
                 syMerged := (if err = None then syMerged s @ [u] else syMerged s)\<rparr>)
      | Merged u err \<Rightarrow>
          s\<lparr>syHead := wbHead (SetHead (Some (suBlock u)) (backendOf s)), syLoop := Waiting\<rparr>
      | _ \<Rightarrow> s)"

declare updateState.simps [simp del]

section \<open>Steps\<close>

text \<open>\<open>touched\<close> is the set of addresses that requests may read or write.\<close>

inductive systemStep ::
    "('kv, 'txn, 'x) badger_scheme \<Rightarrow> 'w w3client
      \<Rightarrow> (byte list \<Rightarrow> 'w rpcFetcher flight \<Rightarrow> 'w rpcFetcher flight) \<Rightarrow> (u64 \<Rightarrow> 'n)
      \<Rightarrow> ('n \<Rightarrow> string) \<Rightarrow> address set \<Rightarrow> ('kv, 'w) system \<Rightarrow> ('kv, 'w) system \<Rightarrow> bool"
  for L C Do nb tag touched where
  poll: "(\<forall>p. syLoop s \<noteq> Crashed p) \<Longrightarrow> smSending (syStream s) = None \<Longrightarrow>
     streamStep C nb tag (syStream s) t \<Longrightarrow>
     systemStep L C Do nb tag touched s (s\<lparr>syStream := t\<rparr>)"
| deliver: "syLoop s = Waiting \<Longrightarrow> smSending (syStream s) = Some u \<Longrightarrow>
     streamStep C nb tag (syStream s) t \<Longrightarrow>
     systemStep L C Do nb tag touched s (s\<lparr>syStream := t, syLoop := Received u\<rparr>)"
| update: "syLoop s = Received u \<or> syLoop s = Merged u err \<Longrightarrow>
     systemStep L C Do nb tag touched s (updateState L s)"
| read: "(\<forall>p. syLoop s \<noteq> Crashed p) \<Longrightarrow> a \<in> touched \<Longrightarrow>
     lookup L (rpcFetcherMethods L C Do) op a (syStore s, smFetcher (syStream s)) = Ret (x, f) \<Longrightarrow>
     systemStep L C Do nb tag touched s (setFetcher f
       (s\<lparr>syPending := (case x of None \<Rightarrow> [] | Some y \<Rightarrow> [(a, y)]) @ syPending s\<rparr>))"
| write_back: "(\<forall>p. syLoop s \<noteq> Crashed p) \<Longrightarrow> syPending s = xs @ (a, x) # ys \<Longrightarrow>
     applyWrite L x a (syStore s) = Ret (kv, err) \<Longrightarrow>
     systemStep L C Do nb tag touched s (s\<lparr>syStore := kv, syPending := xs @ ys\<rparr>)"
| remote: "(\<forall>p. syLoop s \<noteq> Crashed p) \<Longrightarrow>
     systemStep L C Do nb tag touched s
       (setFetcher ((smFetcher (syStream s))\<lparr>rfRemote := w\<rparr>) s)"

inductive systemReachable ::
    "('kv, 'txn, 'x) badger_scheme \<Rightarrow> 'w w3client
      \<Rightarrow> (byte list \<Rightarrow> 'w rpcFetcher flight \<Rightarrow> 'w rpcFetcher flight) \<Rightarrow> (u64 \<Rightarrow> 'n)
      \<Rightarrow> ('n \<Rightarrow> string) \<Rightarrow> address set \<Rightarrow> ('kv, 'w) system \<Rightarrow> bool"
  for L C Do nb tag touched where
  start: "startSystem L w = Ret s \<Longrightarrow> systemReachable L C Do nb tag touched s"
| step: "systemReachable L C Do nb tag touched s \<Longrightarrow>
     systemStep L C Do nb tag touched s t \<Longrightarrow> systemReachable L C Do nb tag touched t"

inductive_cases systemStepE: "systemStep L C Do nb tag touched s t"

text \<open>A method of \<open>db\<close> that nothing interrupts is two steps at most.\<close>

lemma cacheAfter_steps:
  assumes "\<forall>p. syLoop s \<noteq> Crashed p" and "a \<in> touched"
    and "cacheAfter L (rpcFetcherMethods L C Do) op a (syStore s, smFetcher (syStream s)) = Ret (kv, f)"
  shows "rtranclp (systemStep L C Do nb tag touched) s (setFetcher f (s\<lparr>syStore := kv\<rparr>))"
proof -
  let ?step = "systemStep L C Do nb tag touched"
  obtain x where look: "lookup L (rpcFetcherMethods L C Do) op a
      (syStore s, smFetcher (syStream s)) = Ret (x, f)"
    and rest: "thenWrite L a (syStore s) (x, f) = Ret (kv, f)"
    using assms(3) by (auto simp: cacheAfter_phases andThen_Ret_iff thenWrite_def
        split: option.splits)
  from systemStep.read [OF assms(1,2) look]
  have read: "?step s (setFetcher f
      (s\<lparr>syPending := (case x of None \<Rightarrow> [] | Some y \<Rightarrow> [(a, y)]) @ syPending s\<rparr>))" .
  show ?thesis
  proof (cases x)
    case None
    with rest read show ?thesis by (auto simp: thenWrite_def setFetcher_def)
  next
    case (Some y)
    let ?t = "setFetcher f (s\<lparr>syPending := (a, y) # syPending s\<rparr>)"
    from rest Some obtain err where "applyWrite L y a (syStore s) = Ret (kv, err)"
      by (auto simp: thenWrite_def andThen_Ret_iff)
    then have "?step ?t (?t\<lparr>syStore := kv, syPending := [] @ syPending s\<rparr>)"
      using assms(1) by (intro systemStep.write_back) (auto simp: setFetcher_def)
    also have "?t\<lparr>syStore := kv, syPending := [] @ syPending s\<rparr> = setFetcher f (s\<lparr>syStore := kv\<rparr>)"
      by (cases s) (simp add: setFetcher_def)
    finally have "?step ?t (setFetcher f (s\<lparr>syStore := kv\<rparr>))" .
    moreover from read Some have "?step s ?t" by simp
    ultimately show ?thesis by (blast intro: converse_rtranclp_into_rtranclp)
  qed
qed

section \<open>Invariants\<close>

text \<open>The updates whose block is the head or came before it.\<close>

definition headed :: "('kv, 'w) system \<Rightarrow> stateUpdate list" where
  "headed s = (if syLoop s = Waiting then smReceived (syStream s)
               else butlast (smReceived (syStream s)))"

definition loopOk :: "('kv, 'w) system \<Rightarrow> bool" where
  "loopOk s \<longleftrightarrow>
     syHead s = (if headed s = [] then None else Some (suBlock (last (headed s)))) \<and>
     (\<forall>u err. syLoop s = Received u \<or> syLoop s = Merged u err \<longrightarrow>
        smReceived (syStream s) \<noteq> [] \<and> last (smReceived (syStream s)) = u)"

lemma poll_received:
  "streamStep C nb tag s t \<Longrightarrow> smSending s = None \<Longrightarrow> smReceived t = smReceived s"
  by (auto elim: streamStepE)

lemma deliver_received:
  "streamStep C nb tag s t \<Longrightarrow> smSending s = Some u \<Longrightarrow> smReceived t = smReceived s @ [u]"
  by (auto elim: streamStepE)

lemma loopOk_cong:
  "smReceived (syStream t) = smReceived (syStream s) \<Longrightarrow> syHead t = syHead s \<Longrightarrow>
     syLoop t = syLoop s \<Longrightarrow> loopOk t \<longleftrightarrow> loopOk s"
  by (simp add: loopOk_def headed_def)

lemma loopOk_deliver:
  assumes "loopOk s" and "syLoop s = Waiting"
    and "smReceived t = smReceived (syStream s) @ [u]"
  shows "loopOk (s\<lparr>syStream := t, syLoop := Received u\<rparr>)"
  using assms by (simp add: loopOk_def headed_def)

lemma loopOk_update:
  assumes "loopOk s" and "syLoop s = Received u \<or> syLoop s = Merged u err"
  shows "loopOk (updateState L s)"
  using assms(2)
proof
  assume "syLoop s = Received u"
  with assms(1) show ?thesis
    by (cases "ProcessState L (syStore s) (suTraceBlock u)")
      (auto simp: loopOk_def headed_def updateState.simps)
next
  assume "syLoop s = Merged u err"
  with assms(1) show ?thesis
    by (auto simp: loopOk_def headed_def updateState.simps backendOf_def SetHead_def)
qed

lemma updateState_stream [simp]: "syStream (updateState L s) = syStream s"
  by (simp add: updateState.simps split: updateLoop.split outcome.split prod.split)

lemma streamOrdered_head:
  "rfBlockHead (smFetcher t) = rfBlockHead (smFetcher s) \<Longrightarrow> smReceived t = smReceived s \<Longrightarrow>
     smSending t = smSending s \<Longrightarrow> streamOrdered C nb tag t \<longleftrightarrow> streamOrdered C nb tag s"
  by (simp add: streamOrdered_def)

lemma setFetcher_simps [simp]:
  "syLoop (setFetcher f s) = syLoop s" "syHead (setFetcher f s) = syHead s"
  "syStore (setFetcher f s) = syStore s" "syMerged (setFetcher f s) = syMerged s"
  "syPending (setFetcher f s) = syPending s"
  "smReceived (syStream (setFetcher f s)) = smReceived (syStream s)"
  "smSending (syStream (setFetcher f s)) = smSending (syStream s)"
  "smFetcher (syStream (setFetcher f s)) = f"
  by (simp_all add: setFetcher_def)

lemma updateState_pending [simp]: "syPending (updateState L s) = syPending s"
  by (simp add: updateState.simps split: updateLoop.split outcome.split prod.split)

locale program = badger_store L snapshot content seen + singleflight_group Do
  for L :: "('kv, 'txn, 'x) badger_scheme" and snapshot content seen
    and Do :: "byte list \<Rightarrow> 'w rpcFetcher flight \<Rightarrow> 'w rpcFetcher flight" +
  fixes C :: "'w w3client" and nb :: "u64 \<Rightarrow> 'n" and tag :: "'n \<Rightarrow> string"
begin

lemma lookup_head:
  assumes "lookup L (rpcFetcherMethods L C Do) op a (kv, f) = Ret (x, f')"
  shows "rfBlockHead f' = rfBlockHead f"
proof -
  have "framed_fetcher (rpcFetcherMethods L C Do) (\<lambda>g. rfBlockHead g = rfBlockHead f)"
    by (rule rpcFetcher_framed) simp
  from framed_fetcher.lookup_keeps [OF this _ assms] show ?thesis by simp
qed

lemma applyWrite_wf:
  "applyWrite L x a kv = Ret (kv', e) \<Longrightarrow> wfContent (content kv) \<Longrightarrow> wfContent (content kv')"
  by (cases x) (auto intro: kv_wf)

lemma applyWrite_frame:
  "applyWrite L x a kv = Ret (kv', e) \<Longrightarrow> wfContent (content kv) \<Longrightarrow> b \<noteq> a \<Longrightarrow>
     storedView L (content kv') b = storedView L (content kv) b"
  by (cases x) (simp_all add: storedView_def kvUpdateAccount_frame kvUpdateStorage_frame
      kvUpdateContractCode_frame)

definition systemInv :: "('kv, 'w) system \<Rightarrow> bool" where
  "systemInv s \<longleftrightarrow> wfContent (content (syStore s)) \<and> streamOrdered C nb tag (syStream s) \<and> loopOk s"

lemma systemInv_start: "startSystem L w = Ret s \<Longrightarrow> systemInv s"
  by (auto simp: startSystem_def systemInv_def andThen_Ret_iff NewBadgerKV_content streamOrdered_def
      loopOk_def headed_def NewW3Backend_def)

lemma systemInv_step:
  assumes inv: "systemInv s" and step: "systemStep L C Do nb tag touched s t"
  shows "systemInv t"
  using step
proof cases
  case (poll r)
  with inv show ?thesis
    using loopOk_cong [of t s] poll_received [OF poll(4)] streamOrdered_step [OF _ poll(4)]
    by (simp add: systemInv_def)
next
  case (deliver u r)
  with inv show ?thesis
    using loopOk_deliver [of s r u] deliver_received [OF deliver(4)] streamOrdered_step [OF _ deliver(4)]
    by (simp add: systemInv_def)
next
  case (update u err)
  have "wfContent (content (syStore t))"
    using inv update ProcessState_wf [of "syStore s" "suTraceBlock u"]
    by (auto simp: systemInv_def updateState.simps split: outcome.split)
  with update inv loopOk_update [of s u err] show ?thesis by (simp add: systemInv_def)
next
  case (read a op x f)
  from lookup_head [OF read(4)] show ?thesis
    using inv read(1) loopOk_cong [of t s] streamOrdered_head [of "syStream t" "syStream s" C nb tag]
    by (simp add: systemInv_def)
next
  case (write_back xs a x ys kv err)
  from applyWrite_wf [OF write_back(4)] show ?thesis
    using inv write_back(1) loopOk_cong [of t s] by (simp add: systemInv_def)
next
  case (remote w)
  then show ?thesis
    using inv loopOk_cong [of t s] streamOrdered_head [of "syStream t" "syStream s" C nb tag]
    by (simp add: systemInv_def)
qed

lemma systemReachable_inv: "systemReachable L C Do nb tag touched s \<Longrightarrow> systemInv s"
  by (induction rule: systemReachable.induct) (blast intro: systemInv_start systemInv_step)+

text \<open>The head only moves to a block with a greater number.\<close>

lemma head_moves_up:
  assumes inv: "systemInv s" and loop: "syLoop s = Merged u err" and head: "syHead s = Some h"
  shows "NumberU64 h < NumberU64 (suBlock u)"
proof -
  let ?us = "smReceived (syStream s)"
  from inv loop have us: "?us \<noteq> []" "last ?us = u"
    and hd: "syHead s = (if butlast ?us = [] then None else Some (suBlock (last (butlast ?us))))"
    by (auto simp: systemInv_def loopOk_def headed_def)
  from hd head have h: "butlast ?us \<noteq> []" "h = suBlock (last (butlast ?us))"
    by (auto split: if_splits)
  have "sorted_wrt (<) (map (NumberU64 \<circ> suBlock) (butlast ?us @ [u]))"
    using inv us append_butlast_last_id [OF us(1)]
    by (auto simp: systemInv_def streamOrdered_def Let_def sorted_wrt_append)
  with h show ?thesis by (auto simp: sorted_wrt_append)
qed

lemma head_step:
  assumes inv: "systemInv s" and step: "systemStep L C Do nb tag touched s t"
    and head: "syHead s = Some h"
  shows "\<exists>h'. syHead t = Some h' \<and> NumberU64 h \<le> NumberU64 h'"
  using step
proof cases
  case (update u err)
  from update(2) show ?thesis
  proof
    assume "syLoop s = Received u"
    with update(1) head show ?thesis
      by (cases "ProcessState L (syStore s) (suTraceBlock u)") (auto simp: updateState.simps)
  next
    assume "syLoop s = Merged u err"
    with head_moves_up [OF inv _ head] update(1) show ?thesis
      by (auto simp: updateState.simps backendOf_def SetHead_def intro: less_imp_le)
  qed
qed (use head in auto)

lemma head_bound: "systemInv s \<Longrightarrow> syHead s = Some h \<Longrightarrow> NumberU64 h \<le> rfBlockHead (smFetcher (syStream s))"
  by (auto simp: systemInv_def loopOk_def headed_def streamOrdered_def Let_def
      split: if_splits dest: in_set_butlastD last_in_set)

end

section \<open>What the store holds\<close>

lemma specEntries_cong: "m a = m' a \<Longrightarrow> specEntries s m a = specEntries s m' a"
  by (simp add: specEntries_def split: option.split)

lemma specBlock_cong: "m a = m' a \<Longrightarrow> specBlock b m a = specBlock b m' a"
proof (induction b m arbitrary: m' rule: specBlock.induct)
  case (2 tr s m)
  show ?case
  proof (cases "ttResult tr")
    case None
    with "2.prems" show ?thesis by simp
  next
    case (Some r)
    show ?thesis
      by (simp add: Some) (rule "2.IH" [OF Some], intro specEntries_cong, rule "2.prems")
  qed
qed simp_all

text \<open>The views that merging the traces of the updates, one after the other, leaves.\<close>

definition mergedViews :: "stateUpdate list \<Rightarrow> address \<Rightarrow> acctView option" where
  "mergedViews us = fold (\<lambda>u. specBlock (suTraceBlock u)) us (\<lambda>a. None)"

lemma mergedViews_simps [simp]:
  "mergedViews [] = (\<lambda>a. None)"
  "mergedViews (us @ [u]) = specBlock (suTraceBlock u) (mergedViews us)"
  by (simp_all add: mergedViews_def)

definition expected :: "('kv, 'w) system \<Rightarrow> stateUpdate list" where
  "expected s = (case syLoop s of
     Received u \<Rightarrow> butlast (smReceived (syStream s)) | _ \<Rightarrow> smReceived (syStream s))"

text \<open>
  \<open>sound_program\<close>: no transaction is refused, and the traces the client answers with have no
  \<open>nil\<close> in them.
\<close>

locale sound_program = program L snapshot content seen Do C nb tag +
    badger_ample L snapshot content seen
  for L :: "('kv, 'txn, 'x) badger_scheme" and snapshot content seen
    and Do :: "byte list \<Rightarrow> 'w rpcFetcher flight \<Rightarrow> 'w rpcFetcher flight"
    and C :: "'w w3client" and nb :: "u64 \<Rightarrow> 'n" and tag :: "'n \<Rightarrow> string" +
  assumes sound_traces: "callTraceBlock C req w = (Inr r, w') \<Longrightarrow> okBlock r \<and> noNilBlock r"
begin

definition mergedInv :: "address set \<Rightarrow> ('kv, 'w) system \<Rightarrow> bool" where
  "mergedInv touched s \<longleftrightarrow>
     (\<forall>p. syLoop s \<noteq> Crashed p) \<and> syMerged s = expected s \<and> fst ` set (syPending s) \<subseteq> touched \<and>
     (\<forall>a. a \<notin> touched \<longrightarrow> storedView L (content (syStore s)) a = mergedViews (syMerged s) a)"

lemma mergedInv_start: "startSystem L w = Ret s \<Longrightarrow> mergedInv touched s"
  by (auto simp: startSystem_def mergedInv_def andThen_Ret_iff NewBadgerKV_content expected_def
      storedView_def)

lemma mergedInv_cong:
  assumes "mergedInv touched s" and "smReceived (syStream t) = smReceived (syStream s)"
    and "syLoop t = syLoop s" and "syMerged t = syMerged s"
    and "fst ` set (syPending t) \<subseteq> touched"
    and "\<And>a. a \<notin> touched \<Longrightarrow>
      storedView L (content (syStore t)) a = storedView L (content (syStore s)) a"
  shows "mergedInv touched t"
  using assms by (simp add: mergedInv_def expected_def split: updateLoop.split)

lemma answered_sound:
  "answered C nb tag u \<Longrightarrow> okBlock (suTraceBlock u) \<and> noNilBlock (suTraceBlock u)"
  by (auto simp: answered_def dest: sound_traces)

lemma mergedInv_received:
  assumes inv: "systemInv s" and merged: "mergedInv touched s" and loop: "syLoop s = Received u"
  shows "mergedInv touched (updateState L s)"
proof -
  have last: "smReceived (syStream s) \<noteq> []" "last (smReceived (syStream s)) = u"
    using inv loop by (auto simp: systemInv_def loopOk_def)
  then have "u \<in> set (smReceived (syStream s))" by force
  with inv have "answered C nb tag u" by (auto simp: systemInv_def streamOrdered_def Let_def)
  then have "okBlock (suTraceBlock u)" "noNilBlock (suTraceBlock u)" by (simp_all add: answered_sound)
  with inv obtain kv where run: "ProcessState L (syStore s) (suTraceBlock u) = Ret (kv, None)"
    and view: "storedView L (content kv) = specBlock (suTraceBlock u) (storedView L (content (syStore s)))"
    using ProcessState_view unfolding systemInv_def by blast
  have "storedView L (content kv) a = mergedViews (syMerged s @ [u]) a" if "a \<notin> touched" for a
    using merged that by (simp add: view mergedInv_def) (rule specBlock_cong, simp)
  with run loop last merged show ?thesis
    by (simp add: mergedInv_def expected_def updateState.simps) (metis append_butlast_last_id)
qed

lemma mergedInv_step:
  assumes inv: "systemInv s" and merged: "mergedInv touched s"
    and step: "systemStep L C Do nb tag touched s t"
  shows "mergedInv touched t"
  using step
proof cases
  case (poll r)
  then show ?thesis
    using mergedInv_cong [OF merged, of t] poll_received [OF poll(4)] merged
    by (simp add: mergedInv_def)
next
  case (deliver u r)
  then show ?thesis
    using merged deliver_received [OF deliver(4)] by (simp add: mergedInv_def expected_def)
next
  case (update u err)
  from update(2) show ?thesis
  proof
    assume "syLoop s = Received u"
    with mergedInv_received [OF inv merged] update(1) show ?thesis by simp
  next
    assume "syLoop s = Merged u err"
    with merged update(1) show ?thesis
      by (simp add: mergedInv_def expected_def updateState.simps)
  qed
next
  case (read a op x f)
  with merged show ?thesis
    using mergedInv_cong [OF merged, of t] by (auto simp: mergedInv_def split: option.splits)
next
  case (write_back xs a x ys kv err)
  have "wfContent (content (syStore s))" using inv by (simp add: systemInv_def)
  moreover have a: "a \<in> touched" and rest: "fst ` set (xs @ ys) \<subseteq> touched"
    using merged write_back(3) by (auto simp: mergedInv_def)
  ultimately have "storedView L (content kv) b = storedView L (content (syStore s)) b"
    if "b \<notin> touched" for b
    using applyWrite_frame [OF write_back(4)] that by metis
  with write_back(1) rest show ?thesis using mergedInv_cong [OF merged, of t] by simp
next
  case (remote w)
  then show ?thesis using mergedInv_cong [OF merged, of t] merged by (simp add: mergedInv_def)
qed

lemma systemReachable_merged:
  "systemReachable L C Do nb tag touched s \<Longrightarrow> mergedInv touched s"
  by (induction rule: systemReachable.induct)
    (blast intro: mergedInv_start mergedInv_step systemReachable_inv)+

end

section \<open>The reference program\<close>

lemma memProgram_law:
  "sound_program (memLib None) (\<lambda>db. (db, 0)) map_of (\<lambda>txn. map_of (fst txn)) memDo (memClient ch)"
  by (intro sound_program.intro program.intro sound_program_axioms.intro mem.badger_store_axioms
      ample.badger_ample_axioms flights.singleflight_group_axioms)
    (auto simp: memClient_def memTrace_sound)

interpretation memRun: program "memLib b" "\<lambda>db. (db, 0)" map_of "\<lambda>txn. map_of (fst txn)" memDo
    C nb tag
  for b and C :: "'w w3client" and nb tag
  by (intro program.intro mem.badger_store_axioms flights.singleflight_group_axioms)

interpretation memProgram: sound_program "memLib None" "\<lambda>db. (db, 0)" map_of
    "\<lambda>txn. map_of (fst txn)" memDo "memClient ch" nb tag
  for ch nb tag by (rule memProgram_law)

end
