(* ===== verification/StoreProps.thy ===== *)
theory StoreProps
  imports TraceMerge
begin

text \<open>
  The properties of the account store: its codec, its operations, and the merging of
  prestate traces. Each is stated for any badger database that obeys the laws of
  \<open>badger_store\<close> (or \<open>badger_ample\<close>, where no transaction is refused); its witness applies it
  to the executable store \<open>memLib\<close>.
\<close>

section \<open>The codec\<close>

text \<open>C14. An account that is encoded and decoded again is its normal form; it comes back
  unchanged exactly when its nonce is not a pointer to zero, its code not a pointer to an
  empty slice, and its storage map not nil.\<close>

theorem codec_round_trip:
  "\<exists>w. encodeAccount a = Inr w \<and> decodeAccount w = Inr (normAccount a) \<and>
     (decodeAccount w = Inr a \<longleftrightarrow>
        accNonce a \<noteq> Some 0 \<and> accCode a \<noteq> Some [] \<and> accStorage a \<noteq> None)"
proof -
  have "normAccount a = a \<longleftrightarrow> accNonce a \<noteq> Some 0 \<and> accCode a \<noteq> Some [] \<and> accStorage a \<noteq> None"
    by (cases a) (auto simp: normAccount_def split: option.splits)
  then show ?thesis by auto
qed

section \<open>The operations of the store\<close>

lemma getAccount_updated:
  assumes "badger_store L snapshot content seen" and "wfContent (content db)"
    and "kvUpdateAccount L db a acc = Ret (db', None)"
  shows "kvGetAccount L db' b = (if b = a then Inr (normAccount acc) else kvGetAccount L db b)"
proof -
  note S = assms(1)
  note G = badger_store.kvGetAccount_stored [OF S]
  show ?thesis
    using G [of db b] G [of db' b] badger_store.kvUpdateAccount_wf [OF S assms(3,2)] assms(2)
      badger_store.kvUpdateAccount_stored [OF S assms(3)] by simp
qed

text \<open>C11. After a committed \<open>UpdateAccount\<close>, \<open>GetAccount\<close> gives the normal form of the account
  at its address and what it gave before at every other address.\<close>

theorem account_after_update:
  assumes "badger_store L snapshot content seen" and "wfContent (content db)"
    and "kvUpdateAccount L db a acc = Ret (db', None)"
  shows "kvGetAccount L db' b = (if b = a then Inr (normAccount acc) else kvGetAccount L db b)"
  using getAccount_updated [OF assms] .

text \<open>The store of the examples: no bound on a transaction, and one account.\<close>

lemmas mem_store = mem.badger_store_axioms [of None]

definition exAccount :: account where
  "exAccount = \<lparr>accBalance = Some 5, accCode = Some [1, 2], accNonce = Some 3,
     accStorage = Some [(7, 70)]\<rparr>"

lemma exAccount_normal: "normAccount exAccount = exAccount"
  by (simp add: exAccount_def normAccount_def)

lemma mem_update: "kvUpdateAccount (memLib None) db a acc =
    Ret (put (be_bytes 20 a) (gobEncode (toAccountMarshaling acc)) db, None)"
  by (simp add: kvUpdateAccount_def txUpdateAccount_def memUpdate_def memSet_def)

definition exStore :: memDb where
  "exStore = put (be_bytes 20 (9 :: address)) (gobEncode (toAccountMarshaling exAccount)) []"

lemma exStore_reached: "kvUpdateAccount (memLib None) [] 9 exAccount = Ret (exStore, None)"
  by (simp add: mem_update exStore_def)

lemma exStore_wf: "wfContent (map_of exStore)"
  by (simp add: exStore_def map_simps)

lemma exStore_stored:
  "stored (memLib None) (map_of exStore) a = (if a = 9 then Some exAccount else None)"
  using mem.kvUpdateAccount_stored [OF exStore_reached] by (simp add: exAccount_normal)

theorem account_after_update_witness:
  "kvGetAccount (memLib None) exStore 9 = Inr exAccount \<and>
   kvGetAccount (memLib None) exStore 8 = kvGetAccount (memLib None) [] 8"
  using account_after_update [OF mem_store _ exStore_reached, of 9]
    account_after_update [OF mem_store _ exStore_reached, of 8]
  by (simp add: exAccount_normal)

lemma getStorage_updated:
  assumes "badger_ample L snapshot content seen" and "wfContent (content db)"
    and "kvGetAccount L db a = Inr acc"
  shows "\<exists>db' acc'. kvUpdateStorage L db a key v = Ret (db', None) \<and>
    kvGetStorage L db' a key = Inr (bytesToHash L v) \<and>
    (\<forall>k x. bytesToHash L k \<noteq> bytesToHash L key \<longrightarrow>
       (kvGetStorage L db' a k = Inr x \<longleftrightarrow> kvGetStorage L db a k = Inr x)) \<and>
    kvGetAccount L db' a = Inr acc' \<and> accBalance acc' = accBalance acc \<and>
    accCode acc' = accCode acc \<and> accNonce acc' = accNonce acc"
proof -
  have S: "badger_store L snapshot content seen"
    using assms(1) by (simp add: badger_ample_def)
  note G = badger_store.kvGetAccount_stored [OF S]
  have acc: "stored L (content db) a = Some acc"
    using G [OF assms(2), of a] assms(3) by (simp split: option.splits)
  then obtain s where s: "accStorage acc = Some s"
    using stored_normal [OF assms(2)] normal_storage by blast
  let ?acc = "acc\<lparr>accStorage := Some (put (bytesToHash L key) (bytesToHash L v) s)\<rparr>"
  obtain db' where run: "kvUpdateStorage L db a key v = Ret (db', None)"
    and c: "content db' = (content db)(addrBytes L a \<mapsto> gobEncode (toAccountMarshaling ?acc))"
    using badger_ample.kvUpdateStorage_ample [OF assms(1,2) acc s] by blast
  have wf: "wfContent (content db')" by (rule badger_store.kvUpdateStorage_wf [OF S assms(2) run])
  have acc': "stored L (content db') a = Some ?acc"
    using geth_laws.stored_update [of L] S stored_normal [OF assms(2) acc]
    by (simp add: c badger_store_def normal_put_storage)
  with s G [OF wf, of a] G [OF assms(2), of a] acc show ?thesis
    by (intro exI [of _ db'] exI [of _ ?acc])
      (auto simp: run kvGetStorage_def split: option.split)
qed

text \<open>C10. \<open>UpdateStorage\<close> of a slot of a stored account, on a store that refuses nothing,
  succeeds; \<open>GetStorage\<close> then gives the value at that slot, what it gave before at every
  other slot of the account, and the rest of the account is as it was.\<close>

theorem storage_after_update:
  assumes "badger_ample L snapshot content seen" and "wfContent (content db)"
    and "kvGetAccount L db a = Inr acc"
  shows "\<exists>db' acc'. kvUpdateStorage L db a key v = Ret (db', None) \<and>
    kvGetStorage L db' a key = Inr (bytesToHash L v) \<and>
    (\<forall>k x. bytesToHash L k \<noteq> bytesToHash L key \<longrightarrow>
       (kvGetStorage L db' a k = Inr x \<longleftrightarrow> kvGetStorage L db a k = Inr x)) \<and>
    kvGetAccount L db' a = Inr acc' \<and> accBalance acc' = accBalance acc \<and>
    accCode acc' = accCode acc \<and> accNonce acc' = accNonce acc"
  using getStorage_updated [OF assms] .

theorem storage_after_update_witness:
  "\<exists>db'. kvUpdateStorage (memLib None) exStore 9 [4] [44] = Ret (db', None) \<and>
     kvGetStorage (memLib None) db' 9 [4] = Inr 44 \<and>
     kvGetStorage (memLib None) db' 9 [7] = Inr 70"
  using storage_after_update [OF ample.badger_ample_axioms exStore_wf, of 9 exAccount "[4]" "[44]"]
  by (auto simp: mem.kvGetAccount_stored exStore_wf exStore_stored mem.kvGetStorage_stored
      from_be_def exAccount_def)

text \<open>C24. \<open>UpdateStorage\<close> and \<open>UpdateContractCode\<close> of an account that is not stored return
  badger's \<open>ErrKeyNotFound\<close> and leave the content of the store as it was: neither creates an
  entry.\<close>

theorem update_of_missing_account:
  assumes "badger_store L snapshot content seen" and "wfContent (content db)"
    and "kvGetAccount L db a = Inl e"
  shows "(\<exists>db'. kvUpdateStorage L db a key v = Ret (db', Some ErrKeyNotFound) \<and>
      content db' = content db) \<and>
    (\<exists>db'. kvUpdateContractCode L db a h c = Ret (db', Some ErrKeyNotFound) \<and>
      content db' = content db)"
proof -
  note S = assms(1) and wf = assms(2)
  have none: "stored L (content db) a = None"
    using badger_store.kvGetAccount_stored [OF S wf, of a] assms(3) by (simp split: option.splits)
  obtain x y where x: "kvUpdateStorage L db a key v = Ret x"
    and y: "kvUpdateContractCode L db a h c = Ret y"
    using badger_store.kvUpdateStorage_returns [OF S wf, of a key v]
      badger_store.kvUpdateContractCode_returns [OF S wf, of a h c] by (auto simp: returns_iff)
  show ?thesis
    using badger_store.kvUpdateStorage_missing [OF S wf none, of key v "fst x" "snd x"]
      badger_store.kvUpdateContractCode_missing [OF S wf none, of h c "fst y" "snd y"]
    by (cases x; cases y) (simp add: x y)
qed

theorem update_of_missing_account_witness:
  "\<exists>db'. kvUpdateContractCode (memLib None) exStore 8 0 [1] = Ret (db', Some ErrKeyNotFound) \<and>
     map_of db' = map_of exStore"
proof -
  have "kvGetAccount (memLib None) exStore 8 = Inl ErrKeyNotFound"
    by (simp add: mem.kvGetAccount_stored exStore_wf exStore_stored)
  from update_of_missing_account [OF mem_store exStore_wf this] show ?thesis by blast
qed

text \<open>C12. On every store the program can reach, no operation of the store panics, except
  \<open>ProcessState\<close>, which panics exactly on a block with a \<open>nil\<close> trace, result or account.\<close>

theorem store_never_panics:
  assumes "badger_store L snapshot content seen" and "kvReachable L db"
  shows "returns (kvUpdateAccount L db a acc) \<and> returns (kvUpdateStorage L db a key v) \<and>
    returns (kvUpdateContractCode L db a h c) \<and> (returns (ProcessState L db s) \<longleftrightarrow> noNilBlock s)"
  using badger_store.kv_returns [OF assms(1)] badger_store.ProcessState_returns [OF assms(1)]
    badger_store.kvReachable_wf [OF assms] by blast

theorem store_never_panics_witness:
  "returns (kvUpdateStorage (memLib None) exStore 9 [] []) \<and>
   \<not> returns (ProcessState (memLib None) exStore
       [Some \<lparr>ttTxHash = 1, ttResult = None, ttError = ''reverted''\<rparr>])"
proof -
  have "kvReachable (memLib None) exStore"
    by (rule kvReachable.step [OF kvReachable.start kvStep.account [OF exStore_reached]])
      (simp add: NewBadgerKV_def)
  from store_never_panics [OF mem_store this, of 9 exAccount "[]" "[]" 0 "[]"
      "[Some \<lparr>ttTxHash = 1, ttResult = None, ttError = ''reverted''\<rparr>]"]
  show ?thesis by simp
qed

section \<open>Merging a block\<close>

text \<open>C1. \<open>ProcessState\<close> of a block without \<open>nil\<close> pointers commits, and the store then holds,
  address by address, what the specification makes of what it held: each \<open>pre\<close> and \<open>post\<close>
  entry, in the order of the transactions, merged field by field and slot by slot.\<close>

theorem ProcessState_refines:
  assumes "badger_ample L snapshot content seen" and "wfContent (content db)"
    and "okBlock s" and "noNilBlock s"
  shows "\<exists>db'. ProcessState L db s = Ret (db', None) \<and> wfContent (content db') \<and>
    storedView L (content db') = specBlock s (storedView L (content db))"
proof -
  have S: "badger_store L snapshot content seen"
    using assms(1) by (simp add: badger_ample_def)
  from badger_ample.ProcessState_view [OF assms] badger_store.ProcessState_wf [OF S assms(2)]
  show ?thesis by blast
qed

lemma memTrace_spec:
  "m 1 = None \<Longrightarrow> specBlock memTrace m 1 = Some \<lparr>vBalance = Some 90, vCode = None,
     vNonce = Some 6, vStorage = [2 \<mapsto> 20, 3 \<mapsto> 33] ++ [2 \<mapsto> 30]\<rparr>"
  "specBlock memTrace m 9 = m 9"
  by (simp_all add: memTrace_def specEntries_def specEntry_def mergeView_def normView_def view_of_def
      fun_eq_iff)

theorem ProcessState_refines_witness:
  "\<exists>db'. ProcessState (memLib None) exStore memTrace = Ret (db', None) \<and>
     (\<exists>v. storedView (memLib None) (map_of db') 1 = Some v \<and> vBalance v = Some 90 \<and>
        vNonce v = Some 6 \<and> vStorage v 2 = Some 30 \<and> vStorage v 3 = Some 33) \<and>
     storedView (memLib None) (map_of db') 9 = Some (view_of exAccount)"
proof -
  let ?m = "storedView (memLib None) (map_of exStore)"
  have "?m 1 = None" "?m 9 = Some (view_of exAccount)"
    by (simp_all add: storedView_def exStore_stored)
  moreover obtain db' where "ProcessState (memLib None) exStore memTrace = Ret (db', None)"
    and "storedView (memLib None) (map_of db') = specBlock memTrace ?m"
    using ProcessState_refines [OF ample.badger_ample_axioms exStore_wf, of memTrace] memTrace_sound
    by blast
  ultimately show ?thesis
    by (intro exI [of _ db']) (simp add: memTrace_spec)
qed

text \<open>C20. The order in which \<open>range\<close> visits the maps of a block does not matter: two blocks
  whose maps hold the same accounts leave the same accounts in the store.\<close>

theorem ProcessState_order:
  assumes "badger_ample L snapshot content seen" and "wfContent (content db)"
    and "okBlock s" and "okBlock t" and "noNilBlock s" and "noNilBlock t"
    and "list_all2 sameTrace s t"
  shows "\<exists>db1 db2. ProcessState L db s = Ret (db1, None) \<and> ProcessState L db t = Ret (db2, None) \<and>
    storedView L (content db1) = storedView L (content db2)"
  using badger_ample.ProcessState_view [OF assms(1,2), of s]
    badger_ample.ProcessState_view [OF assms(1,2), of t] assms(3-6)
    specBlock_same [OF assms(7)] by auto

definition exPre :: "hash list \<Rightarrow> prestateTrace traceBlock" where
  "exPre ks =
     [Some \<lparr>ttTxHash = 1,
        ttResult = Some \<lparr>ptPost = [],
          ptPre = [(4, Some \<lparr>accBalance = None, accCode = None, accNonce = None,
            accStorage = Some (map (\<lambda>k. (k, k + 1)) ks)\<rparr>)]\<rparr>,
        ttError = []\<rparr>]"

lemma exPre_sound: "distinct ks \<Longrightarrow> okBlock (exPre ks) \<and> noNilBlock (exPre ks)"
  by (simp add: exPre_def okBlock_def okState_def noNilState_def is_gomap_def comp_def)

theorem ProcessState_order_witness:
  "\<exists>db1 db2. ProcessState (memLib None) [] (exPre [1, 2]) = Ret (db1, None) \<and>
     ProcessState (memLib None) [] (exPre [2, 1]) = Ret (db2, None) \<and>
     storedView (memLib None) (map_of db1) = storedView (memLib None) (map_of db2)"
proof -
  have same: "list_all2 sameTrace (exPre [1, 2]) (exPre [2, 1])"
    by (simp add: exPre_def stateView_def view_of_def fun_eq_iff)
  show ?thesis
    using ProcessState_order [OF ample.badger_ample_axioms, of "[]", OF _ _ _ _ _ same]
      exPre_sound [of "[1, 2]"] exPre_sound [of "[2, 1]"] by simp
qed

text \<open>C21. A slot that a transaction clears stays in the store with its old value: if \<open>pre\<close>
  lists a slot and \<open>post\<close>, which omits cleared slots, does not, then the store holds the
  value of \<open>pre\<close> after the block.\<close>

theorem cleared_slot_stays:
  assumes "badger_ample L snapshot content seen" and "wfContent (content db)"
    and "okBlock [Some tr]" and "noNilBlock [Some tr]" and "ttResult tr = Some r"
    and "map_of (ptPre r) a = Some (Some p)" and "map_of (entries (accStorage p)) k = Some x"
    and "map_of (ptPost r) a = Some (Some q)" and "map_of (entries (accStorage q)) k = None"
  shows "\<exists>db' v. ProcessState L db [Some tr] = Ret (db', None) \<and>
    storedView L (content db') a = Some v \<and> vStorage v k = Some x"
proof -
  from badger_ample.ProcessState_view [OF assms(1-4)] obtain db' where
    run: "ProcessState L db [Some tr] = Ret (db', None)"
    and view: "storedView L (content db') =
      specEntries (ptPost r) (specEntries (ptPre r) (storedView L (content db)))"
    using assms(5) by auto
  have "\<exists>v. specEntries (ptPost r) (specEntries (ptPre r) m) a = Some v \<and> vStorage v k = Some x" for m
    using assms(6-9)
    by (cases "m a") (simp_all add: specEntries_def specEntry_def mergeView_def normView_def
        view_of_def map_add_def)
  with run view show ?thesis by auto
qed

definition exClearing :: "prestateTrace txTraceResult" where
  "exClearing =
     \<lparr>ttTxHash = 1,
      ttResult = Some
        \<lparr>ptPost = [(4, Some \<lparr>accBalance = Some 1, accCode = None, accNonce = None, accStorage = None\<rparr>)],
         ptPre = [(4, Some \<lparr>accBalance = Some 2, accCode = None, accNonce = None,
           accStorage = Some [(6, 66)]\<rparr>)]\<rparr>,
      ttError = []\<rparr>"

theorem cleared_slot_stays_witness:
  "\<exists>db' v. ProcessState (memLib None) [] [Some exClearing] = Ret (db', None) \<and>
     storedView (memLib None) (map_of db') 4 = Some v \<and> vStorage v 6 = Some 66"
  using cleared_slot_stays [OF ample.badger_ample_axioms, of "[]" exClearing _ 4 _ 6 66]
  by (simp add: exClearing_def okBlock_def okState_def noNilState_def)

text \<open>C23. \<open>ProcessState\<close> drops the errors of its writes: on a database that refuses every
  write, and lets the transaction commit, it reports success and has stored nothing.\<close>

theorem ProcessState_drops_errors:
  assumes "badger_store L snapshot content seen" and "wfContent (content db)" and "noNilBlock s"
    and "\<And>txn k w. \<exists>e. txnSet L txn k w = (txn, Some e)"
    and "\<And>f txn. f (snapshot db) = Ret (txn, None) \<Longrightarrow>
      \<exists>db'. dbUpdate L db f = Ret (db', None) \<and> content db' = seen txn"
  shows "\<exists>db'. ProcessState L db s = Ret (db', None) \<and> content db' = content db"
proof -
  note S = assms(1)
  have "fst (txnSet L txn k w) = txn" for txn k w
    using assms(4) [of txn k w] by auto
  then have upd: "fst (txUpdateAccount L a acc txn) = txn" for a acc txn
    by (simp add: txUpdateAccount_def)
  have wf: "wfContent (seen (snapshot db))" using assms(1,2) by (simp add: badger_store.seen_snapshot)
  have same: "t = u" if "processEntries L es u = Ret t" for es t u
    using that by (induction es arbitrary: u) (auto simp: andThen_Ret_iff upd)
  have "t = u" if "processTraces L s u = Ret t" for t u
    using that by (induction s arbitrary: u) (auto simp: andThen_Ret_iff dest!: same)
  moreover obtain txn where "processTraces L s (snapshot db) = Ret txn"
    using badger_store.processTraces_returns [OF S wf, of s] assms(3) by (auto simp: returns_iff)
  ultimately have "processTraces L s (snapshot db) = Ret (snapshot db)" by blast
  with assms(5) [of "\<lambda>txn. andThen (processTraces L s txn) (\<lambda>t. Ret (t, None))" "snapshot db"]
  show ?thesis using S by (simp add: ProcessState_def badger_store.seen_snapshot)
qed

theorem ProcessState_drops_errors_witness:
  "\<exists>db'. ProcessState (memLib (Some 0)) exStore memTrace = Ret (db', None) \<and>
     map_of db' = map_of exStore"
proof (rule ProcessState_drops_errors [OF mem.badger_store_axioms exStore_wf])
  show "noNilBlock memTrace" using memTrace_sound ..
  show "\<exists>e. txnSet (memLib (Some 0)) txn k w = (txn, Some e)" for txn k w
    by (simp add: memSet_def)
  show "\<exists>db'. dbUpdate (memLib (Some 0)) exStore f = Ret (db', None) \<and> map_of db' = map_of (fst txn)"
    if "f (exStore, 0) = Ret (txn, None)" for f txn
    using that by (simp add: memUpdate_def)
qed

text \<open>C32. \<open>mergeAccount\<close> returns unless it has slots to write to a \<open>nil\<close> map, and what it
  returns is the old account with the fields of the new one that are set and with the new
  slots over the old.\<close>

theorem mergeAccount_correct:
  assumes "is_gomap (entries (accStorage n))"
  shows "(returns (mergeAccount o1 n) \<longleftrightarrow> accStorage o1 \<noteq> None \<or> entries (accStorage n) = []) \<and>
    (\<forall>a. mergeAccount o1 n = Ret a \<longrightarrow> view_of a = mergeView (view_of o1) (view_of n))"
  using assms
  by (cases "accStorage o1"; cases "accBalance n"; cases "accCode n"; cases "accNonce n")
    (auto simp: mergeAccount_def Let_def writeAll_None view_of_def mergeView_def map_of_put_all)

theorem mergeAccount_correct_witness:
  "returns (mergeAccount exAccount exAccount) \<and>
   \<not> returns (mergeAccount (exAccount\<lparr>accStorage := None\<rparr>) exAccount)"
  using mergeAccount_correct [of exAccount exAccount]
    mergeAccount_correct [of exAccount "exAccount\<lparr>accStorage := None\<rparr>"]
  by (simp add: exAccount_def)

text \<open>C33. \<open>mergeState\<close> on overrides that all have a \<open>StateDiff\<close> returns the old overrides with,
  for each account of the new state, its balance, code and nonce replaced (also by \<open>nil\<close>)
  and its slots written over the old \<open>StateDiff\<close>.\<close>

theorem mergeState_correct:
  assumes "okOverride m" and "is_gomap new" and "noNilState new"
  shows "\<exists>m'. mergeState (Some m) new = Ret (Some m') \<and>
    (\<forall>k. map_of m' k = (case map_of new k of
       Some (Some v) \<Rightarrow> Some (mergeOverride (map_of m k) v) | _ \<Rightarrow> map_of m k))"
  using mergeState_closed [OF assms] .

theorem mergeState_correct_witness:
  "\<exists>m'. mergeState (Some []) [(9, Some exAccount)] = Ret (Some m') \<and>
     map_of m' 9 = Some (mergeOverride None exAccount) \<and> map_of m' 8 = None"
proof -
  obtain m' where "mergeState (Some []) [(9, Some exAccount)] = Ret (Some m')"
    and "\<And>k. map_of m' k = (case map_of [(9, Some exAccount)] k of
       Some (Some v) \<Rightarrow> Some (mergeOverride (map_of [] k) v) | _ \<Rightarrow> map_of [] k)"
    using mergeState_correct [of "[]" "[(9, Some exAccount)]"]
    by (auto simp: okOverride_def simp del: mergeState.simps)
  then show ?thesis by simp
qed

end
