(* ===== verification/CacheProps.thy ===== *)
theory CacheProps
  imports RpcFetcher StoreProps
begin

text \<open>
  The properties of the read-through cache and of the RPC fetcher behind it: reads are
  transparent, what a read leaves in the store answers the next one, merging keeps the store
  coherent with the chain; and the fetcher itself, with the keys of its calls in flight and
  its cache of header hashes.
\<close>

section \<open>Transparency\<close>

text \<open>C3. \<open>GetAccount\<close> through the cache, when it answers, gives the nonce, the balance and the
  code hash of the chain, and leaves a store that is still coherent with the chain.\<close>

theorem GetAccount_transparent:
  assumes "cached_chain L snapshot content seen f chain winv"
    and "wfContent (content kv)" and "coherent L (content kv) chain" and "winv w"
  shows "\<exists>r kv' w'. dbGetAccount L (Some f) a (kv, w) = Ret (r, kv', w') \<and> winv w' \<and>
    wfContent (content kv') \<and> coherent L (content kv') chain \<and>
    (\<forall>acc. r = Inr acc \<longrightarrow> acc = chainStateAccount L (chain a))"
  using cached_chain.dbGetAccount_reads [OF assms(1) conjI [OF assms(2,3)] assms(4), of a]
  by (auto simp: reads_def)

definition exChain :: chain where
  "exChain a = \<lparr>chNonce = 4, chBalance = uint a, chCode = [3], chStorage = (\<lambda>k. k + 1)\<rparr>"

definition exFetcher :: "int rpcFetcher" where
  "exFetcher = NewRPCFetcher 100 (Some 100)"

lemma exFetcher_number: "rfBlockNumber exFetcher = Some 100"
  by (simp add: exFetcher_def NewRPCFetcher_def)

abbreviation exMethods :: "int rpcFetcher fetcher" where
  "exMethods \<equiv> rpcFetcherMethods (memLib None) (memClient exChain) memDo"

lemmas exCache = cache.cached_chain_axioms [of None exChain "Some 100"]

theorem GetAccount_transparent_witness:
  "\<exists>r kv' w'. dbGetAccount (memLib None) (Some exMethods) 5 ([], exFetcher) = Ret (r, kv', w') \<and>
     (\<forall>acc. r = Inr acc \<longrightarrow> saNonce acc = 4 \<and> saBalance acc = 5)"
  using GetAccount_transparent [OF exCache, of "[]" exFetcher 5]
  by (auto simp: exFetcher_number chainStateAccount_def memChain_def exChain_def)

text \<open>C4. \<open>GetStorage\<close> through the cache, when it answers, gives the 32 bytes of the chain's slot,
  and leaves a store that is still coherent with the chain.\<close>

theorem GetStorage_transparent:
  assumes "cached_chain L snapshot content seen f chain winv"
    and "wfContent (content kv)" and "coherent L (content kv) chain" and "winv w"
  shows "\<exists>r kv' w'. dbGetStorage L (Some f) a key (kv, w) = Ret (r, kv', w') \<and> winv w' \<and>
    wfContent (content kv') \<and> coherent L (content kv') chain \<and>
    (\<forall>v. r = Inr v \<longrightarrow> v = hashBytes L (chStorage (chain a) (bytesToHash L key)))"
  using cached_chain.dbGetStorage_reads [OF assms(1) conjI [OF assms(2,3)] assms(4), of a key]
  by (auto simp: reads_def)

theorem GetStorage_transparent_witness:
  "\<exists>r kv' w'. dbGetStorage (memLib None) (Some exMethods) 5 [7] ([], exFetcher) = Ret (r, kv', w') \<and>
     (\<forall>v. r = Inr v \<longrightarrow> v = be_bytes 32 (8 :: hash))"
  using GetStorage_transparent [OF exCache, of "[]" exFetcher 5 "[7]"]
  by (auto simp: exFetcher_number memChain_def exChain_def from_be_def)

text \<open>C5. \<open>ContractCode\<close> through the cache, when it answers, gives the chain's code; and it never
  changes the store, for its write-back needs the entry whose absence made it fetch.\<close>

theorem ContractCode_transparent:
  assumes "cached_chain L snapshot content seen f chain winv"
    and "wfContent (content kv)" and "coherent L (content kv) chain" and "winv w"
  shows "\<exists>r kv' w'. dbContractCode L (Some f) a h (kv, w) = Ret (r, kv', w') \<and> winv w' \<and>
    content kv' = content kv \<and> (\<forall>code. r = Inr code \<longrightarrow> code = chCode (chain a))"
  using cached_chain.dbContractCode_reads [OF assms(1) conjI [OF assms(2,3)] assms(4), of a h]
  by (auto simp: reads_def)

theorem ContractCode_transparent_witness:
  "\<exists>r kv' w'. dbContractCode (memLib None) (Some exMethods) 5 0 ([], exFetcher) = Ret (r, kv', w') \<and>
     map_of kv' = Map.empty \<and> (\<forall>code. r = Inr code \<longrightarrow> code = [3])"
  using ContractCode_transparent [OF exCache, of "[]" exFetcher 5 0]
  by (auto simp: exFetcher_number memChain_def exChain_def)

text \<open>C6. Merging the traces of a block that describe the chain's steps takes a store that is
  coherent with the chain before the block to one that is coherent with the chain after it,
  in every field and slot but those that the block clears: the slots that one of its traces
  sets to zero and the accounts that one deletes, which diff mode shows by leaving them out
  of \<open>post\<close> and which may be stale. A block that clears nothing keeps the store coherent.\<close>

theorem ProcessState_keeps_coherence:
  assumes "badger_ample L snapshot content seen" and "wfContent (content db)"
    and "okBlock s" and "noNilBlock s" and "coherent L (content db) chain"
    and "blockDescribes s chain"
  shows "\<exists>db'. ProcessState L db s = Ret (db', None) \<and>
    coherentUpTo L (deletes s) (clears s) (content db') (chainAfter s chain) \<and>
    ((\<forall>a. \<not> deletes s a) \<and> (\<forall>a k. \<not> clears s a k) \<longrightarrow>
       coherent L (content db') (chainAfter s chain))"
  using badger_ample.ProcessState_coherent [OF assms]
  by (blast intro: coherentUpTo_clean)

definition exBefore :: chain where
  "exBefore a = \<lparr>chNonce = 5, chBalance = 100, chCode = [],
     chStorage = (\<lambda>k. if k = 2 then 20 else if k = 3 then 33 else 0)\<rparr>"

text \<open>\<open>memTrace\<close> changes slot 2 of account 1 and clears its slot 3.\<close>

theorem ProcessState_keeps_coherence_witness:
  "\<exists>db' v. ProcessState (memLib None) [] memTrace = Ret (db', None) \<and>
     storedView (memLib None) (map_of db') 1 = Some v \<and>
     agreesUpTo (\<lambda>k. k = 3) v (chainAfter memTrace exBefore 1) \<and>
     vStorage v 2 = Some (chStorage (chainAfter memTrace exBefore 1) 2) \<and>
     chStorage (chainAfter memTrace exBefore 1) 2 = 30 \<and>
     chStorage (chainAfter memTrace exBefore 1) 3 = 0"
proof -
  have describes: "blockDescribes memTrace exBefore"
    by (auto simp: memTrace_def txDescribes_def agrees_def view_of_def exBefore_def listed_def
        split: if_splits)
  have after: "chStorage (chainAfter memTrace exBefore 1) 2 = 30"
    "chStorage (chainAfter memTrace exBefore 1) 3 = 0"
    by (simp_all add: memTrace_def nextChain_def nextAccount_def listed_def clearedSlot_def)
  have cleared: "deletes memTrace 1 = False" "clears memTrace 1 = (\<lambda>k. k = 3)"
    by (auto simp: memTrace_def deletedAccount_def clearedSlot_def listed_def fun_eq_iff)
  obtain db' where run: "ProcessState (memLib None) [] memTrace = Ret (db', None)"
    and upTo: "coherentUpTo (memLib None) (deletes memTrace) (clears memTrace) (map_of db')
      (chainAfter memTrace exBefore)"
    using ProcessState_keeps_coherence [OF ample.badger_ample_axioms, of "[]" memTrace exBefore]
      memTrace_sound describes by auto
  have "storedView (memLib None) (map_of db') = specBlock memTrace (\<lambda>a. None)"
    using ample.ProcessState_view [of "[]" memTrace] memTrace_sound run
    by simp
  then obtain v where v: "storedView (memLib None) (map_of db') 1 = Some v" "vStorage v 2 = Some 30"
    by (simp add: memTrace_def specEntries_listed listed_def specEntry_def mergeView_def
        normView_def view_of_def)
  moreover have "agreesUpTo (\<lambda>k. k = 3) v (chainAfter memTrace exBefore 1)"
    using coherentUpToD [OF upTo v(1)] by (simp add: cleared)
  ultimately show ?thesis using run after by auto
qed

section \<open>What a read leaves behind\<close>

lemma CodeHash_norm:
  "geth_laws L \<Longrightarrow> hashBytes L (CodeHash L (normAccount
      \<lparr>accBalance = b, accCode = Some code, accNonce = n, accStorage = None\<rparr>)) =
     (if length code = 0 then emptyCodeHash L else keccak256 L code)"
  by (simp add: CodeHash_def geth_laws.hashBytes_bytesToHash geth_laws.length_keccak256
      geth_laws.length_emptyCodeHash)

lemma fetchStateAccount_InrD:
  assumes "fetchStateAccount L f a (kv, w) = Ret (Inr acc, kv', w')"
  obtains n b code e where "kvUpdateAccount L kv a \<lparr>accBalance = Some b, accCode = Some code,
      accNonce = Some n, accStorage = None\<rparr> = Ret (kv', e)"
    and "acc = \<lparr>saNonce = n, saBalance = b, saRoot = 0,
      saCodeHash = (if length code = 0 then emptyCodeHash L else keccak256 L code)\<rparr>"
  using assms
  by (simp add: fetchStateAccount_def callThen_Ret_iff andThen_Ret_iff case_prod_beta
      del: length_0_conv split del: if_split) fastforce

lemma update_granted:
  assumes "badger_ample L snapshot content seen" and "kvUpdateAccount L db a acc = Ret (db', e)"
  shows "e = None"
  using badger_ample.kvUpdateAccount_ample [OF assms(1), of db a acc] assms(2) by auto

text \<open>C15. Once \<open>GetAccount\<close> has answered with a nonce other than zero, the next one for the
  address gives the same answer from the store, whatever the fetcher, and changes nothing.\<close>

theorem GetAccount_cached:
  assumes "badger_ample L snapshot content seen" and "wfContent (content kv)"
    and "dbGetAccount L (Some f) a (kv, w) = Ret (Inr acc, kv', w')" and "saNonce acc \<noteq> 0"
  shows "dbGetAccount L (Some f2) a (kv', w2) = Ret (Inr acc, kv', w2)"
proof (cases "dbGetAccount L (Some f) a (kv, w) = fetchStateAccount L f a (kv, w)")
  case False
  with assms(3) have "kv' = kv \<and> dbGetAccount L (Some f2) a (kv, w2) = Ret (Inr acc, kv, w2)"
    by (auto simp: dbGetAccount_def split: sum.splits option.splits)
  then show ?thesis by simp
next
  case True
  have S: "badger_store L snapshot content seen" and G: "geth_laws L"
    using assms(1) by (simp_all add: badger_ample_def badger_store_def)
  from True assms(3) have "fetchStateAccount L f a (kv, w) = Ret (Inr acc, kv', w')" by simp
  then obtain n b code e where
    upd: "kvUpdateAccount L kv a \<lparr>accBalance = Some b, accCode = Some code, accNonce = Some n,
      accStorage = None\<rparr> = Ret (kv', e)"
    and acc: "acc = \<lparr>saNonce = n, saBalance = b, saRoot = 0,
      saCodeHash = (if length code = 0 then emptyCodeHash L else keccak256 L code)\<rparr>"
    by (rule fetchStateAccount_InrD)
  have "e = None" by (rule update_granted [OF assms(1) upd])
  with upd badger_store.kvUpdateAccount_stored [OF S upd]
    badger_store.kvGetAccount_stored [OF S badger_store.kvUpdateAccount_wf [OF S upd assms(2)], of a]
    acc assms(4) CodeHash_norm [OF G, of "Some b" code "Some n"]
  show ?thesis by (simp add: dbGetAccount_def)
qed

lemma exRead: "\<exists>kv' w'. dbGetAccount (memLib None) (Some exMethods) 5 ([], exFetcher) =
    Ret (Inr (chainStateAccount (memLib None) (memChain exChain 5)), kv', w')"
proof -
  have "kvGetAccount (memLib None) [] 5 = Inl ErrKeyNotFound"
    by (simp add: mem.kvGetAccount_stored)
  then show ?thesis
    by (simp add: dbGetAccount_def fetchStateAccount_def rpcFetcherMethods_def fetchAccount_def
        memDo_def accountFlight_def rpcCall_def memClient_def mem_update chainStateAccount_def
        memChain_def exChain_def)
qed

theorem GetAccount_cached_witness:
  "\<exists>acc kv' w'. dbGetAccount (memLib None) (Some exMethods) 5 ([], exFetcher) = Ret (Inr acc, kv', w') \<and>
     dbGetAccount (memLib None) (Some streamingFetcherMethods) 5 (kv', ()) = Ret (Inr acc, kv', ())"
proof -
  let ?acc = "chainStateAccount (memLib None) (memChain exChain 5)"
  obtain kv' w' where run: "dbGetAccount (memLib None) (Some exMethods) 5 ([], exFetcher) =
      Ret (Inr ?acc, kv', w')" using exRead by blast
  have "saNonce ?acc \<noteq> 0" by (simp add: chainStateAccount_def memChain_def exChain_def)
  with GetAccount_cached [OF ample.badger_ample_axioms _ run, of streamingFetcherMethods "()"] run
  show ?thesis by auto
qed

text \<open>C16. A slot read of a stored account is cached: the next read of the slot gives the same
  value from the store, whatever the fetcher, and changes nothing.\<close>

theorem GetStorage_cached:
  assumes "badger_ample L snapshot content seen" and "wfContent (content kv)"
    and "kvGetAccount L kv a = Inr acc"
    and "dbGetStorage L (Some f) a key (kv, w) = Ret (Inr v, kv', w')"
  shows "dbGetStorage L (Some f2) a key (kv', w2) = Ret (Inr v, kv', w2)"
proof (cases "kvGetStorage L kv a key")
  case (Inr x)
  with assms(4) show ?thesis by (auto simp: dbGetStorage_def)
next
  case (Inl e)
  have G: "geth_laws L" using assms(1) by (simp add: badger_ample_def badger_store_def)
  from Inl assms(4) obtain x err where
    upd: "kvUpdateStorage L kv a key (hashBytes L x) = Ret (kv', err)" and v: "v = hashBytes L x"
    by (auto simp: dbGetStorage_def callThen_Ret_iff andThen_Ret_iff split: prod.splits)
  with getStorage_updated [OF assms(1-3), of key "hashBytes L x"]
  have "kvGetStorage L kv' a key = Inr x" by (auto simp: geth_laws.bytesToHash_hashBytes [OF G])
  with v show ?thesis by (simp add: dbGetStorage_def)
qed

theorem GetStorage_cached_witness:
  "dbGetStorage (memLib None) (Some streamingFetcherMethods) 9 [7] (exStore, ()) =
     Ret (Inr (be_bytes 32 (70 :: hash)), exStore, ())"
proof -
  have acc: "kvGetAccount (memLib None) exStore 9 = Inr exAccount"
    by (simp add: mem.kvGetAccount_stored exStore_wf exStore_stored)
  then have "dbGetStorage (memLib None) (Some exMethods) 9 [7] (exStore, exFetcher) =
      Ret (Inr (be_bytes 32 (70 :: hash)), exStore, exFetcher)"
    by (simp add: dbGetStorage_def kvGetStorage_def exAccount_def from_be_def)
  from GetStorage_cached [OF ample.badger_ample_axioms exStore_wf acc this] show ?thesis .
qed

text \<open>C22. An account whose nonce is zero is never answered from the store: after it has been
  stored, \<open>GetAccount\<close> fetches it again, and that write empties the slots cached for it.\<close>

theorem zero_nonce_refetched:
  assumes "badger_ample L snapshot content seen" and "wfContent (content kv)"
    and "kvUpdateAccount L kv a acc = Ret (kv1, None)" and "accNonce acc = Some 0"
    and "fetchStateAccount L f a (kv1, w) = Ret (Inr r, kv2, w')"
  shows "dbGetAccount L (Some f) a (kv1, w) = Ret (Inr r, kv2, w') \<and>
    (\<forall>key v. kvGetStorage L kv2 a key \<noteq> Inr v)"
proof -
  have S: "badger_store L snapshot content seen"
    using assms(1) by (simp add: badger_ample_def)
  note wf = badger_store.kvUpdateAccount_wf [OF S]
  have "kvGetAccount L kv1 a = Inr (normAccount acc)"
    using getAccount_updated [OF S assms(2,3), of a] by simp
  with assms(4,5) have 1: "dbGetAccount L (Some f) a (kv1, w) = Ret (Inr r, kv2, w')"
    by (simp add: dbGetAccount_def)
  from assms(5) obtain acc2 e where
    upd: "kvUpdateAccount L kv1 a acc2 = Ret (kv2, e)" and acc2: "accStorage acc2 = None"
    by (rule fetchStateAccount_InrD) force
  have "e = None" by (rule update_granted [OF assms(1) upd])
  with getAccount_updated [OF S wf [OF assms(3,2)], of a acc2 kv2 a] upd acc2
  have "kvGetStorage L kv2 a key \<noteq> Inr v" for key v
    by (simp add: kvGetStorage_def)
  with 1 show ?thesis by blast
qed

definition exZero :: chain where
  "exZero a = \<lparr>chNonce = 0, chBalance = 1, chCode = [], chStorage = (\<lambda>k. 0)\<rparr>"

theorem zero_nonce_refetched_witness:
  "\<exists>r kv2 w'. dbGetAccount (memLib None)
      (Some (rpcFetcherMethods (memLib None) (memClient exZero) memDo)) 9
      (put (be_bytes 20 (9 :: address)) (gobEncode (toAccountMarshaling (exAccount\<lparr>accNonce := Some 0\<rparr>))) [],
       exFetcher) = Ret (Inr r, kv2, w') \<and>
     kvGetStorage (memLib None) kv2 9 [7] \<noteq> Inr 70"
proof -
  let ?f = "rpcFetcherMethods (memLib None) (memClient exZero) memDo"
  note upd = mem_update [of "[]" 9 "exAccount\<lparr>accNonce := Some 0\<rparr>"]
  obtain r kv2 w' where "fetchStateAccount (memLib None) ?f 9 (put (be_bytes 20 (9 :: address))
      (gobEncode (toAccountMarshaling (exAccount\<lparr>accNonce := Some 0\<rparr>))) [], exFetcher) =
      Ret (Inr r, kv2, w')"
    by (simp add: fetchStateAccount_def rpcFetcherMethods_def fetchAccount_def memDo_def
        accountFlight_def rpcCall_def memClient_def mem_update memChain_def exZero_def)
  from zero_nonce_refetched [OF ample.badger_ample_axioms _ upd _ this] show ?thesis
    by (intro exI [of _ r] exI [of _ kv2] exI [of _ w']) simp
qed

section \<open>The RPC fetcher\<close>

text \<open>C13. The RPC fetcher never panics on an account, a slot or code, and when it answers it
  answers for the chain at its block number, also when calls share the result of a call in
  flight.\<close>

theorem rpcFetcher_serves_chain:
  assumes "chain_client G C Do chain bn" and "rfBlockNumber f = bn"
  shows "(\<exists>r f'. fNonce (rpcFetcherMethods G C Do) a f = Ret (r, f') \<and> rfBlockNumber f' = bn \<and>
      (\<forall>n. r = Inr n \<longrightarrow> n = chNonce (chain a))) \<and>
    (\<exists>r f'. fBalance (rpcFetcherMethods G C Do) a f = Ret (r, f') \<and> rfBlockNumber f' = bn \<and>
      (\<forall>b. r = Inr b \<longrightarrow> b = chBalance (chain a))) \<and>
    (\<exists>r f'. fCode (rpcFetcherMethods G C Do) a f = Ret (r, f') \<and> rfBlockNumber f' = bn \<and>
      (\<forall>c. r = Inr c \<longrightarrow> c = chCode (chain a))) \<and>
    (\<exists>r f'. fStorageAt (rpcFetcherMethods G C Do) a k f = Ret (r, f') \<and> rfBlockNumber f' = bn \<and>
      (\<forall>v. r = Inr v \<longrightarrow> v = chStorage (chain a) k))"
proof -
  have F: "chain_fetcher (rpcFetcherMethods G C Do) chain (\<lambda>f. rfBlockNumber f = bn)"
    by (rule chain_client.axioms_fetcher [OF assms(1)])
  show ?thesis
    using chain_fetcher.fetch_nonce_inv [OF F assms(2), of a]
      chain_fetcher.fetch_balance_inv [OF F assms(2), of a]
      chain_fetcher.fetch_code_inv [OF F assms(2), of a]
      chain_fetcher.fetch_storage_inv [OF F assms(2), of a k]
      chain_fetcher.fetch_nonce [OF F assms(2), of a]
      chain_fetcher.fetch_balance [OF F assms(2), of a]
      chain_fetcher.fetch_code [OF F assms(2), of a]
      chain_fetcher.fetch_storage [OF F assms(2), of a k] by blast
qed

theorem rpcFetcher_serves_chain_witness:
  "\<exists>r f'. fBalance exMethods 5 exFetcher = Ret (r, f') \<and> (\<forall>b. r = Inr b \<longrightarrow> b = 5)"
  using rpcFetcher_serves_chain [OF memClient_law [of None exChain "Some 100"] exFetcher_number,
      where a = 5 and k = 0]
  by (auto simp: memChain_def exChain_def)

text \<open>C29. Calls in flight for accounts and slots share their key with no other call, as long as
  the number of a block asked for has at most 19 digits; with 20 digits it can be the key of
  an account.\<close>

theorem flight_keys:
  assumes "geth_laws G" and "ordinaryCall c"
  shows "(flightKey G c = flightKey G (CallAccount a) \<longleftrightarrow> c = CallAccount a) \<and>
    (flightKey G c = flightKey G (CallStorage a slot) \<longleftrightarrow> c = CallStorage a slot) \<and>
    (\<exists>n b. flightKey G (CallHeader (Some n)) = flightKey G (CallAccount b))"
proof -
  let ?n = "12345678901234567890 :: int"
  have len: "length (ascii (bigString (Some ?n))) = 20"
    by (simp add: bigString_def ascii_def natDigits.simps)
  then have "be_bytes 20 (from_be (ascii (bigString (Some ?n))) :: address) = ascii (bigString (Some ?n))"
    using be_bytes_from_be [of "ascii (bigString (Some ?n))", where 'a = 160] by simp
  then have "flightKey G (CallHeader (Some ?n)) =
      flightKey G (CallAccount (from_be (ascii (bigString (Some ?n)))))"
    by (simp add: headerKey_def accountKey_def)
  with geth_laws.flightKey_account [OF assms] geth_laws.flightKey_storage [OF assms] show ?thesis
    by auto
qed

theorem flight_keys_witness:
  "flightKey memGeth (CallHeader (Some 17)) \<noteq> flightKey memGeth (CallAccount 17)"
  using flight_keys [OF memGeth.geth_laws_axioms, of "CallHeader (Some 17)" 17 0] by simp

text \<open>C30. Once the function that the fetcher hands to \<open>singleflight\<close> for a header has answered, the
  hash is cached for good: after any calls of the fetcher's methods, with whatever client, a
  request for the number that runs, and does not join a call in flight for it, is answered
  that hash, whatever the client would answer, and changes nothing.\<close>

theorem header_hash_cached:
  assumes "singleflight_group Do" and "headerFlight G C (Some n) f = Ret (Inr (AnyHash h), f1)"
    and "rtranclp (methodStep G Do) f1 f2"
    and "Do (headerKey (Some n)) (headerFlight G C2 (Some n)) f2 = headerFlight G C2 (Some n) f2"
  shows "fHeaderHash (rpcFetcherMethods G C2 Do) (Some n) f2 = Ret (Inr h, f2)"
proof -
  have "map_of (rfHeaderHashes f2) (bigUint64 n) = Some h"
    using singleflight_group.methodSteps_keep [OF assms(1,3) headerFlight_caches [OF assms(2)]] .
  then show ?thesis
    by (simp add: rpcFetcherMethods_def fetchHeaderHash_def assms(4) headerFlight_cached)
qed

theorem header_hash_cached_witness:
  "\<exists>f1 f2. headerFlight (memLib None) (memClient exChain) (Some 7) exFetcher = Ret (Inr (AnyHash 7), f1) \<and>
     f2 \<noteq> f1 \<and> methodStep (memLib None) memDo f1 f2 \<and>
     fHeaderHash (rpcFetcherMethods (memLib None) (memClient exZero) memDo) (Some 7) f2 = Ret (Inr 7, f2)"
proof -
  obtain f1 where run: "headerFlight (memLib None) (memClient exChain) (Some 7) exFetcher =
      Ret (Inr (AnyHash 7), f1)" and f1: "rfRemote f1 = 100"
    by (simp add: headerFlight_def rpcCall_def memClient_def memPick_def memBlock_def exFetcher_def
        NewRPCFetcher_def)
  note step = methodStep.remote [of "memLib None" memDo f1 3]
  have "memDo (headerKey (Some 7)) (headerFlight (memLib None) (memClient exZero) (Some 7)) f2 =
      headerFlight (memLib None) (memClient exZero) (Some 7) f2" for f2
    by (simp add: memDo_def)
  from header_hash_cached [OF flights.singleflight_group_axioms run
      r_into_rtranclp [where r = "methodStep (memLib None) memDo", OF step] this]
  have "fHeaderHash (rpcFetcherMethods (memLib None) (memClient exZero) memDo) (Some 7)
      (f1\<lparr>rfRemote := 3\<rparr>) = Ret (Inr 7, f1\<lparr>rfRemote := 3\<rparr>)" .
  moreover have "rfRemote (f1\<lparr>rfRemote := 3\<rparr>) \<noteq> rfRemote f1" by (simp add: f1)
  then have "f1\<lparr>rfRemote := 3\<rparr> \<noteq> f1" by metis
  ultimately show ?thesis using run step by blast
qed

end
