(* ===== verification/TxArgs.thy ===== *)
theory TxArgs
  imports FetcherTypes
begin

text \<open>
  The transaction arguments of \<open>bundleapi/transaction_args.go\<close>: \<open>ToMessage\<close> (fees before and
  after EIP-1559, gas cap, defaults) and \<open>toTransaction\<close> (the choice of the transaction type).

  \<open>bigMin\<close> is \<open>math.BigMin\<close> and \<open>newTx\<close> is \<open>types.NewTx\<close> of go-ethereum; \<open>BitLen\<close> is that of
  \<open>math/big\<close>. A slice that the code compares with \<open>nil\<close> is an option.
\<close>

section \<open>The arguments\<close>

record transactionArgs =
  taFrom :: "address option"
  taTo :: "address option"
  taGas :: "u64 option"
  taGasPrice :: "int option"
  taMaxFeePerGas :: "int option"
  taMaxPriorityFeePerGas :: "int option"
  taValue :: "int option"
  taNonce :: "u64 option"
  taData :: "byte list option"
  taInput :: "byte list option"
  taAccessList :: "accessList option"
  taChainID :: "int option"
  taBlobFeeCap :: "int option"
  taBlobHashes :: "hash list option"

definition argsFrom :: "transactionArgs \<Rightarrow> address" where
  "argsFrom args = (case taFrom args of None \<Rightarrow> 0 | Some a \<Rightarrow> a)"

definition argsData :: "transactionArgs \<Rightarrow> byte list option" where
  "argsData args =
     (if taInput args \<noteq> None then taInput args
      else if taData args \<noteq> None then taData args
      else None)"

definition IsEIP4844 :: "transactionArgs \<Rightarrow> bool" where
  "IsEIP4844 args \<longleftrightarrow> taBlobHashes args \<noteq> None \<or> taBlobFeeCap args \<noteq> None"

section \<open>ToMessage\<close>

record coreMessage =
  cmFrom :: address
  cmTo :: "address option"
  cmValue :: int
  cmGasLimit :: u64
  cmGasPrice :: int
  cmGasFeeCap :: int
  cmGasTipCap :: int
  cmData :: "byte list option"
  cmAccessList :: "accessList option"
  cmBlobGasFeeCap :: "int option"
  cmBlobHashes :: "hash list option"
  cmSkipAccountChecks :: bool

abbreviation errBothFees :: error where
  "errBothFees \<equiv>
     Errorf ''both gasPrice and (maxFeePerGas or maxPriorityFeePerGas) specified''"

abbreviation halfMaxUint64 :: u64 where
  "halfMaxUint64 \<equiv> 0x7fffffffffffffff"

fun natBitLen :: "nat \<Rightarrow> nat" where
  "natBitLen n = (if n = 0 then 0 else Suc (natBitLen (n div 2)))"

declare natBitLen.simps [simp del]

definition BitLen :: "int \<Rightarrow> nat" where
  "BitLen i = natBitLen (nat \<bar>i\<bar>)"

text \<open>The gas limit, then the triple of gas price, fee cap and tip cap.\<close>

definition messageGas :: "transactionArgs \<Rightarrow> u64 \<Rightarrow> u64" where
  "messageGas args globalGasCap =
     (let gas = globalGasCap;
          gas = (if gas = 0 then halfMaxUint64 else gas);
          gas = (case taGas args of None \<Rightarrow> gas | Some g \<Rightarrow> g)
      in if globalGasCap \<noteq> 0 \<and> globalGasCap < gas then globalGasCap else gas)"

definition messageFees ::
    "(int \<Rightarrow> int \<Rightarrow> int) \<Rightarrow> transactionArgs \<Rightarrow> int option \<Rightarrow> int \<times> int \<times> int" where
  "messageFees bigMin args baseFee =
     (case baseFee of
        None \<Rightarrow>
          let gasPrice = (case taGasPrice args of None \<Rightarrow> 0 | Some p \<Rightarrow> p)
          in (gasPrice, gasPrice, gasPrice)
      | Some base \<Rightarrow>
          (case taGasPrice args of
             Some gasPrice \<Rightarrow> (gasPrice, gasPrice, gasPrice)
           | None \<Rightarrow>
               let gasFeeCap = (case taMaxFeePerGas args of None \<Rightarrow> 0 | Some x \<Rightarrow> x);
                   gasTipCap = (case taMaxPriorityFeePerGas args of None \<Rightarrow> 0 | Some x \<Rightarrow> x);
                   gasPrice = (if BitLen gasFeeCap > 0 \<or> BitLen gasTipCap > 0
                               then bigMin (gasTipCap + base) gasFeeCap else 0)
               in (gasPrice, gasFeeCap, gasTipCap)))"

definition ToMessage ::
    "(int \<Rightarrow> int \<Rightarrow> int) \<Rightarrow> transactionArgs \<Rightarrow> u64 \<Rightarrow> int option \<Rightarrow> error + coreMessage" where
  "ToMessage bigMin args globalGasCap baseFee =
     (if taGasPrice args \<noteq> None
         \<and> (taMaxFeePerGas args \<noteq> None \<or> taMaxPriorityFeePerGas args \<noteq> None)
      then Inl errBothFees
      else
        let addr = argsFrom args;
            gas = messageGas args globalGasCap;
            (gasPrice, gasFeeCap, gasTipCap) = messageFees bigMin args baseFee;
            blobFeeCap = (if taBlobFeeCap args \<noteq> None then taBlobFeeCap args
                          else if taBlobHashes args \<noteq> None then Some 0 else None);
            v = (case taValue args of None \<Rightarrow> 0 | Some x \<Rightarrow> x)
        in Inr
          \<lparr>cmFrom = addr, cmTo = taTo args, cmValue = v, cmGasLimit = gas,
           cmGasPrice = gasPrice, cmGasFeeCap = gasFeeCap, cmGasTipCap = gasTipCap,
           cmData = argsData args, cmAccessList = taAccessList args,
           cmBlobGasFeeCap = blobFeeCap, cmBlobHashes = taBlobHashes args,
           cmSkipAccountChecks = True\<rparr>)"

section \<open>toTransaction\<close>

datatype txData =
    BlobTx (bxTo: address) (bxChainID: "u256 option") (txNonce: u64) (txGas: u64)
      (bxGasFeeCap: "u256 option") (bxGasTipCap: "u256 option") (bxValue: "u256 option")
      (txInput: "byte list option") (txAccess: accessList) (bxHashes: "hash list")
      (bxBlobFeeCap: "u256 option")
  | DynamicFeeTx (txTo: "address option") (txChainID: "int option") (txNonce: u64) (txGas: u64)
      (dxGasFeeCap: "int option") (dxGasTipCap: "int option") (txValue: "int option")
      (txInput: "byte list option") (txAccess: accessList)
  | AccessListTx (txTo: "address option") (txChainID: "int option") (txNonce: u64) (txGas: u64)
      (txGasPrice: "int option") (txValue: "int option")
      (txInput: "byte list option") (txAccess: accessList)
  | LegacyTx (txTo: "address option") (txNonce: u64) (txGas: u64)
      (txGasPrice: "int option") (txValue: "int option") (txInput: "byte list option")

definition argsAccessList :: "transactionArgs \<Rightarrow> accessList" where
  "argsAccessList args = (case taAccessList args of None \<Rightarrow> [] | Some al \<Rightarrow> al)"

text \<open>A dereference of \<open>nil\<close> and a number \<open>MustFromBig\<close> cannot take panic, in the order written.\<close>

definition blobTxData :: "'x geth_scheme \<Rightarrow> transactionArgs \<Rightarrow> hash list \<Rightarrow> txData outcome" where
  "blobTxData G args blobHashes =
     andThen (deref (taTo args)) (\<lambda>to.
     andThen (mustFromBig G (taChainID args)) (\<lambda>chainID.
     andThen (deref (taNonce args)) (\<lambda>nonce.
     andThen (deref (taGas args)) (\<lambda>gas.
     andThen (mustFromBig G (taMaxFeePerGas args)) (\<lambda>gasFeeCap.
     andThen (mustFromBig G (taMaxPriorityFeePerGas args)) (\<lambda>gasTipCap.
     andThen (mustFromBig G (taValue args)) (\<lambda>v.
     andThen (mustFromBig G (taBlobFeeCap args)) (\<lambda>blobFeeCap.
       Ret (BlobTx to chainID nonce gas gasFeeCap gasTipCap v (argsData args)
              (argsAccessList args) blobHashes blobFeeCap)))))))))"

definition toTransaction ::
    "'x geth_scheme \<Rightarrow> (txData \<Rightarrow> 'tx) \<Rightarrow> transactionArgs \<Rightarrow> 'tx outcome" where
  "toTransaction G newTx args =
     andThen
       (case taBlobHashes args of
          Some blobHashes \<Rightarrow> blobTxData G args blobHashes
        | None \<Rightarrow>
            andThen (deref (taNonce args)) (\<lambda>nonce.
            andThen (deref (taGas args)) (\<lambda>gas.
              if taMaxFeePerGas args \<noteq> None then
                Ret (DynamicFeeTx (taTo args) (taChainID args) nonce gas (taMaxFeePerGas args)
                       (taMaxPriorityFeePerGas args) (taValue args) (argsData args)
                       (argsAccessList args))
              else (case taAccessList args of
                  Some al \<Rightarrow>
                    Ret (AccessListTx (taTo args) (taChainID args) nonce gas (taGasPrice args)
                           (taValue args) (argsData args) al)
                | None \<Rightarrow>
                    Ret (LegacyTx (taTo args) nonce gas (taGasPrice args) (taValue args)
                           (argsData args))))))
       (\<lambda>data. Ret (newTx data))"

definition ToTransaction ::
    "'x geth_scheme \<Rightarrow> (txData \<Rightarrow> 'tx) \<Rightarrow> transactionArgs \<Rightarrow> 'tx outcome" where
  "ToTransaction G newTx args = toTransaction G newTx args"

section \<open>Facts about transactions\<close>

text \<open>The numbers \<open>MustFromBig\<close> takes, and what they are as 256-bit ones: negative ones wrap.\<close>

definition fitsU256 :: "int option \<Rightarrow> bool" where
  "fitsU256 p \<longleftrightarrow> (case p of None \<Rightarrow> True | Some i \<Rightarrow> \<bar>i\<bar> < 2 ^ 256)"

definition sameU256 :: "'x geth_scheme \<Rightarrow> u256 option \<Rightarrow> int option \<Rightarrow> bool" where
  "sameU256 G w p \<longleftrightarrow> map_option (u256ToBig G) w = map_option (\<lambda>i. i mod 2 ^ 256) p"

context geth_laws
begin

lemma mustFromBigE:
  assumes "fitsU256 p"
  obtains w where "mustFromBig G p = Ret w" and "sameU256 G w p"
proof (cases p)
  case None
  then show ?thesis using that [of None] mustFromBig_nil by (simp add: sameU256_def)
next
  case (Some i)
  then have "\<bar>i\<bar> < 2 ^ 256" using assms by (simp add: fitsU256_def)
  then obtain w where "mustFromBig G (Some i) = Ret (Some w)" "u256ToBig G w = i mod 2 ^ 256"
    using mustFromBig_fits by blast
  then show ?thesis using that [of "Some w"] by (simp add: sameU256_def Some)
qed

lemma mustFromBig_returns: "returns (mustFromBig G p) \<longleftrightarrow> fitsU256 p"
proof (cases "fitsU256 p")
  case True
  then obtain w where "mustFromBig G p = Ret w" by (rule mustFromBigE)
  with True show ?thesis by simp
next
  case False
  then obtain i where "p = Some i" "2 ^ 256 \<le> \<bar>i\<bar>" by (auto simp: fitsU256_def split: option.splits)
  with False mustFromBig_overflow show ?thesis by simp
qed

lemma blobTxData_returns:
  "returns (blobTxData G args hs) \<longleftrightarrow> taTo args \<noteq> None \<and> taNonce args \<noteq> None \<and>
     taGas args \<noteq> None \<and> list_all fitsU256 [taChainID args, taMaxFeePerGas args,
       taMaxPriorityFeePerGas args, taValue args, taBlobFeeCap args]"
  by (simp add: blobTxData_def returns_andThen_const mustFromBig_returns del: returns_andThen) auto

lemma blobTxData_RetD:
  assumes "blobTxData G args hs = Ret d"
  shows "is_BlobTx d" and "Some (bxTo d) = taTo args" and "Some (txNonce d) = taNonce args"
    and "Some (txGas d) = taGas args" and "txInput d = argsData args"
    and "txAccess d = argsAccessList args" and "bxHashes d = hs"
    and "sameU256 G (bxChainID d) (taChainID args)" and "sameU256 G (bxValue d) (taValue args)"
    and "sameU256 G (bxGasFeeCap d) (taMaxFeePerGas args)"
    and "sameU256 G (bxGasTipCap d) (taMaxPriorityFeePerGas args)"
    and "sameU256 G (bxBlobFeeCap d) (taBlobFeeCap args)"
proof -
  have fits: "sameU256 G w p" if "mustFromBig G p = Ret w" for p w
    using that mustFromBigE [of p] mustFromBig_returns [of p] by (auto simp: returns_iff)
  from assms show "is_BlobTx d" and "Some (bxTo d) = taTo args" and "Some (txNonce d) = taNonce args"
    and "Some (txGas d) = taGas args" and "txInput d = argsData args"
    and "txAccess d = argsAccessList args" and "bxHashes d = hs"
    and "sameU256 G (bxChainID d) (taChainID args)" and "sameU256 G (bxValue d) (taValue args)"
    and "sameU256 G (bxGasFeeCap d) (taMaxFeePerGas args)"
    and "sameU256 G (bxGasTipCap d) (taMaxPriorityFeePerGas args)"
    and "sameU256 G (bxBlobFeeCap d) (taBlobFeeCap args)"
    by (auto simp: blobTxData_def andThen_Ret_iff intro: fits)
qed

end

section \<open>Facts about messages\<close>

lemma BitLen_pos [simp]: "0 < BitLen i \<longleftrightarrow> i \<noteq> 0"
  by (simp add: BitLen_def natBitLen.simps)

lemma ToMessage_Inl_iff:
  "(\<exists>e. ToMessage bigMin args cap baseFee = Inl e) \<longleftrightarrow>
     taGasPrice args \<noteq> None \<and> (taMaxFeePerGas args \<noteq> None \<or> taMaxPriorityFeePerGas args \<noteq> None)"
  by (simp add: ToMessage_def Let_def split: prod.split)

lemma ToMessage_InrD:
  assumes "ToMessage bigMin args cap baseFee = Inr m"
  shows "cmGasLimit m = messageGas args cap"
    and "(cmGasPrice m, cmGasFeeCap m, cmGasTipCap m) = messageFees bigMin args baseFee"
    and "cmFrom m = argsFrom args" "cmTo m = taTo args" "cmData m = argsData args"
    and "cmBlobHashes m = taBlobHashes args" and "cmAccessList m = taAccessList args"
    and "cmBlobGasFeeCap m = (if IsEIP4844 args then Some (case_option 0 id (taBlobFeeCap args))
          else None)"
    and "cmValue m = (case taValue args of None \<Rightarrow> 0 | Some x \<Rightarrow> x)"
    and "cmSkipAccountChecks m"
  using assms
  by (auto simp: ToMessage_def Let_def IsEIP4844_def split: if_splits prod.splits)

lemma messageGas_cap: "cap \<noteq> 0 \<Longrightarrow> messageGas args cap \<le> cap"
  by (simp add: messageGas_def Let_def not_less split: option.split)

lemma messageGas_request:
  "messageGas args cap =
     (case taGas args of
        None \<Rightarrow> if cap = 0 then halfMaxUint64 else cap
      | Some g \<Rightarrow> if cap = 0 then g else min g cap)"
  by (auto simp: messageGas_def Let_def min_def split: option.split)

text \<open>With a base fee that is not negative the price is the minimum also when all is zero.\<close>

lemma messageFees_1559:
  assumes "\<And>x y. bigMin x y = min x y" and "0 \<le> base" and "taGasPrice args = None"
  shows "messageFees bigMin args (Some base) =
    (min (case_option 0 id (taMaxPriorityFeePerGas args) + base)
         (case_option 0 id (taMaxFeePerGas args)),
     case_option 0 id (taMaxFeePerGas args), case_option 0 id (taMaxPriorityFeePerGas args))"
  using assms by (auto simp: messageFees_def Let_def split: option.split)

lemma messageFees_legacy:
  "baseFee = None \<or> taGasPrice args \<noteq> None \<Longrightarrow>
     messageFees bigMin args baseFee =
       (case_option 0 id (taGasPrice args), case_option 0 id (taGasPrice args),
        case_option 0 id (taGasPrice args))"
  by (auto simp: messageFees_def Let_def split: option.split)

end
