(* ===== verification/AccountJSON.thy ===== *)
theory AccountJSON
  imports RpcFetcher
begin

text \<open>
  The JSON form of the fetcher's account (\<open>MarshalJSON\<close> and \<open>UnmarshalJSON\<close> of
  \<open>fetcher/rpc.go\<close>). Both copy the storage map entry by entry, between \<open>uint256.Int\<close> and
  \<open>hexutil.U256\<close>, which are the same words. \<open>marshal\<close> and \<open>unmarshal\<close> are \<open>json.Marshal\<close> and
  \<open>json.Unmarshal\<close> on the record with its tags and hexutil's codecs; the locale states that
  they invert each other, with \<open>omitempty\<close> dropping an empty map.
\<close>

record jsonAccount =
  jaNonce :: u64
  jaBalance :: u256
  jaCode :: "byte list"
  jaStorage :: "(u256, u256) gomap option"

definition MarshalJSON ::
    "(jsonAccount \<Rightarrow> error + 'j) \<Rightarrow> rpcAccount \<Rightarrow> error + 'j" where
  "MarshalJSON marshal acc =
     (let storage = put_all (raStorage acc) []
      in marshal \<lparr>jaNonce = raNonce acc, jaBalance = raBalance acc, jaCode = raCode acc,
                  jaStorage = Some storage\<rparr>)"

text \<open>\<open>UnmarshalJSON\<close> writes to the account it is called on.\<close>

definition UnmarshalJSON ::
    "('j \<Rightarrow> error + jsonAccount) \<Rightarrow> 'j \<Rightarrow> rpcAccount \<Rightarrow> rpcAccount \<times> error option" where
  "UnmarshalJSON unmarshal data acc =
     (case unmarshal data of
        Inl err \<Rightarrow> (acc, Some err)
      | Inr dec \<Rightarrow>
          (acc\<lparr>raNonce := jaNonce dec, raBalance := jaBalance dec, raCode := jaCode dec,
               raStorage := put_all (entries (jaStorage dec)) []\<rparr>, None))"

locale json_codec =
  fixes marshal :: "jsonAccount \<Rightarrow> error + 'j" and unmarshal :: "'j \<Rightarrow> error + jsonAccount"
  assumes marshal_ok: "\<exists>j. marshal m = Inr j"
    and unmarshal_marshal: "marshal m = Inr j \<Longrightarrow> is_gomap (entries (jaStorage m)) \<Longrightarrow>
          \<exists>s. unmarshal j = Inr (m\<lparr>jaStorage := s\<rparr>) \<and> is_gomap (entries s) \<and>
            map_of (entries s) = map_of (entries (jaStorage m))"
begin

lemma json_round_trip:
  assumes "is_gomap (raStorage acc)"
  shows "\<exists>j acc'. MarshalJSON marshal acc = Inr j \<and> UnmarshalJSON unmarshal j old = (acc', None) \<and>
     raNonce acc' = raNonce acc \<and> raBalance acc' = raBalance acc \<and> raCode acc' = raCode acc \<and>
     map_of (raStorage acc') = map_of (raStorage acc)"
proof -
  let ?m = "\<lparr>jaNonce = raNonce acc, jaBalance = raBalance acc, jaCode = raCode acc,
     jaStorage = Some (put_all (raStorage acc) [])\<rparr>"
  obtain j where j: "marshal ?m = Inr j" using marshal_ok by blast
  with unmarshal_marshal [OF j] obtain s where "unmarshal j = Inr (?m\<lparr>jaStorage := s\<rparr>)"
    and "is_gomap (entries s)" and "map_of (entries s) = map_of (put_all (raStorage acc) [])"
    by auto
  with j assms show ?thesis
    by (simp add: MarshalJSON_def UnmarshalJSON_def map_simps)
qed

end

text \<open>A codec with the tag's \<open>omitempty\<close>.\<close>

definition memMarshal :: "jsonAccount \<Rightarrow> error + jsonAccount" where
  "memMarshal m = Inr (if jaStorage m = Some [] then m\<lparr>jaStorage := None\<rparr> else m)"

interpretation memJSON: json_codec memMarshal Inr
proof unfold_locales
  fix m j :: jsonAccount
  show "\<exists>j. memMarshal m = Inr j" by (simp add: memMarshal_def)
  assume "memMarshal m = Inr j" and "is_gomap (entries (jaStorage m))"
  then show "\<exists>s. Inr j = Inr (m\<lparr>jaStorage := s\<rparr>) \<and> is_gomap (entries s) \<and>
     map_of (entries s) = map_of (entries (jaStorage m))"
    by (intro exI [where x = "jaStorage j"]) (auto simp: memMarshal_def split: if_splits)
qed

end
