(* ===== verification/ClientProps.thy ===== *)
theory ClientProps
  imports BlockStream Backend TxArgs AccountJSON
begin

text \<open>
  The properties of the pieces around the cache: the stream of blocks, the RPC callers, the
  conversions of messages and transactions, the JSON form of accounts, and the backend.
\<close>

section \<open>The stream of blocks\<close>

text \<open>C8. In every reachable state of the stream, whatever the remote side does, the updates
  received so far have strictly increasing block numbers, none above the head the fetcher has
  polled, and each carries the trace that the client answered for that very block.\<close>

theorem stream_in_order:
  assumes "streamReachable C nb tag s"
  shows "sorted_wrt (<) (map (NumberU64 \<circ> suBlock) (smReceived s)) \<and>
    (\<forall>u \<in> set (smReceived s). NumberU64 (suBlock u) \<le> rfBlockHead (smFetcher s) \<and>
       answered C nb tag u)"
  using streamReachable_ordered [OF assms]
  by (auto simp: streamOrdered_def Let_def sorted_wrt_append)

definition exNumber :: "u64 \<Rightarrow> nat" where "exNumber = unat"
definition exTag :: "nat \<Rightarrow> string" where "exTag n = ''0x'' @ hexOf n"

abbreviation exClient :: "int w3client" where
  "exClient \<equiv> memClient (\<lambda>a. \<lparr>chNonce = 0, chBalance = 0, chCode = [], chStorage = (\<lambda>k. 0)\<rparr>)"

lemma exPoll:
  "getLatestState exClient exNumber exTag ((NewRPCFetcher 100 None)\<lparr>rfStarted := started\<rparr>) =
     Ret (Inr (Some \<lparr>suTraceBlock = memTrace, suBlock = memBlock 100\<rparr>),
          (NewRPCFetcher 100 None)\<lparr>rfStarted := started, rfBlockHead := 100\<rparr>)"
  by (simp add: getLatestState_def rpcCall_def memClient_def memPick_def traceRequest_elem
      NewRPCFetcher_def NumberU64_def bkNumber_def bigUint64_def memBlock_def)

lemma exReached: "streamReachable exClient exNumber exTag
    \<lparr>smFetcher = (NewRPCFetcher 100 None)\<lparr>rfBlockHead := 100\<rparr>, smSending = None,
     smReceived = [\<lparr>suTraceBlock = memTrace, suBlock = memBlock 100\<rparr>]\<rparr>"
proof -
  let ?f = "(NewRPCFetcher 100 None :: int rpcFetcher)\<lparr>rfBlockHead := 100\<rparr>"
  let ?u = "\<lparr>suTraceBlock = memTrace, suBlock = memBlock 100\<rparr>"
  let ?step = "streamStep exClient exNumber exTag"
  have "?step \<lparr>smFetcher = NewRPCFetcher 100 None, smSending = None, smReceived = []\<rparr>
      \<lparr>smFetcher = ?f, smSending = Some ?u, smReceived = []\<rparr>"
    using streamStep.tick_new [of "\<lparr>smFetcher = NewRPCFetcher 100 None, smSending = None,
        smReceived = []\<rparr>" exClient exNumber exTag ?u ?f] exPoll [of False]
    by (simp add: NewRPCFetcher_def)
  moreover have "?step \<lparr>smFetcher = ?f, smSending = Some ?u, smReceived = []\<rparr>
      \<lparr>smFetcher = ?f, smSending = None, smReceived = [?u]\<rparr>"
    using streamStep.receive [of "\<lparr>smFetcher = ?f, smSending = Some ?u, smReceived = []\<rparr>" ?u
        exClient exNumber exTag] by simp
  ultimately show ?thesis
    using streamReachable.start [of exClient exNumber exTag 100 None] streamReachable.step by metis
qed

theorem stream_in_order_witness:
  "answered exClient exNumber exTag \<lparr>suTraceBlock = memTrace, suBlock = memBlock 100\<rparr>"
  using stream_in_order [OF exReached] by simp

text \<open>C31. A poll always returns, and what it answers is decided by the client. It answers a new
  update exactly when the client's newest block is above the head and the client answers the
  trace of that block: the update is that block with that trace, and the head moves to its
  number. It answers nothing exactly when the newest block is not above the head, and an
  error in every other case; then the head stays. Apart from the head only the remote side
  changes.\<close>

theorem poll_moves_head:
  "\<exists>r f'. getLatestState C nb tag f = Ret (r, f') \<and>
     (\<forall>u. r = Inr (Some u) \<longleftrightarrow> (\<exists>w w'.
        callBlockByNumber C None (rfRemote f) = (Inr (suBlock u), w) \<and>
        rfBlockHead f < NumberU64 (suBlock u) \<and>
        callTraceBlock C (traceElem nb tag (suBlock u)) w = (Inr (suTraceBlock u), w'))) \<and>
     (r = Inr None \<longleftrightarrow> (\<exists>block w. callBlockByNumber C None (rfRemote f) = (Inr block, w) \<and>
        NumberU64 block \<le> rfBlockHead f)) \<and>
     (\<exists>w. f' = f\<lparr>rfRemote := w, rfBlockHead := (case r of
        Inr (Some u) \<Rightarrow> NumberU64 (suBlock u) | _ \<Rightarrow> rfBlockHead f)\<rparr>)"
proof -
  obtain r w where blk: "callBlockByNumber C None (rfRemote f) = (r, w)" by fastforce
  show ?thesis
  proof (cases r)
    case (Inl e)
    with blk show ?thesis by (auto simp: getLatestState_def rpcCall_def)
  next
    case (Inr b)
    obtain q w' where tr: "callTraceBlock C (traceElem nb tag b) w = (q, w')" by fastforce
    from blk Inr tr show ?thesis
      by (cases q) (auto simp: getLatestState_def rpcCall_def traceRequest_elem)
  qed
qed

theorem poll_moves_head_witness:
  "\<exists>f'. getLatestState exClient exNumber exTag (NewRPCFetcher 100 None) =
     Ret (Inr (Some \<lparr>suTraceBlock = memTrace, suBlock = memBlock 100\<rparr>), f') \<and> rfBlockHead f' = 100"
proof -
  let ?f = "NewRPCFetcher 100 None :: int rpcFetcher"
  let ?u = "\<lparr>suTraceBlock = memTrace, suBlock = memBlock 100\<rparr>"
  have "NumberU64 (memBlock 100) = 100"
    by (simp add: NumberU64_def bkNumber_def bigUint64_def memBlock_def)
  moreover have "callBlockByNumber exClient None (rfRemote ?f) = (Inr (memBlock 100), 100)"
    "callTraceBlock exClient req 100 = (Inr memTrace, 100)" for req
    by (simp_all add: memClient_def memPick_def NewRPCFetcher_def)
  moreover obtain r f' where "getLatestState exClient exNumber exTag ?f = Ret (r, f')"
    and "\<forall>u. r = Inr (Some u) \<longleftrightarrow> (\<exists>w w'.
        callBlockByNumber exClient None (rfRemote ?f) = (Inr (suBlock u), w) \<and>
        rfBlockHead ?f < NumberU64 (suBlock u) \<and>
        callTraceBlock exClient (traceElem exNumber exTag (suBlock u)) w = (Inr (suTraceBlock u), w'))"
    and "\<exists>w. f' = ?f\<lparr>rfRemote := w, rfBlockHead := (case r of
        Inr (Some u) \<Rightarrow> NumberU64 (suBlock u) | _ \<Rightarrow> rfBlockHead ?f)\<rparr>"
    using poll_moves_head [of exClient exNumber exTag ?f] by metis
  ultimately have "r = Inr (Some ?u)" by (simp add: NewRPCFetcher_def)
  with \<open>getLatestState exClient exNumber exTag ?f = Ret (r, f')\<close> \<open>NumberU64 (memBlock 100) = 100\<close>
    \<open>\<exists>w. f' = _\<close> show ?thesis by fastforce
qed

section \<open>Callers\<close>

text \<open>C37. The input of a message is encoded once: after a call of the argument wrapper has
  succeeded, another one, with whatever encoder, returns the same arguments and leaves the
  message alone.\<close>

theorem input_encoded_once:
  assumes "\<And>fn as. encodeArgs fn as \<noteq> Inr None"
    and "msgArgsWrapper encodeArgs args h = Ret (Inr args', h')"
  shows "args' = args \<and> msgArgsWrapper encodeArgs2 args h' = Ret (Inr args, h')"
proof -
  from assms(2) obtain r msg rest where args: "args = AnyMsg (Some r) # rest" "h r = Some msg"
    by (auto simp: msgArgsWrapper_def andThen_Ret_iff split: list.splits anyArg.splits)
  show ?thesis
  proof (cases "mInput msg \<noteq> None \<or> mFunc msg = None")
    case True
    with assms(2) args show ?thesis by (auto simp: msgArgsWrapper_def split: option.splits)
  next
    case False
    then obtain fn where fn: "mInput msg = None" "mFunc msg = Some fn" by auto
    with assms(2) args obtain input where "encodeArgs fn (mArgs msg) = Inr input"
      "h' = h(r \<mapsto> msg\<lparr>mInput := input\<rparr>)" "args' = args"
      by (auto simp: msgArgsWrapper_def split: sum.splits)
    with args assms(1) [of fn "mArgs msg"] show ?thesis by (simp add: msgArgsWrapper_def)
  qed
qed

definition exMessage :: "(nat, nat) message" where
  "exMessage = \<lparr>mFrom = 1, mTo = Some 2, mNonce = 0, mGasPrice = None, mGasFeeCap = None,
     mGasTipCap = None, mGas = 0, mValue = None, mInput = None, mFunc = Some 5, mArgs = [6]\<rparr>"

definition exEncode :: "nat \<Rightarrow> nat list \<Rightarrow> error + byte list option" where
  "exEncode fn as = Inr (Some (of_nat fn # map of_nat as))"

theorem input_encoded_once_witness:
  "msgArgsWrapper (\<lambda>fn as. Inl (Errorf ''encoder called'')) [AnyMsg (Some 0) :: unit anyArg]
     [0 \<mapsto> exMessage\<lparr>mInput := Some [5, 6]\<rparr>] =
   Ret (Inr [AnyMsg (Some 0)], [0 \<mapsto> exMessage\<lparr>mInput := Some [5, 6]\<rparr>])"
proof -
  have "msgArgsWrapper exEncode [AnyMsg (Some 0) :: unit anyArg] [0 \<mapsto> exMessage] =
      Ret (Inr [AnyMsg (Some 0)], [0 \<mapsto> exMessage\<lparr>mInput := Some [5, 6]\<rparr>])"
    by (simp add: msgArgsWrapper_def exMessage_def exEncode_def)
  from input_encoded_once [OF _ this, of "\<lambda>fn as. Inl (Errorf ''encoder called'')"]
  show ?thesis by (simp add: exEncode_def)
qed

text \<open>C38. The request of a call trace names \<open>debug_traceCall\<close>, with the message, whose input has
  been encoded by then, the block and the tracer's configuration; when the encoder fails
  there is no request, and the message is as it was.\<close>

theorem call_trace_request:
  assumes "h r = Some msg" and "mInput msg = None" and "mFunc msg = Some fn"
  shows "CreateRequest (GetCallTraceCaller G encodeArgs (Some r) bn config overrides) h =
    (case encodeArgs fn (mArgs msg) of
       Inl err \<Rightarrow> Ret (Inl err, h)
     | Inr input \<Rightarrow> Ret (Inr
         \<lparr>beMethod = ''debug_traceCall'',
          beArgs = [AnyMsg (Some r), AnyString (BlockNumberArg G bn),
            AnyConfig (Some \<lparr>tcTracer = ''callTracer'', tcTracerConfig = config,
              tcStateOverrides = overrides\<rparr>)],
          beResult = RawMessage (Some []), beError = None\<rparr>,
         h(r \<mapsto> msg\<lparr>mInput := input\<rparr>)))"
  using assms
  by (simp add: CreateRequest_def GetCallTraceCaller_def TraceCaller_def NewFactory_def
      WithArgsWrapper_def msgArgsWrapper_def split: sum.split)

lemma exBlockArg: "BlockNumberArg memGeth (Some 255) = ''0xff''"
  by (simp add: BlockNumberArg_def memGeth_def)

theorem call_trace_request_witness:
  "CreateRequest (GetCallTraceCaller memGeth exEncode (Some 0) (Some 255) None None)
     [0 \<mapsto> exMessage] =
   Ret (Inr \<lparr>beMethod = ''debug_traceCall'',
       beArgs = [AnyMsg (Some 0), AnyString ''0xff'',
         AnyConfig (Some \<lparr>tcTracer = ''callTracer'', tcTracerConfig = None,
           tcStateOverrides = None\<rparr>)],
       beResult = RawMessage (Some []), beError = None\<rparr>,
     [0 \<mapsto> exMessage\<lparr>mInput := Some [5, 6]\<rparr>])"
  using call_trace_request [of "[0 \<mapsto> exMessage]" 0 exMessage 5 memGeth exEncode "Some 255" None None]
  by (simp add: exBlockArg exMessage_def exEncode_def)

text \<open>C39. \<open>ToW3Message\<close> panics exactly on a transaction without sender; otherwise it copies the
  fields, a missing price, fee or value being zero, and the access list has no effect.\<close>

theorem ToW3Message_correct:
  assumes "geth_laws G"
  shows "(returns (ToW3Message G tx :: ('f, 'g) message outcome) \<longleftrightarrow> rtFrom tx \<noteq> None) \<and>
    (\<forall>m :: ('f, 'g) message. ToW3Message G tx = Ret m \<longrightarrow>
       Some (mFrom m) = rtFrom tx \<and> mTo m = rtTo tx \<and> mNonce m = rtNonce tx \<and> mGas m = rtGas tx \<and>
       mInput m = rtInput tx \<and> mGasPrice m = Some (case_option 0 id (rtGasPrice tx)) \<and>
       mGasFeeCap m = Some (case_option 0 id (rtMaxFeePerGas tx)) \<and>
       mGasTipCap m = Some (case_option 0 id (rtMaxPriorityFeePerGas tx)) \<and>
       mValue m = Some (case_option 0 id (rtValue tx)) \<and>
       ToW3Message G (tx\<lparr>rtAccessList := al\<rparr>) = Ret m)"
  by (cases "rtFrom tx"; cases "rtInput tx")
    (auto simp: ToW3Message_def geth_laws.copyBytes_id [OF assms] split: option.split)

definition exTx :: rpcTransaction where
  "exTx = \<lparr>rtType = 2, rtChainID = Some 1, rtNonce = 9, rtTo = None, rtGas = 21000,
     rtGasPrice = None, rtMaxPriorityFeePerGas = Some 2, rtMaxFeePerGas = Some 30,
     rtMaxFeePerBlobGas = None, rtValue = None, rtInput = Some [1], rtAccessList = Some [(1, [2])],
     rtBlobVersionedHashes = [], rtV = None, rtR = None, rtS = None, rtYParity = None,
     rtFrom = Some 77, rtRequestId = None, rtTicketId = None, rtMaxRefund = None,
     rtSubmissionFeeRefund = None, rtRefundTo = None, rtL1BaseFee = None, rtDepositValue = None,
     rtRetryTo = None, rtRetryValue = None, rtRetryData = None, rtBeneficiary = None,
     rtMaxSubmissionFee = None, rtEffectiveGasPrice = None, rtL1BlockNumber = None, rtHash = 0\<rparr>"

theorem ToW3Message_correct_witness:
  "\<exists>m :: (nat, nat) message. ToW3Message memGeth exTx = Ret m \<and> mFrom m = 77 \<and>
     mGasFeeCap m = Some 30 \<and> mValue m = Some 0 \<and>
     ToW3Message memGeth (exTx\<lparr>rtAccessList := None\<rparr>) = Ret m"
proof -
  note P = ToW3Message_correct [OF memGeth.geth_laws_axioms, of exTx None,
      where 'f = nat and 'g = nat]
  have tx: "rtFrom exTx = Some 77" "rtMaxFeePerGas exTx = Some 30" "rtValue exTx = None"
    by (simp_all add: exTx_def)
  with P obtain m :: "(nat, nat) message" where "ToW3Message memGeth exTx = Ret m"
    by (auto simp: returns_iff)
  with P tx show ?thesis by fastforce
qed

section \<open>Transaction arguments\<close>

text \<open>C27. \<open>ToMessage\<close> fails exactly when a gas price comes with a fee cap or a tip cap;
  otherwise the message has the sender (or the zero address), the recipient, the value (or
  zero), the call data, the access list and the blob hashes of the arguments, skips the
  account checks, and has a blob fee cap exactly when the arguments are EIP-4844 ones: the
  one asked for, or zero.\<close>

theorem ToMessage_fields:
  "(case ToMessage bigMin args cap baseFee of
      Inl e \<Rightarrow> e = errBothFees \<and> taGasPrice args \<noteq> None \<and>
        (taMaxFeePerGas args \<noteq> None \<or> taMaxPriorityFeePerGas args \<noteq> None)
    | Inr m \<Rightarrow> \<not> (taGasPrice args \<noteq> None \<and>
          (taMaxFeePerGas args \<noteq> None \<or> taMaxPriorityFeePerGas args \<noteq> None)) \<and>
        cmFrom m = case_option 0 id (taFrom args) \<and> cmTo m = taTo args \<and>
        cmValue m = case_option 0 id (taValue args) \<and>
        cmData m = (if taInput args = None then taData args else taInput args) \<and>
        cmAccessList m = taAccessList args \<and> cmBlobHashes m = taBlobHashes args \<and>
        cmBlobGasFeeCap m = (if IsEIP4844 args then Some (case_option 0 id (taBlobFeeCap args))
          else None) \<and>
        cmSkipAccountChecks m)"
  by (auto simp: ToMessage_def argsFrom_def argsData_def IsEIP4844_def Let_def
      split: option.split prod.split)

text \<open>C26. The gas of a message is the gas asked for, or by default the cap, or half the range of
  \<open>uint64\<close> when there is no cap; and never more than a cap there is.\<close>

theorem ToMessage_gas:
  assumes "ToMessage bigMin args cap baseFee = Inr m"
  shows "cmGasLimit m = (case taGas args of
       None \<Rightarrow> if cap = 0 then 2 ^ 63 - 1 else cap
     | Some g \<Rightarrow> if cap = 0 then g else min g cap) \<and>
    (cap \<noteq> 0 \<longrightarrow> cmGasLimit m \<le> cap)"
  using ToMessage_InrD(1) [OF assms] messageGas_cap [of cap args]
  by (simp add: messageGas_request split: option.split)

definition exArgs :: transactionArgs where
  "exArgs = \<lparr>taFrom = None, taTo = Some 2, taGas = Some 50000, taGasPrice = None,
     taMaxFeePerGas = Some 30, taMaxPriorityFeePerGas = Some 2, taValue = None, taNonce = Some 1,
     taData = Some [1], taInput = None, taAccessList = Some [(3, [4])], taChainID = Some 1,
     taBlobFeeCap = None, taBlobHashes = Some [5]\<rparr>"

lemma exToMessage: "\<exists>m. ToMessage min exArgs 30000 (Some 7) = Inr m"
  by (simp add: ToMessage_def exArgs_def Let_def split: prod.split)

theorem ToMessage_fields_witness:
  "\<exists>m. ToMessage min exArgs 30000 (Some 7) = Inr m \<and> cmFrom m = 0 \<and> cmTo m = Some 2 \<and>
     cmData m = Some [1] \<and> cmAccessList m = Some [(3, [4])] \<and> cmBlobHashes m = Some [5] \<and>
     cmBlobGasFeeCap m = Some 0"
proof -
  obtain m where m: "ToMessage min exArgs 30000 (Some 7) = Inr m" using exToMessage by blast
  with ToMessage_fields [where bigMin = min and args = exArgs and cap = 30000
      and baseFee = "Some 7"]
  show ?thesis by (simp add: exArgs_def IsEIP4844_def)
qed

theorem ToMessage_gas_witness:
  "\<exists>m. ToMessage min exArgs 30000 (Some 7) = Inr m \<and> cmGasLimit m = 30000"
proof -
  obtain m where m: "ToMessage min exArgs 30000 (Some 7) = Inr m" using exToMessage by blast
  with ToMessage_gas [OF m] show ?thesis by (simp add: exArgs_def)
qed

text \<open>C25. With a base fee (that is not negative) and no legacy price, the price of a message is
  the smaller of its fee cap and of base fee plus tip; in every other case price, fee cap
  and tip cap are all the legacy price, or zero.\<close>

theorem ToMessage_fees:
  assumes "ToMessage bigMin args cap baseFee = Inr m" and "\<And>x y. bigMin x y = min x y"
    and "\<And>b. baseFee = Some b \<Longrightarrow> 0 \<le> b"
  shows "case (baseFee, taGasPrice args) of
      (Some b, None) \<Rightarrow>
        cmGasFeeCap m = case_option 0 id (taMaxFeePerGas args) \<and>
        cmGasTipCap m = case_option 0 id (taMaxPriorityFeePerGas args) \<and>
        cmGasPrice m = min (cmGasTipCap m + b) (cmGasFeeCap m)
    | _ \<Rightarrow> cmGasPrice m = case_option 0 id (taGasPrice args) \<and>
        cmGasFeeCap m = cmGasPrice m \<and> cmGasTipCap m = cmGasPrice m"
proof (cases "\<exists>b. baseFee = Some b \<and> taGasPrice args = None")
  case True
  then obtain b where b: "baseFee = Some b" "taGasPrice args = None" by blast
  with assms(3) messageFees_1559 [of bigMin, OF assms(2), of b args] ToMessage_InrD(2) [OF assms(1)]
  show ?thesis by simp
next
  case False
  then have "baseFee = None \<or> taGasPrice args \<noteq> None" by (cases baseFee) auto
  from messageFees_legacy [OF this, of bigMin] ToMessage_InrD(2) [OF assms(1)] False
  show ?thesis by (cases baseFee; cases "taGasPrice args") auto
qed

theorem ToMessage_fees_witness:
  "\<exists>m. ToMessage min exArgs 30000 (Some 7) = Inr m \<and> cmGasPrice m = 9"
proof -
  obtain m where m: "ToMessage min exArgs 30000 (Some 7) = Inr m" using exToMessage by blast
  with ToMessage_fees [OF m] show ?thesis by (simp add: exArgs_def)
qed

text \<open>C28. \<open>toTransaction\<close> panics exactly when the nonce or the gas is missing or, with blob hashes,
  when the recipient is missing or a number does not fit 256 bits. Otherwise the transaction
  has the nonce, the gas and the call data of the arguments and is of the type that their
  fields ask for: with blob hashes a blob one, else with a fee cap a dynamic fee one, else
  with an access list an access list one, else a legacy one; each with its own fields from
  the arguments, the numbers of a blob transaction reduced modulo 2 ^ 256.\<close>

theorem toTransaction_kind:
  assumes "geth_laws G"
  shows "(returns (toTransaction G newTx args) \<longleftrightarrow> taNonce args \<noteq> None \<and> taGas args \<noteq> None \<and>
      (taBlobHashes args = None \<or> taTo args \<noteq> None \<and>
         list_all fitsU256 [taChainID args, taMaxFeePerGas args, taMaxPriorityFeePerGas args,
           taValue args, taBlobFeeCap args])) \<and>
    (\<forall>t. toTransaction G newTx args = Ret t \<longrightarrow> (\<exists>d. t = newTx d \<and>
       Some (txNonce d) = taNonce args \<and> Some (txGas d) = taGas args \<and>
       txInput d = argsData args \<and>
       (case taBlobHashes args of
          Some hs \<Rightarrow> is_BlobTx d \<and> Some (bxTo d) = taTo args \<and> bxHashes d = hs \<and>
            txAccess d = argsAccessList args \<and>
            sameU256 G (bxChainID d) (taChainID args) \<and> sameU256 G (bxValue d) (taValue args) \<and>
            sameU256 G (bxGasFeeCap d) (taMaxFeePerGas args) \<and>
            sameU256 G (bxGasTipCap d) (taMaxPriorityFeePerGas args) \<and>
            sameU256 G (bxBlobFeeCap d) (taBlobFeeCap args)
        | None \<Rightarrow> txTo d = taTo args \<and> txValue d = taValue args \<and>
            (if taMaxFeePerGas args \<noteq> None then is_DynamicFeeTx d \<and>
               txChainID d = taChainID args \<and> dxGasFeeCap d = taMaxFeePerGas args \<and>
               dxGasTipCap d = taMaxPriorityFeePerGas args \<and> txAccess d = argsAccessList args
             else if taAccessList args \<noteq> None then is_AccessListTx d \<and>
               txChainID d = taChainID args \<and> txGasPrice d = taGasPrice args \<and>
               Some (txAccess d) = taAccessList args
             else is_LegacyTx d \<and> txGasPrice d = taGasPrice args))))"
proof (cases "taBlobHashes args")
  case None
  then show ?thesis
    by (cases "taNonce args"; cases "taGas args"; cases "taMaxFeePerGas args";
        cases "taAccessList args")
      (simp_all add: toTransaction_def, (rule exI, rule conjI, rule refl, simp)+)
next
  case (Some hs)
  then have run: "toTransaction G newTx args =
      andThen (blobTxData G args hs) (\<lambda>data. Ret (newTx data))"
    by (simp add: toTransaction_def)
  have "returns (toTransaction G newTx args) \<longleftrightarrow> returns (blobTxData G args hs)"
    by (simp add: run) (simp add: returns_iff)
  with geth_laws.blobTxData_RetD [OF assms, of args hs] Some show ?thesis
    by (auto simp: run andThen_Ret_iff geth_laws.blobTxData_returns [OF assms])
qed

theorem toTransaction_kind_witness:
  "\<exists>d. toTransaction memGeth (\<lambda>d. d) exArgs = Ret d \<and> is_BlobTx d \<and> bxTo d = 2 \<and> txNonce d = 1"
proof -
  have args: "taBlobHashes exArgs = Some [5]" "taNonce exArgs = Some 1" "taGas exArgs = Some 50000"
    "taTo exArgs = Some 2" "taMaxFeePerGas exArgs = Some 30"
    "taMaxPriorityFeePerGas exArgs = Some 2" "taValue exArgs = None" "taChainID exArgs = Some 1"
    "taBlobFeeCap exArgs = None"
    by (simp_all add: exArgs_def)
  note P = toTransaction_kind [OF memGeth.geth_laws_axioms, of "\<lambda>d. d" exArgs]
  with args obtain d where "toTransaction memGeth (\<lambda>d. d) exArgs = Ret d"
    by (auto simp: returns_iff fitsU256_def)
  with P args show ?thesis by auto
qed

section \<open>Accounts as JSON\<close>

text \<open>C40. An account that is marshalled and unmarshalled again, into any account, has its nonce,
  balance, code and slots back.\<close>

theorem account_json_round_trip:
  assumes "json_codec marshal unmarshal" and "is_gomap (raStorage acc)"
  shows "\<exists>j acc'. MarshalJSON marshal acc = Inr j \<and> UnmarshalJSON unmarshal j old = (acc', None) \<and>
     raNonce acc' = raNonce acc \<and> raBalance acc' = raBalance acc \<and> raCode acc' = raCode acc \<and>
     map_of (raStorage acc') = map_of (raStorage acc)"
  by (rule json_codec.json_round_trip [OF assms])

theorem account_json_round_trip_witness:
  "\<exists>j acc'. MarshalJSON memMarshal
      \<lparr>raNonce = 1, raBalance = 2, raCode = [3], raStorage = [(4, 5)]\<rparr> = Inr j \<and>
     UnmarshalJSON Inr j \<lparr>raNonce = 0, raBalance = 0, raCode = [], raStorage = []\<rparr> = (acc', None) \<and>
     map_of (raStorage acc') 4 = Some 5"
  using account_json_round_trip [OF memJSON.json_codec_axioms,
      of "\<lparr>raNonce = 1, raBalance = 2, raCode = [3], raStorage = [(4, 5)]\<rparr>"
         "\<lparr>raNonce = 0, raBalance = 0, raCode = [], raStorage = []\<rparr>"]
  by fastforce

section \<open>The backend\<close>

text \<open>C35. Which requests are answered from the head, and only those: \<open>BlockByNumber\<close> of the latest
  block and of the head's number, and \<open>HeaderByNumber\<close> of the head's number, give the head
  without a call. Every other request goes to the client and gives its answer: by number for
  that number, the latest header (and without a head the latest block) for no number, and
  blocks and headers by hash for that hash.\<close>

theorem head_answers:
  "(case wbHead b of
      Some head \<Rightarrow>
        (\<forall>number. backendBlockByNumber C latest number b =
           (if number = latest \<or> number = NumberU64 head then (Inr head, b)
            else backendCall (callBlockByNumber C (Some (sint number))) b)) \<and>
        (\<forall>number. HeaderByNumber C latest number b =
           (if number = NumberU64 head then (Inr (bkHeader head), b)
            else backendCall (callHeaderByNumber C
              (if number = latest then None else Some (sint number))) b))
    | None \<Rightarrow>
        (\<forall>number. backendBlockByNumber C latest number b = backendCall (callBlockByNumber C
           (if number = latest then None else Some (sint number))) b \<and>
         HeaderByNumber C latest number b = backendCall (callHeaderByNumber C
           (if number = latest then None else Some (sint number))) b)) \<and>
   BlockByHash C h b = backendCall (callBlockByHash C h) b \<and>
   HeaderByHash C h b = backendCall (callHeaderByHash C h) b"
proof -
  have "numberArg latest number = (if number = latest then None else Some (sint number))" for number
    by (auto simp: numberArg_def dest: signed_word_eqI)
  moreover have "sint number = sint latest \<longleftrightarrow> number = latest" for number
    by (auto dest: signed_word_eqI)
  ultimately show ?thesis
    by (simp add: HeaderByNumber_def backendBlockByNumber_def BlockByHash_def HeaderByHash_def
        Let_def eq_commute split: option.split)
qed

definition exBackend :: "int w3backend" where
  "exBackend = \<lparr>wbHead = Some (memBlock 100), wbRemote = 105\<rparr>"

lemma exHead: "wbHead exBackend = Some (memBlock 100)"
  by (simp add: exBackend_def)

lemma exHead_number: "NumberU64 (memBlock 100) = 100"
  by (simp add: NumberU64_def bkNumber_def bigUint64_def memBlock_def)

theorem head_answers_witness:
  "fst (backendBlockByNumber exClient (- 2) (- 2) exBackend) = Inr (memBlock 100) \<and>
   fst (backendBlockByNumber exClient (- 2) 99 exBackend) = Inr (memBlock 99) \<and>
   fst (HeaderByNumber exClient (- 2) 100 exBackend) = Inr (bkHeader (memBlock 100)) \<and>
   fst (HeaderByNumber exClient (- 2) (- 2) exBackend) = Inr (bkHeader (memBlock 105))"
proof -
  have remote: "fst (backendCall (callBlockByNumber exClient (Some 99)) exBackend) = Inr (memBlock 99)"
    "fst (backendCall (callHeaderByNumber exClient None) exBackend) = Inr (bkHeader (memBlock 105))"
    by (simp_all add: backendCall_def memClient_def memPick_def exBackend_def)
  have P: "backendBlockByNumber exClient (- 2) number exBackend =
      (if number = - 2 \<or> number = 100 then (Inr (memBlock 100), exBackend)
       else backendCall (callBlockByNumber exClient (Some (sint number))) exBackend)"
    "HeaderByNumber exClient (- 2) number exBackend =
      (if number = 100 then (Inr (bkHeader (memBlock 100)), exBackend)
       else backendCall (callHeaderByNumber exClient
         (if number = - 2 then None else Some (sint number))) exBackend)" for number
    using head_answers [where b = exBackend and C = exClient and latest = "- 2"] by (simp_all add: exHead exHead_number)
  show ?thesis by (simp add: P remote)
qed

text \<open>C34. \<open>StateAtBlock\<close> uses the shared cache for the head and for every block above it, and a new
  empty store over a fetcher for the block itself in every other case.\<close>

theorem StateAtBlock_database:
  assumes "badger_store L snapshot content seen" and "NewBadgerKV L = Ret kv"
  shows "StateAtBlock L stateNew block b = Ret (stateNew 0
      (if \<exists>head. wbHead b = Some head \<and> NumberU64 head \<le> NumberU64 block
       then SharedDB else FreshDB (bkNumber block) kv)) \<and> content kv = Map.empty"
  using StateAtBlock_shared [of block b L stateNew] StateAtBlock_fresh [of block b L kv stateNew]
    badger_store.NewBadgerKV_content [OF assms] assms(2)
  by (simp add: sharesCache_def)

theorem StateAtBlock_database_witness:
  "StateAtBlock (memLib None) (\<lambda>h db. Inr db) (memBlock 100) exBackend = Ret (Inr SharedDB) \<and>
   StateAtBlock (memLib None) (\<lambda>h db. Inr db) (memBlock 99) exBackend = Ret (Inr (FreshDB 99 []))"
proof -
  have new: "NewBadgerKV (memLib None) = Ret []" by (simp add: NewBadgerKV_def)
  have "NumberU64 (memBlock 99) = 99" "bkNumber (memBlock 99) = 99"
    by (simp_all add: NumberU64_def bkNumber_def bigUint64_def memBlock_def)
  with StateAtBlock_database [OF mem.badger_store_axioms new, of "\<lambda>h db. Inr db" "memBlock 100" exBackend]
    StateAtBlock_database [OF mem.badger_store_axioms new, of "\<lambda>h db. Inr db" "memBlock 99" exBackend]
  show ?thesis by (simp add: exHead exHead_number)
qed

text \<open>C36. Asked for the state of the latest block, or of the head's number, with a head, the
  backend gives the state over the shared cache with the header of the head, and makes no
  call.\<close>

theorem state_of_head:
  assumes "wbHead b = Some head" and "bnhHash nh = None" and "bnhNumber nh = Some number"
    and "number = latest \<or> number = NumberU64 head" and "stateNew 0 SharedDB = Inr sdb"
  shows "StateAndHeaderByNumberOrHash L stateNew C latest nh b = Ret (Inr (sdb, bkHeader head), b)"
  using StateAndHeader_head [of b head nh number latest stateNew sdb L C] assms by blast

theorem state_of_head_witness:
  "StateAndHeaderByNumberOrHash (memLib None) (\<lambda>h db. Inr db) exClient (- 2)
     \<lparr>bnhNumber = Some (- 2), bnhHash = None\<rparr> exBackend =
   Ret (Inr (SharedDB, bkHeader (memBlock 100)), exBackend)"
  using state_of_head [OF exHead, of "\<lparr>bnhNumber = Some (- 2), bnhHash = None\<rparr>" "- 2" "- 2"
      "\<lambda>h db. Inr db" SharedDB "memLib None" exClient] by simp

end
