(* ===== verification/BundleAPI.thy ===== *)
theory BundleAPI
  imports Backend TxArgs
begin

text \<open>
  The bundle API of \<open>bundleapi/api.go\<close>: applying one transaction, \<open>CallBundle\<close> and
  \<open>EstimateGasBundle\<close>.

  The EVM, the transaction codec and the state database are go-ethereum's; they are the fields
  of \<open>evmLib\<close>, which act on a state \<open>'s\<close> (a \<open>StateDB\<close> with what lies behind it). The pool of
  gas is a 64-bit word that the EVM draws from. The function \<open>ctxErr\<close> is the context of the
  request: given the timeout the code sets, if any, the error its \<open>i\<close>th check finds.
  Results are \<open>map[string]interface{}\<close>, here maps to \<open>jsonVal\<close>.
\<close>

section \<open>What the API calls\<close>

record executionResult =
  erUsedGas :: u64
  erErr :: "string option"
  erReturnData :: "byte list option"

record 'tc evmEnv =
  eeHeader :: header
  eeAuthor :: "address option"
  eeTxContext :: "'tc option"
  eeNoBaseFee :: bool

record 'log receipt =
  rcType :: byte
  rcPostState :: "byte list option"
  rcCumulativeGasUsed :: u64
  rcStatus :: u64
  rcTxHash :: hash
  rcGasUsed :: u64
  rcContractAddress :: address
  rcLogs :: "'log list"
  rcBloom :: "byte list"
  rcBlockHash :: hash
  rcBlockNumber :: int
  rcTransactionIndex :: u64

record ('tx, 's, 'cfg, 'sig, 'tc, 'log) evmLib =
  unmarshalTx :: "byte list \<Rightarrow> error + 'tx"
  txHash :: "'tx \<Rightarrow> hash"
  txTypeOf :: "'tx \<Rightarrow> byte"
  txNonceOf :: "'tx \<Rightarrow> u64"
  txToOf :: "'tx \<Rightarrow> address option"
  effectiveGasTip :: "'tx \<Rightarrow> int option \<Rightarrow> error + int"
  makeSigner :: "'cfg \<Rightarrow> int \<Rightarrow> u64 \<Rightarrow> 'sig"
  txSender :: "'sig \<Rightarrow> 'tx \<Rightarrow> error + address"
  transactionToMessage :: "'tx \<Rightarrow> 'sig \<Rightarrow> int option \<Rightarrow> error + coreMessage"
  newTxContext :: "coreMessage \<Rightarrow> 'tc"
  tcOrigin :: "'tc \<Rightarrow> address"
  applyMessage :: "'tc evmEnv \<Rightarrow> coreMessage \<Rightarrow> 's \<times> u64
      \<Rightarrow> ((error + executionResult) \<times> 's \<times> u64) outcome"
  resultFailed :: "executionResult \<Rightarrow> bool"
  resultReturn :: "executionResult \<Rightarrow> byte list"
  resultRevert :: "executionResult \<Rightarrow> byte list"
  isByzantium :: "'cfg \<Rightarrow> int \<Rightarrow> bool"
  isEIP158 :: "'cfg \<Rightarrow> int \<Rightarrow> bool"
  isLondon :: "'cfg \<Rightarrow> int \<Rightarrow> bool"
  calcBaseFee :: "'cfg \<Rightarrow> header \<Rightarrow> int"
  finaliseState :: "bool \<Rightarrow> 's \<Rightarrow> 's"
  intermediateRoot :: "bool \<Rightarrow> 's \<Rightarrow> (hash \<times> 's) outcome"
  createAddress :: "address \<Rightarrow> u64 \<Rightarrow> address"
  getLogs :: "'s \<Rightarrow> hash \<Rightarrow> u64 \<Rightarrow> hash \<Rightarrow> 'log list"
  createBloom :: "'log receipt \<Rightarrow> byte list"
  txIndex :: "'s \<Rightarrow> u64"
  getBalance :: "address \<Rightarrow> 's \<Rightarrow> int \<times> 's"
  setTxContext :: "hash \<Rightarrow> nat \<Rightarrow> 's \<Rightarrow> 's"
  copyState :: "'s \<Rightarrow> 's outcome"
  hexToAddress :: "string \<Rightarrow> address"
  addressString :: "address \<Rightarrow> string"
  hashString :: "hash \<Rightarrow> string"
  bytes2Hex :: "byte list \<Rightarrow> string"
  minBig :: "int \<Rightarrow> int \<Rightarrow> int"

text \<open>The part of the interface \<open>Backend\<close> that the API calls.\<close>

record ('s, 'b, 'cfg) bundleBackend =
  bbState :: "blockNumberOrHash \<Rightarrow> 'b \<Rightarrow> ((error + 's option \<times> header) \<times> 'b) outcome"
  bbConfig :: 'cfg
  bbGasCap :: u64

definition w3BundleBackend ::
    "('kv, 'txn, 'x) badger_scheme \<Rightarrow> (hash \<Rightarrow> 'kv stateDatabase \<Rightarrow> error + 's) \<Rightarrow> 'w w3client
      \<Rightarrow> i64 \<Rightarrow> 'cfg \<Rightarrow> ('s, 'w w3backend, 'cfg) bundleBackend" where
  "w3BundleBackend L stateNew C latest mainnet =
     \<lparr>bbState = (\<lambda>nh b. callThen (StateAndHeaderByNumberOrHash L stateNew C latest nh b)
         (\<lambda>err b. Ret (Inl err, b)) (\<lambda>(sdb, header) b. Ret (Inr (Some sdb, header), b))),
      bbConfig = ChainConfig mainnet,
      bbGasCap = RPCGasCap\<rparr>"

section \<open>Applying a transaction\<close>

text \<open>The status of a receipt is 0 (\<open>ReceiptStatusFailed\<close>) or 1 (\<open>ReceiptStatusSuccessful\<close>).\<close>

definition makeReceipt ::
    "('tx, 's, 'cfg, 'sig, 'tc, 'log, 'y) evmLib_scheme \<Rightarrow> coreMessage \<Rightarrow> 'tc \<Rightarrow> 's \<Rightarrow> int \<Rightarrow> hash
      \<Rightarrow> 'tx \<Rightarrow> u64 \<Rightarrow> byte list option \<Rightarrow> executionResult \<Rightarrow> 'log receipt" where
  "makeReceipt E msg txc s number blockHash tx usedGas root result =
     (let r = \<lparr>rcType = txTypeOf E tx, rcPostState = root, rcCumulativeGasUsed = usedGas,
               rcStatus = (if resultFailed E result then 0 else 1),
               rcTxHash = txHash E tx, rcGasUsed = erUsedGas result,
               rcContractAddress = (if cmTo msg = None
                 then createAddress E (tcOrigin E txc) (txNonceOf E tx) else 0),
               rcLogs = getLogs E s (txHash E tx) (bigUint64 number) blockHash,
               rcBloom = [], rcBlockHash = 0, rcBlockNumber = 0, rcTransactionIndex = 0\<rparr>
      in r\<lparr>rcBloom := createBloom E r, rcBlockHash := blockHash, rcBlockNumber := number,
           rcTransactionIndex := txIndex E s\<rparr>)"

definition applyTransactionWithResult ::
    "'x geth_scheme \<Rightarrow> ('tx, 's, 'cfg, 'sig, 'tc, 'log, 'y) evmLib_scheme \<Rightarrow> coreMessage \<Rightarrow> 'cfg
      \<Rightarrow> int \<Rightarrow> hash \<Rightarrow> 'tx \<Rightarrow> 'tc evmEnv \<Rightarrow> ('s \<times> u64) \<times> u64
      \<Rightarrow> ((error + 'log receipt \<times> executionResult) \<times> ('s \<times> u64) \<times> u64) outcome" where
  "applyTransactionWithResult G E msg config number blockHash tx evm st =
     (let usedGas = snd st;
          txContext = newTxContext E msg;
          evm = evm\<lparr>eeTxContext := Some txContext\<rparr>
      in callThen (applyMessage E evm msg (fst st))
           (\<lambda>err sg. Ret (Inl err, sg, usedGas))
           (\<lambda>result sg.
              andThen
                (if isByzantium E config number then Ret (None, finaliseState E True (fst sg))
                 else andThen (intermediateRoot E (isEIP158 E config number) (fst sg))
                        (\<lambda>(root, s). Ret (Some (hashBytes G root), s)))
                (\<lambda>(root, s).
                   let usedGas = usedGas + erUsedGas result
                   in Ret (Inr (makeReceipt E msg txContext s number blockHash tx usedGas root
                                  result, result),
                           (s, snd sg), usedGas))))"

definition ApplyTransactionWithResult ::
    "'x geth_scheme \<Rightarrow> ('tx, 's, 'cfg, 'sig, 'tc, 'log, 'y) evmLib_scheme \<Rightarrow> 'cfg
      \<Rightarrow> address option \<Rightarrow> header \<Rightarrow> 'tx \<Rightarrow> ('s \<times> u64) \<times> u64
      \<Rightarrow> ((error + 'log receipt \<times> executionResult) \<times> ('s \<times> u64) \<times> u64) outcome" where
  "ApplyTransactionWithResult G E config author header tx st =
     (case transactionToMessage E tx (makeSigner E config (hdNumber header) (hdTime header))
             (hdBaseFee header) of
        Inl err \<Rightarrow> Ret (Inl err, st)
      | Inr msg \<Rightarrow>
          let vmenv = \<lparr>eeHeader = header, eeAuthor = author, eeTxContext = None,
                       eeNoBaseFee = False\<rparr>
          in applyTransactionWithResult G E msg config (hdNumber header) (headerHash G header) tx
               vmenv st)"

section \<open>Arguments and results\<close>

record callBundleArgs =
  cbTxs :: "byte list list"
  cbBlockNumber :: i64
  cbStateBlock :: blockNumberOrHash
  cbCoinbase :: "string option"
  cbTimestamp :: "u64 option"
  cbTimeout :: "i64 option"
  cbGasLimit :: "u64 option"
  cbDifficulty :: "int option"
  cbBaseFee :: "int option"

record estimateGasBundleArgs =
  ebTxs :: "transactionArgs list"
  ebBlockNumber :: i64
  ebStateBlock :: blockNumberOrHash
  ebCoinbase :: "string option"
  ebTimestamp :: "u64 option"
  ebTimeout :: "i64 option"

datatype jsonVal =
    JString string
  | JUint64 u64
  | JInt64 i64
  | JResults "(string, jsonVal) gomap list"

type_synonym jsonMap = "(string, jsonVal) gomap"

text \<open>\<open>encoding/hex\<close> and the Euclidean division of \<open>math/big\<close>.\<close>

definition hexEncode :: "byte list \<Rightarrow> string" where
  "hexEncode bs = concat (map (\<lambda>b.
     [''0123456789abcdef'' ! (unat b div 16), ''0123456789abcdef'' ! (unat b mod 16)]) bs)"

definition bigDiv :: "int \<Rightarrow> int \<Rightarrow> int outcome" where
  "bigDiv x y =
     (if y = 0 then Panic divideByZero else Ret (if 0 < y then x div y else - (x div - y)))"

definition bigJson :: "int \<Rightarrow> jsonVal" where
  "bigJson i = JString (bigString (Some i))"

text \<open>The timeout in nanoseconds, wrapping as \<open>int64\<close> does; one that is not positive sets none.\<close>

definition bundleTimeout :: "i64 option \<Rightarrow> i64 option" where
  "bundleTimeout t =
     (let ms = (case t of None \<Rightarrow> 5000 | Some ms \<Rightarrow> ms);
          timeout = 1000000 * ms
      in if 0 < sint timeout then Some timeout else None)"

section \<open>CallBundle\<close>

fun decodeTxs ::
    "('tx, 's, 'cfg, 'sig, 'tc, 'log, 'y) evmLib_scheme \<Rightarrow> byte list list \<Rightarrow> error + 'tx list" where
  "decodeTxs E [] = Inr []"
| "decodeTxs E (encodedTx # rest) =
     (case unmarshalTx E encodedTx of
        Inl err \<Rightarrow> Inl err
      | Inr tx \<Rightarrow>
          (case decodeTxs E rest of Inl err \<Rightarrow> Inl err | Inr txs \<Rightarrow> Inr (tx # txs)))"

text \<open>The variables that the loop over the transactions writes.\<close>

record 's bundleVars =
  bvState :: 's
  bvGasPool :: u64
  bvHeader :: header
  bvResults :: "jsonMap list"
  bvTotalGasUsed :: u64
  bvGasFees :: int
  bvHashed :: "byte list"

definition txResult ::
    "('tx, 's, 'cfg, 'sig, 'tc, 'log, 'y) evmLib_scheme \<Rightarrow> 'tx \<Rightarrow> address \<Rightarrow> u64 \<Rightarrow> executionResult
      \<Rightarrow> int \<Rightarrow> int \<Rightarrow> int \<Rightarrow> jsonMap" where
  "txResult E tx from gasUsed result coinbaseDiffTx gasFeesTx gasPrice =
     (let to = (case txToOf E tx of None \<Rightarrow> ''0x'' | Some a \<Rightarrow> addressString E a);
          r = put ''toAddress'' (JString to)
                (put ''fromAddress'' (JString (addressString E from))
                  (put ''gasUsed'' (JUint64 gasUsed)
                    (put ''txHash'' (JString (hashString E (txHash E tx))) [])));
          r = (case erErr result of
                 Some err \<Rightarrow>
                   let r = put ''error'' (JString err) r;
                       revert = resultRevert E result
                   in if length revert > 0
                      then put ''revert'' (JString (map (char_of \<circ> unat) revert)) r else r
               | None \<Rightarrow> put ''value'' (JString (''0x'' @ hexEncode (resultReturn E result))) r);
          r = put ''coinbaseDiff'' (bigJson coinbaseDiffTx) r;
          r = put ''gasFees'' (bigJson gasFeesTx) r;
          r = put ''ethSentToCoinbase'' (bigJson (coinbaseDiffTx - gasFeesTx)) r;
          r = put ''gasPrice'' (bigJson gasPrice) r
      in put ''gasUsed'' (JUint64 gasUsed) r)"

definition callBundleTx ::
    "'x geth_scheme \<Rightarrow> ('tx, 's, 'cfg, 'sig, 'tc, 'log, 'y) evmLib_scheme \<Rightarrow> 'cfg \<Rightarrow> 'sig
      \<Rightarrow> address \<Rightarrow> nat \<Rightarrow> 'tx \<Rightarrow> 's bundleVars \<Rightarrow> (error + 's bundleVars) outcome" where
  "callBundleTx G E config signer coinbase i tx v =
     (case getBalance E coinbase (bvState v) of (coinbaseBalanceBeforeTx, s) \<Rightarrow>
      let s = setTxContext E (txHash E tx) i s; header = bvHeader v
      in callThen
           (ApplyTransactionWithResult G E config (Some coinbase) header tx
              ((s, bvGasPool v), hdGasUsed header))
           (\<lambda>err st. Ret (Inl (ErrTx err (txHash E tx))))
           (\<lambda>(receipt, result) ((s, gp), used).
              let header = header\<lparr>hdGasUsed := used\<rparr> in
              case txSender E signer tx of
                Inl err \<Rightarrow> Ret (Inl (ErrTx err (txHash E tx)))
              | Inr from \<Rightarrow>
                  (case effectiveGasTip E tx (hdBaseFee header) of
                     Inl err \<Rightarrow> Ret (Inl (ErrTx err (txHash E tx)))
                   | Inr gasPrice \<Rightarrow>
                       (case getBalance E coinbase s of (balance, s) \<Rightarrow>
                        let gasFeesTx = sint (rcGasUsed receipt) * gasPrice;
                            coinbaseDiffTx = balance - coinbaseBalanceBeforeTx
                        in andThen (bigDiv coinbaseDiffTx (sint (rcGasUsed receipt)))
                             (\<lambda>price. Ret (Inr
                                \<lparr>bvState = s, bvGasPool = gp, bvHeader = header,
                                 bvResults = bvResults v @ [txResult E tx from (rcGasUsed receipt)
                                   result coinbaseDiffTx gasFeesTx price],
                                 bvTotalGasUsed = bvTotalGasUsed v + rcGasUsed receipt,
                                 bvGasFees = bvGasFees v + gasFeesTx,
                                 bvHashed = bvHashed v @ hashBytes G (txHash E tx)\<rparr>))))))"

fun callBundleLoop ::
    "'x geth_scheme \<Rightarrow> ('tx, 's, 'cfg, 'sig, 'tc, 'log, 'y) evmLib_scheme \<Rightarrow> 'cfg \<Rightarrow> 'sig
      \<Rightarrow> address \<Rightarrow> (nat \<Rightarrow> error option) \<Rightarrow> nat \<Rightarrow> 'tx list \<Rightarrow> 's bundleVars
      \<Rightarrow> (error + 's bundleVars) outcome" where
  "callBundleLoop G E config signer coinbase ctxErr i [] v = Ret (Inr v)"
| "callBundleLoop G E config signer coinbase ctxErr i (tx # txs) v =
     (case ctxErr i of
        Some err \<Rightarrow> Ret (Inl err)
      | None \<Rightarrow>
          andThen (callBundleTx G E config signer coinbase i tx v) (\<lambda>r.
            case r of
              Inl err \<Rightarrow> Ret (Inl err)
            | Inr v \<Rightarrow> callBundleLoop G E config signer coinbase ctxErr (Suc i) txs v))"

text \<open>The header of the simulated block.\<close>

definition callBundleHeader ::
    "'x geth_scheme \<Rightarrow> ('tx, 's, 'cfg, 'sig, 'tc, 'log, 'y) evmLib_scheme \<Rightarrow> 'cfg
      \<Rightarrow> callBundleArgs \<Rightarrow> header \<Rightarrow> header" where
  "callBundleHeader G E config args parent =
     \<lparr>hdParentHash = headerHash G parent,
      hdNumber = sint (cbBlockNumber args),
      hdGasLimit = (case cbGasLimit args of None \<Rightarrow> hdGasLimit parent | Some g \<Rightarrow> g),
      hdGasUsed = 0,
      hdTime = (case cbTimestamp args of None \<Rightarrow> hdTime parent + 12 | Some t \<Rightarrow> t),
      hdDifficulty = (case cbDifficulty args of None \<Rightarrow> hdDifficulty parent | Some d \<Rightarrow> Some d),
      hdCoinbase = (case cbCoinbase args of None \<Rightarrow> hdCoinbase parent | Some a \<Rightarrow> hexToAddress E a),
      hdBaseFee = (case cbBaseFee args of
          Some fee \<Rightarrow> Some fee
        | None \<Rightarrow> if isLondon E config (sint (cbBlockNumber args))
                  then Some (calcBaseFee E config parent) else None)\<rparr>"

definition bundleResponse ::
    "('tx, 's, 'cfg, 'sig, 'tc, 'log, 'y) evmLib_scheme \<Rightarrow> (byte list \<Rightarrow> byte list)
      \<Rightarrow> 's bundleVars \<Rightarrow> int \<Rightarrow> int \<Rightarrow> int \<Rightarrow> jsonMap" where
  "bundleResponse E keccak v coinbaseDiff bundleGasPrice parentNumber =
     (let r = put ''results'' (JResults (bvResults v)) [];
          r = put ''coinbaseDiff'' (bigJson coinbaseDiff) r;
          r = put ''gasFees'' (bigJson (bvGasFees v)) r;
          r = put ''ethSentToCoinbase'' (bigJson (coinbaseDiff - bvGasFees v)) r;
          r = put ''bundleGasPrice'' (bigJson bundleGasPrice) r;
          r = put ''totalGasUsed'' (JUint64 (bvTotalGasUsed v)) r;
          r = put ''stateBlockNumber'' (JInt64 (word_of_int parentNumber)) r
      in put ''bundleHash'' (JString (''0x'' @ bytes2Hex E (keccak (bvHashed v)))) r)"

definition CallBundle ::
    "'x geth_scheme \<Rightarrow> ('tx, 's, 'cfg, 'sig, 'tc, 'log, 'y) evmLib_scheme
      \<Rightarrow> ('s, 'b, 'cfg) bundleBackend \<Rightarrow> (i64 option \<Rightarrow> nat \<Rightarrow> error option) \<Rightarrow> callBundleArgs \<Rightarrow> 'b
      \<Rightarrow> ((error + jsonMap option) \<times> 'b) outcome" where
  "CallBundle G E B ctxErr args b =
     (if length (cbTxs args) = 0 then Ret (Inl (Errorf ''bundle missing txs''), b)
      else if cbBlockNumber args = 0 then Ret (Inl (Errorf ''bundle missing blockNumber''), b)
      else case decodeTxs E (cbTxs args) of
        Inl err \<Rightarrow> Ret (Inl err, b)
      | Inr txs \<Rightarrow>
          callThen (bbState B (cbStateBlock args) b)
            (\<lambda>err b. Ret (Inl err, b))
            (\<lambda>(state, parent) b.
               case state of
                 None \<Rightarrow> Ret (Inr None, b)
               | Some s \<Rightarrow>
                   let config = bbConfig B;
                       header = callBundleHeader G E config args parent;
                       coinbase = hdCoinbase header;
                       signer = makeSigner E config (hdNumber header) (hdTime parent)
                   in (case getBalance E coinbase s of (coinbaseBalanceBefore, s) \<Rightarrow>
                      andThen (callBundleLoop G E config signer coinbase
                          (ctxErr (bundleTimeout (cbTimeout args))) 0 txs
                          \<lparr>bvState = s, bvGasPool = - 1, bvHeader = header, bvResults = [],
                           bvTotalGasUsed = 0, bvGasFees = 0, bvHashed = []\<rparr>) (\<lambda>r.
                        case r of
                          Inl err \<Rightarrow> Ret (Inl err, b)
                        | Inr v \<Rightarrow>
                            let coinbaseDiff =
                                  fst (getBalance E coinbase (bvState v)) - coinbaseBalanceBefore
                            in andThen (bigDiv coinbaseDiff (sint (bvTotalGasUsed v)))
                                 (\<lambda>price. Ret (Inr (Some (bundleResponse E (keccak256 G) v
                                    coinbaseDiff price (hdNumber parent))), b))))))"

section \<open>EstimateGasBundle\<close>

text \<open>The state after the copy; \<open>random i\<close> is the hash drawn for transaction \<open>i\<close>.\<close>

fun estimateLoop ::
    "('tx, 's, 'cfg, 'sig, 'tc, 'log, 'y) evmLib_scheme \<Rightarrow> 'cfg \<Rightarrow> header \<Rightarrow> address \<Rightarrow> u64
      \<Rightarrow> (nat \<Rightarrow> error option) \<Rightarrow> (nat \<Rightarrow> hash) \<Rightarrow> nat \<Rightarrow> transactionArgs list \<Rightarrow> 's \<times> u64
      \<Rightarrow> (error + jsonMap list) outcome" where
  "estimateLoop E config header coinbase globalGasCap ctxErr random i [] sg = Ret (Inr [])"
| "estimateLoop E config header coinbase globalGasCap ctxErr random i (txArgs # rest) sg =
     (case ctxErr i of
        Some err \<Rightarrow> Ret (Inl err)
      | None \<Rightarrow>
          let s = setTxContext E (random i) i (fst sg) in
          case ToMessage (minBig E) txArgs globalGasCap (hdBaseFee header) of
            Inl err \<Rightarrow> Ret (Inl err)
          | Inr msg \<Rightarrow>
              let vmenv = \<lparr>eeHeader = header, eeAuthor = Some coinbase,
                           eeTxContext = Some (newTxContext E msg), eeNoBaseFee = True\<rparr>
              in callThen (applyMessage E vmenv msg (s, snd sg))
                   (\<lambda>err sg. Ret (Inl err))
                   (\<lambda>result (s, gp).
                      let s = finaliseState E (isEIP158 E config (hdNumber header)) s;
                          jsonResult = put ''gasUsed'' (JUint64 (erUsedGas result)) []
                      in andThen (estimateLoop E config header coinbase globalGasCap ctxErr random
                              (Suc i) rest (s, gp)) (\<lambda>r.
                           case r of
                             Inl err \<Rightarrow> Ret (Inl err)
                           | Inr results \<Rightarrow> Ret (Inr (jsonResult # results)))))"

definition estimateHeader ::
    "'x geth_scheme \<Rightarrow> ('tx, 's, 'cfg, 'sig, 'tc, 'log, 'y) evmLib_scheme
      \<Rightarrow> estimateGasBundleArgs \<Rightarrow> header \<Rightarrow> header" where
  "estimateHeader G E args parent =
     \<lparr>hdParentHash = headerHash G parent,
      hdNumber = sint (ebBlockNumber args),
      hdGasLimit = hdGasLimit parent,
      hdGasUsed = 0,
      hdTime = (case ebTimestamp args of None \<Rightarrow> hdTime parent + 1 | Some t \<Rightarrow> t),
      hdDifficulty = hdDifficulty parent,
      hdCoinbase = (case ebCoinbase args of None \<Rightarrow> hdCoinbase parent | Some a \<Rightarrow> hexToAddress E a),
      hdBaseFee = hdBaseFee parent\<rparr>"

definition EstimateGasBundle ::
    "'x geth_scheme \<Rightarrow> ('tx, 's, 'cfg, 'sig, 'tc, 'log, 'y) evmLib_scheme
      \<Rightarrow> ('s, 'b, 'cfg) bundleBackend \<Rightarrow> (i64 option \<Rightarrow> nat \<Rightarrow> error option) \<Rightarrow> (nat \<Rightarrow> hash)
      \<Rightarrow> estimateGasBundleArgs \<Rightarrow> 'b \<Rightarrow> ((error + jsonMap option) \<times> 'b) outcome" where
  "EstimateGasBundle G E B ctxErr random args b =
     (if length (ebTxs args) = 0 then Ret (Inl (Errorf ''bundle missing txs''), b)
      else if ebBlockNumber args = 0 then Ret (Inl (Errorf ''bundle missing blockNumber''), b)
      else
        callThen (bbState B (ebStateBlock args) b)
          (\<lambda>err b. Ret (Inl err, b))
          (\<lambda>(state, parent) b.
             case state of
               None \<Rightarrow> Ret (Inr None, b)
             | Some s \<Rightarrow>
                 let header = estimateHeader G E args parent
                 in andThen (copyState E s) (\<lambda>statedb.
                    andThen (estimateLoop E (bbConfig B) header (hdCoinbase header) (bbGasCap B)
                      (ctxErr (bundleTimeout (ebTimeout args))) random 0 (ebTxs args)
                      (statedb, - 1)) (\<lambda>r.
                    case r of
                      Inl err \<Rightarrow> Ret (Inl err, b)
                    | Inr results \<Rightarrow>
                        Ret (Inr (Some (put ''results'' (JResults results) [])), b)))))"

end
