(* ===== verification/BundleLaws.thy ===== *)
theory BundleLaws
  imports BundleAPI
begin

text \<open>
  What \<open>CallBundle\<close> and \<open>EstimateGasBundle\<close> compute. \<open>balance_laws\<close> states that reading a
  balance, and naming the transaction that is about to run, change no balance; under it the
  payments to the coinbase that the results list add up to the one of the bundle.
  \<open>evm_laws\<close> states how the EVM draws gas from the pool; under it no division of the API is
  by zero. A reference EVM interprets both.
\<close>

section \<open>The loop of CallBundle\<close>

record bundleRow =
  brGas :: u64
  brFee :: int
  brDiff :: int
  brResult :: jsonMap

definition rowOk ::
    "('tx, 's, 'cfg, 'sig, 'tc, 'log, 'y) evmLib_scheme \<Rightarrow> int option \<Rightarrow> 'tx \<Rightarrow> bundleRow \<Rightarrow> bool" where
  "rowOk E baseFee tx row \<longleftrightarrow>
     (\<exists>tip. effectiveGasTip E tx baseFee = Inr tip \<and> brFee row = sint (brGas row) * tip) \<and>
     (\<exists>q. bigDiv (brDiff row) (sint (brGas row)) = Ret q \<and>
        map_of (brResult row) ''gasPrice'' = Some (bigJson q)) \<and>
     map_of (brResult row) ''txHash'' = Some (JString (hashString E (txHash E tx))) \<and>
     map_of (brResult row) ''gasUsed'' = Some (JUint64 (brGas row)) \<and>
     map_of (brResult row) ''coinbaseDiff'' = Some (bigJson (brDiff row)) \<and>
     map_of (brResult row) ''gasFees'' = Some (bigJson (brFee row)) \<and>
     map_of (brResult row) ''ethSentToCoinbase'' = Some (bigJson (brDiff row - brFee row))"

definition advances ::
    "'x geth_scheme \<Rightarrow> ('tx, 's, 'cfg, 'sig, 'tc, 'log, 'y) evmLib_scheme \<Rightarrow> (address \<Rightarrow> 's \<Rightarrow> int)
      \<Rightarrow> address \<Rightarrow> 'tx list \<Rightarrow> 's bundleVars \<Rightarrow> bundleRow list \<Rightarrow> 's bundleVars \<Rightarrow> bool" where
  "advances G E bal coinbase txs v rows v' \<longleftrightarrow>
     list_all2 (rowOk E (hdBaseFee (bvHeader v))) txs rows \<and>
     bvResults v' = bvResults v @ map brResult rows \<and>
     bvTotalGasUsed v' = bvTotalGasUsed v + sum_list (map brGas rows) \<and>
     hdGasUsed (bvHeader v') = hdGasUsed (bvHeader v) + sum_list (map brGas rows) \<and>
     hdBaseFee (bvHeader v') = hdBaseFee (bvHeader v) \<and>
     bvGasFees v' = bvGasFees v + sum_list (map brFee rows) \<and>
     bal coinbase (bvState v') = bal coinbase (bvState v) + sum_list (map brDiff rows) \<and>
     bvHashed v' = bvHashed v @ concat (map (hashBytes G \<circ> txHash E) txs)"

lemma advances_Nil: "advances G E bal coinbase [] v [] v"
  by (simp add: advances_def)

lemma advances_Cons:
  "advances G E bal coinbase [tx] v [row] v1 \<Longrightarrow> advances G E bal coinbase txs v1 rows v2 \<Longrightarrow>
     advances G E bal coinbase (tx # txs) v (row # rows) v2"
  by (simp add: advances_def add.assoc)

lemma applyTransactionWithResult_InrD:
  assumes "applyTransactionWithResult G E msg config number blockHash tx evm st =
    Ret (Inr (receipt, result), st')"
  shows "rcGasUsed receipt = erUsedGas result" and "snd st' = snd st + erUsedGas result"
    and "rcCumulativeGasUsed receipt = snd st'" and "rcTxHash receipt = txHash E tx"
    and "rcStatus receipt = (if resultFailed E result then 0 else 1)"
    and "cmTo msg \<noteq> None \<Longrightarrow> rcContractAddress receipt = 0"
    and "\<exists>sg s. applyMessage E (evm\<lparr>eeTxContext := Some (newTxContext E msg)\<rparr>) msg (fst st) =
      Ret (Inr result, sg) \<and> fst st' = (s, snd sg)"
  using assms
  by (auto simp: applyTransactionWithResult_def makeReceipt_def Let_def callThen_Ret_iff
      andThen_Ret_iff split: if_splits prod.splits)

lemma ApplyTransactionWithResult_InrD:
  assumes "ApplyTransactionWithResult G E config author header tx st =
    Ret (Inr (receipt, result), st')"
  shows "rcGasUsed receipt = erUsedGas result" and "snd st' = snd st + erUsedGas result"
    and "\<exists>env msg sg s. applyMessage E env msg (fst st) = Ret (Inr result, sg) \<and>
      fst st' = (s, snd sg)"
proof -
  obtain msg env where "applyTransactionWithResult G E msg config (hdNumber header)
      (headerHash G header) tx env st = Ret (Inr (receipt, result), st')"
    using assms by (auto simp: ApplyTransactionWithResult_def Let_def split: sum.splits)
  note D = applyTransactionWithResult_InrD [OF this]
  show "rcGasUsed receipt = erUsedGas result" and "snd st' = snd st + erUsedGas result"
    by (rule D)+
  from D(7) show "\<exists>env msg sg s. applyMessage E env msg (fst st) = Ret (Inr result, sg) \<and>
      fst st' = (s, snd sg)" by blast
qed

lemma txResult_fields [simp]:
  "map_of (txResult E tx a g res diff fee q) ''gasPrice'' = Some (bigJson q)"
  "map_of (txResult E tx a g res diff fee q) ''txHash'' =
     Some (JString (hashString E (txHash E tx)))"
  "map_of (txResult E tx a g res diff fee q) ''gasUsed'' = Some (JUint64 g)"
  "map_of (txResult E tx a g res diff fee q) ''coinbaseDiff'' = Some (bigJson diff)"
  "map_of (txResult E tx a g res diff fee q) ''gasFees'' = Some (bigJson fee)"
  "map_of (txResult E tx a g res diff fee q) ''ethSentToCoinbase'' = Some (bigJson (diff - fee))"
  by (simp_all add: txResult_def Let_def split: option.split)

locale balance_laws =
  fixes E :: "('tx, 's, 'cfg, 'sig, 'tc, 'log, 'y) evmLib_scheme"
    and bal :: "address \<Rightarrow> 's \<Rightarrow> int"
  assumes getBalance_value: "fst (getBalance E a s) = bal a s"
    and getBalance_keeps: "bal b (snd (getBalance E a s)) = bal b s"
    and setTxContext_keeps: "bal b (setTxContext E h i s) = bal b s"
begin

lemma callBundleTx_advances:
  assumes "callBundleTx G E config signer coinbase i tx v = Ret (Inr v')"
  shows "\<exists>row. advances G E bal coinbase [tx] v [row] v'"
proof -
  let ?b = "getBalance E coinbase (bvState v)"
  let ?diff = "\<lambda>s. fst (getBalance E coinbase s) - fst ?b"
  from assms obtain receipt result s gp used tip frm q
    where app: "ApplyTransactionWithResult G E config (Some coinbase) (bvHeader v) tx
        ((setTxContext E (txHash E tx) i (snd ?b), bvGasPool v), hdGasUsed (bvHeader v)) =
        Ret (Inr (receipt, result), (s, gp), used)"
      and tip: "effectiveGasTip E tx (hdBaseFee (bvHeader v)) = Inr tip"
      and q: "bigDiv (?diff s) (sint (rcGasUsed receipt)) = Ret q"
      and v': "v' = \<lparr>bvState = snd (getBalance E coinbase s), bvGasPool = gp,
        bvHeader = (bvHeader v)\<lparr>hdGasUsed := used\<rparr>,
        bvResults = bvResults v @ [txResult E tx frm (rcGasUsed receipt) result (?diff s)
          (sint (rcGasUsed receipt) * tip) q],
        bvTotalGasUsed = bvTotalGasUsed v + rcGasUsed receipt,
        bvGasFees = bvGasFees v + sint (rcGasUsed receipt) * tip,
        bvHashed = bvHashed v @ hashBytes G (txHash E tx)\<rparr>"
    by (auto simp: callBundleTx_def Let_def callThen_Ret_iff andThen_Ret_iff case_sum_Inr
        case_prod_beta)
  have "used = hdGasUsed (bvHeader v) + rcGasUsed receipt"
    using ApplyTransactionWithResult_InrD [OF app] by simp
  then have "advances G E bal coinbase [tx] v
      [\<lparr>brGas = rcGasUsed receipt, brFee = sint (rcGasUsed receipt) * tip, brDiff = ?diff s,
        brResult = txResult E tx frm (rcGasUsed receipt) result (?diff s)
          (sint (rcGasUsed receipt) * tip) q\<rparr>] v'"
    using tip q by (simp add: advances_def rowOk_def v' getBalance_value getBalance_keeps)
  then show ?thesis by blast
qed

lemma callBundleLoop_advances:
  "callBundleLoop G E config signer coinbase ctx i txs v = Ret (Inr v') \<Longrightarrow>
     \<exists>rows. advances G E bal coinbase txs v rows v'"
proof (induction txs arbitrary: i v)
  case Nil
  then show ?case by (auto intro: advances_Nil)
next
  case (Cons tx txs)
  then obtain v1 where step: "callBundleTx G E config signer coinbase i tx v = Ret (Inr v1)"
    and rest: "callBundleLoop G E config signer coinbase ctx (Suc i) txs v1 = Ret (Inr v')"
    by (auto simp: andThen_sum_Inr split: option.splits)
  from callBundleTx_advances [OF step] Cons.IH [OF rest] show ?case
    by (blast intro: advances_Cons)
qed

lemma CallBundle_totals:
  assumes "CallBundle G E B ctx args b = Ret (Inr (Some ret), b')"
  shows "\<exists>txs s parent rows q.
    decodeTxs E (cbTxs args) = Inr txs \<and>
    bbState B (cbStateBlock args) b = Ret (Inr (Some s, parent), b') \<and>
    list_all2 (rowOk E (hdBaseFee (callBundleHeader G E (bbConfig B) args parent))) txs rows \<and>
    bigDiv (sum_list (map brDiff rows)) (sint (sum_list (map brGas rows))) = Ret q \<and>
    map_of ret ''results'' = Some (JResults (map brResult rows)) \<and>
    map_of ret ''totalGasUsed'' = Some (JUint64 (sum_list (map brGas rows))) \<and>
    map_of ret ''coinbaseDiff'' = Some (bigJson (sum_list (map brDiff rows))) \<and>
    map_of ret ''gasFees'' = Some (bigJson (sum_list (map brFee rows))) \<and>
    map_of ret ''ethSentToCoinbase'' =
      Some (bigJson (sum_list (map brDiff rows) - sum_list (map brFee rows))) \<and>
    map_of ret ''bundleGasPrice'' = Some (bigJson q) \<and>
    map_of ret ''bundleHash'' = Some (JString (''0x'' @
      bytes2Hex E (keccak256 G (concat (map (hashBytes G \<circ> txHash E) txs)))))"
proof -
  let ?header = "callBundleHeader G E (bbConfig B) args"
  let ?start = "\<lambda>s parent. \<lparr>bvState = s, bvGasPool = - 1, bvHeader = ?header parent,
    bvResults = [], bvTotalGasUsed = 0, bvGasFees = 0, bvHashed = []\<rparr>"
  from assms obtain txs s parent v q where txs: "decodeTxs E (cbTxs args) = Inr txs"
    and state: "bbState B (cbStateBlock args) b = Ret (Inr (Some s, parent), b')"
    and loop: "callBundleLoop G E (bbConfig B)
        (makeSigner E (bbConfig B) (hdNumber (?header parent)) (hdTime parent))
        (hdCoinbase (?header parent)) (ctx (bundleTimeout (cbTimeout args))) 0 txs
        (?start (snd (getBalance E (hdCoinbase (?header parent)) s)) parent) = Ret (Inr v)"
    and q: "bigDiv (fst (getBalance E (hdCoinbase (?header parent)) (bvState v)) -
        fst (getBalance E (hdCoinbase (?header parent)) s)) (sint (bvTotalGasUsed v)) = Ret q"
    and ret: "ret = bundleResponse E (keccak256 G) v
        (fst (getBalance E (hdCoinbase (?header parent)) (bvState v)) -
         fst (getBalance E (hdCoinbase (?header parent)) s)) q (hdNumber parent)"
    by (auto simp: CallBundle_def Let_def callThen_Ret_iff andThen_Ret_iff case_sum_Inr
        case_prod_beta split: if_splits option.splits)
  from callBundleLoop_advances [OF loop] obtain rows where
    "advances G E bal (hdCoinbase (?header parent)) txs
      (?start (snd (getBalance E (hdCoinbase (?header parent)) s)) parent) rows v" ..
  with txs state q ret show ?thesis
    by (intro exI [of _ txs] exI [of _ s] exI [of _ parent] exI [of _ rows] exI [of _ q])
      (simp add: advances_def bundleResponse_def Let_def getBalance_value getBalance_keeps)
qed

end

section \<open>The gas pool\<close>

lemma sint_eq_0 [simp]: "sint (w :: 'a::len word) = 0 \<longleftrightarrow> w = 0"
  by (metis signed_0 signed_word_eqI)

lemma bigDiv_runs: "y \<noteq> 0 \<Longrightarrow> \<exists>q. bigDiv x y = Ret q"
  by (simp add: bigDiv_def)

text \<open>\<open>poolOk\<close>: what the bundle has used and what the pool still holds is the full pool.\<close>

definition poolOk :: "'s bundleVars \<Rightarrow> bool" where
  "poolOk v \<longleftrightarrow> bvTotalGasUsed v + bvGasPool v = - 1"

lemma pool_step:
  fixes total gp g :: u64
  assumes "total + gp = - 1" and "0 < g" and "g \<le> gp"
  shows "total + g + (gp - g) = - 1" and "total + g \<noteq> 0"
proof -
  show sum: "total + g + (gp - g) = - 1" using assms(1) by simp
  have "unat (gp - g) < unat gp"
    using assms(2,3) by (simp add: unat_sub word_less_nat_alt word_le_nat_alt)
  also have "\<dots> \<le> unat (- 1 :: u64)" using word_le_nat_alt word_order.extremum by blast
  finally have "gp - g \<noteq> - 1" by auto
  with sum show "total + g \<noteq> 0" by (metis add_0)
qed

locale evm_laws =
  fixes E :: "('tx, 's, 'cfg, 'sig, 'tc, 'log, 'y) evmLib_scheme"
  assumes apply_runs: "returns (applyMessage E env msg st)"
    and apply_draws: "applyMessage E env msg (s, gp) = Ret (Inr result, s', gp') \<Longrightarrow>
          0 < erUsedGas result \<and> erUsedGas result \<le> gp \<and> gp' = gp - erUsedGas result"
begin

lemma ApplyTransactionWithResult_returns:
  "isByzantium E config (hdNumber header) \<Longrightarrow>
     returns (ApplyTransactionWithResult G E config author header tx st)"
  by (auto simp: ApplyTransactionWithResult_def applyTransactionWithResult_def Let_def
      returns_callThen_runs [OF apply_runs] split: sum.split)

lemma callBundleTx_runs:
  assumes "isByzantium E config (hdNumber (bvHeader v))" and "poolOk v"
  shows "\<exists>r. callBundleTx G E config signer coinbase i tx v = Ret r \<and>
    (\<forall>v'. r = Inr v' \<longrightarrow> poolOk v' \<and> bvTotalGasUsed v' \<noteq> 0 \<and>
       hdNumber (bvHeader v') = hdNumber (bvHeader v))"
proof -
  let ?s = "setTxContext E (txHash E tx) i (snd (getBalance E coinbase (bvState v)))"
  let ?m = "ApplyTransactionWithResult G E config (Some coinbase) (bvHeader v) tx
    ((?s, bvGasPool v), hdGasUsed (bvHeader v))"
  obtain x where x: "?m = Ret x"
    using ApplyTransactionWithResult_returns [of config "bvHeader v"] assms(1)
    by (fastforce simp: returns_iff)
  show ?thesis
  proof (cases "fst x")
    case (Inl e)
    with x show ?thesis by (cases x) (auto simp: callBundleTx_def Let_def case_prod_beta)
  next
    case (Inr rr)
    obtain receipt result s gp used where x2: "x = (Inr (receipt, result), (s, gp), used)"
      using Inr by (cases x; cases rr) auto
    note D = ApplyTransactionWithResult_InrD [OF x [unfolded x2]]
    from D(3) have gas: "0 < rcGasUsed receipt" "rcGasUsed receipt \<le> bvGasPool v"
      "gp = bvGasPool v - rcGasUsed receipt"
      using apply_draws D(1) by fastforce+
    note pool = pool_step [OF assms(2) [unfolded poolOk_def] gas(1,2)]
    from gas(1) have "sint (rcGasUsed receipt) \<noteq> 0" by auto
    from bigDiv_runs [OF this] obtain q where "bigDiv (fst (getBalance E coinbase s) -
        fst (getBalance E coinbase (bvState v))) (sint (rcGasUsed receipt)) = Ret q" by blast
    with x x2 pool gas(3) show ?thesis
      by (auto simp: callBundleTx_def Let_def case_prod_beta poolOk_def split: sum.split)
  qed
qed

lemma callBundleLoop_runs:
  assumes "isByzantium E config (hdNumber (bvHeader v))" and "poolOk v"
    and "txs \<noteq> [] \<or> bvTotalGasUsed v \<noteq> 0"
  shows "\<exists>r. callBundleLoop G E config signer coinbase ctx i txs v = Ret r \<and>
    (\<forall>v'. r = Inr v' \<longrightarrow> bvTotalGasUsed v' \<noteq> 0)"
  using assms
proof (induction txs arbitrary: i v)
  case Nil
  then show ?case by simp
next
  case (Cons tx txs)
  obtain r where r: "callBundleTx G E config signer coinbase i tx v = Ret r"
    and step: "\<And>v'. r = Inr v' \<Longrightarrow> poolOk v' \<and> bvTotalGasUsed v' \<noteq> 0 \<and>
       hdNumber (bvHeader v') = hdNumber (bvHeader v)"
    using callBundleTx_runs [OF Cons.prems(1,2)] by blast
  show ?case
  proof (cases r)
    case (Inl e)
    with r show ?thesis by (simp split: option.split)
  next
    case (Inr v')
    with step [OF Inr] Cons.prems(1) Cons.IH [of v' "Suc i"] r show ?thesis
      by (auto split: option.split)
  qed
qed

lemma CallBundle_runs:
  assumes "isByzantium E (bbConfig B) (sint (cbBlockNumber args))"
    and "returns (bbState B (cbStateBlock args) b)"
  shows "returns (CallBundle G E B ctx args b)"
proof (cases "cbTxs args = [] \<or> cbBlockNumber args = 0")
  case True
  then show ?thesis by (auto simp: CallBundle_def)
next
  case False
  show ?thesis
  proof (cases "decodeTxs E (cbTxs args)")
    case (Inl e)
    with False show ?thesis by (simp add: CallBundle_def)
  next
    case (Inr txs)
    from False Inr have txs: "txs \<noteq> []" by (cases "cbTxs args") (auto split: sum.splits)
    obtain x b' where x: "bbState B (cbStateBlock args) b = Ret (x, b')"
      using assms(2) by (auto simp: returns_iff)
    show ?thesis
    proof (cases "\<exists>s parent. x = Inr (Some s, parent)")
      case False
      with x Inr \<open>\<not> (cbTxs args = [] \<or> _)\<close> show ?thesis
        by (cases x) (auto simp: CallBundle_def split: option.split)
    next
      case True
      then obtain s parent where "x = Inr (Some s, parent)" by blast
      let ?h = "callBundleHeader G E (bbConfig B) args parent"
      let ?v = "\<lparr>bvState = snd (getBalance E (hdCoinbase ?h) s), bvGasPool = - 1, bvHeader = ?h,
        bvResults = [], bvTotalGasUsed = 0, bvGasFees = 0, bvHashed = []\<rparr>"
      have "poolOk ?v" by (simp add: poolOk_def)
      moreover have "isByzantium E (bbConfig B) (hdNumber (bvHeader ?v))"
        using assms(1) by (simp add: callBundleHeader_def)
      ultimately obtain r where "callBundleLoop G E (bbConfig B)
          (makeSigner E (bbConfig B) (hdNumber ?h) (hdTime parent)) (hdCoinbase ?h)
          (ctx (bundleTimeout (cbTimeout args))) 0 txs ?v = Ret r"
        and "\<And>v'. r = Inr v' \<Longrightarrow> bvTotalGasUsed v' \<noteq> 0"
        using callBundleLoop_runs txs by blast
      with x \<open>x = _\<close> Inr False \<open>\<not> (cbTxs args = [] \<or> _)\<close> show ?thesis
        by (auto simp: CallBundle_def Let_def case_prod_beta bigDiv_runs split: sum.split)
    qed
  qed
qed

end

section \<open>The stub methods behind StateDB\<close>

text \<open>
  go-ethereum's \<open>StateDB.Copy\<close> copies its trie with \<open>CopyTrie\<close> of the database, and
  \<open>IntermediateRoot\<close> ends with the \<open>Hash\<close> of the trie: neither returns when that method does
  not. The database and the trie of the w3 backend are the \<open>db\<close> of \<open>StateDB\<close>, whose methods
  both panic.
\<close>

locale trie_calls =
  fixes E :: "('tx, 's, 'cfg, 'sig, 'tc, 'log, 'y) evmLib_scheme" and trie :: "'s \<Rightarrow> 'd"
  assumes copy_calls: "returns (copyState E s) \<Longrightarrow> returns (dbOpenMethod CopyTrie (trie s))"
    and root_calls: "returns (intermediateRoot E d s) \<Longrightarrow> returns (dbTrieMethod HashTrie (trie s))"
begin

lemma no_copy: "\<not> returns (copyState E s)"
  using copy_calls [of s] by auto

lemma no_root: "\<not> returns (intermediateRoot E d s)"
  using root_calls [of d s] by auto

lemma apply_before_Byzantium:
  assumes "\<not> isByzantium E config (hdNumber header)"
    and "transactionToMessage E tx (makeSigner E config (hdNumber header) (hdTime header))
      (hdBaseFee header) = Inr msg"
    and "applyMessage E \<lparr>eeHeader = header, eeAuthor = author,
      eeTxContext = Some (newTxContext E msg), eeNoBaseFee = False\<rparr> msg sg = Ret (Inr result, sg')"
  shows "\<not> returns (ApplyTransactionWithResult G E config author header tx (sg, used))"
  using assms no_root [of "isEIP158 E config (hdNumber header)" "fst sg'"]
  by (auto simp: ApplyTransactionWithResult_def applyTransactionWithResult_def Let_def returns_iff
      andThen_Ret_iff)

end

lemma callThen_returnsD: "returns (callThen m fail ok) \<Longrightarrow> returns m"
  by (auto simp: returns_callThen)

text \<open>The first transaction of a bundle is reached, and the EVM applies it.\<close>

definition appliesFirst ::
    "'x geth_scheme \<Rightarrow> ('tx, 's, 'cfg, 'sig, 'tc, 'log, 'y) evmLib_scheme \<Rightarrow> 'cfg
      \<Rightarrow> (i64 option \<Rightarrow> nat \<Rightarrow> error option) \<Rightarrow> callBundleArgs \<Rightarrow> 's \<Rightarrow> header \<Rightarrow> bool" where
  "appliesFirst G E config ctx args s parent \<longleftrightarrow>
     (let header = callBundleHeader G E config args parent; coinbase = hdCoinbase header;
          s = snd (getBalance E coinbase (snd (getBalance E coinbase s))) in
      cbBlockNumber args \<noteq> 0 \<and> ctx (bundleTimeout (cbTimeout args)) 0 = None \<and>
      (\<exists>tx txs msg result sg. decodeTxs E (cbTxs args) = Inr (tx # txs) \<and>
         transactionToMessage E tx (makeSigner E config (hdNumber header) (hdTime header))
           (hdBaseFee header) = Inr msg \<and>
         applyMessage E \<lparr>eeHeader = header, eeAuthor = Some coinbase,
             eeTxContext = Some (newTxContext E msg), eeNoBaseFee = False\<rparr> msg
           (setTxContext E (txHash E tx) 0 s, - 1) = Ret (Inr result, sg)))"

context trie_calls
begin

lemma CallBundle_before_Byzantium:
  assumes early: "\<not> isByzantium E (bbConfig B) (sint (cbBlockNumber args))"
    and state: "bbState B (cbStateBlock args) b = Ret (Inr (Some s, parent), b')"
    and first: "appliesFirst G E (bbConfig B) ctx args s parent"
  shows "\<not> returns (CallBundle G E B ctx args b)"
proof -
  let ?h = "callBundleHeader G E (bbConfig B) args parent"
  let ?s = "snd (getBalance E (hdCoinbase ?h) s)"
  from first obtain tx txs msg result sg where "cbBlockNumber args \<noteq> 0"
    "ctx (bundleTimeout (cbTimeout args)) 0 = None" and txs: "decodeTxs E (cbTxs args) = Inr (tx # txs)"
    and msg: "transactionToMessage E tx (makeSigner E (bbConfig B) (hdNumber ?h) (hdTime ?h))
      (hdBaseFee ?h) = Inr msg"
    and app: "applyMessage E \<lparr>eeHeader = ?h, eeAuthor = Some (hdCoinbase ?h),
        eeTxContext = Some (newTxContext E msg), eeNoBaseFee = False\<rparr> msg
      (setTxContext E (txHash E tx) 0 (snd (getBalance E (hdCoinbase ?h) ?s)), - 1) =
      Ret (Inr result, sg)"
    unfolding appliesFirst_def Let_def by blast
  have gas: "\<not> isByzantium E (bbConfig B) (hdNumber ?h)"
    using early by (simp add: callBundleHeader_def)
  have "\<not> returns (callBundleTx G E (bbConfig B) signer (hdCoinbase ?h) 0 tx
      \<lparr>bvState = ?s, bvGasPool = - 1, bvHeader = ?h, bvResults = [], bvTotalGasUsed = 0,
       bvGasFees = 0, bvHashed = []\<rparr>)" for signer
    using apply_before_Byzantium [OF gas msg app, of G "hdGasUsed ?h"]
    by (auto simp: callBundleTx_def case_prod_beta Let_def dest!: callThen_returnsD)
  moreover have "cbTxs args \<noteq> []" using txs by auto
  ultimately show ?thesis
    using state txs \<open>cbBlockNumber args \<noteq> 0\<close> \<open>ctx (bundleTimeout (cbTimeout args)) 0 = None\<close>
    by (auto simp: CallBundle_def Let_def case_prod_beta andThen_Ret_iff returns_iff)
qed

end

context evm_laws
begin

lemma CallBundle_first_fails:
  assumes state: "bbState B (cbStateBlock args) b = Ret (Inr (Some s, parent), b')"
    and first: "\<not> appliesFirst G E (bbConfig B) ctx args s parent"
  shows "returns (CallBundle G E B ctx args b)"
proof (cases "cbTxs args = [] \<or> cbBlockNumber args = 0 \<or> (\<exists>e. decodeTxs E (cbTxs args) = Inl e)")
  case True
  then show ?thesis by (auto simp: CallBundle_def)
next
  case False
  then have valid: "cbTxs args \<noteq> []" "cbBlockNumber args \<noteq> 0" by simp_all
  from False obtain tx txs where txs: "decodeTxs E (cbTxs args) = Inr (tx # txs)"
    by (cases "cbTxs args") (auto split: sum.splits)
  let ?h = "callBundleHeader G E (bbConfig B) args parent"
  let ?s = "snd (getBalance E (hdCoinbase ?h) s)"
  let ?s1 = "setTxContext E (txHash E tx) 0 (snd (getBalance E (hdCoinbase ?h) ?s))"
  show ?thesis
  proof (cases "ctx (bundleTimeout (cbTimeout args)) 0")
    case (Some e)
    with state txs valid show ?thesis by (simp add: CallBundle_def Let_def case_prod_beta)
  next
    case None
    note args = valid None
    have "\<exists>e st. ApplyTransactionWithResult G E (bbConfig B) (Some (hdCoinbase ?h)) ?h tx
        ((?s1, - 1), hdGasUsed ?h) = Ret (Inl e, st)"
    proof (cases "transactionToMessage E tx (makeSigner E (bbConfig B) (hdNumber ?h) (hdTime ?h))
        (hdBaseFee ?h)")
      case (Inl e)
      then show ?thesis by (simp add: ApplyTransactionWithResult_def)
    next
      case (Inr msg)
      let ?env = "\<lparr>eeHeader = ?h, eeAuthor = Some (hdCoinbase ?h),
        eeTxContext = Some (newTxContext E msg), eeNoBaseFee = False\<rparr>"
      obtain r sg where run: "applyMessage E ?env msg (?s1, - 1) = Ret (r, sg)"
        using apply_runs [of ?env msg "(?s1, - 1)"] by (auto simp: returns_iff)
      with first args txs Inr obtain e where "r = Inl e"
        unfolding appliesFirst_def Let_def by (cases r) blast+
      with run Inr show ?thesis
        by (simp add: ApplyTransactionWithResult_def applyTransactionWithResult_def Let_def)
    qed
    then obtain e st where "ApplyTransactionWithResult G E (bbConfig B) (Some (hdCoinbase ?h)) ?h tx
        ((?s1, - 1), hdGasUsed ?h) = Ret (Inl e, st)" by blast
    with state txs args show ?thesis
      by (simp add: CallBundle_def callBundleTx_def Let_def case_prod_beta)
  qed
qed

end

section \<open>EstimateGasBundle\<close>

text \<open>
  What a bundle of arguments uses, as a relation: each message is made under the gas cap and
  the base fee of the header, runs without a base fee check on the state and the pool that the
  message before it has left, and the state is finalised after it.
\<close>

inductive estimates ::
    "('tx, 's, 'cfg, 'sig, 'tc, 'log, 'y) evmLib_scheme \<Rightarrow> 'cfg \<Rightarrow> header \<Rightarrow> u64 \<Rightarrow> (nat \<Rightarrow> hash)
      \<Rightarrow> nat \<Rightarrow> 's \<times> u64 \<Rightarrow> transactionArgs list \<Rightarrow> u64 list \<Rightarrow> bool"
  for E config header cap random where
  none: "estimates E config header cap random i sg [] []"
| message: "ToMessage (minBig E) a cap (hdBaseFee header) = Inr msg \<Longrightarrow>
     applyMessage E \<lparr>eeHeader = header, eeAuthor = Some (hdCoinbase header),
         eeTxContext = Some (newTxContext E msg), eeNoBaseFee = True\<rparr> msg
       (setTxContext E (random i) i s, gp) = Ret (Inr result, s', gp') \<Longrightarrow>
     estimates E config header cap random (Suc i)
       (finaliseState E (isEIP158 E config (hdNumber header)) s', gp') args gs \<Longrightarrow>
     estimates E config header cap random i (s, gp) (a # args) (erUsedGas result # gs)"

definition gasRow :: "u64 \<Rightarrow> jsonMap" where
  "gasRow g = [(''gasUsed'', JUint64 g)]"

lemma estimateLoop_InrD:
  "estimateLoop E config header (hdCoinbase header) cap ctx random i args sg = Ret (Inr results) \<Longrightarrow>
     \<exists>gs. estimates E config header cap random i sg args gs \<and> results = map gasRow gs"
proof (induction args arbitrary: i sg results)
  case Nil
  then show ?case by (auto intro: estimates.none)
next
  case (Cons a args)
  obtain s gp where sg: "sg = (s, gp)" by (cases sg)
  from Cons.prems obtain msg result s' gp' results' where
    msg: "ToMessage (minBig E) a cap (hdBaseFee header) = Inr msg"
    and app: "applyMessage E \<lparr>eeHeader = header, eeAuthor = Some (hdCoinbase header),
        eeTxContext = Some (newTxContext E msg), eeNoBaseFee = True\<rparr> msg
        (setTxContext E (random i) i s, gp) = Ret (Inr result, s', gp')"
    and rest: "estimateLoop E config header (hdCoinbase header) cap ctx random (Suc i) args
        (finaliseState E (isEIP158 E config (hdNumber header)) s', gp') = Ret (Inr results')"
    and results: "results = gasRow (erUsedGas result) # results'"
    by (auto simp: sg gasRow_def Let_def callThen_Ret_iff andThen_sum_Inr case_sum_Inr
        split: option.splits)
  from Cons.IH [OF rest] obtain gs where "estimates E config header cap random (Suc i)
      (finaliseState E (isEIP158 E config (hdNumber header)) s', gp') args gs"
    "results' = map gasRow gs" by blast
  with estimates.message [where random = random and i = i and s = s, OF msg app] results sg
  show ?case by (metis list.simps(9))
qed

lemma estimates_loop:
  "estimates E config header cap random i sg args gs \<Longrightarrow> (\<And>j. ctx j = None) \<Longrightarrow>
     estimateLoop E config header (hdCoinbase header) cap ctx random i args sg =
       Ret (Inr (map gasRow gs))"
  by (induction rule: estimates.induct) (simp_all add: Let_def gasRow_def)

context evm_laws
begin

lemma estimates_pool:
  "estimates E config header cap random i sg args gs \<Longrightarrow> sum_list (map unat gs) \<le> unat (snd sg)"
proof (induction rule: estimates.induct)
  case (none i sg)
  then show ?case by simp
next
  case (message a msg i s gp result s' gp' args gs)
  from apply_draws [OF message.hyps(2)] have "unat gp' + unat (erUsedGas result) = unat gp"
    by (simp add: unat_sub word_le_nat_alt)
  with message.IH show ?case by simp
qed

lemma estimateLoop_returns:
  "returns (estimateLoop E config header coinbase cap ctx random i args sg)"
  by (induction args arbitrary: i sg)
    (auto simp: Let_def simp del: returns_andThen split: option.split sum.split
      intro!: returns_callThen_runs [OF apply_runs] returns_andThen_sum)

end

lemma EstimateGasBundle_state:
  assumes "ebTxs args \<noteq> []" and "ebBlockNumber args \<noteq> 0"
    and "bbState B (ebStateBlock args) b = Ret (Inr (Some s, parent), b')"
  shows "EstimateGasBundle G E B ctx random args b =
    andThen (copyState E s) (\<lambda>s0.
    andThen (estimateLoop E (bbConfig B) (estimateHeader G E args parent)
        (hdCoinbase (estimateHeader G E args parent)) (bbGasCap B)
        (ctx (bundleTimeout (ebTimeout args))) random 0 (ebTxs args) (s0, - 1)) (\<lambda>r.
      case r of
        Inl err \<Rightarrow> Ret (Inl err, b')
      | Inr results \<Rightarrow> Ret (Inr (Some [(''results'', JResults results)]), b')))"
  using assms by (simp add: EstimateGasBundle_def Let_def)

section \<open>A reference EVM\<close>

text \<open>
  Transactions are words; each uses 21000 gas, for which its sender pays the coinbase a tip
  of 2, and pays it its value beside. The state is the table of balances, over the stub
  methods of \<open>db\<close>; \<open>copyEvm\<close> is the same over a database whose tries can be copied.
\<close>

definition memApply ::
    "address evmEnv \<Rightarrow> coreMessage \<Rightarrow> (address \<Rightarrow> int) \<times> u64
      \<Rightarrow> ((error + executionResult) \<times> (address \<Rightarrow> int) \<times> u64) outcome" where
  "memApply env msg sg =
     (let to = (case eeAuthor env of None \<Rightarrow> hdCoinbase (eeHeader env) | Some a \<Rightarrow> a);
          paid = 42000 + cmValue msg; s = fst sg
      in if snd sg < 21000 then Ret (Inl (External ''gas limit reached''), sg)
         else Ret (Inr \<lparr>erUsedGas = 21000, erErr = None, erReturnData = None\<rparr>,
                   (s(cmFrom msg := s (cmFrom msg) - paid))(to := s to + paid), snd sg - 21000))"

definition memMessage :: "u64 \<Rightarrow> coreMessage" where
  "memMessage tx =
     \<lparr>cmFrom = 1, cmTo = Some 2, cmValue = uint tx, cmGasLimit = 21000, cmGasPrice = 2,
      cmGasFeeCap = 2, cmGasTipCap = 2, cmData = None, cmAccessList = None,
      cmBlobGasFeeCap = None, cmBlobHashes = None, cmSkipAccountChecks = False\<rparr>"

definition memEvm :: "(u64, address \<Rightarrow> int, unit, unit, address, unit) evmLib" where
  "memEvm =
     \<lparr>unmarshalTx = (\<lambda>bs. if bs = [] then Inl (External ''EOF'') else Inr (from_be bs)),
      txHash = (\<lambda>tx. ucast tx),
      txTypeOf = (\<lambda>tx. 0),
      txNonceOf = (\<lambda>tx. tx),
      txToOf = (\<lambda>tx. Some 2),
      effectiveGasTip = (\<lambda>tx base. Inr 2),
      makeSigner = (\<lambda>cfg n t. ()),
      txSender = (\<lambda>sig tx. Inr 1),
      transactionToMessage = (\<lambda>tx sig base. Inr (memMessage tx)),
      newTxContext = cmFrom,
      tcOrigin = (\<lambda>a. a),
      applyMessage = memApply,
      resultFailed = (\<lambda>r. erErr r \<noteq> None),
      resultReturn = (\<lambda>r. case erReturnData r of None \<Rightarrow> [] | Some d \<Rightarrow> d),
      resultRevert = (\<lambda>r. []),
      isByzantium = (\<lambda>cfg n. 4370000 \<le> n),
      isEIP158 = (\<lambda>cfg n. True),
      isLondon = (\<lambda>cfg n. True),
      calcBaseFee = (\<lambda>cfg h. 7),
      finaliseState = (\<lambda>d s. s),
      intermediateRoot = (\<lambda>d s. notImplemented),
      createAddress = (\<lambda>a n. a + ucast n),
      getLogs = (\<lambda>s h n bh. []),
      createBloom = (\<lambda>r. []),
      txIndex = (\<lambda>s. 0),
      getBalance = (\<lambda>a s. (s a, s)),
      setTxContext = (\<lambda>h i s. s),
      copyState = (\<lambda>s. notImplemented),
      hexToAddress = (\<lambda>str. from_be (ascii str)),
      addressString = (\<lambda>a. ''0x'' @ hexOf (unat a)),
      hashString = (\<lambda>h. ''0x'' @ hexOf (unat h)),
      bytes2Hex = hexEncode,
      minBig = min\<rparr>"

interpretation memEvm: balance_laws memEvm "\<lambda>a s. s a"
  by unfold_locales (simp_all add: memEvm_def)

interpretation memEvm: evm_laws memEvm
  by unfold_locales
    (auto simp: memEvm_def memApply_def Let_def word_less_nat_alt word_le_nat_alt split: if_splits)

interpretation memEvm: trie_calls memEvm "\<lambda>s. ()"
  by unfold_locales (simp_all add: memEvm_def)

definition copyEvm :: "(u64, address \<Rightarrow> int, unit, unit, address, unit) evmLib" where
  "copyEvm = memEvm\<lparr>copyState := Ret\<rparr>"

interpretation copyEvm: evm_laws copyEvm
  by unfold_locales (use memEvm.apply_runs memEvm.apply_draws in \<open>simp_all add: copyEvm_def\<close>)

text \<open>A backend that answers with one state and one header.\<close>

definition memHeader :: header where
  "memHeader = bkHeader (memBlock 100)"

definition memBackend :: "(address \<Rightarrow> int, unit, unit) bundleBackend" where
  "memBackend =
     \<lparr>bbState = (\<lambda>nh b. Ret (Inr (Some (\<lambda>a. 0), memHeader), b)), bbConfig = (), bbGasCap = 0\<rparr>"

end
