(* ===== verification/BundleProps.thy ===== *)
theory BundleProps
  imports BundleLaws
begin

text \<open>
  The properties of the bundle API, each with a witness on the reference EVM of
  \<open>BundleLaws\<close>.
\<close>

section \<open>CallBundle\<close>

text \<open>C7. What \<open>CallBundle\<close> reports adds up. Each result row has the gas of its transaction, the
  fees (gas times the effective tip at the base fee of the block), what the coinbase gained
  and the difference of the two; the totals of the bundle are the sums over the rows, the
  bundle gas price is the gain per gas, and the bundle hash that of the concatenated hashes.\<close>

theorem CallBundle_adds_up:
  assumes "balance_laws E bal" and "CallBundle G E B ctx args b = Ret (Inr (Some ret), b')"
  shows "\<exists>txs s parent rows q.
    decodeTxs E (cbTxs args) = Inr txs \<and>
    bbState B (cbStateBlock args) b = Ret (Inr (Some s, parent), b') \<and>
    list_all2 (rowOk E (hdBaseFee (callBundleHeader G E (bbConfig B) args parent))) txs rows \<and>
    bigDiv (sum_list (map brDiff rows)) (sint (sum_list (map brGas rows))) = Ret q \<and>
    map_of ret ''results'' = Some (JResults (map brResult rows)) \<and>
    map_of ret ''totalGasUsed'' = Some (JUint64 (sum_list (map brGas rows))) \<and>
    map_of ret ''coinbaseDiff'' = Some (bigJson (sum_list (map brDiff rows))) \<and>
    map_of ret ''gasFees'' = Some (bigJson (sum_list (map brFee rows))) \<and>
    map_of ret ''ethSentToCoinbase'' =
      Some (bigJson (sum_list (map brDiff rows) - sum_list (map brFee rows))) \<and>
    map_of ret ''bundleGasPrice'' = Some (bigJson q) \<and>
    map_of ret ''bundleHash'' = Some (JString (''0x'' @
      bytes2Hex E (keccak256 G (concat (map (hashBytes G \<circ> txHash E) txs)))))"
  by (rule balance_laws.CallBundle_totals [OF assms])

lemma memEvm_simps [simp]:
  "unmarshalTx memEvm bs = (if bs = [] then Inl (External ''EOF'') else Inr (from_be bs))"
  "txHash memEvm tx = ucast tx" "effectiveGasTip memEvm tx base = Inr 2"
  "txSender memEvm sig tx = Inr 1" "transactionToMessage memEvm tx sig base = Inr (memMessage tx)"
  "applyMessage memEvm = memApply" "isByzantium memEvm cfg n \<longleftrightarrow> 4370000 \<le> n" "finaliseState memEvm d s = s"
  "getBalance memEvm a s = (s a, s)" "setTxContext memEvm h i s = s"
  "minBig memEvm = min"
  by (simp_all add: memEvm_def)

definition exBundle :: callBundleArgs where
  "exBundle = \<lparr>cbTxs = [[5], [6]], cbBlockNumber = 19000001,
     cbStateBlock = \<lparr>bnhNumber = Some 100, bnhHash = None\<rparr>, cbCoinbase = None,
     cbTimestamp = None, cbTimeout = None, cbGasLimit = None, cbDifficulty = None,
     cbBaseFee = None\<rparr>"

lemma exNumbers [simp]: "sint (19000001 :: i64) = 19000001" "sint (101 :: i64) = 101"
  by code_simp+

lemma exBundle_header [simp]:
  "hdCoinbase (callBundleHeader memGeth memEvm cfg exBundle memHeader) = 7"
  "hdNumber (callBundleHeader memGeth memEvm cfg exBundle memHeader) = 19000001"
  by (simp_all add: callBundleHeader_def exBundle_def memHeader_def memBlock_def)

lemma makeReceipt_gas [simp]:
  "rcGasUsed (makeReceipt E msg txc s n h tx used root result) = erUsedGas result"
  by (simp add: makeReceipt_def Let_def)

lemma exApply:
  assumes "\<not> gp < 21000" and "4370000 \<le> hdNumber header"
  shows "\<exists>receipt result s'. ApplyTransactionWithResult memGeth memEvm cfg author header tx
      ((s, gp), used) = Ret (Inr (receipt, result), (s', gp - 21000), used + 21000) \<and>
    rcGasUsed receipt = 21000"
  using assms
  by (simp add: ApplyTransactionWithResult_def applyTransactionWithResult_def memApply_def Let_def)

lemma exTxRuns:
  assumes "\<not> bvGasPool v < 21000" and "4370000 \<le> hdNumber (bvHeader v)"
  shows "\<exists>v'. callBundleTx memGeth memEvm cfg sig c i tx v = Ret (Inr v') \<and>
    bvGasPool v' = bvGasPool v - 21000 \<and> bvTotalGasUsed v' = bvTotalGasUsed v + 21000 \<and>
    hdNumber (bvHeader v') = hdNumber (bvHeader v)"
proof -
  obtain receipt result s' where "ApplyTransactionWithResult memGeth memEvm cfg (Some c) (bvHeader v)
      tx ((bvState v, bvGasPool v), hdGasUsed (bvHeader v)) =
      Ret (Inr (receipt, result), (s', bvGasPool v - 21000), hdGasUsed (bvHeader v) + 21000)"
    and "rcGasUsed receipt = 21000"
    using exApply [OF assms] by blast
  then show ?thesis by (simp add: callBundleTx_def Let_def bigDiv_def)
qed

lemma exBundle_runs: "\<exists>ret. CallBundle memGeth memEvm memBackend (\<lambda>t i. None) exBundle () =
    Ret (Inr (Some ret), ())"
proof -
  have args: "cbTxs exBundle = [[5], [6]]" "cbBlockNumber exBundle = 19000001"
    by (simp_all add: exBundle_def)
  let ?h = "callBundleHeader memGeth memEvm () exBundle memHeader"
  let ?v = "\<lparr>bvState = \<lambda>a. 0, bvGasPool = - 1, bvHeader = ?h, bvResults = [],
    bvTotalGasUsed = 0, bvGasFees = 0, bvHashed = []\<rparr>"
  let ?tx = "\<lambda>sig. callBundleTx memGeth memEvm () sig 7"
  have "\<exists>v2. callBundleLoop memGeth memEvm () sig 7 (\<lambda>i. None) 0 [5, 6] ?v = Ret (Inr v2) \<and>
      bvTotalGasUsed v2 = 42000" for sig
  proof -
    obtain v1 where v1: "?tx sig 0 5 ?v = Ret (Inr v1)" "bvGasPool v1 = - 1 - 21000"
      "bvTotalGasUsed v1 = 21000" "hdNumber (bvHeader v1) = 19000001"
      using exTxRuns [of ?v "()" sig 7 0 5] by auto
    moreover obtain v2 where "?tx sig 1 6 v1 = Ret (Inr v2)" "bvTotalGasUsed v2 = 42000"
      using exTxRuns [of v1 "()" sig 7 1 6] v1 by auto
    ultimately show ?thesis by simp
  qed
  then show ?thesis
    by (simp add: CallBundle_def args memBackend_def Let_def from_be_def) (fastforce simp: bigDiv_def)
qed

theorem CallBundle_adds_up_witness:
  "\<exists>ret (rows :: bundleRow list). CallBundle memGeth memEvm memBackend (\<lambda>t i. None) exBundle () = Ret (Inr (Some ret), ()) \<and>
     length rows = 2 \<and> map_of ret ''results'' = Some (JResults (map brResult rows)) \<and>
     map_of ret ''gasFees'' = Some (bigJson (sum_list (map brFee rows)))"
proof -
  obtain ret where run: "CallBundle memGeth memEvm memBackend (\<lambda>t i. None) exBundle () =
      Ret (Inr (Some ret), ())" using exBundle_runs by blast
  have "decodeTxs memEvm (cbTxs exBundle) = Inr [5, 6]" by (simp add: exBundle_def from_be_def)
  moreover obtain txs parent rows where "decodeTxs memEvm (cbTxs exBundle) = Inr txs"
    and "list_all2 (rowOk memEvm (hdBaseFee (callBundleHeader memGeth memEvm (bbConfig memBackend)
      exBundle parent))) txs rows"
    and ret: "map_of ret ''results'' = Some (JResults (map brResult rows))"
      "map_of ret ''gasFees'' = Some (bigJson (sum_list (map brFee rows)))"
    using CallBundle_adds_up [OF memEvm.balance_laws_axioms run] by blast
  ultimately have "length rows = 2" by (auto dest: list_all2_lengthD)
  with run ret show ?thesis by blast
qed

text \<open>C17. When \<open>CallBundle\<close> panics, over an EVM and a backend that do not. From Byzantium on it
  never does: as every transaction uses some of the gas in the pool, neither the gas of a
  transaction nor the total, by which it divides, is zero, however the 64-bit sum comes out.
  For a requested block number before Byzantium (or negative, as of \<open>latest\<close>) over a
  \<open>StateDB\<close> on the database of \<open>db.go\<close>, it panics exactly when its first transaction is
  applied, for the receipt then asks for the root of the stub trie.\<close>

theorem CallBundle_panics:
  assumes "evm_laws E" and "returns (bbState B (cbStateBlock args) b)"
  shows "(isByzantium E (bbConfig B) (sint (cbBlockNumber args)) \<longrightarrow>
      returns (CallBundle G E B ctx args b)) \<and>
    (\<forall>s parent b'. trie_calls E trie \<and>
        \<not> isByzantium E (bbConfig B) (sint (cbBlockNumber args)) \<and>
        bbState B (cbStateBlock args) b = Ret (Inr (Some s, parent), b') \<longrightarrow>
      (returns (CallBundle G E B ctx args b) \<longleftrightarrow>
         \<not> appliesFirst G E (bbConfig B) ctx args s parent))"
  using evm_laws.CallBundle_runs [OF assms(1) _ assms(2)]
    evm_laws.CallBundle_first_fails [OF assms(1)] trie_calls.CallBundle_before_Byzantium
  by metis

text \<open>The same bundle for a block before and for one after Byzantium.\<close>

theorem CallBundle_panics_witness:
  "returns (CallBundle memGeth memEvm memBackend (\<lambda>t i. None) exBundle ()) \<and>
   \<not> returns (CallBundle memGeth memEvm memBackend (\<lambda>t i. None) (exBundle\<lparr>cbBlockNumber := 101\<rparr>) ())"
proof -
  let ?early = "exBundle\<lparr>cbBlockNumber := 101\<rparr>"
  have state: "bbState memBackend nh b = Ret (Inr (Some (\<lambda>a. 0), memHeader), b)" for nh b
    by (simp add: memBackend_def)
  note P = CallBundle_panics [OF memEvm.evm_laws_axioms, where B = memBackend and b = "()"
      and G = memGeth and ctx = "\<lambda>t i. None" and trie = "\<lambda>s. ()"]
  have "decodeTxs memEvm (cbTxs ?early) = Inr [5, 6]" by (simp add: exBundle_def from_be_def)
  then have "appliesFirst memGeth memEvm () (\<lambda>t i. None) ?early (\<lambda>a. 0) memHeader"
    by (simp add: appliesFirst_def Let_def exBundle_def memApply_def)
  then have "\<not> returns (CallBundle memGeth memEvm memBackend (\<lambda>t i. None) ?early ())"
    using P [of ?early] memEvm.trie_calls_axioms by (simp add: state exBundle_def memBackend_def)
  moreover have "returns (CallBundle memGeth memEvm memBackend (\<lambda>t i. None) exBundle ())"
    using P [of exBundle] by (simp add: state exBundle_def)
  ultimately show ?thesis by blast
qed

section \<open>EstimateGasBundle\<close>

lemma EstimateGasBundle_copied:
  assumes "evm_laws E" and "ebTxs args \<noteq> []" and "ebBlockNumber args \<noteq> 0"
    and "bbState B (ebStateBlock args) b = Ret (Inr (Some s, parent), b')"
    and "copyState E s = Ret s0"
  shows "\<exists>r. EstimateGasBundle G E B ctx random args b = Ret (r, b') \<and> r \<noteq> Inr None \<and>
       (\<forall>ret. r = Inr (Some ret) \<longrightarrow> (\<exists>gs.
          estimates E (bbConfig B) (estimateHeader G E args parent) (bbGasCap B) random 0
            (s0, - 1) (ebTxs args) gs \<and>
          ret = [(''results'', JResults (map gasRow gs))] \<and>
          sum_list (map unat gs) \<le> 2 ^ 64 - 1)) \<and>
       (\<forall>gs. estimates E (bbConfig B) (estimateHeader G E args parent) (bbGasCap B) random 0
            (s0, - 1) (ebTxs args) gs \<and> (\<forall>i. ctx (bundleTimeout (ebTimeout args)) i = None) \<longrightarrow>
          r = Inr (Some [(''results'', JResults (map gasRow gs))]))"
proof -
  let ?est = "estimates E (bbConfig B) (estimateHeader G E args parent) (bbGasCap B) random 0
    (s0, - 1) (ebTxs args)"
  let ?loop = "estimateLoop E (bbConfig B) (estimateHeader G E args parent)
    (hdCoinbase (estimateHeader G E args parent)) (bbGasCap B)
    (ctx (bundleTimeout (ebTimeout args))) random 0 (ebTxs args) (s0, - 1)"
  note run = EstimateGasBundle_state [OF assms(2-4), of G E ctx random, unfolded assms(5) andThen.simps]
  obtain q where q: "?loop = Ret q"
    using evm_laws.estimateLoop_returns [OF assms(1)] unfolding returns_iff by blast
  have full: "unat (- 1 :: u64) = 2 ^ 64 - 1" by (simp add: unsigned_minus_1_eq_mask mask_eq_exp_minus_1)
  have rows: "\<exists>gs. ?est gs \<and> results = map gasRow gs \<and> sum_list (map unat gs) \<le> 2 ^ 64 - 1"
    if "q = Inr results" for results
  proof -
    from estimateLoop_InrD [OF q [unfolded that]] obtain gs where "?est gs" "results = map gasRow gs"
      by blast
    with evm_laws.estimates_pool [OF assms(1)] full show ?thesis by fastforce
  qed
  have all: "q = Inr (map gasRow gs)"
    if "?est gs" and "\<forall>i. ctx (bundleTimeout (ebTimeout args)) i = None" for gs
    using estimates_loop [OF that(1), of "ctx (bundleTimeout (ebTimeout args))"] that(2) q by simp
  show ?thesis
  proof (cases q)
    case (Inl e)
    with all have "\<not> (?est gs \<and> (\<forall>i. ctx (bundleTimeout (ebTimeout args)) i = None))" for gs
      by blast
    with q Inl show ?thesis by (simp add: run)
  next
    case (Inr results)
    from rows [OF Inr] obtain gs where gs: "?est gs" "results = map gasRow gs"
      "sum_list (map unat gs) \<le> 2 ^ 64 - 1" by blast
    let ?r = "Inr (Some [(''results'', JResults (map gasRow gs))]) :: error + jsonMap option"
    show ?thesis
    proof (intro exI [of _ ?r] conjI)
      show "EstimateGasBundle G E B ctx random args b = Ret (?r, b')"
        using q Inr gs(2) by (simp add: run)
      show "\<forall>ret. ?r = Inr (Some ret) \<longrightarrow> (\<exists>gs. ?est gs \<and>
          ret = [(''results'', JResults (map gasRow gs))] \<and> sum_list (map unat gs) \<le> 2 ^ 64 - 1)"
        using gs(1,3) by auto
      show "\<forall>hs. ?est hs \<and> (\<forall>i. ctx (bundleTimeout (ebTimeout args)) i = None) \<longrightarrow>
          ?r = Inr (Some [(''results'', JResults (map gasRow hs))])"
      proof (intro allI impI)
        fix hs
        assume "?est hs \<and> (\<forall>i. ctx (bundleTimeout (ebTimeout args)) i = None)"
        with all [of hs] Inr gs(2) show "?r = Inr (Some [(''results'', JResults (map gasRow hs))])"
          by simp
      qed
    qed simp
  qed
qed

text \<open>C18. What \<open>EstimateGasBundle\<close> does once it has its state. Over a \<open>StateDB\<close> on the database of
  \<open>db.go\<close> it always panics, as it copies the state and \<open>CopyTrie\<close> is a stub. Over a state that
  can be copied it returns; an answer has one row per set of arguments, in their order, with
  the gas that its message used, each message running on the state and the pool that the one
  before it left, the first on the copy and a full pool, and together they use no more than
  the pool holds; and it does answer when all messages run and the context does not end.\<close>

theorem EstimateGasBundle_rows:
  assumes "evm_laws E" and "ebTxs args \<noteq> []" and "ebBlockNumber args \<noteq> 0"
    and "bbState B (ebStateBlock args) b = Ret (Inr (Some s, parent), b')"
  shows "(trie_calls E trie \<longrightarrow> \<not> returns (EstimateGasBundle G E B ctx random args b)) \<and>
    (\<forall>s0. copyState E s = Ret s0 \<longrightarrow> (\<exists>r.
       EstimateGasBundle G E B ctx random args b = Ret (r, b') \<and> r \<noteq> Inr None \<and>
       (\<forall>ret. r = Inr (Some ret) \<longrightarrow> (\<exists>gs.
          estimates E (bbConfig B) (estimateHeader G E args parent) (bbGasCap B) random 0
            (s0, - 1) (ebTxs args) gs \<and>
          ret = [(''results'', JResults (map gasRow gs))] \<and>
          sum_list (map unat gs) \<le> 2 ^ 64 - 1)) \<and>
       (\<forall>gs. estimates E (bbConfig B) (estimateHeader G E args parent) (bbGasCap B) random 0
            (s0, - 1) (ebTxs args) gs \<and> (\<forall>i. ctx (bundleTimeout (ebTimeout args)) i = None) \<longrightarrow>
          r = Inr (Some [(''results'', JResults (map gasRow gs))]))))"
proof (intro conjI impI allI)
  assume "trie_calls E trie"
  from trie_calls.no_copy [OF this, of s]
  show "\<not> returns (EstimateGasBundle G E B ctx random args b)"
    by (auto simp: EstimateGasBundle_state [OF assms(2-4), of G E ctx random])
next
  fix s0
  assume "copyState E s = Ret s0"
  from EstimateGasBundle_copied [OF assms this, of G ctx random]
  show "\<exists>r. EstimateGasBundle G E B ctx random args b = Ret (r, b') \<and> r \<noteq> Inr None \<and>
       (\<forall>ret. r = Inr (Some ret) \<longrightarrow> (\<exists>gs.
          estimates E (bbConfig B) (estimateHeader G E args parent) (bbGasCap B) random 0
            (s0, - 1) (ebTxs args) gs \<and>
          ret = [(''results'', JResults (map gasRow gs))] \<and>
          sum_list (map unat gs) \<le> 2 ^ 64 - 1)) \<and>
       (\<forall>gs. estimates E (bbConfig B) (estimateHeader G E args parent) (bbGasCap B) random 0
            (s0, - 1) (ebTxs args) gs \<and> (\<forall>i. ctx (bundleTimeout (ebTimeout args)) i = None) \<longrightarrow>
          r = Inr (Some [(''results'', JResults (map gasRow gs))]))" .
qed

definition exCall :: transactionArgs where
  "exCall = \<lparr>taFrom = None, taTo = Some 2, taGas = None, taGasPrice = None,
     taMaxFeePerGas = None, taMaxPriorityFeePerGas = None, taValue = None, taNonce = None,
     taData = None, taInput = None, taAccessList = None, taChainID = None,
     taBlobFeeCap = None, taBlobHashes = None\<rparr>"

definition exEstimate :: estimateGasBundleArgs where
  "exEstimate = \<lparr>ebTxs = [exCall, exCall], ebBlockNumber = 101,
     ebStateBlock = \<lparr>bnhNumber = Some 100, bnhHash = None\<rparr>,
     ebCoinbase = None, ebTimestamp = None, ebTimeout = None\<rparr>"

lemma copyEvm_simps [simp]:
  "applyMessage copyEvm = memApply" "finaliseState copyEvm d s = s" "setTxContext copyEvm h i s = s"
  "copyState copyEvm s = Ret s"
  by (simp_all add: copyEvm_def)

lemma exStep: "ToMessage (minBig copyEvm) exCall 0 (hdBaseFee header) = Inr msg \<Longrightarrow> \<not> gp < 21000 \<Longrightarrow>
    (\<And>s'. estimates copyEvm () header 0 random (Suc i) (s', gp - 21000) args gs) \<Longrightarrow>
    estimates copyEvm () header 0 random i (s, gp) (exCall # args) (21000 # gs)"
  using estimates.message [where E = copyEvm and a = exCall and cap = 0 and header = header
      and msg = msg and random = random and i = i and s = s and gp = gp
      and result = "\<lparr>erUsedGas = 21000, erErr = None, erReturnData = None\<rparr>" and gp' = "gp - 21000"]
  by (simp add: memApply_def Let_def)

lemma exEstimates: "estimates copyEvm () header 0 random 0 (s, - 1) [exCall, exCall] [21000, 21000]"
proof -
  obtain msg where msg: "ToMessage (minBig copyEvm) exCall 0 (hdBaseFee header) = Inr msg"
    using ToMessage_Inl_iff [of "minBig copyEvm" exCall 0 "hdBaseFee header"]
    by (cases "ToMessage (minBig copyEvm) exCall 0 (hdBaseFee header)") (auto simp: exCall_def)
  show ?thesis
    by (intro exStep [OF msg] estimates.none) simp_all
qed

theorem EstimateGasBundle_rows_witness:
  "\<not> returns (EstimateGasBundle memGeth memEvm memBackend (\<lambda>t i. None) (\<lambda>i. 0) exEstimate ()) \<and>
   EstimateGasBundle memGeth copyEvm memBackend (\<lambda>t i. None) (\<lambda>i. 0) exEstimate () =
     Ret (Inr (Some [(''results'', JResults [gasRow 21000, gasRow 21000])]), ())"
proof -
  have args: "ebTxs exEstimate \<noteq> []" "ebBlockNumber exEstimate \<noteq> 0"
    "bbState memBackend (ebStateBlock exEstimate) () = Ret (Inr (Some (\<lambda>a. 0), memHeader), ())"
    by (simp_all add: exEstimate_def memBackend_def)
  have "\<not> returns (EstimateGasBundle memGeth memEvm memBackend (\<lambda>t i. None) (\<lambda>i. 0) exEstimate ())"
    using EstimateGasBundle_rows [OF memEvm.evm_laws_axioms args, where trie = "\<lambda>s. ()"]
      memEvm.trie_calls_axioms by blast
  moreover have "EstimateGasBundle memGeth copyEvm memBackend (\<lambda>t i. None) (\<lambda>i. 0) exEstimate () =
      Ret (Inr (Some [(''results'', JResults (map gasRow [21000, 21000]))]), ())"
    using EstimateGasBundle_rows [OF copyEvm.evm_laws_axioms args, where G = memGeth
        and ctx = "\<lambda>t i. None" and random = "\<lambda>i. 0" and trie = "\<lambda>s. ()"]
      exEstimates [of "estimateHeader memGeth copyEvm exEstimate memHeader" "\<lambda>i. 0" "\<lambda>a. 0"]
    by (fastforce simp: exEstimate_def memBackend_def)
  ultimately show ?thesis by simp
qed

end
