(* ===== verification/Spec2Isabelle.thy ===== *)
theory Spec2Isabelle
  imports System StoreProps CacheProps ClientProps BundleProps
begin

text \<open>
  \<^bold>\<open>w3rpc\<close> is a node-less Ethereum RPC server in Go. It serves go-ethereum's tracing API and a
  bundle API over a state that it keeps in an in-memory database and fills from a remote
  node: by reading accounts when they are asked for, and by merging the prestate traces of
  every new block it polls.

  \<^bold>\<open>The parts and how they interact.\<close> \<open>main.go\<close> makes one client, one RPC fetcher
  (\<open>fetcher/rpc.go\<close>), one account store (\<open>w3backend/kv.go\<close>) and one backend
  (\<open>w3backend/backend.go\<close>) with a state database (\<open>w3backend/db.go\<close>) over fetcher and store. A
  goroutine of the fetcher polls for blocks and sends each with its traces on a channel;
  \<open>updateState\<close> receives it, merges the traces into the store and moves the backend's head.
  Requests run transactions on a \<open>StateDB\<close> that reads through the state database: the store
  first, then the fetcher, with what it answered written back. The bundle API
  (\<open>bundleapi/api.go\<close>) runs lists of transactions on the state of a block.

  \<^bold>\<open>The theories.\<close>

  \<^item> \<open>Prelude\<close>: errors and panics as values, Go's maps as entry lists, byte arrays as words.
  \<^item> \<open>FetcherTypes\<close>: the structs of \<open>fetcher/util.go\<close>, \<open>Account.CodeHash\<close>, and the functions of
    go-ethereum that the program calls (record \<open>geth\<close>, locale \<open>geth_laws\<close>).
  \<^item> \<open>AccountCodec\<close>: \<open>encodeAccount\<close> and \<open>decodeAccount\<close> of \<open>kv.go\<close> over \<open>encoding/gob\<close>; what a
    round trip leaves of an account is \<open>normAccount\<close> (locale \<open>codec\<close>).
  \<^item> \<open>Badger\<close>: the database as a parameter (locales \<open>badger_store\<close>, \<open>badger_ample\<close>) with the
    executable \<open>memLib\<close>. \<open>BadgerKV\<close>: the operations of \<open>kv.go\<close> on it, each with what it does to
    the stored accounts on every branch, what it leaves alone, and that it does not panic.
  \<^item> \<open>TraceMerge\<close>: \<open>mergeAccount\<close>, \<open>mergeState\<close> and \<open>ProcessState\<close> of \<open>kv.go\<close>; the specification
    \<open>specBlock\<close> is pointwise in the address, and \<open>ProcessState\<close> refines it. \<open>kvStep\<close> and
    \<open>kvReachable\<close> are the stores the program can reach.
  \<^item> \<open>StateDB\<close>: the methods of \<open>db.go\<close> over the interface \<open>Fetcher\<close>, and what a read leaves alone
    (locales \<open>framed_fetcher\<close>, \<open>framed_db\<close>). \<open>Coherence\<close>: the cache answers what a fetcher of one
    chain state answers (locales \<open>chain_fetcher\<close>, \<open>cached_chain\<close>), and merging a block, read as
    the tracer's diff mode, keeps the store coherent with the chain up to what the block clears.
  \<^item> \<open>Caller\<close>: the generic factories of \<open>util.go\<close>, their requests and responses, \<open>ToW3Message\<close>.
  \<^item> \<open>RpcFetcher\<close>: the fetcher of \<open>rpc.go\<close> over a client and \<open>singleflight\<close> (locales
    \<open>singleflight_group\<close>, \<open>chain_client\<close>); a sublocale makes it a \<open>chain_fetcher\<close>, so the cache
    theorems hold of it; \<open>methodStep\<close> shows that its cache of header hashes only grows. Also the
    stub of \<open>fetcher/streaming.go\<close>. \<open>AccountJSON\<close>: the JSON form
    of its accounts (locale \<open>json_codec\<close>). \<open>BlockStream\<close>: polling and the stream of updates as
    a step relation.
  \<^item> \<open>TxArgs\<close>: \<open>bundleapi/transaction_args.go\<close>. \<open>Backend\<close>: \<open>w3backend/backend.go\<close>.
  \<^item> \<open>BundleAPI\<close>: \<open>bundleapi/api.go\<close>; \<open>BundleLaws\<close>: what its results add up to, that it does not
    divide by zero (locales \<open>balance_laws\<close>, \<open>evm_laws\<close>), the runs that \<open>EstimateGasBundle\<close>
    reports on, and what the stub methods of \<open>db.go\<close> do to both calls (locale \<open>trie_calls\<close>);
    with a reference EVM.
  \<^item> \<open>System\<close>: the polling goroutine, \<open>updateState\<close> and the requests as one step relation
    (locales \<open>program\<close>, \<open>sound_program\<close>) with its invariants. A request that misses the store
    fetches in one step and writes back in a later one; \<open>cacheAfter_steps\<close> shows that the methods
    of \<open>db.go\<close> are such steps.
  \<^item> \<open>StoreProps\<close>, \<open>CacheProps\<close>, \<open>ClientProps\<close>, \<open>BundleProps\<close> and this theory state the properties,
    numbered by importance, each with a witness that applies it to concrete values.

  \<^bold>\<open>How code becomes definitions.\<close> A struct is a record, a pointer an option, \<open>big.Int\<close> an \<open>int\<close>,
  \<open>uint64\<close> and \<open>int64\<close> are 64-bit words (\<open>sint\<close> reads the latter), an address or a hash the word of
  its bytes. A function that returns a result or an error has a sum type, one that can panic
  an \<open>outcome\<close>; every \<open>nil\<close> dereference, write to a \<open>nil\<close> map, failed type assertion and
  division by zero of the code is a \<open>Panic\<close>. A map is the list of its entries in the order a
  \<open>range\<close> loop visits them, and the theorems hold for every order. Loops are recursion over the
  list they range over, so all functions terminate and no fuel is needed; what runs forever
  (the polling loop, \<open>updateState\<close>) is a step relation.

  \<^bold>\<open>What is a parameter.\<close> Badger, the w3 client, \<open>singleflight\<close>, the EVM with its \<open>StateDB\<close> and
  transaction codec, \<open>json\<close> on whole records, the ABI encoder and go-ethereum's helpers are
  arguments of the definitions that use them. The locales named above state what their
  documentation promises, and each is interpreted on the model's definitions over an
  executable reference instance.

  \<^bold>\<open>Abstractions.\<close> A step of the program has at most one badger transaction, as badger's
  transactions are serialized; the look into the store and the calls of the fetcher that follow
  it are one step, the write-back another. An update that badger aborts for a conflict is an \<open>Update\<close> that returns an error, which
  \<open>badger_store\<close> allows. \<open>encoding/gob\<close> is modelled at the level of the fields it sends. The
  ticker may tick at any time and the remote node may change between any two steps. In
  \<open>CallBundle\<close> and \<open>EstimateGasBundle\<close> the effects of reads on the shared store are part of the
  state of the EVM, and reading a balance neither fails nor panics.

  \<^bold>\<open>What is not modelled.\<close> Logging, the HTTP server and the registration of services in
  \<open>main.go\<close> (input and output over third-party code), go-ethereum's tracing API, json tags,
  and the commented-out code of \<open>util.go\<close>.
\<close>

section \<open>The program as a whole\<close>

text \<open>C2. In every reachable state of the program, when no transaction is refused and the client's
  traces have no \<open>nil\<close> in them: the update loop is running, every update it has taken from
  the stream has been merged, in order, and for each address that no request has touched the
  store holds exactly what merging the traces one after the other leaves.\<close>

theorem store_follows_stream:
  assumes "sound_program L snapshot content seen Do C"
    and "systemReachable L C Do nb tag touched s"
  shows "(\<forall>p. syLoop s \<noteq> Crashed p) \<and>
    (case syLoop s of
       Received u \<Rightarrow> smReceived (syStream s) = syMerged s @ [u]
     | _ \<Rightarrow> smReceived (syStream s) = syMerged s) \<and>
    (\<forall>a. a \<notin> touched \<longrightarrow>
       storedView L (content (syStore s)) a = mergedViews (syMerged s) a)"
proof -
  have P: "program L snapshot content seen Do"
    using assms(1) by (simp add: sound_program_def)
  have "program.systemInv content C nb tag s"
    by (rule program.systemReachable_inv [OF P assms(2)])
  then have "\<And>u. syLoop s = Received u \<Longrightarrow> smReceived (syStream s) \<noteq> [] \<and>
      last (smReceived (syStream s)) = u"
    by (simp add: program.systemInv_def [OF P] loopOk_def)
  moreover have "sound_program.mergedInv L content touched s"
    by (rule sound_program.systemReachable_merged [OF assms])
  ultimately show ?thesis
    by (auto simp: sound_program.mergedInv_def [OF assms(1)] expected_def split: updateLoop.splits)
qed

text \<open>The first update of the reference program, merged.\<close>

abbreviation exStart :: "(memDb, int) system" where
  "exStart \<equiv> \<lparr>syStream = \<lparr>smFetcher = (NewRPCFetcher 100 None)\<lparr>rfStarted := True\<rparr>,
       smSending = None, smReceived = []\<rparr>, syStore = [], syHead = None, syLoop = Waiting,
     syMerged = [], syPending = []\<rparr>"

abbreviation exUpdate :: stateUpdate where
  "exUpdate \<equiv> \<lparr>suTraceBlock = memTrace, suBlock = memBlock 100\<rparr>"

abbreviation exPolled :: "int rpcFetcher" where
  "exPolled \<equiv> (NewRPCFetcher 100 None)\<lparr>rfStarted := True, rfBlockHead := 100\<rparr>"

abbreviation exDelivered :: "(memDb, int) system" where
  "exDelivered \<equiv> \<lparr>syStream = \<lparr>smFetcher = exPolled, smSending = None, smReceived = [exUpdate]\<rparr>,
     syStore = [], syHead = None, syLoop = Received exUpdate, syMerged = [], syPending = []\<rparr>"

abbreviation exStep :: "(memDb, int) system \<Rightarrow> (memDb, int) system \<Rightarrow> bool" where
  "exStep \<equiv> systemStep (memLib None) exClient memDo exNumber exTag {}"

lemma exDelivered_reached:
  "systemReachable (memLib None) exClient memDo exNumber exTag {} exDelivered"
proof -
  let ?s1 = "exStart\<lparr>syStream := \<lparr>smFetcher = exPolled, smSending = Some exUpdate, smReceived = []\<rparr>\<rparr>"
  have "startSystem (memLib None) 100 = Ret exStart"
    by (simp add: startSystem_def NewBadgerKV_def NewW3Backend_def StateStream_def NewRPCFetcher_def)
  then have "systemReachable (memLib None) exClient memDo exNumber exTag {} exStart"
    by (rule systemReachable.start)
  moreover have "exStep exStart ?s1"
    by (rule systemStep.poll) (use streamStep.tick_new [of "syStream exStart" exClient exNumber exTag
      exUpdate exPolled] exPoll in simp_all)
  moreover have "exStep ?s1 exDelivered"
    using systemStep.deliver [of ?s1 exUpdate exClient exNumber exTag
        "\<lparr>smFetcher = exPolled, smSending = None, smReceived = [exUpdate]\<rparr>" "memLib None" memDo "{}"]
      streamStep.receive [of "syStream ?s1" exUpdate exClient exNumber exTag] by simp
  ultimately show ?thesis by (blast intro: systemReachable.step)
qed

lemma exMerged_reached:
  "systemReachable (memLib None) exClient memDo exNumber exTag {} (updateState (memLib None) exDelivered)"
  by (rule systemReachable.step [OF exDelivered_reached systemStep.update]) simp

lemma exMerged: "\<exists>kv. updateState (memLib None) exDelivered =
    exDelivered\<lparr>syStore := kv, syLoop := Merged exUpdate None, syMerged := [exUpdate]\<rparr>"
proof -
  obtain kv where "ProcessState (memLib None) [] memTrace = Ret (kv, None)"
    using ample.ProcessState_view [of "[]" memTrace] memTrace_sound by auto
  then show ?thesis by (simp add: updateState.simps)
qed

theorem store_follows_stream_witness:
  "\<exists>kv. updateState (memLib None) exDelivered =
      exDelivered\<lparr>syStore := kv, syLoop := Merged exUpdate None, syMerged := [exUpdate]\<rparr> \<and>
    storedView (memLib None) (map_of kv) 1 = specBlock memTrace (\<lambda>a. None) 1"
proof -
  obtain kv where kv: "updateState (memLib None) exDelivered =
      exDelivered\<lparr>syStore := kv, syLoop := Merged exUpdate None, syMerged := [exUpdate]\<rparr>"
    using exMerged by blast
  with store_follows_stream [OF memProgram_law exMerged_reached]
  have "storedView (memLib None) (map_of kv) 1 = mergedViews ([] @ [exUpdate]) 1" by simp
  with kv show ?thesis by (simp only: mergedViews_simps stateUpdate.simps) blast
qed

text \<open>C9. In every reachable state, with any database and any client, the store is well-formed and
  the head, if there is one, is not above the block the fetcher has polled; and no step ever
  moves the head to a block with a smaller number.\<close>

theorem head_never_moves_back:
  assumes "program L snapshot content seen Do" and "systemReachable L C Do nb tag touched s"
    and "systemStep L C Do nb tag touched s t"
  shows "wfContent (content (syStore s)) \<and>
    (\<forall>h. syHead s = Some h \<longrightarrow> NumberU64 h \<le> rfBlockHead (smFetcher (syStream s)) \<and>
       (\<exists>h'. syHead t = Some h' \<and> NumberU64 h \<le> NumberU64 h'))"
proof -
  have inv: "program.systemInv content C nb tag s"
    by (rule program.systemReachable_inv [OF assms(1,2)])
  then show ?thesis
    using program.head_bound [OF assms(1) inv] program.head_step [OF assms(1) inv assms(3)]
    by (auto simp: program.systemInv_def [OF assms(1)])
qed

lemmas exProgram = memRun.program_axioms [where b = None]

text \<open>The second update of the reference program: the head is block 100, block 101 is merged.\<close>

abbreviation exUpdate2 :: stateUpdate where
  "exUpdate2 \<equiv> \<lparr>suTraceBlock = memTrace, suBlock = memBlock 101\<rparr>"

abbreviation exPolled2 :: "int rpcFetcher" where
  "exPolled2 \<equiv> (NewRPCFetcher 101 None)\<lparr>rfStarted := True, rfBlockHead := 101\<rparr>"

definition exHeaded ::
    "int rpcFetcher \<Rightarrow> stateUpdate option \<Rightarrow> stateUpdate list \<Rightarrow> memDb \<Rightarrow> updateLoop
      \<Rightarrow> stateUpdate list \<Rightarrow> (memDb, int) system" where
  "exHeaded f sending received kv loop merged =
     \<lparr>syStream = \<lparr>smFetcher = f, smSending = sending, smReceived = received\<rparr>, syStore = kv,
      syHead = Some (memBlock 100), syLoop = loop, syMerged = merged, syPending = []\<rparr>"

lemma exPoll2: "getLatestState exClient exNumber exTag (exPolled\<lparr>rfRemote := 101\<rparr>) =
    Ret (Inr (Some exUpdate2), exPolled2)"
  by (simp add: getLatestState_def rpcCall_def memClient_def memPick_def traceRequest_elem
      NewRPCFetcher_def NumberU64_def bkNumber_def bigUint64_def memBlock_def)

lemma exSecond_reached: "\<exists>kv merged. systemReachable (memLib None) exClient memDo exNumber exTag {}
    (exHeaded exPolled2 None [exUpdate, exUpdate2] kv (Merged exUpdate2 None) merged)"
proof -
  let ?reach = "systemReachable (memLib None) exClient memDo exNumber exTag {}"
  obtain kv where kv: "updateState (memLib None) exDelivered =
      exDelivered\<lparr>syStore := kv, syLoop := Merged exUpdate None, syMerged := [exUpdate]\<rparr>"
    using exMerged by blast
  let ?s = "exHeaded exPolled None [exUpdate] kv Waiting [exUpdate]"
  let ?p = "exHeaded exPolled2 (Some exUpdate2) [exUpdate] kv Waiting [exUpdate]"
  let ?d = "exHeaded exPolled2 None [exUpdate, exUpdate2] kv (Received exUpdate2) [exUpdate]"
  have merged: "?reach (exDelivered\<lparr>syStore := kv, syLoop := Merged exUpdate None, syMerged := [exUpdate]\<rparr>)"
    using exMerged_reached kv by simp
  have "exStep (exDelivered\<lparr>syStore := kv, syLoop := Merged exUpdate None, syMerged := [exUpdate]\<rparr>) ?s"
    using systemStep.update [of "exDelivered\<lparr>syStore := kv, syLoop := Merged exUpdate None,
        syMerged := [exUpdate]\<rparr>" exUpdate None]
    by (simp add: updateState.simps exHeaded_def SetHead_def)
  moreover have "exStep ?s (setFetcher (exPolled\<lparr>rfRemote := 101\<rparr>) ?s)"
    using systemStep.remote [of ?s "memLib None" exClient memDo exNumber exTag "{}" 101]
    by (simp add: exHeaded_def)
  moreover have "exStep (setFetcher (exPolled\<lparr>rfRemote := 101\<rparr>) ?s) ?p"
  proof -
    let ?r = "setFetcher (exPolled\<lparr>rfRemote := 101\<rparr>) ?s"
    have "streamStep exClient exNumber exTag (syStream ?r)
        ((syStream ?r)\<lparr>smFetcher := exPolled2, smSending := Some exUpdate2\<rparr>)"
      by (rule streamStep.tick_new) (use exPoll2 in \<open>simp_all add: exHeaded_def setFetcher_def\<close>)
    from systemStep.poll [OF _ _ this] show ?thesis by (simp add: exHeaded_def setFetcher_def)
  qed
  moreover have "exStep ?p ?d"
  proof -
    have "streamStep exClient exNumber exTag (syStream ?p)
        ((syStream ?p)\<lparr>smSending := None, smReceived := [exUpdate, exUpdate2]\<rparr>)"
      using streamStep.receive [of "syStream ?p" exUpdate2] by (simp add: exHeaded_def)
    from systemStep.deliver [OF _ _ this, of exUpdate2] show ?thesis by (simp add: exHeaded_def)
  qed
  ultimately have reached: "?reach ?d"
    using merged by (meson systemReachable.step)
  have "wfContent (map_of kv)"
    using memRun.systemReachable_inv [OF reached]
    by (simp add: memRun.systemInv_def exHeaded_def)
  then obtain kv2 where "ProcessState (memLib None) kv memTrace = Ret (kv2, None)"
    using ample.ProcessState_view [of kv memTrace] memTrace_sound by auto
  then have "updateState (memLib None) ?d = exHeaded exPolled2 None [exUpdate, exUpdate2] kv2
      (Merged exUpdate2 None) [exUpdate, exUpdate2]"
    by (simp add: updateState.simps exHeaded_def)
  moreover have "?reach (updateState (memLib None) ?d)"
    by (rule systemReachable.step [OF reached systemStep.update]) (simp add: exHeaded_def)
  ultimately show ?thesis by auto
qed

theorem head_never_moves_back_witness:
  "\<exists>s t. systemReachable (memLib None) exClient memDo exNumber exTag {} s \<and> exStep s t \<and>
     syHead s = Some (memBlock 100) \<and> syHead t = Some (memBlock 101) \<and>
     NumberU64 (memBlock 100) \<le> rfBlockHead (smFetcher (syStream s)) \<and>
     NumberU64 (memBlock 100) \<le> NumberU64 (memBlock 101)"
proof -
  obtain kv merged where reached: "systemReachable (memLib None) exClient memDo exNumber exTag {}
      (exHeaded exPolled2 None [exUpdate, exUpdate2] kv (Merged exUpdate2 None) merged)"
    using exSecond_reached by blast
  let ?s = "exHeaded exPolled2 None [exUpdate, exUpdate2] kv (Merged exUpdate2 None) merged"
  let ?t = "updateState (memLib None) ?s"
  have step: "exStep ?s ?t"
    by (rule systemStep.update [where u = exUpdate2 and err = None]) (simp add: exHeaded_def)
  have head: "syHead ?s = Some (memBlock 100)" "syHead ?t = Some (memBlock 101)"
    by (simp_all add: updateState.simps exHeaded_def SetHead_def)
  from head_never_moves_back [OF exProgram reached step] head
  have "NumberU64 (memBlock 100) \<le> rfBlockHead (smFetcher (syStream ?s))"
    and "NumberU64 (memBlock 100) \<le> NumberU64 (memBlock 101)" by auto
  with reached step head show ?thesis by blast
qed

text \<open>C19. An update that has been received takes the process down exactly when its block has a
  \<open>nil\<close> trace, result or account; otherwise the head moves to its block next, also when the
  transaction has failed.\<close>

theorem update_crashes_or_moves_head:
  assumes "program L snapshot content seen Do" and "systemReachable L C Do nb tag touched s"
    and "syLoop s = Received u"
  shows "((\<exists>p. syLoop (updateState L s) = Crashed p) \<longleftrightarrow> \<not> noNilBlock (suTraceBlock u)) \<and>
    (noNilBlock (suTraceBlock u) \<longrightarrow>
       syHead (updateState L (updateState L s)) = Some (suBlock u) \<and>
       syLoop (updateState L (updateState L s)) = Waiting)"
proof -
  have S: "badger_store L snapshot content seen" using assms(1) by (simp add: program_def)
  have "wfContent (content (syStore s))"
    using program.systemReachable_inv [OF assms(1,2)] by (simp add: program.systemInv_def [OF assms(1)])
  from badger_store.ProcessState_returns [OF S this, of "suTraceBlock u"] assms(3) show ?thesis
    by (cases "ProcessState L (syStore s) (suTraceBlock u)")
      (auto simp: updateState.simps SetHead_def backendOf_def)
qed

theorem update_crashes_or_moves_head_witness:
  "syHead (updateState (memLib None) (updateState (memLib None) exDelivered)) = Some (memBlock 100)"
  using update_crashes_or_moves_head [OF exProgram exDelivered_reached, of exUpdate] memTrace_sound
  by simp

end
